(* ===== verification/Prelude.thy ===== *)
theory Prelude
  imports Main "HOL-Library.Word" "HOL-Library.List_Lexorder" "HOL-Library.Sublist"
    "HOL-Library.Char_ord"
begin

text \<open>
  The shared vocabulary of the development: Rust's machine integers as words, byte strings with
  the bytewise (lexicographic) order that the storage engines use for their keys, the big-endian
  encodings \<open>to_be_bytes\<close> and \<open>from_be_bytes\<close>, the decimal printer and parser behind
  \<open>to_string\<close> and \<open>parse\<close>, and facts on key-sorted association lists.

  Arithmetic follows the release profile of the workspace (no \<open>overflow-checks\<close> entry in any
  manifest): \<open>+\<close> and \<open>-\<close> on \<open>u32\<close>, \<open>u64\<close> and \<open>i64\<close> wrap around.
\<close>

named_theorems be_simps \<open>big-endian encodings: length, injectivity, order and decoding\<close>

section \<open>Machine integers and bytes\<close>

type_synonym u8 = "8 word"
type_synonym u16 = "16 word"
type_synonym u32 = "32 word"
type_synonym u64 = "64 word"
type_synonym u256 = "256 word"
type_synonym i64 = "64 word" \<comment> \<open>read with \<open>sint\<close>\<close>
type_synonym bytes = "8 word list"

definition as_bytes :: "string \<Rightarrow> bytes" where
  "as_bytes s = map of_char s"

fun be_bytes :: "nat \<Rightarrow> nat \<Rightarrow> bytes" where
  "be_bytes 0 x = []"
| "be_bytes (Suc n) x = of_nat (x div 256 ^ n) # be_bytes n (x mod 256 ^ n)"

fun from_be :: "bytes \<Rightarrow> nat" where
  "from_be [] = 0"
| "from_be (b # bs) = unat b * 256 ^ length bs + from_be bs"

definition be16 :: "u16 \<Rightarrow> bytes" where
  "be16 w = be_bytes 2 (unat w)"

definition be32 :: "u32 \<Rightarrow> bytes" where
  "be32 w = be_bytes 4 (unat w)"

definition be64 :: "u64 \<Rightarrow> bytes" where
  "be64 w = be_bytes 8 (unat w)"

definition be256 :: "u256 \<Rightarrow> bytes" where
  "be256 w = be_bytes 32 (unat w)"

definition from_be16 :: "bytes \<Rightarrow> u16" where
  "from_be16 bs = of_nat (from_be bs)"

definition from_be32 :: "bytes \<Rightarrow> u32" where
  "from_be32 bs = of_nat (from_be bs)"

definition from_be64 :: "bytes \<Rightarrow> u64" where
  "from_be64 bs = of_nat (from_be bs)"

definition from_be256 :: "bytes \<Rightarrow> u256" where
  "from_be256 bs = of_nat (from_be bs)"

section \<open>Decimal text\<close>

fun show_nat :: "nat \<Rightarrow> string" where
  "show_nat n = (if n < 10 then [char_of (48 + n)]
                 else show_nat (n div 10) @ [char_of (48 + n mod 10)])"

definition show_u64 :: "u64 \<Rightarrow> string" where
  "show_u64 w = show_nat (unat w)"

definition show_u32 :: "u32 \<Rightarrow> string" where
  "show_u32 w = show_nat (unat w)"

definition show_i64 :: "i64 \<Rightarrow> string" where
  "show_i64 w = (if sint w < 0 then CHR ''-'' # show_nat (nat (- sint w)) else show_nat (nat (sint w)))"

definition digit_val :: "char \<Rightarrow> nat option" where
  "digit_val c = (let n = of_char c :: nat in if 48 \<le> n \<and> n \<le> 57 then Some (n - 48) else None)"

definition invalid_digit :: string where
  "invalid_digit = ''invalid digit found in string''"

definition empty_int :: string where
  "empty_int = ''cannot parse integer from empty string''"

definition pos_overflow :: string where
  "pos_overflow = ''number too large to fit in target type''"

definition neg_overflow :: string where
  "neg_overflow = ''number too small to fit in target type''"

text \<open>The digit loop of \<open>from_str_radix\<close>: a character that is no digit, and the first prefix that
  leaves the range, end it with their messages.\<close>

fun parse_digits :: "string \<Rightarrow> nat \<Rightarrow> nat \<Rightarrow> string \<Rightarrow> string + nat" where
  "parse_digits msg bound acc [] = Inr acc"
| "parse_digits msg bound acc (c # cs) =
     (case digit_val c of
        None \<Rightarrow> Inl invalid_digit
      | Some d \<Rightarrow> if 10 * acc + d < bound then parse_digits msg bound (10 * acc + d) cs else Inl msg)"

definition parse_unsigned :: "nat \<Rightarrow> string \<Rightarrow> string + nat" where
  "parse_unsigned bound s =
     (case s of
        [] \<Rightarrow> Inl empty_int
      | c # cs \<Rightarrow>
          if c = CHR ''+''
          then if cs = [] then Inl invalid_digit else parse_digits pos_overflow bound 0 cs
          else parse_digits pos_overflow bound 0 s)"

definition parse_u64 :: "string \<Rightarrow> string + u64" where
  "parse_u64 s = map_sum id of_nat (parse_unsigned (2 ^ 64) s)"

definition parse_u32 :: "string \<Rightarrow> string + u32" where
  "parse_u32 s = map_sum id of_nat (parse_unsigned (2 ^ 32) s)"

definition parse_i64 :: "string \<Rightarrow> string + i64" where
  "parse_i64 s =
     (case s of
        [] \<Rightarrow> Inl empty_int
      | c # cs \<Rightarrow>
          if c = CHR ''-''
          then if cs = [] then Inl invalid_digit
               else map_sum id (\<lambda>n. - of_nat n) (parse_digits neg_overflow (2 ^ 63 + 1) 0 cs)
          else map_sum id of_nat (parse_unsigned (2 ^ 63) s))"

text \<open>Rust's \<open>str::split\<close> on a one-character separator.\<close>

fun split_on :: "char \<Rightarrow> string \<Rightarrow> string list" where
  "split_on d [] = [[]]"
| "split_on d (c # cs) =
     (if c = d then [] # split_on d cs
      else case split_on d cs of (w # ws) \<Rightarrow> (c # w) # ws | [] \<Rightarrow> [[c]])"

text \<open>Rust's \<open>join\<close> on a slice of strings.\<close>

fun join_with :: "string \<Rightarrow> string list \<Rightarrow> string" where
  "join_with d [] = []"
| "join_with d [w] = w"
| "join_with d (w # v # ws) = w @ d @ join_with d (v # ws)"

section \<open>Facts on the encodings\<close>

lemma unat_bounds:
  "unat (a :: u8) < 256" "unat (b :: u16) < 256 ^ 2" "unat (c :: u32) < 256 ^ 4"
  "unat (d :: u64) < 256 ^ 8" "unat (e :: u256) < 256 ^ 32"
  using unsigned_less [of a] unsigned_less [of b] unsigned_less [of c] unsigned_less [of d]
    unsigned_less [of e]
  by simp_all

lemma length_be_bytes [simp, be_simps]: "length (be_bytes n x) = n"
  by (induction n arbitrary: x) auto

lemma length_be [simp, be_simps]:
  "length (be16 a) = 2" "length (be32 b) = 4" "length (be64 c) = 8" "length (be256 d) = 32"
  by (simp_all add: be16_def be32_def be64_def be256_def)

lemma from_be_be_bytes: "x < 256 ^ n \<Longrightarrow> from_be (be_bytes n x) = x"
proof (induction n arbitrary: x)
  case 0
  then show ?case by simp
next
  case (Suc n)
  then have "x div 256 ^ n < 256"
    by (simp add: less_mult_imp_div_less mult.commute)
  then have "unat (of_nat (x div 256 ^ n) :: u8) = x div 256 ^ n"
    by (simp add: unat_of_nat)
  moreover have "from_be (be_bytes n (x mod 256 ^ n)) = x mod 256 ^ n"
    by (rule Suc.IH) simp
  ultimately show ?case by (simp only: be_bytes.simps from_be.simps length_be_bytes div_mult_mod_eq)
qed

lemma from_be_less: "from_be bs < 256 ^ length bs"
proof (induction bs)
  case Nil
  then show ?case by simp
next
  case (Cons b bs)
  have "unat b < 256" by (rule unat_bounds)
  then have "unat b * 256 ^ length bs + 256 ^ length bs \<le> 256 * 256 ^ length bs"
    by (metis Suc_leI add.commute mult_Suc mult_le_mono1)
  with Cons.IH have "unat b * 256 ^ length bs + from_be bs < 256 * 256 ^ length bs" by linarith
  then show ?case by simp
qed

lemma be_bytes_from_be: "be_bytes (length bs) (from_be bs) = bs"
proof (induction bs)
  case Nil
  then show ?case by simp
next
  case (Cons b bs)
  have lt: "from_be bs < 256 ^ length bs" by (rule from_be_less)
  then have "(unat b * 256 ^ length bs + from_be bs) div 256 ^ length bs = unat b"
    and "(unat b * 256 ^ length bs + from_be bs) mod 256 ^ length bs = from_be bs"
    by auto
  with Cons.IH show ?case by simp
qed

lemma be_bytes_less_iff:
  "x < 256 ^ n \<Longrightarrow> y < 256 ^ n \<Longrightarrow> be_bytes n x < be_bytes n y \<longleftrightarrow> x < y"
proof (induction n arbitrary: x y)
  case 0
  then show ?case by simp
next
  case (Suc n)
  let ?p = "256 ^ n :: nat"
  have hx: "x div ?p < 256" and hy: "y div ?p < 256"
    using Suc.prems by (simp_all add: less_mult_imp_div_less mult.commute)
  then have ux: "unat (of_nat (x div ?p) :: u8) = x div ?p"
    and uy: "unat (of_nat (y div ?p) :: u8) = y div ?p"
    by (simp_all add: unat_of_nat)
  have IH: "be_bytes n (x mod ?p) < be_bytes n (y mod ?p) \<longleftrightarrow> x mod ?p < y mod ?p"
    by (rule Suc.IH) simp_all
  have "x < y \<longleftrightarrow> x div ?p < y div ?p \<or> x div ?p = y div ?p \<and> x mod ?p < y mod ?p"
  proof -
    have ex: "x = x div ?p * ?p + x mod ?p" and ey: "y = y div ?p * ?p + y mod ?p"
      by (simp_all only: div_mult_mod_eq)
    have "x div ?p < y div ?p \<Longrightarrow> x < y"
      by (metis div_le_mono leD leI)
    moreover have "x div ?p = y div ?p \<Longrightarrow> x < y \<longleftrightarrow> x mod ?p < y mod ?p"
      using ex ey by (metis add_less_cancel_left)
    moreover have "x < y \<Longrightarrow> x div ?p \<le> y div ?p" by (simp add: div_le_mono)
    ultimately show ?thesis by linarith
  qed
  moreover have "(of_nat (x div ?p) :: u8) = of_nat (y div ?p) \<longleftrightarrow> x div ?p = y div ?p"
    using ux uy by metis
  moreover have "(of_nat (x div ?p) :: u8) < of_nat (y div ?p) \<longleftrightarrow> x div ?p < y div ?p"
    using ux uy by (simp add: word_less_nat_alt)
  ultimately show ?case by (simp add: IH)
qed

lemma from_be_be [simp, be_simps]:
  "from_be16 (be16 a) = a" "from_be32 (be32 b) = b" "from_be64 (be64 c) = c"
  "from_be256 (be256 d) = d"
  by (simp_all add: be16_def be32_def be64_def be256_def from_be16_def from_be32_def
      from_be64_def from_be256_def unat_bounds(2-5) [THEN from_be_be_bytes] del: be_bytes.simps)

lemma be64_from_be64: "length bs = 8 \<Longrightarrow> be64 (from_be64 bs) = bs"
  using from_be_less [of bs] be_bytes_from_be [of bs]
  by (simp add: be64_def from_be64_def unat_of_nat)

lemma be_inject [simp, be_simps]:
  "be32 a = be32 b \<longleftrightarrow> a = b" "be64 c = be64 d \<longleftrightarrow> c = d"
  by (metis from_be_be)+

lemma be_less_iff [simp, be_simps]:
  "be32 a < be32 b \<longleftrightarrow> a < b" "be64 c < be64 d \<longleftrightarrow> c < d"
  by (simp_all add: be32_def be64_def word_less_nat_alt del: be_bytes.simps
      add: be_bytes_less_iff [OF unat_bounds(3) unat_bounds(3)]
        be_bytes_less_iff [OF unat_bounds(4) unat_bounds(4)])

lemma be_le_iff [simp, be_simps]:
  "be32 a \<le> be32 b \<longleftrightarrow> a \<le> b" "be64 c \<le> be64 d \<longleftrightarrow> c \<le> d"
  by (simp_all add: not_less [symmetric] del: not_less)

lemma append_less_iff:
  "length xs = length ys \<Longrightarrow>
     xs @ us < ys @ vs \<longleftrightarrow> xs < ys \<or> xs = ys \<and> us < (vs :: 'a :: linorder list)"
  by (induction xs ys rule: list_induct2) auto

lemma append_le_iff:
  "length xs = length ys \<Longrightarrow>
     xs @ us \<le> ys @ vs \<longleftrightarrow> xs < ys \<or> xs = ys \<and> us \<le> (vs :: 'a :: linorder list)"
  by (induction xs ys rule: list_induct2) auto

lemma as_bytes_append [simp]: "as_bytes (s @ t) = as_bytes s @ as_bytes t"
  by (simp add: as_bytes_def)

lemma length_as_bytes [simp]: "length (as_bytes s) = length s"
  by (simp add: as_bytes_def)

lemma of_char_u8_inject [simp]: "(of_char c :: u8) = of_char d \<longleftrightarrow> c = d"
proof -
  have "uint (of_char x :: u8) = (of_char x :: int)" for x :: char
    by (cases x) (simp add: of_char_def horner_sum_simps)
  then show ?thesis by (metis of_char_eq_iff)
qed

lemma as_bytes_inject [simp]: "as_bytes s = as_bytes t \<longleftrightarrow> s = t"
  by (induction s t rule: list_induct2') (simp_all add: as_bytes_def)

section \<open>Facts on decimal text\<close>

declare show_nat.simps [simp del]

lemma digit_val_digit [simp]: "d < 10 \<Longrightarrow> digit_val (char_of (48 + d)) = Some d"
  by (simp add: digit_val_def of_char_of)

lemma parse_digits_append:
  "parse_digits msg b acc xs = Inr a \<Longrightarrow> parse_digits msg b acc (xs @ ys) = parse_digits msg b a ys"
  by (induction msg b acc xs rule: parse_digits.induct) (auto split: option.splits if_splits)

lemma parse_digits_show_nat:
  "acc * 10 ^ length (show_nat n) + n < b \<Longrightarrow>
     parse_digits msg b acc (show_nat n) = Inr (acc * 10 ^ length (show_nat n) + n)"
proof (induction n arbitrary: acc rule: show_nat.induct)
  case (1 n)
  show ?case
  proof (cases "n < 10")
    case True
    with "1.prems" show ?thesis by (simp add: show_nat.simps [of n] mult.commute)
  next
    case False
    let ?q = "acc * 10 ^ length (show_nat (n div 10)) + n div 10"
    have len: "length (show_nat n) = Suc (length (show_nat (n div 10)))"
      using False by (simp add: show_nat.simps [of n])
    have eq: "acc * 10 ^ length (show_nat n) + n = 10 * ?q + n mod 10"
      unfolding len by (simp add: algebra_simps)
    with "1.prems" have "10 * ?q + n mod 10 < b" by simp
    moreover have "q \<le> 10 * q + r" for q r :: nat by simp
    ultimately have lt: "?q < b" using order.strict_trans1 by blast
    then have "parse_digits msg b acc (show_nat (n div 10)) = Inr ?q"
      using False "1.IH" by blast
    with False "1.prems" eq show ?thesis
      by (simp add: show_nat.simps [of n] parse_digits_append)
  qed
qed

lemma show_nat_digits: "c \<in> set (show_nat n) \<Longrightarrow> \<exists>d<10. c = char_of (48 + d :: nat)"
proof (induction n rule: show_nat.induct)
  case (1 n)
  show ?case
  proof (cases "n < 10")
    case True
    with "1.prems" show ?thesis by (auto simp: show_nat.simps [of n])
  next
    case False
    with "1.prems" consider "c \<in> set (show_nat (n div 10))" | "c = char_of (48 + n mod 10)"
      by (auto simp: show_nat.simps [of n])
    then show ?thesis
    proof cases
      case 1
      with False "1.IH" show ?thesis by blast
    next
      case 2
      then show ?thesis by (intro exI [of _ "n mod 10"]) simp
    qed
  qed
qed

lemma show_nat_nonempty [simp]: "show_nat n \<noteq> []"
  by (subst show_nat.simps) simp

lemma show_nat_no_punct:
  assumes "c \<in> {CHR ''+'', CHR ''-'', CHR '','', CHR ''/''}"
  shows "c \<notin> set (show_nat n)"
proof
  assume "c \<in> set (show_nat n)"
  then obtain d where "d < 10" "c = char_of (48 + d :: nat)" using show_nat_digits by blast
  then have "(of_char c :: nat) = 48 + d" by (simp add: of_char_of)
  with assms show False by auto
qed

lemma parse_unsigned_show_nat: "n < bound \<Longrightarrow> parse_unsigned bound (show_nat n) = Inr n"
proof -
  assume n: "n < bound"
  obtain c cs where eq: "show_nat n = c # cs" by (cases "show_nat n") auto
  have "c \<noteq> CHR ''+''" using show_nat_no_punct [of "CHR ''+''" n] eq by auto
  moreover have "parse_digits pos_overflow bound 0 (show_nat n) = Inr n"
    using parse_digits_show_nat [of 0 n bound] n by simp
  ultimately show ?thesis by (simp add: parse_unsigned_def eq)
qed

lemma parse_show_u64 [simp]: "parse_u64 (show_u64 w) = Inr w"
  using unat_bounds(4) [of w] by (simp add: parse_u64_def show_u64_def parse_unsigned_show_nat)

lemma parse_show_u32 [simp]: "parse_u32 (show_u32 w) = Inr w"
  using unat_bounds(3) [of w] by (simp add: parse_u32_def show_u32_def parse_unsigned_show_nat)

lemma parse_show_i64 [simp]: "parse_i64 (show_i64 w) = Inr w"
proof (cases "sint w < 0")
  case True
  have "- (2 ^ 63) \<le> sint w" using sint_ge [of w] by simp
  then have "nat (- sint w) < 2 ^ 63 + 1" by simp
  then have "parse_digits neg_overflow (2 ^ 63 + 1) 0 (show_nat (nat (- sint w))) = Inr (nat (- sint w))"
    using parse_digits_show_nat [of 0 "nat (- sint w)" "2 ^ 63 + 1"] by simp
  with True show ?thesis by (simp add: show_i64_def parse_i64_def)
next
  case False
  have lt: "nat (sint w) < 2 ^ 63" using sint_lt [of w] False by simp
  obtain c cs where eq: "show_nat (nat (sint w)) = c # cs" by (cases "show_nat (nat (sint w))") auto
  have "c \<noteq> CHR ''-''" using show_nat_no_punct [of "CHR ''-''" "nat (sint w)"] eq by auto
  moreover have "map_sum id of_nat (parse_unsigned (2 ^ 63) (show_nat (nat (sint w)))) = Inr w"
    using False lt by (simp add: parse_unsigned_show_nat)
  ultimately show ?thesis using False eq by (simp add: show_i64_def parse_i64_def)
qed

lemma show_i64_no_comma: "CHR '','' \<notin> set (show_i64 w)"
  by (simp add: show_i64_def show_nat_no_punct)

lemma split_on_no_sep: "d \<notin> set w \<Longrightarrow> split_on d w = [w]"
  by (induction w) auto

lemma split_on_append: "d \<notin> set w \<Longrightarrow> split_on d (w @ d # rest) = w # split_on d rest"
  by (induction w) auto

lemma split_on_join:
  "ws \<noteq> [] \<Longrightarrow> (\<forall>w \<in> set ws. d \<notin> set w) \<Longrightarrow> split_on d (join_with [d] ws) = ws"
  by (induction "[d]" ws rule: join_with.induct) (auto simp: split_on_no_sep split_on_append)

lemma list_all2_mem:
  "list_all2 P xs ys \<Longrightarrow> x \<in> set xs \<Longrightarrow> \<exists>y \<in> set ys. P x y"
  "list_all2 P xs ys \<Longrightarrow> y \<in> set ys \<Longrightarrow> \<exists>x \<in> set xs. P x y"
  by (induction xs ys rule: list_all2_induct) auto

section \<open>Key-sorted association lists\<close>

text \<open>What an ordered store holds, as the list its iterator walks: strictly ascending keys.\<close>

abbreviation sorted_kv :: "('k :: linorder \<times> 'v) list \<Rightarrow> bool" where
  "sorted_kv xs \<equiv> sorted_wrt (\<lambda>a b. fst a < fst b) xs"

lemma sorted_kv_distinct: "sorted_kv xs \<Longrightarrow> distinct (map fst xs)"
  by (induction xs) auto

lemma sorted_kv_map_of_iff: "sorted_kv xs \<Longrightarrow> map_of xs k = Some v \<longleftrightarrow> (k, v) \<in> set xs"
  by (simp add: sorted_kv_distinct)

lemma sorted_kv_set: "sorted_kv xs \<Longrightarrow> set xs = {(k, v). map_of xs k = Some v}"
  by (auto simp: sorted_kv_map_of_iff)

lemma map_the_map_of: "distinct (map fst xs) \<Longrightarrow> map (\<lambda>k. (k, the (map_of xs k))) (map fst xs) = xs"
  by (auto simp: o_def intro!: map_idI)

lemma sorted_kv_unique:
  assumes "sorted_kv xs" "sorted_kv ys" "map_of xs = map_of ys"
  shows "xs = ys"
proof -
  have "set xs = set ys"
    using assms by (simp add: sorted_kv_set)
  moreover have "sorted_wrt (<) (map fst xs)" "sorted_wrt (<) (map fst ys)"
    using assms by (simp_all add: sorted_wrt_map)
  ultimately have "map fst xs = map fst ys"
    by (metis list.set_map strict_sorted_equal)
  with assms(3) show ?thesis
    using map_the_map_of [of xs] map_the_map_of [of ys] assms(1,2)
    by (metis sorted_kv_distinct)
qed

text \<open>\<open>seek\<close>: the iterator stands on the first entry whose key is not below the target.\<close>

definition seek :: "'k :: linorder \<Rightarrow> ('k \<times> 'v) list \<Rightarrow> ('k \<times> 'v) list" where
  "seek k xs = dropWhile (\<lambda>e. fst e < k) xs"

lemma seek_eq_filter: "sorted_kv xs \<Longrightarrow> seek k xs = filter (\<lambda>e. k \<le> fst e) xs"
proof (induction xs)
  case Nil
  then show ?case by (simp add: seek_def)
next
  case (Cons x xs)
  show ?case
  proof (cases "fst x < k")
    case True
    with Cons show ?thesis by (simp add: seek_def)
  next
    case False
    with Cons.prems have "filter (\<lambda>e. k \<le> fst e) xs = xs"
      by (auto simp: filter_id_conv intro: order.trans)
    with False show ?thesis by (simp add: seek_def)
  qed
qed

lemma sorted_kv_seek [simp]: "sorted_kv xs \<Longrightarrow> sorted_kv (seek k xs)"
  by (simp add: seek_eq_filter sorted_wrt_filter)

lemma takeWhile_sorted_kv: "sorted_kv xs \<Longrightarrow> takeWhile (\<lambda>e. fst e < k) xs = filter (\<lambda>e. fst e < k) xs"
proof (induction xs)
  case Nil
  then show ?case by simp
next
  case (Cons x xs)
  show ?case
  proof (cases "fst x < k")
    case True
    with Cons show ?thesis by simp
  next
    case False
    with Cons.prems have "filter (\<lambda>e. fst e < k) xs = []"
      by (auto intro!: filter_False)
    with False show ?thesis by simp
  qed
qed

lemma last_sorted_kv_max: "sorted_kv xs \<Longrightarrow> e \<in> set xs \<Longrightarrow> fst e \<le> fst (last xs)"
  by (induction xs) (auto intro: less_imp_le)

end
