(* ===== verification/Errors.thy ===== *)
theory Errors
  imports Prelude
begin

text \<open>
  The error type every crate of the workspace returns (\<open>src/error/src/lib.rs\<close>): one constructor
  per variant of \<open>DB3Error\<close>, with its payload, and the text its \<open>thiserror\<close> attribute prints.
  Code that wraps an error with \<open>format!("{e}")\<close> goes through \<open>display_db3_error\<close>.
\<close>

datatype db3_error =
    InvalidAddress
  | LoadKeyPairError string
  | SignError string
  | VerifyFailed string
  | InvalidSignature string
  | KeyCodecError string
  | OwnerVerifyFailed string
  | ApplyMutationError string
  | SubmitMutationError string
  | SubmitRequestError string
  | ApplyBillError string
  | BillQueryError string
  | ApplyAccountError string
  | ApplyCommitError string
  | ApplyDatabaseError string
  | ApplyDocumentError string
  | GetCommitError string
  | GetAccountError string
  | OutOfGasError string
  | BillSDKError string
  | HashCodecError
  | QueryKvError string
  | QuerySessionStatusError string
  | QuerySessionVerifyError string
  | QueryDatabaseError string
  | InvalidSigner
  | SignatureKeyGenError string
  | SignMessageError string
  | DocumentDecodeError string
  | QueryDocumentError string
  | InvalidOpEntryIdBytes
  | InvalidDocumentIdBytes
  | InvalidDocumentBytes string
  | InvalidCollectionIdBytes string
  | InvalidIndexIdBytes string
  | DocumentNotExist string
  | DocumentModifiedPermissionError
  | StoreEventError string
  | StoreFaucetError string
  | InvalidFilterValue string
  | InvalidFilterOp string
  | InvalidFilterType string
  | IndexNotFoundForFiledFilter string
  | InvalidFilterJson string
  | InvalidJson string
  | RequestFaucetError string
  | FetchBlockError string
  | OpenStoreError string string
  | WriteStoreError string
  | ReadStoreError string
  | RollupError string
  | ArwareOpError string
  | InvalidCollectionNameError string
  | InvalidMutationError string
  | InvalidKeyPathError string
  | InvalidArUrlError string
  | InvalidDescError string
  | DatabaseNotFound string
  | DatabaseAlreadyExist string
  | DatabasePermissionDenied
  | CollectionNotFound string string
  | CollectionAlreadyExist string string
  | CollectionPermissionDenied

fun display_db3_error :: "db3_error \<Rightarrow> string" where
  "display_db3_error InvalidAddress = ''invalid db3 address''"
| "display_db3_error (LoadKeyPairError a) = ''fail to load key pair '' @ a"
| "display_db3_error (SignError a) = ''fail to sign a message with error '' @ a"
| "display_db3_error (VerifyFailed a) = ''fail to verify the request with error '' @ a"
| "display_db3_error (InvalidSignature a) = ''invalid signature siwith error '' @ a"
| "display_db3_error (KeyCodecError a) = ''fail to codec key with error '' @ a"
| "display_db3_error (OwnerVerifyFailed a) = ''fail to verify the owner with error '' @ a"
| "display_db3_error (ApplyMutationError a) = ''fail to apply mutation with error '' @ a"
| "display_db3_error (SubmitMutationError a) = ''fail to submit mutation session with error '' @ a"
| "display_db3_error (SubmitRequestError a) = ''fail to submit request with error '' @ a"
| "display_db3_error (ApplyBillError a) = ''fail to apply bill with error '' @ a"
| "display_db3_error (BillQueryError a) = ''fail to query bill with error '' @ a"
| "display_db3_error (ApplyAccountError a) = ''fail to apply account with error '' @ a"
| "display_db3_error (ApplyCommitError a) = ''fail to apply commit with error '' @ a"
| "display_db3_error (ApplyDatabaseError a) = ''fail to apply database with error '' @ a"
| "display_db3_error (ApplyDocumentError a) = ''fail to apply document with error '' @ a"
| "display_db3_error (GetCommitError a) = ''fail to get commit with error '' @ a"
| "display_db3_error (GetAccountError a) = ''fail to query account with error '' @ a"
| "display_db3_error (OutOfGasError a) = ''out of gas with error '' @ a"
| "display_db3_error (BillSDKError a) = ''fail to call bill sdk with error '' @ a"
| "display_db3_error HashCodecError = ''hash codec error''"
| "display_db3_error (QueryKvError a) = ''fail to query kv error '' @ a"
| "display_db3_error (QuerySessionStatusError a) = ''fail to query, invalid session status '' @ a"
| "display_db3_error (QuerySessionVerifyError a) = ''fail to verify query session '' @ a"
| "display_db3_error (QueryDatabaseError a) = ''fail to query database '' @ a"
| "display_db3_error InvalidSigner = ''the address does not match the public key''"
| "display_db3_error (SignatureKeyGenError a) = ''fail to generate key for '' @ a"
| "display_db3_error (SignMessageError a) = ''fail to sign message for '' @ a"
| "display_db3_error (DocumentDecodeError a) = ''fail to decode document for '' @ a"
| "display_db3_error (QueryDocumentError a) = ''fail to query document '' @ a"
| "display_db3_error InvalidOpEntryIdBytes = ''invalid op entry id bytes''"
| "display_db3_error InvalidDocumentIdBytes = ''invalid document id bytes''"
| "display_db3_error (InvalidDocumentBytes a) = ''invalid document bytes '' @ a"
| "display_db3_error (InvalidCollectionIdBytes a) = ''invalid collection id bytes '' @ a"
| "display_db3_error (InvalidIndexIdBytes a) = ''invalid index id bytes '' @ a"
| "display_db3_error (DocumentNotExist a) = ''document not exist with target id '' @ a"
| "display_db3_error DocumentModifiedPermissionError = ''document modified permission error''"
| "display_db3_error (StoreEventError a) = ''fail to store event for '' @ a"
| "display_db3_error (StoreFaucetError a) = ''fail to store faucet for '' @ a"
| "display_db3_error (InvalidFilterValue a) = ''invalid filter value '' @ a"
| "display_db3_error (InvalidFilterOp a) = ''invalid filter op '' @ a"
| "display_db3_error (InvalidFilterType a) = ''invalid filter type '' @ a"
| "display_db3_error (IndexNotFoundForFiledFilter a) = ''index not found for filed filter '' @ a"
| "display_db3_error (InvalidFilterJson a) = ''invalid filter json string '' @ a"
| "display_db3_error (InvalidJson a) = ''invalid json string '' @ a"
| "display_db3_error (RequestFaucetError a) = ''fail to request faucet for '' @ a"
| "display_db3_error (FetchBlockError a) = ''fail to fetch faucet for '' @ a"
| "display_db3_error (OpenStoreError a b) = ''fail to open db3 with path '' @ a @ '' for error '' @ b"
| "display_db3_error (WriteStoreError a) = ''fail to write store for error '' @ a"
| "display_db3_error (ReadStoreError a) = ''fail to read store for error '' @ a"
| "display_db3_error (RollupError a) = ''fail to rollup data for error '' @ a"
| "display_db3_error (ArwareOpError a) = ''fail to implement arware op for error '' @ a"
| "display_db3_error (InvalidCollectionNameError a) = ''invalid collection name for error '' @ a"
| "display_db3_error (InvalidMutationError a) = ''invalid mutation for error '' @ a"
| "display_db3_error (InvalidKeyPathError a) = ''invalid key path for error '' @ a"
| "display_db3_error (InvalidArUrlError a) = ''invalid arweave url for error '' @ a"
| "display_db3_error (InvalidDescError a) = ''invalid database desc for error '' @ a"
| "display_db3_error (DatabaseNotFound a) = ''database with addr '' @ a @ '' was not found''"
| "display_db3_error (DatabaseAlreadyExist a) = ''database with addr '' @ a @ '' already exist''"
| "display_db3_error DatabasePermissionDenied = ''You have no permission to delete the database''"
| "display_db3_error (CollectionNotFound a b) = ''collection with name '' @ a @ '' was not found in db '' @ b"
| "display_db3_error (CollectionAlreadyExist a b) = ''collection '' @ a @ '' already exist in db '' @ b"
| "display_db3_error CollectionPermissionDenied = ''You have no permission to modify the collection''"

end
