(* ===== verification/Outcome.thy ===== *)
theory Outcome
  imports Errors
begin

text \<open>
  How fallible, stateful Rust code is written here. A method that reads and writes its receiver is
  an \<^emph>\<open>action\<close>: a function from the state to a result and the state it leaves. The state is
  returned on every path, because an early return with \<open>?\<close> does not undo the writes made before
  it. The result is an error (\<open>Inl\<close>) or a value (\<open>Inr\<close>); an error is a returned \<open>Err\<close>
  (\<open>Raised\<close>) or a panic (\<open>Panicked\<close>: a failed \<open>unwrap\<close>, an out-of-range slice, a
  \<open>todo!\<close>).
\<close>

named_theorems action_simps \<open>unfolding rules of the action combinators\<close>
named_theorems keeps_intros \<open>composition rules for invariants of actions\<close>

section \<open>Results and actions\<close>

datatype fault = Raised db3_error | Panicked string

type_synonym 'a result = "fault + 'a"
type_synonym ('s, 'a) action = "'s \<Rightarrow> 'a result \<times> 's"

definition ok :: "'a \<Rightarrow> ('s, 'a) action" where
  [action_simps]: "ok x = (\<lambda>s. (Inr x, s))"

definition fail :: "db3_error \<Rightarrow> ('s, 'a) action" where
  [action_simps]: "fail e = (\<lambda>s. (Inl (Raised e), s))"

definition panic :: "string \<Rightarrow> ('s, 'a) action" where
  [action_simps]: "panic m = (\<lambda>s. (Inl (Panicked m), s))"

text \<open>Sequencing, with the early return of \<open>?\<close>.\<close>

definition andThen :: "('s, 'a) action \<Rightarrow> ('a \<Rightarrow> ('s, 'b) action) \<Rightarrow> ('s, 'b) action" where
  "andThen m f = (\<lambda>s. case m s of (Inl e, t) \<Rightarrow> (Inl e, t) | (Inr x, t) \<Rightarrow> f x t)"

definition gets :: "('s \<Rightarrow> 'a) \<Rightarrow> ('s, 'a) action" where
  [action_simps]: "gets f = (\<lambda>s. (Inr (f s), s))"

definition modify :: "('s \<Rightarrow> 's) \<Rightarrow> ('s, unit) action" where
  [action_simps]: "modify f = (\<lambda>s. (Inr (), f s))"

text \<open>A computation that only reads the receiver.\<close>

definition reads :: "('s \<Rightarrow> 'a result) \<Rightarrow> ('s, 'a) action" where
  [action_simps]: "reads f = (\<lambda>s. (f s, s))"

definition bindR :: "'a result \<Rightarrow> ('a \<Rightarrow> 'b result) \<Rightarrow> 'b result" where
  "bindR r f = (case r of Inl e \<Rightarrow> Inl e | Inr x \<Rightarrow> f x)"

text \<open>\<open>ok_or\<close>, and \<open>map_err\<close> from a library error (its text) and from a \<open>DB3Error\<close>.\<close>

definition ok_or :: "'a option \<Rightarrow> db3_error \<Rightarrow> 'a result" where
  "ok_or x e = (case x of None \<Rightarrow> Inl (Raised e) | Some y \<Rightarrow> Inr y)"

definition lib_err :: "(string \<Rightarrow> db3_error) \<Rightarrow> string + 'a \<Rightarrow> 'a result" where
  "lib_err f r = (case r of Inl e \<Rightarrow> Inl (Raised (f e)) | Inr x \<Rightarrow> Inr x)"

definition map_err :: "(db3_error \<Rightarrow> db3_error) \<Rightarrow> 'a result \<Rightarrow> 'a result" where
  "map_err f r = (case r of Inl (Raised e) \<Rightarrow> Inl (Raised (f e)) | _ \<Rightarrow> r)"

definition map_err_of :: "(db3_error \<Rightarrow> db3_error) \<Rightarrow> ('s, 'a) action \<Rightarrow> ('s, 'a) action" where
  "map_err_of f m = (\<lambda>s. case m s of (r, t) \<Rightarrow> (map_err f r, t))"

text \<open>Loops over a list that stop at the first error, collecting results in order.\<close>

fun for_each :: "('x \<Rightarrow> ('s, unit) action) \<Rightarrow> 'x list \<Rightarrow> ('s, unit) action" where
  "for_each f [] = ok ()"
| "for_each f (x # xs) = andThen (f x) (\<lambda>_. for_each f xs)"

fun collect_each :: "('x \<Rightarrow> ('s, 'y list) action) \<Rightarrow> 'x list \<Rightarrow> ('s, 'y list) action" where
  "collect_each f [] = ok []"
| "collect_each f (x # xs) = andThen (f x) (\<lambda>ys. andThen (collect_each f xs) (\<lambda>zs. ok (ys @ zs)))"

fun map_result :: "('x \<Rightarrow> 'y result) \<Rightarrow> 'x list \<Rightarrow> 'y list result" where
  "map_result f [] = Inr []"
| "map_result f (x # xs) = bindR (f x) (\<lambda>y. bindR (map_result f xs) (\<lambda>ys. Inr (y # ys)))"

text \<open>A slice \<open>xs[a..b]\<close>, which panics out of range.\<close>

definition slice :: "nat \<Rightarrow> nat \<Rightarrow> 'x list \<Rightarrow> 'x list result" where
  "slice a b xs = (if a \<le> b \<and> b \<le> length xs then Inr (take (b - a) (drop a xs))
                   else Inl (Panicked ''range end index out of range for slice''))"

text \<open>Running an action of a field inside its owner.\<close>

definition on_field :: "('s \<Rightarrow> 't) \<Rightarrow> ('t \<Rightarrow> 's \<Rightarrow> 's) \<Rightarrow> ('t, 'a) action \<Rightarrow> ('s, 'a) action" where
  "on_field sel upd m = (\<lambda>s. case m (sel s) of (r, t) \<Rightarrow> (r, upd t s))"

section \<open>Equations\<close>

lemma andThen_simps [action_simps]:
  "andThen m f s = (case fst (m s) of Inl e \<Rightarrow> (Inl e, snd (m s)) | Inr x \<Rightarrow> f x (snd (m s)))"
  by (cases "m s") (simp add: andThen_def split: sum.split)

lemma andThen_Inr: "m s = (Inr x, t) \<Longrightarrow> andThen m f s = f x t"
  by (simp add: andThen_def)

lemma andThen_Inl: "m s = (Inl e, t) \<Longrightarrow> andThen m f s = (Inl e, t)"
  by (simp add: andThen_def)

lemma andThen_eq_Inr_iff:
  "andThen m f s = (Inr y, u) \<longleftrightarrow> (\<exists>x t. m s = (Inr x, t) \<and> f x t = (Inr y, u))"
  by (auto simp: andThen_def split: prod.splits sum.splits)

lemma bindR_simps [simp]: "bindR (Inl e) f = Inl e" "bindR (Inr x) f = f x"
  by (simp_all add: bindR_def)

lemma bindR_eq_Inr_iff: "bindR r f = Inr y \<longleftrightarrow> (\<exists>x. r = Inr x \<and> f x = Inr y)"
  by (cases r) auto

lemma ok_or_simps [simp]: "ok_or None e = Inl (Raised e)" "ok_or (Some y) e = Inr y"
  by (simp_all add: ok_or_def)

lemma ok_or_eq_Inr_iff [simp]: "ok_or x e = Inr y \<longleftrightarrow> x = Some y"
  by (cases x) auto

lemma lib_err_simps [simp]: "lib_err f (Inl e) = Inl (Raised (f e))" "lib_err f (Inr x) = Inr x"
  by (simp_all add: lib_err_def)

lemma lib_err_eq_Inr_iff [simp]: "lib_err f r = Inr y \<longleftrightarrow> r = Inr y"
  by (cases r) auto

lemma map_err_simps [simp]:
  "map_err f (Inl (Raised e)) = Inl (Raised (f e))" "map_err f (Inl (Panicked m)) = Inl (Panicked m)"
  "map_err f (Inr x) = Inr x"
  by (simp_all add: map_err_def)

lemma map_err_eq_Inr_iff [simp]: "map_err f r = Inr y \<longleftrightarrow> r = Inr y"
  by (cases r) (auto simp: map_err_def split: fault.split)

lemma map_err_of_apply [action_simps]: "map_err_of f m s = (map_err f (fst (m s)), snd (m s))"
  by (simp add: map_err_of_def split: prod.split)

lemma on_field_apply [action_simps]:
  "on_field sel upd m s = (fst (m (sel s)), upd (snd (m (sel s))) s)"
  by (simp add: on_field_def split: prod.split)

section \<open>Invariants of actions\<close>

text \<open>\<open>keeps I m\<close>: whatever \<open>m\<close> returns, an error included, it leaves a state in \<open>I\<close> if it
  started in one.\<close>

definition keeps :: "('s \<Rightarrow> bool) \<Rightarrow> ('s, 'a) action \<Rightarrow> bool" where
  "keeps I m \<longleftrightarrow> (\<forall>s. I s \<longrightarrow> I (snd (m s)))"

lemma keepsI: "(\<And>s. I s \<Longrightarrow> I (snd (m s))) \<Longrightarrow> keeps I m"
  by (simp add: keeps_def)

lemma keepsD: "keeps I m \<Longrightarrow> I s \<Longrightarrow> I (snd (m s))"
  by (simp add: keeps_def)

lemma keeps_pure [keeps_intros]:
  "keeps I (ok x)" "keeps I (fail e)" "keeps I (panic msg)" "keeps I (gets g)" "keeps I (reads r)"
  by (simp_all add: keeps_def action_simps)

lemma keeps_andThen [keeps_intros]:
  "keeps I m \<Longrightarrow> (\<And>x. keeps I (f x)) \<Longrightarrow> keeps I (andThen m f)"
  by (auto simp: keeps_def andThen_simps split: sum.split)

lemma keeps_gets: "(\<And>s. I s \<Longrightarrow> keeps I (f (g s))) \<Longrightarrow> keeps I (andThen (gets g) f)"
  by (auto simp: keeps_def action_simps)

lemma keeps_reads: "(\<And>s x. I s \<Longrightarrow> g s = Inr x \<Longrightarrow> keeps I (f x)) \<Longrightarrow> keeps I (andThen (reads g) f)"
  by (auto simp: keeps_def action_simps split: sum.split)

lemma keeps_modify: "(\<And>s. I s \<Longrightarrow> I (g s)) \<Longrightarrow> keeps I (modify g)"
  by (auto simp: keeps_def action_simps)

lemma keeps_map_err_of [keeps_intros]: "keeps I m \<Longrightarrow> keeps I (map_err_of f m)"
  by (simp add: keeps_def action_simps)

lemma keeps_if [keeps_intros]: "keeps I m \<Longrightarrow> keeps I n \<Longrightarrow> keeps I (if b then m else n)"
  by simp

lemma keeps_option [keeps_intros]:
  "keeps I m \<Longrightarrow> (\<And>x. keeps I (f x)) \<Longrightarrow> keeps I (case opt of None \<Rightarrow> m | Some x \<Rightarrow> f x)"
  by (cases opt) auto

lemma keeps_for_each [keeps_intros]: "(\<And>x. keeps I (f x)) \<Longrightarrow> keeps I (for_each f xs)"
  by (induction xs) (auto intro: keeps_intros)

lemma keeps_collect_each [keeps_intros]: "(\<And>x. keeps I (f x)) \<Longrightarrow> keeps I (collect_each f xs)"
  by (induction xs) (auto intro: keeps_intros)

end
