(* ===== verification/Engine.thy ===== *)
theory Engine
  imports Outcome "HOL-Library.RBT"
begin

text \<open>
  RocksDB, as the stores use it: column families of byte keys kept in bytewise order, reads of one
  key, raw iterators, and atomic write batches. RocksDB is not part of the repository, so it is a
  parameter: the record \<open>engine\<close> names its operations, every store takes one as an argument, and
  the locale \<open>ordered_engine\<close> states what its documentation promises. \<open>mem_engine\<close> is a
  red-black-tree instance; it shows that the promises can hold and runs the witnesses.
\<close>

section \<open>The interface\<close>

datatype batch_op =
    PutCf string bytes bytes
  | DeleteCf string bytes
  | DeleteRangeCf string bytes bytes

record 's engine =
  cf_handle :: "'s \<Rightarrow> string \<Rightarrow> bool" \<comment> \<open>the column family is open\<close>
  get_cf :: "'s \<Rightarrow> string \<Rightarrow> bytes \<Rightarrow> string + bytes option"
  raw_iterator_cf :: "'s \<Rightarrow> string \<Rightarrow> (bytes \<times> bytes) list" \<comment> \<open>the entries a raw iterator walks\<close>
  write_batch :: "'s \<Rightarrow> batch_op list \<Rightarrow> string + 's"

text \<open>What one operation of a batch does to a column family.\<close>

fun apply_batch_op :: "string \<Rightarrow> batch_op \<Rightarrow> (bytes \<rightharpoonup> bytes) \<Rightarrow> (bytes \<rightharpoonup> bytes)" where
  "apply_batch_op cf (PutCf c k v) m = (if c = cf then m(k \<mapsto> v) else m)"
| "apply_batch_op cf (DeleteCf c k) m = (if c = cf then m(k := None) else m)"
| "apply_batch_op cf (DeleteRangeCf c lo hi) m =
     (if c = cf then (\<lambda>k. if lo \<le> k \<and> k < hi then None else m k) else m)"

definition apply_batch :: "string \<Rightarrow> batch_op list \<Rightarrow> (bytes \<rightharpoonup> bytes) \<Rightarrow> (bytes \<rightharpoonup> bytes)" where
  "apply_batch cf ops m = fold (apply_batch_op cf) ops m"

definition cf_map :: "'s engine \<Rightarrow> 's \<Rightarrow> string \<Rightarrow> (bytes \<rightharpoonup> bytes)" where
  "cf_map K s cf = map_of (raw_iterator_cf K s cf)"

lemma apply_batch_simps [simp]:
  "apply_batch cf [] m = m"
  "apply_batch cf (x # xs) m = apply_batch cf xs (apply_batch_op cf x m)"
  by (simp_all add: apply_batch_def)

lemma apply_batch_puts:
  "apply_batch cf (map (\<lambda>x. PutCf cf (f x) (g x)) xs) m k =
     (case map_of (rev (map (\<lambda>x. (f x, g x)) xs)) k of Some v \<Rightarrow> Some v | None \<Rightarrow> m k)"
  by (induction xs arbitrary: m) (auto simp: map_of_append split: option.splits)

lemma apply_batch_deletes:
  "apply_batch cf (map (\<lambda>x. DeleteCf c (f x)) xs) m k = (if c = cf \<and> k \<in> f ` set xs then None else m k)"
  by (induction xs arbitrary: m) auto

fun op_cf :: "batch_op \<Rightarrow> string" where
  "op_cf (PutCf c k v) = c"
| "op_cf (DeleteCf c k) = c"
| "op_cf (DeleteRangeCf c lo hi) = c"

lemma apply_batch_op_other: "op_cf x \<noteq> cf \<Longrightarrow> apply_batch_op cf x m = m"
  by (cases x) auto

lemma apply_batch_other: "(\<forall>x \<in> set ops. op_cf x \<noteq> cf) \<Longrightarrow> apply_batch cf ops m = m"
  by (induction ops) (simp_all add: apply_batch_op_other)

locale ordered_engine =
  fixes K :: "'s engine"
  assumes iterator_sorted: "sorted_kv (raw_iterator_cf K s cf)"
    and get_reads: "get_cf K s cf k = Inr v \<Longrightarrow> v = cf_map K s cf k"
    and write_applies: "write_batch K s ops = Inr t \<Longrightarrow> cf_map K t cf = apply_batch cf ops (cf_map K s cf)"
    and write_handles: "write_batch K s ops = Inr t \<Longrightarrow> cf_handle K t = cf_handle K s"
begin

lemma iterator_mem: "(k, v) \<in> set (raw_iterator_cf K s cf) \<longleftrightarrow> cf_map K s cf k = Some v"
  using iterator_sorted [of s cf] by (simp add: cf_map_def sorted_kv_map_of_iff)

lemma iterator_unchanged:
  "cf_map K t cf = cf_map K s cf' \<Longrightarrow> raw_iterator_cf K t cf = raw_iterator_cf K s cf'"
  using iterator_sorted [of t cf] iterator_sorted [of s cf'] by (simp add: cf_map_def sorted_kv_unique)

lemma iterator_seek_mem:
  "(k, v) \<in> set (seek lo (raw_iterator_cf K s cf)) \<longleftrightarrow> lo \<le> k \<and> cf_map K s cf k = Some v"
  using iterator_sorted [of s cf] by (auto simp: seek_eq_filter iterator_mem)

lemma write_get:
  "write_batch K s ops = Inr t \<Longrightarrow> get_cf K t cf k = Inr v \<Longrightarrow> v = apply_batch cf ops (cf_map K s cf) k"
  using get_reads write_applies by metis

lemma iterator_last:
  assumes "raw_iterator_cf K s cf \<noteq> []" "cf_map K s cf k = Some v"
  shows "k \<le> fst (last (raw_iterator_cf K s cf))"
  using assms last_sorted_kv_max [OF iterator_sorted [of s cf], of "(k, v)"] by (simp add: iterator_mem)

end

text \<open>An engine that never reports an I/O error: reads and writes of open column families succeed.\<close>

locale reliable_engine = ordered_engine +
  assumes get_total: "\<exists>v. get_cf K s cf k = Inr v"
    and write_total: "\<exists>t. write_batch K s ops = Inr t"
begin

lemma get_cf_eq: "get_cf K s cf k = Inr (cf_map K s cf k)"
  using get_total [of s cf k] get_reads by fastforce

end

section \<open>An in-memory instance\<close>

record mem_state =
  mem_cfs :: "string list"
  mem_tables :: "string \<Rightarrow> (bytes, bytes) rbt"

fun mem_apply :: "batch_op \<Rightarrow> (string \<Rightarrow> (bytes, bytes) rbt) \<Rightarrow> string \<Rightarrow> (bytes, bytes) rbt" where
  "mem_apply (PutCf c k v) ts = ts(c := RBT.insert k v (ts c))"
| "mem_apply (DeleteCf c k) ts = ts(c := RBT.delete k (ts c))"
| "mem_apply (DeleteRangeCf c lo hi) ts =
     ts(c := fold RBT.delete (filter (\<lambda>k. lo \<le> k \<and> k < hi) (RBT.keys (ts c))) (ts c))"

definition mem_engine :: "mem_state engine" where
  "mem_engine = \<lparr>
     cf_handle = (\<lambda>s cf. cf \<in> set (mem_cfs s)),
     get_cf = (\<lambda>s cf k. Inr (RBT.lookup (mem_tables s cf) k)),
     raw_iterator_cf = (\<lambda>s cf. RBT.entries (mem_tables s cf)),
     write_batch = (\<lambda>s ops. Inr (s\<lparr>mem_tables := fold mem_apply ops (mem_tables s)\<rparr>))\<rparr>"

definition mem_open :: "string list \<Rightarrow> mem_state" where
  "mem_open cfs = \<lparr>mem_cfs = cfs, mem_tables = (\<lambda>_. RBT.empty)\<rparr>"

lemma lookup_fold_delete:
  "RBT.lookup (fold RBT.delete ks t) = (\<lambda>k. if k \<in> set ks then None else RBT.lookup t k)"
  by (induction ks arbitrary: t) (auto simp: fun_eq_iff)

lemma lookup_mem_apply: "RBT.lookup (mem_apply x ts cf) = apply_batch_op cf x (RBT.lookup (ts cf))"
  by (cases x) (auto simp: lookup_fold_delete fun_eq_iff RBT.lookup_keys [symmetric] domIff)

lemma lookup_fold_mem_apply:
  "RBT.lookup (fold mem_apply ops ts cf) = apply_batch cf ops (RBT.lookup (ts cf))"
  by (induction ops arbitrary: ts) (simp_all add: lookup_mem_apply)

interpretation mem: reliable_engine mem_engine
proof
  have "sorted_wrt (<) (map fst (RBT.entries t))" for t :: "(bytes, bytes) rbt"
    by (simp add: strict_sorted_iff RBT.sorted_entries RBT.distinct_entries)
  then show "sorted_kv (raw_iterator_cf mem_engine s cf)" for s cf
    by (simp add: mem_engine_def sorted_wrt_map)
qed (auto simp: mem_engine_def cf_map_def lookup_fold_mem_apply)

end
