(* ===== verification/Libs.thy ===== *)
theory Libs
  imports Outcome
begin

text \<open>
  The small library functions the crates call and do not define: the \<open>hex\<close> crate,
  \<open>fastcrypto\<close>'s \<open>decode_bytes_hex\<close> and SHA3-256, and \<open>serde_json\<close>. They are the fields of
  \<open>libs\<close>, a parameter of every definition that uses them; \<open>lawful_libs\<close> states their documented
  behaviour. \<open>sample_libs\<close> is an executable instance.
\<close>

datatype json =
    JNull | JBool bool | JNumber string | JString string
  | JArray "json list" | JObject "(string \<times> json) list"

record libs =
  hex_encode :: "bytes \<Rightarrow> string"
  hex_decode :: "string \<Rightarrow> string + bytes"
  decode_bytes_hex :: "string \<Rightarrow> string + bytes"
  sha3_256 :: "bytes \<Rightarrow> bytes"
  json_to_string :: "json \<Rightarrow> string"
  json_from_str :: "string \<Rightarrow> string + json"

abbreviation hex_digits :: string where
  "hex_digits \<equiv> ''0123456789abcdef''"

locale lawful_libs =
  fixes L :: libs
  assumes hex_roundtrip: "hex_decode L (hex_encode L b) = Inr b"
    and hex_length: "length (hex_encode L b) = 2 * length b"
    and hex_alphabet: "set (hex_encode L b) \<subseteq> set hex_digits"
    and prefixed_hex: "decode_bytes_hex L (''0x'' @ hex_encode L b) = Inr b"
    and sha3_length: "length (sha3_256 L b) = 32"
    and json_object_roundtrip:
      "json_from_str L (json_to_string L (JObject [(k, JString v)])) = Inr (JObject [(k, JString v)])"
    and json_object_nonempty: "json_to_string L (JObject [(k, JString v)]) \<noteq> []"
begin

lemma hex_inject: "hex_encode L a = hex_encode L b \<longleftrightarrow> a = b"
  by (metis hex_roundtrip sum.inject(2))

lemma hex_not_prefixed: "take 2 (hex_encode L b) \<noteq> ''0x''"
proof
  assume "take 2 (hex_encode L b) = ''0x''"
  then have "CHR ''x'' \<in> set (hex_encode L b)" by (metis in_set_takeD list.set_intros(1,2))
  with hex_alphabet show False by auto
qed

lemma hex_no_slash: "CHR ''/'' \<notin> set (hex_encode L b)"
  using hex_alphabet by auto

end

section \<open>An executable instance\<close>

definition hex_digit :: "nat \<Rightarrow> char" where
  "hex_digit n = hex_digits ! n"

fun hex_of :: "bytes \<Rightarrow> string" where
  "hex_of [] = []"
| "hex_of (b # bs) = hex_digit (unat b div 16) # hex_digit (unat b mod 16) # hex_of bs"

definition hex_val :: "char \<Rightarrow> nat option" where
  "hex_val c = map_of (zip hex_digits [0..<16]) c"

fun unhex :: "string \<Rightarrow> string + bytes" where
  "unhex [] = Inr []"
| "unhex [c] = Inl ''odd number of digits''"
| "unhex (c # d # cs) =
     (case (hex_val c, hex_val d, unhex cs) of
        (Some a, Some b, Inr bs) \<Rightarrow> Inr (of_nat (16 * a + b) # bs)
      | _ \<Rightarrow> Inl ''invalid character'')"

text \<open>A framing of text in text: each character is announced by \<open>+\<close>, the end by \<open>.\<close>.\<close>

fun frame :: "string \<Rightarrow> string" where
  "frame [] = ''.''"
| "frame (c # cs) = CHR ''+'' # c # frame cs"

fun unframe :: "string \<Rightarrow> (string \<times> string) option" where
  "unframe [] = None"
| "unframe (c # cs) =
     (if c = CHR ''.'' then Some ([], cs)
      else case cs of [] \<Rightarrow> None
           | d # ds \<Rightarrow> map_option (\<lambda>(w, rest). (d # w, rest)) (unframe ds))"

fun sample_json_print :: "json \<Rightarrow> string" where
  "sample_json_print (JObject [(k, JString v)]) = frame k @ frame v"
| "sample_json_print _ = []"

definition sample_json_parse :: "string \<Rightarrow> string + json" where
  "sample_json_parse s =
     (case unframe s of None \<Rightarrow> Inl ''EOF''
      | Some (k, r) \<Rightarrow>
          (case unframe r of
             Some (v, []) \<Rightarrow> Inr (JObject [(k, JString v)])
           | _ \<Rightarrow> Inl ''EOF''))"

definition sample_libs :: libs where
  "sample_libs = \<lparr>
     hex_encode = hex_of,
     hex_decode = unhex,
     decode_bytes_hex = (\<lambda>s. unhex (if take 2 s = ''0x'' then drop 2 s else s)),
     sha3_256 = (\<lambda>bs. take 32 (bs @ replicate 32 0)),
     json_to_string = sample_json_print,
     json_from_str = sample_json_parse\<rparr>"

lemma hex_val_digit: "n < 16 \<Longrightarrow> hex_val (hex_digit n) = Some n"
proof -
  assume n: "n < 16"
  have "\<forall>m \<in> set [0..<16]. hex_val (hex_digit m) = Some m" by code_simp
  with n show ?thesis by simp
qed

lemma unhex_hex_of: "unhex (hex_of bs) = Inr bs"
proof (induction bs)
  case Nil
  then show ?case by simp
next
  case (Cons b bs)
  have "unat b < 256" by (rule unat_bounds)
  then have "unat b div 16 < 16" "unat b mod 16 < 16" by auto
  then show ?case using Cons by (simp add: hex_val_digit mult.commute [of 16] del: hex_val_digit)
      (simp add: hex_val_digit)
qed

lemma hex_digit_in: "n < 16 \<Longrightarrow> hex_digit n \<in> set hex_digits"
  unfolding hex_digit_def by (rule nth_mem) simp

lemma hex_of_alphabet: "set (hex_of bs) \<subseteq> set hex_digits"
proof (induction bs)
  case Nil
  then show ?case by simp
next
  case (Cons b bs)
  have "unat b < 256" by (rule unat_bounds)
  then have "unat b div 16 < 16" "unat b mod 16 < 16" by auto
  from this [THEN hex_digit_in] Cons show ?case by (simp only: hex_of.simps list.set insert_subset)
qed

lemma unframe_frame: "unframe (frame w @ rest) = Some (w, rest)"
  by (induction w) auto

interpretation sample: lawful_libs sample_libs
proof
  show "length (hex_encode sample_libs b) = 2 * length b" for b
    by (simp add: sample_libs_def) (induction b, auto)
  show "set (hex_encode sample_libs b) \<subseteq> set hex_digits" for b
    using hex_of_alphabet by (simp add: sample_libs_def)
  show "json_from_str sample_libs (json_to_string sample_libs (JObject [(k, JString v)])) =
      Inr (JObject [(k, JString v)])" for k v
    using unframe_frame [of v "[]"] by (simp add: sample_libs_def sample_json_parse_def unframe_frame)
  show "json_to_string sample_libs (JObject [(k, JString v)]) \<noteq> []" for k v
    by (cases k) (simp_all add: sample_libs_def)
qed (simp_all add: sample_libs_def unhex_hex_of)

end
