(* ===== verification/Ids.thy ===== *)
theory Ids
  imports Libs
begin

text \<open>
  Identifiers (\<open>src/crypto/src/db3_address.rs\<close>, \<open>id.rs\<close>, \<open>id_v2.rs\<close>): account and database
  addresses of 20 bytes, transaction ids of 32 bytes, database ids and operation entry ids of 14
  bytes. The fixed-size arrays are types whose values have exactly that length, ordered bytewise as
  the derived \<open>Ord\<close> instances are.
\<close>

section \<open>DB3Address\<close>

typedef db3_address = "{bs :: bytes. length bs = 20}"
  morphisms addr_as_ref DB3Address
  by (rule exI [of _ "replicate 20 0"]) simp

declare addr_as_ref_inverse [code abstype]

text \<open>The array built from a slice whose length has been checked.\<close>

definition addr_of :: "bytes \<Rightarrow> db3_address" where
  "addr_of bs = DB3Address (take 20 (bs @ replicate 20 0))"

lemma addr_of_ref [code abstract]: "addr_as_ref (addr_of bs) = take 20 (bs @ replicate 20 0)"
  by (simp add: addr_of_def DB3Address_inverse)

definition addr_zero :: db3_address where
  "addr_zero = DB3Address (replicate 20 0)"

lemma addr_zero_ref [simp, code abstract]: "addr_as_ref addr_zero = replicate 20 0"
  by (simp add: addr_zero_def DB3Address_inverse)

definition addr_one :: db3_address where
  "addr_one = DB3Address (replicate 20 1)"

lemma addr_one_ref [simp, code abstract]: "addr_as_ref addr_one = replicate 20 1"
  by (simp add: addr_one_def DB3Address_inverse)

instantiation db3_address :: equal
begin

definition equal_db3_address :: "db3_address \<Rightarrow> db3_address \<Rightarrow> bool" where
  "equal_db3_address a b \<longleftrightarrow> addr_as_ref a = addr_as_ref b"

instance
  by standard (simp add: equal_db3_address_def addr_as_ref_inject)

end

instantiation db3_address :: linorder
begin

definition less_eq_db3_address :: "db3_address \<Rightarrow> db3_address \<Rightarrow> bool" where
  "a \<le> b \<longleftrightarrow> addr_as_ref a \<le> addr_as_ref b"

definition less_db3_address :: "db3_address \<Rightarrow> db3_address \<Rightarrow> bool" where
  "a < b \<longleftrightarrow> addr_as_ref a < addr_as_ref b"

instance
  by standard
    (auto simp: less_eq_db3_address_def less_db3_address_def addr_as_ref_inject [symmetric])

end

definition addr_try_from :: "bytes \<Rightarrow> db3_address result" where
  "addr_try_from bs = (if length bs = 20 then Inr (addr_of bs) else Inl (Raised InvalidAddress))"

definition addr_to_hex :: "libs \<Rightarrow> db3_address \<Rightarrow> string" where
  "addr_to_hex L a = ''0x'' @ hex_encode L (addr_as_ref a)"

definition hex_err :: "string \<Rightarrow> db3_error" where
  "hex_err e = KeyCodecError (''fail to decode tx id for '' @ e)"

definition addr_from_hex :: "libs \<Rightarrow> string \<Rightarrow> db3_address result" where
  "addr_from_hex L input =
     (if take 2 input = ''0x''
      then bindR (lib_err hex_err (hex_decode L (drop 2 input))) addr_try_from
      else bindR (lib_err hex_err (hex_decode L input)) addr_try_from)"

text \<open>\<open>TryFrom<&str>\<close>: \<open>decode_bytes_hex\<close> into the array; any failure is \<open>InvalidAddress\<close>.\<close>

definition addr_try_from_str :: "libs \<Rightarrow> string \<Rightarrow> db3_address result" where
  "addr_try_from_str L input =
     (case decode_bytes_hex L input of
        Inl e \<Rightarrow> Inl (Raised InvalidAddress)
      | Inr bs \<Rightarrow> if length bs = 20 then Inr (addr_of bs) else Inl (Raised InvalidAddress))"

section \<open>TxId\<close>

typedef tx_id = "{bs :: bytes. length bs = 32}"
  morphisms tx_as_ref TxId
  by (rule exI [of _ "replicate 32 0"]) simp

declare tx_as_ref_inverse [code abstype]

definition tx_of :: "bytes \<Rightarrow> tx_id" where
  "tx_of bs = TxId (take 32 (bs @ replicate 32 0))"

lemma tx_of_ref [code abstract]: "tx_as_ref (tx_of bs) = take 32 (bs @ replicate 32 0)"
  by (simp add: tx_of_def TxId_inverse)

definition tx_zero :: tx_id where
  "tx_zero = TxId (replicate 32 0)"

lemma tx_zero_ref [simp, code abstract]: "tx_as_ref tx_zero = replicate 32 0"
  by (simp add: tx_zero_def TxId_inverse)

instantiation tx_id :: equal
begin

definition equal_tx_id :: "tx_id \<Rightarrow> tx_id \<Rightarrow> bool" where
  "equal_tx_id a b \<longleftrightarrow> tx_as_ref a = tx_as_ref b"

instance
  by standard (simp add: equal_tx_id_def tx_as_ref_inject)

end

definition tx_to_hex :: "libs \<Rightarrow> tx_id \<Rightarrow> string" where
  "tx_to_hex L t = ''0x'' @ hex_encode L (tx_as_ref t)"

definition tx_try_from_bytes :: "bytes \<Rightarrow> tx_id result" where
  "tx_try_from_bytes bs = (if length bs = 32 then Inr (tx_of bs) else Inl (Raised InvalidAddress))"

definition tx_try_from_hex :: "libs \<Rightarrow> string \<Rightarrow> tx_id result" where
  "tx_try_from_hex L input =
     (if take 2 input = ''0x''
      then bindR (lib_err hex_err (hex_decode L (drop 2 input))) tx_try_from_bytes
      else bindR (lib_err hex_err (hex_decode L input)) tx_try_from_bytes)"

text \<open>The hash of one message, and of a payload followed by its signature.\<close>

definition tx_from_message :: "libs \<Rightarrow> bytes \<Rightarrow> tx_id" where
  "tx_from_message L msg = tx_of (sha3_256 L msg)"

definition tx_from_pair :: "libs \<Rightarrow> bytes \<Rightarrow> bytes \<Rightarrow> tx_id" where
  "tx_from_pair L payload signature = tx_of (sha3_256 L (payload @ signature))"

section \<open>DbId\<close>

type_synonym db_id = db3_address \<comment> \<open>a struct whose only field is the address\<close>

definition dbid_min :: db_id where
  "dbid_min = addr_of (replicate 20 0)"

definition dbid_max :: db_id where
  "dbid_max = addr_of (replicate 20 255)"

definition dbid_to_hex :: "libs \<Rightarrow> db_id \<Rightarrow> string" where
  "dbid_to_hex L d = ''0x'' @ hex_encode L (addr_as_ref d)"

text \<open>\<open>From<(&DB3Address, u64, u64)>\<close>: the nonce, the network and the sender are hashed in this order
  and the first 20 bytes are kept.\<close>

definition dbid_from :: "libs \<Rightarrow> db3_address \<Rightarrow> u64 \<Rightarrow> u64 \<Rightarrow> db_id" where
  "dbid_from L sender nonce network =
     addr_of (take 20 (sha3_256 L (be64 nonce @ be64 network @ addr_as_ref sender)))"

section \<open>OpEntryId\<close>

typedef op_entry_id = "{bs :: bytes. length bs = 14}"
  morphisms op_as_ref OpEntryId
  by (rule exI [of _ "replicate 14 0"]) simp

declare op_as_ref_inverse [code abstype]

definition op_of :: "bytes \<Rightarrow> op_entry_id" where
  "op_of bs = OpEntryId (take 14 (bs @ replicate 14 0))"

lemma op_of_ref [code abstract]: "op_as_ref (op_of bs) = take 14 (bs @ replicate 14 0)"
  by (simp add: op_of_def OpEntryId_inverse)

definition op_try_from_bytes :: "bytes \<Rightarrow> op_entry_id result" where
  "op_try_from_bytes bs =
     (if length bs = 14 then Inr (op_of bs) else Inl (Raised InvalidOpEntryIdBytes))"

definition op_create :: "u64 \<Rightarrow> u32 \<Rightarrow> u16 \<Rightarrow> op_entry_id result" where
  "op_create block_id order_id idx = op_try_from_bytes (be64 block_id @ be32 order_id @ be16 idx)"

definition op_get_block_id :: "op_entry_id \<Rightarrow> u64" where
  "op_get_block_id e = from_be64 (take 8 (op_as_ref e))"

definition op_get_order_id :: "op_entry_id \<Rightarrow> u32" where
  "op_get_order_id e = from_be32 (take 4 (drop 8 (op_as_ref e)))"

definition op_get_idx :: "op_entry_id \<Rightarrow> u16" where
  "op_get_idx e = from_be16 (take 2 (drop 12 (op_as_ref e)))"

definition op_display :: "op_entry_id \<Rightarrow> string" where
  "op_display e =
     show_u64 (op_get_block_id e) @ ''-'' @ show_u32 (op_get_order_id e) @ ''-'' @
     show_nat (unat (op_get_idx e))"

section \<open>Lemmas\<close>

lemma length_refs [simp]:
  "length (addr_as_ref a) = 20" "length (tx_as_ref t) = 32" "length (op_as_ref e) = 14"
  using addr_as_ref [of a] tx_as_ref [of t] op_as_ref [of e] by auto

lemma as_ref_of [simp]:
  "length bs = 20 \<Longrightarrow> addr_as_ref (addr_of bs) = bs"
  "length cs = 32 \<Longrightarrow> tx_as_ref (tx_of cs) = cs"
  "length ds = 14 \<Longrightarrow> op_as_ref (op_of ds) = ds"
  by (simp_all add: addr_of_ref tx_of_ref op_of_ref)

lemma of_as_ref [simp]: "addr_of (addr_as_ref a) = a" "tx_of (tx_as_ref t) = t"
  by (simp_all add: addr_as_ref_inject [symmetric] tx_as_ref_inject [symmetric])

lemmas ref_inject [simp] = addr_as_ref_inject tx_as_ref_inject

lemma addr_try_from_ref [simp]: "addr_try_from (addr_as_ref a) = Inr a"
  by (simp add: addr_try_from_def)

lemma addr_try_from_Inr: "addr_try_from bs = Inr a \<longleftrightarrow> bs = addr_as_ref a"
  by (auto simp: addr_try_from_def)

lemma tx_try_from_ref [simp]: "tx_try_from_bytes (tx_as_ref t) = Inr t"
  by (simp add: tx_try_from_bytes_def)

context lawful_libs
begin

lemma addr_to_hex_inject [simp]: "addr_to_hex L a = addr_to_hex L b \<longleftrightarrow> a = b"
  by (simp add: addr_to_hex_def hex_inject)

lemma addr_hex_roundtrip [simp]: "addr_from_hex L (addr_to_hex L a) = Inr a"
  by (simp add: addr_from_hex_def addr_to_hex_def hex_roundtrip)

lemma addr_hex_unprefixed: "addr_from_hex L (hex_encode L (addr_as_ref a)) = Inr a"
  using hex_not_prefixed by (simp add: addr_from_hex_def hex_roundtrip)

lemma addr_str_roundtrip [simp]: "addr_try_from_str L (addr_to_hex L a) = Inr a"
  using prefixed_hex by (simp add: addr_try_from_str_def addr_to_hex_def)

lemma tx_hex_roundtrip [simp]: "tx_try_from_hex L (tx_to_hex L t) = Inr t"
  by (simp add: tx_try_from_hex_def tx_to_hex_def hex_roundtrip)

lemma tx_to_hex_inject [simp]: "tx_to_hex L t = tx_to_hex L u \<longleftrightarrow> t = u"
  by (simp add: tx_to_hex_def hex_inject)

lemma length_tx_to_hex [simp]: "length (tx_to_hex L t) = 66"
  by (simp add: tx_to_hex_def hex_length)

lemma tx_from_pair_ref: "tx_as_ref (tx_from_pair L p s) = sha3_256 L (p @ s)"
  by (simp add: tx_from_pair_def sha3_length)

lemma addr_to_hex_no_slash: "CHR ''/'' \<notin> set (addr_to_hex L a)"
  using hex_no_slash by (simp add: addr_to_hex_def)

end

lemma op_create_Inr: "\<exists>e. op_create b r i = Inr e \<and> op_as_ref e = be64 b @ be32 r @ be16 i"
  by (simp add: op_create_def op_try_from_bytes_def)

end
