(* ===== verification/Keys.thy ===== *)
theory Keys
  imports Ids
begin

text \<open>
  The byte keys under which the document store files its entries (\<open>src/storage/src/collection_key.rs\<close>,
  \<open>db_owner_key_v2.rs\<close>, \<open>db_doc_key_v2.rs\<close>, \<open>doc_key_v2.rs\<close>): their encoders, decoders and text
  forms. The lemmas give injectivity, the round trips, and the two facts iteration rests on: keys of
  one database share its prefix and no other database's key does, and document keys of one database
  are ordered by the bytes of the document id.
\<close>

section \<open>Collection keys\<close>

definition MAX_COLLECTION_NAME :: nat where
  "MAX_COLLECTION_NAME = 20"

definition build_collection_key :: "db3_address \<Rightarrow> string \<Rightarrow> bytes result" where
  "build_collection_key db_addr name =
     (if length name > MAX_COLLECTION_NAME
      then Inl (Raised (InvalidCollectionNameError ''name exceeds the max lens limit''))
      else Inr (addr_as_ref db_addr @ as_bytes name))"

section \<open>Database owner keys\<close>

record db_owner_key =
  dok_owner :: db3_address
  dok_block :: u64
  dok_order :: u32

definition db_owner_key_encode :: "db_owner_key \<Rightarrow> bytes" where
  "db_owner_key_encode k = addr_as_ref (dok_owner k) @ be64 (dok_block k) @ be32 (dok_order k)"

section \<open>Document keys\<close>

record db_doc_key =
  ddk_db :: db3_address
  ddk_id :: i64

definition DOC_PREFIX :: string where
  "DOC_PREFIX = ''/doc/''"

definition KEY_LENGTH :: nat where
  "KEY_LENGTH = length DOC_PREFIX + 20 + 8"

definition db_doc_key_encode :: "db_doc_key \<Rightarrow> bytes" where
  "db_doc_key_encode k = as_bytes DOC_PREFIX @ addr_as_ref (ddk_db k) @ be64 (ddk_id k)"

definition build_prefix :: "db3_address \<Rightarrow> bytes" where
  "build_prefix address = as_bytes DOC_PREFIX @ addr_as_ref address"

definition decode_id :: "bytes \<Rightarrow> i64 result" where
  "decode_id key =
     (if length key \<noteq> KEY_LENGTH
      then Inl (Raised (KeyCodecError ''invalid doc key length''))
      else bindR (slice (KEY_LENGTH - 8) KEY_LENGTH key) (\<lambda>bs. Inr (from_be64 bs)))"

definition is_the_same_db :: "bytes \<Rightarrow> db3_address \<Rightarrow> bool result" where
  "is_the_same_db key address =
     bindR (slice (length DOC_PREFIX) (length DOC_PREFIX + 20) key)
       (\<lambda>bs. Inr (bs = addr_as_ref address))"

definition db_doc_key_display :: "libs \<Rightarrow> db_doc_key \<Rightarrow> string" where
  "db_doc_key_display L k =
     DOC_PREFIX @ ''/'' @ addr_to_hex L (ddk_db k) @ ''/'' @ show_i64 (ddk_id k)"

section \<open>Document owner keys\<close>

record doc_owner_key =
  dwk_owner :: db3_address
  dwk_block :: u64
  dwk_order :: u32
  dwk_entry :: u32

definition DOC :: string where
  "DOC = ''/doc''"

definition doc_owner_key_encode :: "doc_owner_key \<Rightarrow> bytes" where
  "doc_owner_key_encode k =
     as_bytes DOC @ addr_as_ref (dwk_owner k) @ be64 (dwk_block k) @ be32 (dwk_order k) @
     be32 (dwk_entry k)"

text \<open>The guard asks for the prefix and the address only; each later field is a slice of its own.\<close>

definition doc_owner_key_decode :: "bytes \<Rightarrow> doc_owner_key result" where
  "doc_owner_key_decode d =
     (if length d < 20 + length DOC
      then Inl (Raised (KeyCodecError ''the length of data is invalid''))
      else let address_offset = length DOC; block_id_offset = address_offset + 20;
               order_id_offset = block_id_offset + 8; entry_id_offset = order_id_offset + 4
           in bindR (slice address_offset (address_offset + 20) d) (\<lambda>owner.
              bindR (slice block_id_offset (block_id_offset + 8) d) (\<lambda>block_id.
              bindR (slice order_id_offset (order_id_offset + 4) d) (\<lambda>order_id.
              bindR (slice entry_id_offset (entry_id_offset + 4) d) (\<lambda>entry_id.
              Inr \<lparr>dwk_owner = addr_of owner, dwk_block = from_be64 block_id,
                   dwk_order = from_be32 order_id, dwk_entry = from_be32 entry_id\<rparr>)))))"

definition doc_owner_key_display :: "libs \<Rightarrow> doc_owner_key \<Rightarrow> string" where
  "doc_owner_key_display L k =
     DOC @ ''/'' @ addr_to_hex L (dwk_owner k) @ ''/'' @ show_u64 (dwk_block k) @ ''/'' @
     show_u32 (dwk_order k) @ ''/'' @ show_u32 (dwk_entry k)"

definition doc_owner_key_from_str :: "libs \<Rightarrow> string \<Rightarrow> doc_owner_key result" where
  "doc_owner_key_from_str L s =
     (case split_on (CHR ''/'') s of
        [_, pfx, owner_hex, block_id_str, order_id_str, entry_id_str] \<Rightarrow>
          if pfx \<noteq> ''doc''
          then Inl (Raised (KeyCodecError ''the prefix of key is invalid''))
          else bindR (addr_from_hex L owner_hex) (\<lambda>owner.
               bindR (lib_err KeyCodecError (parse_u64 block_id_str)) (\<lambda>block_id.
               bindR (lib_err KeyCodecError (parse_u32 order_id_str)) (\<lambda>order_id.
               bindR (lib_err KeyCodecError (parse_u32 entry_id_str)) (\<lambda>entry_id.
               Inr \<lparr>dwk_owner = owner, dwk_block = block_id, dwk_order = order_id,
                    dwk_entry = entry_id\<rparr>))))
      | _ \<Rightarrow> Inl (Raised (KeyCodecError ''the length of key is invalid'')))"

definition verify_owner :: "doc_owner_key \<Rightarrow> db3_address \<Rightarrow> unit result" where
  "verify_owner k owner =
     (if addr_as_ref owner = addr_as_ref (dwk_owner k) then Inr ()
      else Inl (Raised (OwnerVerifyFailed ''the owner is invalid'')))"

section \<open>Lemmas\<close>

lemmas key_consts [simp] = MAX_COLLECTION_NAME_def DOC_PREFIX_def KEY_LENGTH_def DOC_def

lemma slice_append [simp]:
  "length xs = a \<Longrightarrow> length ys = b - a \<Longrightarrow> a \<le> b \<Longrightarrow> slice a b (xs @ ys @ zs) = Inr ys"
  "length xs = a \<Longrightarrow> length ys = b - a \<Longrightarrow> a \<le> b \<Longrightarrow> slice a b (xs @ ys) = Inr ys"
  by (auto simp: slice_def)

lemma collection_key_inject:
  "build_collection_key a n = Inr k \<Longrightarrow> build_collection_key b m = Inr k \<Longrightarrow> a = b \<and> n = m"
  by (auto simp: build_collection_key_def split: if_splits)

lemma collection_key_prefix:
  "build_collection_key a n = Inr k \<Longrightarrow> take 20 k = addr_as_ref b \<longleftrightarrow> a = b"
  by (auto simp: build_collection_key_def split: if_splits)

lemma db_owner_key_inject: "db_owner_key_encode k = db_owner_key_encode l \<longleftrightarrow> k = l"
  by (auto simp: db_owner_key_encode_def)

lemma length_db_owner_key [simp]: "length (db_owner_key_encode k) = 32"
  by (simp add: db_owner_key_encode_def)

lemma take_db_owner_key [simp]: "take 20 (db_owner_key_encode k) = addr_as_ref (dok_owner k)"
  by (simp add: db_owner_key_encode_def)

lemma length_db_doc_key [simp]: "length (db_doc_key_encode k) = 33"
  by (simp add: db_doc_key_encode_def)

lemma db_doc_key_inject [simp]: "db_doc_key_encode k = db_doc_key_encode l \<longleftrightarrow> k = l"
  by (auto simp: db_doc_key_encode_def)

lemma decode_id_encode [simp]: "decode_id (db_doc_key_encode k) = Inr (ddk_id k)"
proof -
  have "slice 25 33 ((as_bytes ''/doc/'' @ addr_as_ref (ddk_db k)) @ be64 (ddk_id k)) = Inr (be64 (ddk_id k))"
    by (rule slice_append) simp_all
  then show ?thesis by (simp add: decode_id_def db_doc_key_encode_def)
qed

lemma is_the_same_db_encode [simp]: "is_the_same_db (db_doc_key_encode k) a = Inr (ddk_db k = a)"
proof -
  have "slice 5 25 (as_bytes ''/doc/'' @ addr_as_ref (ddk_db k) @ be64 (ddk_id k)) = Inr (addr_as_ref (ddk_db k))"
    by (rule slice_append) simp_all
  then show ?thesis by (simp add: is_the_same_db_def db_doc_key_encode_def)
qed

lemma db_doc_key_order:
  "db_doc_key_encode \<lparr>ddk_db = a, ddk_id = i\<rparr> < db_doc_key_encode \<lparr>ddk_db = a, ddk_id = j\<rparr> \<longleftrightarrow> i < j"
  by (simp add: db_doc_key_encode_def append_less_iff)

lemma doc_owner_key_roundtrip: "doc_owner_key_decode (doc_owner_key_encode k) = Inr k"
proof -
  let ?d = "doc_owner_key_encode k"
  have "slice (Suc (Suc (Suc (Suc 0)))) 24 ?d = Inr (addr_as_ref (dwk_owner k))"
    by (simp add: doc_owner_key_encode_def)
  moreover have "slice 24 32 ?d = Inr (be64 (dwk_block k))"
    using slice_append(1) [of "as_bytes DOC @ addr_as_ref (dwk_owner k)" 24 "be64 (dwk_block k)" 32]
    by (simp add: doc_owner_key_encode_def)
  moreover have "slice 32 36 ?d = Inr (be32 (dwk_order k))"
    using slice_append(1) [of "as_bytes DOC @ addr_as_ref (dwk_owner k) @ be64 (dwk_block k)" 32
        "be32 (dwk_order k)" 36]
    by (simp add: doc_owner_key_encode_def)
  moreover have "slice 36 40 ?d = Inr (be32 (dwk_entry k))"
    using slice_append(2) [of "as_bytes DOC @ addr_as_ref (dwk_owner k) @ be64 (dwk_block k) @
        be32 (dwk_order k)" 36 "be32 (dwk_entry k)" 40]
    by (simp add: doc_owner_key_encode_def)
  moreover have "length ?d = 40" by (simp add: doc_owner_key_encode_def)
  ultimately show ?thesis by (simp add: doc_owner_key_decode_def)
qed

context lawful_libs
begin

lemma doc_owner_key_str_roundtrip:
  "doc_owner_key_from_str L (doc_owner_key_display L k) = Inr k"
proof -
  have digits: "CHR ''/'' \<notin> set (show_u64 a)" "CHR ''/'' \<notin> set (show_u32 b)" for a b
    by (simp_all add: show_u64_def show_u32_def show_nat_no_punct)
  have "split_on (CHR ''/'') (doc_owner_key_display L k) =
      [[], ''doc'', addr_to_hex L (dwk_owner k), show_u64 (dwk_block k), show_u32 (dwk_order k),
       show_u32 (dwk_entry k)]"
    by (simp add: doc_owner_key_display_def split_on_append split_on_no_sep digits addr_to_hex_no_slash)
  then show ?thesis by (simp add: doc_owner_key_from_str_def)
qed

end

end
