(* ===== verification/Messages.thy ===== *)
theory Messages
  imports Outcome
begin

text \<open>
  The protobuf messages the stores persist and exchange (\<open>src/proto/proto/*.proto\<close>), as records and
  datatypes with the fields and alternatives of the message definitions. Enumerations travel as
  \<open>i32\<close>; \<open>mutation_action\<close> is the one the code converts back with \<open>from_i32\<close>.
\<close>

section \<open>Collections, databases and their state\<close>

record index_field =
  ix_path :: string
  ix_index_type :: u32 \<comment> \<open>an \<open>i32\<close> enumeration value\<close>

record collection =
  col_name :: string
  col_index_fields :: "index_field list"
  col_sender :: bytes

record document_database =
  dd_address :: bytes
  dd_sender :: bytes
  dd_desc :: string

record event_database =
  ed_address :: bytes
  ed_sender :: bytes
  ed_contract_address :: string
  ed_desc :: string
  ed_ttl :: u64
  ed_events_json_abi :: string
  ed_evm_node_url :: string
  ed_start_block :: u64

datatype database = DocDb document_database | EventDb event_database

record database_message =
  dm_database :: "database option"

record collection_state_proto =
  csp_total_doc_count :: u64

record database_state_proto =
  dsp_total_doc_count :: u64
  dsp_total_col_count :: u64
  dsp_doc_order :: i64

record database_state_persistence =
  pers_addr :: string
  pers_total_doc_count :: u64
  pers_total_col_count :: u64
  pers_collection_states :: "(string \<times> collection_state_proto) list"
  pers_doc_order :: i64

record block_state_proto =
  bsp_block :: u64
  bsp_order :: u32

record document =
  doc_id :: i64
  doc_doc :: string

section \<open>Mutations\<close>

record document_database_mutation =
  ddm_db_desc :: string

record collection_mutation =
  cm_index_fields :: "index_field list"
  cm_collection_name :: string

record mint_collection_mutation =
  mc_signature :: string
  mc_tx :: string
  mc_db_addr :: string
  mc_name :: string
  mc_sender :: string

record mint_document_database_mutation =
  md_signature :: string
  md_tx :: string
  md_db_addr :: string
  md_desc :: string
  md_sender :: string

record add_index_mutation =
  ai_collection_name :: string
  ai_index_fields :: "index_field list"

record document_mutation =
  dom_collection_name :: string
  dom_documents :: "bytes list"
  dom_ids :: "i64 list"

record event_database_mutation =
  em_contract_address :: string
  em_ttl :: u64
  em_desc :: string
  em_tables :: "collection_mutation list"
  em_events_json_abi :: string
  em_evm_node_url :: string
  em_start_block :: u64

datatype body =
    CollectionMutation collection_mutation
  | DocumentMutation document_mutation
  | EventDatabaseMutation event_database_mutation
  | DocDatabaseMutation document_database_mutation
  | MintDocDatabaseMutation mint_document_database_mutation
  | MintCollectionMutation mint_collection_mutation
  | AddIndexMutation add_index_mutation
  | DeleteEventDatabaseMutation

record body_wrapper =
  bw_db_address :: bytes
  bw_body :: "body option"

datatype mutation_action =
    CreateDocumentDb | AddCollection | AddDocument | DeleteDocument | UpdateDocument
  | CreateEventDb | MintDocumentDb | MintCollection | AddIndex | DeleteEventDb

record mutation =
  mut_action :: u32 \<comment> \<open>an \<open>i32\<close> enumeration value\<close>
  mut_bodies :: "body_wrapper list"

definition action_to_i32 :: "mutation_action \<Rightarrow> u32" where
  "action_to_i32 a = (case a of
     CreateDocumentDb \<Rightarrow> 0 | AddCollection \<Rightarrow> 1 | AddDocument \<Rightarrow> 2 | DeleteDocument \<Rightarrow> 3
   | UpdateDocument \<Rightarrow> 4 | CreateEventDb \<Rightarrow> 5 | MintDocumentDb \<Rightarrow> 6 | MintCollection \<Rightarrow> 7
   | AddIndex \<Rightarrow> 8 | DeleteEventDb \<Rightarrow> 9)"

definition action_from_i32 :: "u32 \<Rightarrow> mutation_action option" where
  "action_from_i32 n =
     map_of (map (\<lambda>a. (action_to_i32 a, a))
       [CreateDocumentDb, AddCollection, AddDocument, DeleteDocument, UpdateDocument,
        CreateEventDb, MintDocumentDb, MintCollection, AddIndex, DeleteEventDb]) n"

record mutation_header =
  mh_block_id :: u64
  mh_order_id :: u32
  mh_sender :: bytes
  mh_time :: u64
  mh_id :: string
  mh_size :: u32
  mh_nonce :: u64
  mh_network :: u64
  mh_action :: u32
  mh_doc_ids_map :: string

record mutation_body =
  mb_payload :: bytes
  mb_signature :: string

section \<open>Rollup, garbage collection and counters\<close>

record rollup_record =
  rr_end_block :: u64
  rr_raw_data_size :: u64
  rr_compress_data_size :: u64
  rr_processed_time :: u64
  rr_arweave_tx :: string
  rr_time :: u64
  rr_mutation_count :: u64
  rr_cost :: u64
  rr_start_block :: u64
  rr_evm_tx :: string
  rr_evm_cost :: u64

record gc_record =
  gr_start_block :: u64
  gr_end_block :: u64
  gr_data_size :: u64
  gr_time :: u64
  gr_processed_time :: u64

record mutation_state =
  mst_mutation_count :: u64
  mst_total_mutation_bytes :: u64
  mst_gc_count :: u64
  mst_rollup_count :: u64
  mst_total_rollup_bytes :: u64
  mst_total_storage_cost :: bytes
  mst_total_evm_cost :: bytes
  mst_total_gc_bytes :: u64
  mst_total_rollup_raw_bytes :: u64
  mst_total_rollup_mutation_count :: u64

record system_config =
  sc_min_rollup_size :: u64
  sc_rollup_interval :: u64
  sc_network_id :: u64
  sc_evm_node_url :: string
  sc_ar_node_url :: string
  sc_chain_id :: u32
  sc_rollup_max_interval :: u64
  sc_contract_addr :: string
  sc_min_gc_offset :: u64

record extra_item =
  ei_key :: string
  ei_value :: string

section \<open>Encoding\<close>

text \<open>
  \<open>prost\<close> generates the encoders and decoders, outside the repository: a \<open>codec\<close> is such a pair
  (both can report an error), and \<open>codecs\<close> gathers the ones the stores call. What the code relies
  on is that a message that was encoded decodes to itself.
\<close>

record 'm codec =
  encode :: "'m \<Rightarrow> string + bytes"
  decode :: "bytes \<Rightarrow> string + 'm"

record codecs =
  header_codec :: "mutation_header codec"
  body_codec :: "mutation_body codec"
  rollup_codec :: "rollup_record codec"
  gc_codec :: "gc_record codec"
  mstate_codec :: "mutation_state codec"
  database_codec :: "database_message codec"
  collection_codec :: "collection codec"
  persistence_codec :: "database_state_persistence codec"
  block_state_codec :: "block_state_proto codec"
  config_codec :: "system_config codec"

definition codec_ok :: "'m codec \<Rightarrow> bool" where
  "codec_ok c \<longleftrightarrow> (\<forall>m b. encode c m = Inr b \<longrightarrow> decode c b = Inr m)"

locale lawful_codecs =
  fixes C :: codecs
  assumes header_ok: "codec_ok (header_codec C)"
    and body_ok: "codec_ok (body_codec C)"
    and rollup_ok: "codec_ok (rollup_codec C)"
    and gc_ok: "codec_ok (gc_codec C)"
    and mstate_ok: "codec_ok (mstate_codec C)"
    and database_ok: "codec_ok (database_codec C)"
    and collection_ok: "codec_ok (collection_codec C)"
    and persistence_ok: "codec_ok (persistence_codec C)"
    and block_state_ok: "codec_ok (block_state_codec C)"
    and config_ok: "codec_ok (config_codec C)"
begin

lemmas all_codecs_ok = header_ok body_ok rollup_ok gc_ok mstate_ok database_ok collection_ok
  persistence_ok block_state_ok config_ok

end

lemma codec_okD: "codec_ok c \<Longrightarrow> encode c m = Inr b \<Longrightarrow> decode c b = Inr m"
  by (simp add: codec_ok_def)

lemma codec_inject: "codec_ok c \<Longrightarrow> encode c m = Inr b \<Longrightarrow> encode c n = Inr b \<Longrightarrow> m = n"
  by (metis codec_okD sum.inject(2))

lemma action_roundtrip [simp]: "action_from_i32 (action_to_i32 a) = Some a"
  by (cases a) (simp_all add: action_from_i32_def action_to_i32_def)

end
