(* ===== verification/Rust_Text.thy ===== *)
theory Rust_Text
  imports Libs
begin

text \<open>
  Two pieces of the Rust standard library the sources use on text: \<open>PathBuf::push\<close> and the \<open>{:?}\<close>
  form of strings and lists of strings. A character is a byte of the UTF-8 text.
\<close>

definition path_push :: "string \<Rightarrow> string \<Rightarrow> string" where
  "path_push base seg =
     (if take 1 seg = ''/'' \<or> base = [] then seg
      else if last base = CHR ''/'' then base @ seg
      else base @ ''/'' @ seg)"

definition hex_text :: "nat \<Rightarrow> string" where
  "hex_text n = (if n < 16 then [hex_digits ! n] else [hex_digits ! (n div 16 mod 16), hex_digits ! (n mod 16)])"

definition debug_char :: "char \<Rightarrow> string" where
  "debug_char c =
     (let n = of_char c :: nat
      in if n = 34 then [CHR 0x5C, c]
         else if n = 92 then [CHR 0x5C, CHR 0x5C]
         else if n = 0 then [CHR 0x5C, CHR ''0'']
         else if n = 9 then [CHR 0x5C, CHR ''t'']
         else if n = 10 then [CHR 0x5C, CHR ''n'']
         else if n = 13 then [CHR 0x5C, CHR ''r'']
         else if n < 32 \<or> n = 127 then [CHR 0x5C, CHR ''u'', CHR 0x7B] @ hex_text n @ [CHR 0x7D]
         else [c])"

definition debug_str :: "string \<Rightarrow> string" where
  "debug_str s = [CHR 0x22] @ concat (map debug_char s) @ [CHR 0x22]"

definition debug_list :: "string list \<Rightarrow> string" where
  "debug_list ws = ''['' @ join_with '', '' (map debug_str ws) @ '']''"

text \<open>A pushed component can be read back: distinct names give distinct paths.\<close>

lemma path_push_inject:
  assumes "take 1 a \<noteq> ''/''" "take 1 b \<noteq> ''/''"
  shows "path_push base a = path_push base b \<longleftrightarrow> a = b"
  using assms by (simp add: path_push_def)

end
