(* ===== verification/Doc_Store.thy ===== *)
theory Doc_Store
  imports Messages Ids Rust_Text
begin

text \<open>
  The document store (\<open>src/storage/src/doc_store.rs\<close>): one EJDB file per database, opened on demand, with
  the open handles in a bounded cache. EJDB and the cache crate are not part of the repository: \<open>ejdb\<close>
  names their operations on the state of the files; a handle is the path it was opened with. The
  locale \<open>document_files\<close> states what EJDB promises about documents.
\<close>

section \<open>EJDB\<close>

datatype query_parameter = Int64Value i64 | BoolValue bool | StrValue string

record query_param =
  qp_name :: string
  qp_parameter :: "query_parameter option"
  qp_idx :: u32

record query =
  q_query_str :: string
  q_parameters :: "query_param list"

text \<open>A statement under construction: its collection, its text and the placeholders set so far.\<close>

record ejdb_query =
  eq_collection :: string
  eq_query_str :: string
  eq_placeholders :: "(string \<times> u32 \<times> query_parameter) list"

record 'd ejdb =
  ejdb_open :: "'d \<Rightarrow> string \<Rightarrow> (string + unit) \<times> 'd"
  ejdb_ensure_index :: "'d \<Rightarrow> string \<Rightarrow> string \<Rightarrow> string \<Rightarrow> u8 \<Rightarrow> (string + unit) \<times> 'd"
  ejdb_put_new :: "'d \<Rightarrow> string \<Rightarrow> string \<Rightarrow> string \<Rightarrow> (string + i64) \<times> 'd"
  ejdb_put :: "'d \<Rightarrow> string \<Rightarrow> string \<Rightarrow> string \<Rightarrow> i64 \<Rightarrow> (string + unit) \<times> 'd"
  ejdb_del :: "'d \<Rightarrow> string \<Rightarrow> string \<Rightarrow> i64 \<Rightarrow> (string + unit) \<times> 'd"
  ejdb_patch :: "'d \<Rightarrow> string \<Rightarrow> string \<Rightarrow> string \<Rightarrow> i64 \<Rightarrow> (string + unit) \<times> 'd"
  ejdb_get :: "'d \<Rightarrow> string \<Rightarrow> string \<Rightarrow> i64 \<Rightarrow> string + string"
  ejdb_init :: "ejdb_query \<Rightarrow> string + unit"
  ejdb_set_placeholder :: "ejdb_query \<Rightarrow> string \<Rightarrow> u32 \<Rightarrow> query_parameter \<Rightarrow> string + unit"
  ejdb_exec :: "'d \<Rightarrow> string \<Rightarrow> ejdb_query \<Rightarrow> string + ((i64 \<times> string) list \<times> u32)"
  cache_insert :: "u64 \<Rightarrow> bytes list \<Rightarrow> bytes \<Rightarrow> bytes list" \<comment> \<open>the keys kept, with a capacity\<close>
  ejdb_render :: "string \<Rightarrow> string" \<comment> \<open>the text a stored document is read back as\<close>

definition doc_at :: "'d ejdb \<Rightarrow> 'd \<Rightarrow> string \<Rightarrow> string \<Rightarrow> i64 \<Rightarrow> string option" where
  "doc_at E d path col i = (case ejdb_get E d path col i of Inr s \<Rightarrow> Some s | Inl _ \<Rightarrow> None)"

locale document_files =
  fixes E :: "'d ejdb"
  assumes open_keeps: "ejdb_open E d path = (r, d') \<Longrightarrow> doc_at E d' = doc_at E d"
    and put_stores: "ejdb_put E d path col doc i = (Inr (), d') \<Longrightarrow>
      doc_at E d' p c j = (if p = path \<and> c = col \<and> j = i then Some (ejdb_render E doc) else doc_at E d p c j)"
    and del_removes: "ejdb_del E d path col i = (Inr (), d') \<Longrightarrow>
      doc_at E d' p c j = (if p = path \<and> c = col \<and> j = i then None else doc_at E d p c j)"

text \<open>Files on which every call succeeds.\<close>

locale reliable_files = document_files +
  assumes open_succeeds: "\<exists>d'. ejdb_open E d path = (Inr (), d')"
    and put_succeeds: "\<exists>d'. ejdb_put E d path col doc i = (Inr (), d')"
    and index_succeeds: "\<exists>d'. ejdb_ensure_index E d path col field mode = (Inr (), d')"

section \<open>The store\<close>

record doc_store_config =
  db_root_path :: string
  in_memory_db_handle_limit :: u32

definition default_doc_store_config :: doc_store_config where
  "default_doc_store_config = \<lparr>db_root_path = [], in_memory_db_handle_limit = 0\<rparr>"

record 'd doc_store =
  dstore_config :: doc_store_config
  dstore_files :: 'd
  dstore_dbs :: "bytes list" \<comment> \<open>the addresses with a cached handle\<close>

definition doc_store_mock :: "'d \<Rightarrow> 'd doc_store" where
  "doc_store_mock files = \<lparr>dstore_config = default_doc_store_config, dstore_files = files, dstore_dbs = []\<rparr>"

text \<open>\<open>new\<close>: the root directory is created when it does not exist; both answers of the file system are
  arguments.\<close>

definition doc_store_new :: "(string \<Rightarrow> bool) \<Rightarrow> (string \<Rightarrow> string + unit) \<Rightarrow> 'd \<Rightarrow> doc_store_config \<Rightarrow> 'd doc_store result" where
  "doc_store_new path_exists create_dir files cfg =
     bindR (if \<not> path_exists (db_root_path cfg)
            then lib_err (OpenStoreError (db_root_path cfg)) (create_dir (db_root_path cfg)) else Inr ()) (\<lambda>_.
     Inr \<lparr>dstore_config = cfg, dstore_files = files, dstore_dbs = []\<rparr>)"

definition EJDB_INDEX :: "u8 list" where
  "EJDB_INDEX = [1, 4, 8, 16]"

definition db_file_path :: "libs \<Rightarrow> 'd doc_store \<Rightarrow> db3_address \<Rightarrow> string" where
  "db_file_path L s addr = path_push (path_push [] (db_root_path (dstore_config s))) (addr_to_hex L addr)"

definition files_call :: "('d \<Rightarrow> (string + 'a) \<times> 'd) \<Rightarrow> (string \<Rightarrow> db3_error) \<Rightarrow> ('d doc_store, 'a) action" where
  "files_call f err = (\<lambda>s. case f (dstore_files s) of
     (r, d) \<Rightarrow> (lib_err err r, s\<lparr>dstore_files := d\<rparr>))"

definition open_db_internal :: "'d ejdb \<Rightarrow> libs \<Rightarrow> db3_address \<Rightarrow> ('d doc_store, string option) action" where
  "open_db_internal E L addr = (\<lambda>s. let path = db_file_path L s addr in
     case ejdb_open E (dstore_files s) path of
       (Inr _, d) \<Rightarrow> (Inr (Some path), s\<lparr>dstore_files := d\<rparr>)
     | (Inl _, d) \<Rightarrow> (Inr None, s\<lparr>dstore_files := d\<rparr>))"

definition get_db_ref :: "'d ejdb \<Rightarrow> libs \<Rightarrow> db3_address \<Rightarrow> ('d doc_store, string option) action" where
  "get_db_ref E L addr =
     andThen (gets (\<lambda>s. addr_as_ref addr \<in> set (dstore_dbs s))) (\<lambda>cached.
     if cached then gets (\<lambda>s. Some (db_file_path L s addr))
     else andThen (open_db_internal E L addr) (\<lambda>handle.
       case handle of
         None \<Rightarrow> ok None
       | Some path \<Rightarrow>
           andThen (modify (\<lambda>s. s\<lparr>dstore_dbs := cache_insert E (ucast (in_memory_db_handle_limit (dstore_config s)))
             (dstore_dbs s) (addr_as_ref addr)\<rparr>)) (\<lambda>_. ok (Some path))))"

definition ds_create_database :: "'d ejdb \<Rightarrow> libs \<Rightarrow> db3_address \<Rightarrow> ('d doc_store, unit) action" where
  "ds_create_database E L addr =
     andThen (open_db_internal E L addr) (\<lambda>handle.
     case handle of None \<Rightarrow> fail (WriteStoreError ''fail to open database'') | Some _ \<Rightarrow> ok ())"

definition no_database :: "libs \<Rightarrow> db3_address \<Rightarrow> db3_error" where
  "no_database L addr = WriteStoreError (''no database found with addr '' @ addr_to_hex L addr)"

text \<open>An index type out of the range of the table is an out-of-bounds panic.\<close>

definition ejdb_index_mode :: "u32 \<Rightarrow> u8 result" where
  "ejdb_index_mode t = (if unat t < length EJDB_INDEX then Inr (EJDB_INDEX ! unat t)
     else Inl (Panicked ''index out of bounds''))"

definition ds_add_index :: "'d ejdb \<Rightarrow> libs \<Rightarrow> db3_address \<Rightarrow> string \<Rightarrow> index_field list \<Rightarrow> ('d doc_store, unit) action" where
  "ds_add_index E L addr name indexes =
     (if length indexes > 0
      then andThen (get_db_ref E L addr) (\<lambda>handle.
        case handle of
          None \<Rightarrow> ok ()
        | Some path \<Rightarrow> for_each (\<lambda>field.
            andThen (reads (\<lambda>_. ejdb_index_mode (ix_index_type field))) (\<lambda>mode.
            files_call (\<lambda>d. ejdb_ensure_index E d path name (ix_path field) mode) WriteStoreError)) indexes)
      else ok ())"

definition with_db ::
  "'d ejdb \<Rightarrow> libs \<Rightarrow> db3_address \<Rightarrow> (string \<Rightarrow> ('d doc_store, 'a) action) \<Rightarrow> ('d doc_store, 'a) action" where
  "with_db E L addr f =
     andThen (get_db_ref E L addr) (\<lambda>handle.
     case handle of None \<Rightarrow> fail (no_database L addr) | Some path \<Rightarrow> f path)"

definition add_str_doc :: "'d ejdb \<Rightarrow> libs \<Rightarrow> db3_address \<Rightarrow> string \<Rightarrow> string \<Rightarrow> ('d doc_store, i64) action" where
  "add_str_doc E L addr col doc =
     with_db E L addr (\<lambda>path. files_call (\<lambda>d. ejdb_put_new E d path col doc) WriteStoreError)"

definition ds_delete_doc :: "'d ejdb \<Rightarrow> libs \<Rightarrow> db3_address \<Rightarrow> string \<Rightarrow> i64 \<Rightarrow> ('d doc_store, unit) action" where
  "ds_delete_doc E L addr col i =
     with_db E L addr (\<lambda>path. files_call (\<lambda>d. ejdb_del E d path col i) WriteStoreError)"

definition ds_delete_docs :: "'d ejdb \<Rightarrow> libs \<Rightarrow> db3_address \<Rightarrow> string \<Rightarrow> i64 list \<Rightarrow> ('d doc_store, unit) action" where
  "ds_delete_docs E L addr col ids =
     with_db E L addr (\<lambda>path. for_each (\<lambda>i. files_call (\<lambda>d. ejdb_del E d path col i) WriteStoreError) ids)"

definition set_parameter :: "'d ejdb \<Rightarrow> ejdb_query \<Rightarrow> query_param \<Rightarrow> ejdb_query result" where
  "set_parameter E q p = (case qp_parameter p of
     None \<Rightarrow> Inr q
   | Some v \<Rightarrow> bindR (lib_err ReadStoreError (ejdb_set_placeholder E q (qp_name p) (qp_idx p) v))
       (\<lambda>_. Inr (q\<lparr>eq_placeholders := eq_placeholders q @ [(qp_name p, qp_idx p, v)]\<rparr>)))"

fun set_parameters :: "'d ejdb \<Rightarrow> ejdb_query \<Rightarrow> query_param list \<Rightarrow> ejdb_query result" where
  "set_parameters E q [] = Inr q"
| "set_parameters E q (p # ps) = bindR (set_parameter E q p) (\<lambda>q'. set_parameters E q' ps)"

definition execute_query ::
  "'d ejdb \<Rightarrow> libs \<Rightarrow> db3_address \<Rightarrow> string \<Rightarrow> query \<Rightarrow> ('d doc_store, (i64 \<times> string) list \<times> u64) action" where
  "execute_query E L addr col q =
     (let q0 = \<lparr>eq_collection = col, eq_query_str = q_query_str q, eq_placeholders = []\<rparr>
      in andThen (reads (\<lambda>_. lib_err ReadStoreError (ejdb_init E q0))) (\<lambda>_.
         andThen (reads (\<lambda>_. set_parameters E q0 (q_parameters q))) (\<lambda>statement.
         with_db E L addr (\<lambda>path.
           andThen (reads (\<lambda>s. lib_err ReadStoreError (ejdb_exec E (dstore_files s) path statement))) (\<lambda>(rows, count).
           ok (rows, ucast count))))))"

definition ds_get_doc :: "'d ejdb \<Rightarrow> libs \<Rightarrow> db3_address \<Rightarrow> string \<Rightarrow> i64 \<Rightarrow> ('d doc_store, string option) action" where
  "ds_get_doc E L addr col i =
     andThen (get_db_ref E L addr) (\<lambda>handle.
     case handle of
       None \<Rightarrow> ok None
     | Some path \<Rightarrow>
         andThen (reads (\<lambda>s. lib_err WriteStoreError (ejdb_get E (dstore_files s) path col i))) (\<lambda>doc.
         ok (Some doc)))"

text \<open>The loops that walk the documents and index the ids: a missing id is an out-of-bounds panic.\<close>

fun put_loop :: "'d ejdb \<Rightarrow> string \<Rightarrow> string \<Rightarrow> string list \<Rightarrow> i64 list \<Rightarrow> ('d doc_store, unit) action" where
  "put_loop E path col [] ids = ok ()"
| "put_loop E path col (doc # docs) [] = panic ''index out of bounds''"
| "put_loop E path col (doc # docs) (i # ids) =
     andThen (files_call (\<lambda>d. ejdb_put E d path col doc i) WriteStoreError) (\<lambda>_. put_loop E path col docs ids)"

fun patch_loop :: "'d ejdb \<Rightarrow> string \<Rightarrow> string \<Rightarrow> string list \<Rightarrow> i64 list \<Rightarrow> ('d doc_store, unit) action" where
  "patch_loop E path col [] ids = ok ()"
| "patch_loop E path col (doc # docs) [] = panic ''index out of bounds''"
| "patch_loop E path col (doc # docs) (i # ids) =
     andThen (files_call (\<lambda>d. ejdb_patch E d path col doc i) WriteStoreError) (\<lambda>_. patch_loop E path col docs ids)"

definition patch_docs ::
  "'d ejdb \<Rightarrow> libs \<Rightarrow> db3_address \<Rightarrow> string \<Rightarrow> string list \<Rightarrow> i64 list \<Rightarrow> ('d doc_store, unit) action" where
  "patch_docs E L addr col docs ids = with_db E L addr (\<lambda>path. patch_loop E path col docs ids)"

definition patch_doc :: "'d ejdb \<Rightarrow> libs \<Rightarrow> db3_address \<Rightarrow> string \<Rightarrow> string \<Rightarrow> i64 \<Rightarrow> ('d doc_store, unit) action" where
  "patch_doc E L addr col doc i =
     with_db E L addr (\<lambda>path. files_call (\<lambda>d. ejdb_patch E d path col doc i) WriteStoreError)"

definition add_str_docs ::
  "'d ejdb \<Rightarrow> libs \<Rightarrow> db3_address \<Rightarrow> string \<Rightarrow> string list \<Rightarrow> i64 list \<Rightarrow> ('d doc_store, unit) action" where
  "add_str_docs E L addr col docs ids = with_db E L addr (\<lambda>path. put_loop E path col docs ids)"

section \<open>Documents that were added are read back\<close>

lemma files_call_simps [action_simps]:
  "files_call f err s = (lib_err err (fst (f (dstore_files s))), s\<lparr>dstore_files := snd (f (dstore_files s))\<rparr>)"
  by (simp add: files_call_def split: prod.split)

lemma db_file_path_cong:
  "dstore_config s = dstore_config t \<Longrightarrow> db_file_path L s a = db_file_path L t a"
  by (simp add: db_file_path_def)

context document_files
begin

text \<open>Opening a database, cached or not, keeps every document and the configuration.\<close>

lemma get_db_ref_keeps:
  assumes "get_db_ref E L a s = (r, s')"
  shows "doc_at E (dstore_files s') = doc_at E (dstore_files s) \<and> dstore_config s' = dstore_config s \<and>
    (r = Inr (Some (db_file_path L s a)) \<or> r = Inr None)"
proof (cases "ejdb_open E (dstore_files s) (db_file_path L s a)")
  case (Pair o' d)
  then have "doc_at E d = doc_at E (dstore_files s)" by (rule open_keeps)
  with assms Pair show ?thesis
    by (cases o') (auto simp: get_db_ref_def open_db_internal_def action_simps Let_def split: if_splits)
qed

lemma put_loop_docs:
  assumes "length docs = length ids" "distinct ids" "put_loop E path col docs ids s = (Inr (), s')"
  shows "(\<forall>p c j. doc_at E (dstore_files s') p c j =
      (if p = path \<and> c = col then (case map_of (zip ids docs) j of
         Some doc \<Rightarrow> Some (ejdb_render E doc) | None \<Rightarrow> doc_at E (dstore_files s) p c j)
       else doc_at E (dstore_files s) p c j)) \<and> dstore_config s' = dstore_config s"
  using assms
proof (induction docs ids arbitrary: s rule: list_induct2)
  case Nil
  then show ?case by (simp add: action_simps)
next
  case (Cons doc docs i ids)
  obtain d where d: "ejdb_put E (dstore_files s) path col doc i = (Inr (), d)"
    and rest: "put_loop E path col docs ids (s\<lparr>dstore_files := d\<rparr>) = (Inr (), s')"
    using Cons.prems(2) by (cases "ejdb_put E (dstore_files s) path col doc i")
      (auto simp: action_simps lib_err_def split: sum.splits)
  have "i \<notin> set ids" using Cons.prems(1) by simp
  then have "map_of (zip ids docs) i = None"
    using Cons.hyps by (metis map_of_zip_is_None)
  with Cons.IH [OF _ rest] Cons.prems(1) show ?case
    by (auto simp: put_stores [OF d] split: option.splits)
qed

end

context reliable_files
begin

lemma get_db_ref_ok:
  obtains s' where "get_db_ref E L a s = (Inr (Some (db_file_path L s a)), s')"
    "doc_at E (dstore_files s') = doc_at E (dstore_files s)" "dstore_config s' = dstore_config s"
proof -
  obtain d where d: "ejdb_open E (dstore_files s) (db_file_path L s a) = (Inr (), d)"
    using open_succeeds by blast
  then have "fst (get_db_ref E L a s) = Inr (Some (db_file_path L s a))"
    by (simp add: get_db_ref_def open_db_internal_def action_simps Let_def)
  then have "get_db_ref E L a s = (Inr (Some (db_file_path L s a)), snd (get_db_ref E L a s))"
    by (metis prod.collapse)
  with that get_db_ref_keeps show ?thesis by blast
qed

lemma put_loop_ok: "length docs = length ids \<Longrightarrow> \<exists>s'. put_loop E path col docs ids s = (Inr (), s')"
proof (induction docs ids arbitrary: s rule: list_induct2)
  case Nil
  then show ?case by (simp add: action_simps)
next
  case (Cons doc docs i ids)
  obtain d where "ejdb_put E (dstore_files s) path col doc i = (Inr (), d)" using put_succeeds by blast
  with Cons.IH [of "s\<lparr>dstore_files := d\<rparr>"] show ?case by (simp add: action_simps)
qed

lemma add_str_docs_ok:
  assumes "length docs = length ids" "distinct ids"
  obtains s' where "add_str_docs E L a col docs ids s = (Inr (), s')" "dstore_config s' = dstore_config s"
    "\<And>p c j. doc_at E (dstore_files s') p c j =
      (if p = db_file_path L s a \<and> c = col then (case map_of (zip ids docs) j of
         Some doc \<Rightarrow> Some (ejdb_render E doc) | None \<Rightarrow> doc_at E (dstore_files s) p c j)
       else doc_at E (dstore_files s) p c j)"
proof -
  obtain s1 where s1: "get_db_ref E L a s = (Inr (Some (db_file_path L s a)), s1)"
    "doc_at E (dstore_files s1) = doc_at E (dstore_files s)" "dstore_config s1 = dstore_config s"
    by (rule get_db_ref_ok)
  obtain s2 where s2: "put_loop E (db_file_path L s a) col docs ids s1 = (Inr (), s2)"
    using put_loop_ok [OF assms(1)] by blast
  have "add_str_docs E L a col docs ids s = (Inr (), s2)"
    by (simp add: add_str_docs_def with_db_def action_simps s1(1) s2)
  moreover from put_loop_docs [OF assms s2] have "dstore_config s2 = dstore_config s"
    using s1(3) by simp
  moreover from put_loop_docs [OF assms s2] have "doc_at E (dstore_files s2) p c j =
      (if p = db_file_path L s a \<and> c = col then (case map_of (zip ids docs) j of
         Some doc \<Rightarrow> Some (ejdb_render E doc) | None \<Rightarrow> doc_at E (dstore_files s) p c j)
       else doc_at E (dstore_files s) p c j)" for p c j
    unfolding s1(2) by blast
  ultimately show ?thesis by (rule that)
qed

lemma add_index_ok:
  assumes "\<forall>f \<in> set indexes. unat (ix_index_type f) < 4"
  shows "\<exists>s'. ds_add_index E L a name indexes s = (Inr (), s')"
proof -
  have loop: "\<exists>s'. for_each (\<lambda>field. andThen (reads (\<lambda>_. ejdb_index_mode (ix_index_type field))) (\<lambda>mode.
      files_call (\<lambda>d. ejdb_ensure_index E d path name (ix_path field) mode) WriteStoreError)) fs s = (Inr (), s')"
    if "\<forall>f \<in> set fs. unat (ix_index_type f) < 4" for fs path s
    using that
  proof (induction fs arbitrary: s)
    case Nil
    then show ?case by (simp add: action_simps)
  next
    case (Cons f fs)
    obtain d where "ejdb_ensure_index E (dstore_files s) path name (ix_path f) (EJDB_INDEX ! unat (ix_index_type f)) = (Inr (), d)"
      using index_succeeds by blast
    with Cons.IH [of "s\<lparr>dstore_files := d\<rparr>"] Cons.prems show ?case
      by (simp add: action_simps ejdb_index_mode_def EJDB_INDEX_def)
  qed
  obtain s1 where "get_db_ref E L a s = (Inr (Some (db_file_path L s a)), s1)" by (rule get_db_ref_ok)
  with loop [OF assms] show ?thesis by (simp add: ds_add_index_def action_simps)
qed

lemma create_database_ok: "\<exists>s'. ds_create_database E L a s = (Inr (), s')"
proof -
  obtain d where "ejdb_open E (dstore_files s) (db_file_path L s a) = (Inr (), d)" using open_succeeds by blast
  then show ?thesis by (simp add: ds_create_database_def open_db_internal_def action_simps Let_def)
qed

lemma ds_get_doc_ok:
  assumes "doc_at E (dstore_files s) (db_file_path L s a) col i = Some doc"
  shows "fst (ds_get_doc E L a col i s) = Inr (Some doc)"
proof -
  obtain s1 where s1: "get_db_ref E L a s = (Inr (Some (db_file_path L s a)), s1)"
    "doc_at E (dstore_files s1) = doc_at E (dstore_files s)"
    by (rule get_db_ref_ok)
  then have "ejdb_get E (dstore_files s1) (db_file_path L s a) col i = Inr doc"
    using assms unfolding s1(2) [symmetric] by (simp add: doc_at_def split: sum.splits)
  then show ?thesis by (simp add: ds_get_doc_def action_simps s1(1))
qed

end

section \<open>In-memory files\<close>

type_synonym mem_files = "((string \<times> string \<times> i64) \<times> string) list"

definition mem_ejdb :: "mem_files ejdb" where
  "mem_ejdb = \<lparr>
     ejdb_open = (\<lambda>d _. (Inr (), d)),
     ejdb_ensure_index = (\<lambda>d _ _ _ _. (Inr (), d)),
     ejdb_put_new = (\<lambda>d p c doc. (Inr 1, ((p, c, 1), doc) # d)),
     ejdb_put = (\<lambda>d p c doc i. (Inr (), ((p, c, i), doc) # d)),
     ejdb_del = (\<lambda>d p c i. (Inr (), filter (\<lambda>e. fst e \<noteq> (p, c, i)) d)),
     ejdb_patch = (\<lambda>d p c doc i. (Inr (), ((p, c, i), doc) # d)),
     ejdb_get = (\<lambda>d p c i. case map_of d (p, c, i) of None \<Rightarrow> Inl ''not found'' | Some doc \<Rightarrow> Inr doc),
     ejdb_init = (\<lambda>_. Inr ()),
     ejdb_set_placeholder = (\<lambda>_ _ _ _. Inr ()),
     ejdb_exec = (\<lambda>d p q. Inr ([], 0)),
     cache_insert = (\<lambda>n ks k. take (unat n) (k # ks)),
     ejdb_render = (\<lambda>s. s)\<rparr>"

interpretation mem_files: reliable_files mem_ejdb
proof unfold_locales
  have del: "map_of (filter (\<lambda>e. fst e \<noteq> k) d) l = (if l = k then None else map_of d l)"
    for k l :: "string \<times> string \<times> i64" and d :: mem_files
    by (induction d) auto
  show "ejdb_del mem_ejdb d path col i = (Inr (), d') \<Longrightarrow>
      doc_at mem_ejdb d' p c j = (if p = path \<and> c = col \<and> j = i then None else doc_at mem_ejdb d p c j)"
    for d path col i d' p c j
    by (auto simp: mem_ejdb_def doc_at_def del)
qed (auto simp: mem_ejdb_def doc_at_def)

end
