(* ===== verification/Bson_Util.thy ===== *)
theory Bson_Util
  imports Rust_Text
begin

text \<open>
  Documents and filters (\<open>src/base/src/bson_util.rs\<close>). The \<open>bson\<close> crate is a parameter: \<open>bson_lib\<close>
  names the conversions the code calls; a \<open>Bson\<close> value is a datatype with the alternatives the code
  looks at (the others carry the name their element type prints). Filters are the messages of
  \<open>StructuredQuery\<close>.
\<close>

datatype bson =
    BBoolean bool | BInt32 u32 | BInt64 i64 | BString string
  | BArray "bson list" | BDocument "(string \<times> bson) list" | BOther string

type_synonym bson_doc = "(string \<times> bson) list"

record bson_lib =
  raw_from_bytes :: "bytes \<Rightarrow> string + bytes"
  raw_to_document :: "bytes \<Rightarrow> string + bson_doc"
  raw_from_document :: "bson_doc \<Rightarrow> string + bytes"
  bson_to_string :: "bson_doc \<Rightarrow> string"
  bson_to_document :: "json \<Rightarrow> string + bson_doc"
  not_present_text :: string
  unexpected_type_text :: string

section \<open>Documents\<close>

definition json_str_to_bson_document :: "libs \<Rightarrow> bson_lib \<Rightarrow> string \<Rightarrow> bson_doc result" where
  "json_str_to_bson_document L B json_str =
     bindR (lib_err InvalidJson (json_from_str L json_str)) (\<lambda>value.
     lib_err InvalidDocumentBytes (bson_to_document B value))"

text \<open>A raw document that is accepted and cannot be expanded makes \<open>unwrap\<close> panic.\<close>

definition bytes_to_bson_document :: "bson_lib \<Rightarrow> bytes \<Rightarrow> bson_doc result" where
  "bytes_to_bson_document B buf =
     bindR (lib_err InvalidDocumentBytes (raw_from_bytes B buf)) (\<lambda>doc.
     case raw_to_document B doc of
       Inl e \<Rightarrow> Inl (Panicked e)
     | Inr d \<Rightarrow> Inr d)"

definition bson_document_into_bytes :: "bson_lib \<Rightarrow> bson_doc \<Rightarrow> bytes result" where
  "bson_document_into_bytes B doc = (case raw_from_document B doc of Inl e \<Rightarrow> Inl (Panicked e) | Inr b \<Rightarrow> Inr b)"

definition json_str_to_bson_bytes :: "libs \<Rightarrow> bson_lib \<Rightarrow> string \<Rightarrow> bytes result" where
  "json_str_to_bson_bytes L B json_str =
     bindR (json_str_to_bson_document L B json_str) (bson_document_into_bytes B)"

section \<open>Filters\<close>

datatype value_type = BooleanValue bool | IntegerValue i64 | DoubleValue string | StringValue string

record filter_value =
  fv_value_type :: "value_type option"

datatype field_op = LessThan | LessThanOrEqual | GreaterThan | GreaterThanOrEqual | Equal | NotEqual

record field_filter =
  ff_field :: string
  ff_op :: field_op
  ff_value :: "filter_value option"

datatype composite_op = And

datatype filter_type =
    FieldFilter field_filter
  | CompositeFilter "filter_type list" composite_op

definition get_str :: "bson_lib \<Rightarrow> bson_doc \<Rightarrow> string \<Rightarrow> string + string" where
  "get_str B d k = (case map_of d k of
     Some (BString s) \<Rightarrow> Inr s
   | Some _ \<Rightarrow> Inl (unexpected_type_text B)
   | None \<Rightarrow> Inl (not_present_text B))"

definition bson_value_from_proto_value :: "filter_value \<Rightarrow> bson result" where
  "bson_value_from_proto_value v = (case fv_value_type v of
     Some (BooleanValue b) \<Rightarrow> Inr (BBoolean b)
   | Some (IntegerValue n) \<Rightarrow> Inr (BInt64 n)
   | Some (StringValue s) \<Rightarrow> Inr (BString s)
   | Some _ \<Rightarrow> Inl (Raised (InvalidFilterValue ''value is not support''))
   | None \<Rightarrow> Inl (Raised (InvalidFilterValue ''value is none'')))"

fun element_type_name :: "bson \<Rightarrow> string" where
  "element_type_name (BBoolean b) = ''Boolean''"
| "element_type_name (BInt32 n) = ''Int32''"
| "element_type_name (BInt64 n) = ''Int64''"
| "element_type_name (BString s) = ''String''"
| "element_type_name (BArray xs) = ''Array''"
| "element_type_name (BDocument d) = ''EmbeddedDocument''"
| "element_type_name (BOther n) = n"

definition filter_value_from_bson_value :: "bson \<Rightarrow> filter_value result" where
  "filter_value_from_bson_value v = (case v of
     BBoolean b \<Rightarrow> Inr \<lparr>fv_value_type = Some (BooleanValue b)\<rparr>
   | BInt32 n \<Rightarrow> Inr \<lparr>fv_value_type = Some (IntegerValue (scast n))\<rparr>
   | BInt64 n \<Rightarrow> Inr \<lparr>fv_value_type = Some (IntegerValue n)\<rparr>
   | BString s \<Rightarrow> Inr \<lparr>fv_value_type = Some (StringValue s)\<rparr>
   | _ \<Rightarrow> Inl (Raised (InvalidFilterValue (''type '' @ element_type_name v @ '' un-support for filter value''))))"

definition field_op_of :: "string \<Rightarrow> field_op result" where
  "field_op_of op_str =
     (if op_str = ''=='' then Inr Equal
      else if op_str = ''>'' then Inr GreaterThan
      else if op_str = ''<'' then Inr LessThan
      else if op_str = ''>='' then Inr GreaterThanOrEqual
      else if op_str = ''<='' then Inr LessThanOrEqual
      else if op_str = ''!='' then Inl (Raised (InvalidFilterOp (''OP '' @ op_str @ '' un-support currently'')))
      else Inl (Raised (InvalidFilterOp (''Invalid OP '' @ op_str))))"

definition field_filter_from_json_value :: "bson_lib \<Rightarrow> bson_doc \<Rightarrow> filter_type option result" where
  "field_filter_from_json_value B d =
     bindR (lib_err (\<lambda>e. InvalidFilterJson (''filed is required in filter json for '' @ e)) (get_str B d ''field'')) (\<lambda>field.
     bindR (case map_of d ''value'' of
         Some v \<Rightarrow> filter_value_from_bson_value v
       | None \<Rightarrow> Inl (Raised (InvalidFilterJson ''value is required in filter json''))) (\<lambda>value.
     bindR (lib_err (\<lambda>_. InvalidFilterJson ''op is required in filter json'') (get_str B d ''op'')) (\<lambda>op_str.
     bindR (field_op_of op_str) (\<lambda>op.
     Inr (Some (FieldFilter \<lparr>ff_field = field, ff_op = op, ff_value = Some value\<rparr>))))))"

fun composite_filters :: "bson_lib \<Rightarrow> bson list \<Rightarrow> filter_type list result" where
  "composite_filters B [] = Inr []"
| "composite_filters B (f # fs) =
     (case f of
        BDocument d \<Rightarrow>
          bindR (lib_err (\<lambda>_. InvalidFilterJson ''op is required in filter json'') (get_str B d ''op'')) (\<lambda>op_str.
          if op_str \<noteq> ''=='' then Inl (Raised (InvalidFilterJson (op_str @ '' is not support in composite filter'')))
          else case field_filter_from_json_value B d of
            Inr (Some flt) \<Rightarrow> bindR (composite_filters B fs) (\<lambda>rest. Inr (flt # rest))
          | Inl (Panicked m) \<Rightarrow> Inl (Panicked m)
          | _ \<Rightarrow> Inl (Raised (InvalidFilterJson ''invalid field filter'')))
      | _ \<Rightarrow> Inl (Raised (InvalidFilterJson ''invalid document'')))"

definition composite_filter_from_json_value :: "bson_lib \<Rightarrow> bson list \<Rightarrow> composite_op \<Rightarrow> filter_type option result" where
  "composite_filter_from_json_value B filters_doc op =
     (if filters_doc = [] then Inl (Raised (InvalidFilterJson ''filters is empty''))
      else bindR (composite_filters B filters_doc) (\<lambda>filters. Inr (Some (CompositeFilter filters op))))"

text \<open>The \<open>{:?}\<close> form of the errors the document parser returns.\<close>

definition debug_parse_error :: "db3_error \<Rightarrow> string" where
  "debug_parse_error e = (case e of
     InvalidJson m \<Rightarrow> ''InvalidJson('' @ debug_str m @ '')''
   | InvalidDocumentBytes m \<Rightarrow> ''InvalidDocumentBytes('' @ debug_str m @ '')''
   | _ \<Rightarrow> display_db3_error e)"

definition array_filter :: "bson_lib \<Rightarrow> bson_doc \<Rightarrow> string \<Rightarrow> filter_type option result" where
  "array_filter B d k = (case map_of d k of
     Some (BArray filters) \<Rightarrow> composite_filter_from_json_value B filters And
   | _ \<Rightarrow> Inl (Raised (InvalidFilterJson ''filter json is invalid'')))"

definition filter_from_json_value :: "libs \<Rightarrow> bson_lib \<Rightarrow> string \<Rightarrow> filter_type option result" where
  "filter_from_json_value L B json_str =
     (if json_str = [] then Inr None
      else bindR (map_err (\<lambda>e. InvalidFilterValue (debug_parse_error e)) (json_str_to_bson_document L B json_str)) (\<lambda>d.
        if map_of d ''field'' \<noteq> None then field_filter_from_json_value B d
        else if map_of d ''AND'' \<noteq> None then array_filter B d ''AND''
        else if map_of d ''and'' \<noteq> None then array_filter B d ''and''
        else Inl (Raised (InvalidFilterJson ''filter json is invalid''))))"

section \<open>What an accepted filter is\<close>

text \<open>A well-formed filter: field comparisons other than \<open>!=\<close> with a supported value, or a non-empty
  conjunction of equalities.\<close>

fun field_filter_wf :: "filter_type \<Rightarrow> bool" where
  "field_filter_wf (FieldFilter f) =
     (ff_op f \<noteq> NotEqual \<and> (\<exists>v. ff_value f = Some v \<and> (\<exists>b. bson_value_from_proto_value v = Inr b)))"
| "field_filter_wf (CompositeFilter fs op) = False"

fun filter_wf :: "filter_type \<Rightarrow> bool" where
  "filter_wf (FieldFilter f) = field_filter_wf (FieldFilter f)"
| "filter_wf (CompositeFilter fs op) =
     (fs \<noteq> [] \<and> (\<forall>f \<in> set fs. field_filter_wf f \<and> (\<exists>g. f = FieldFilter g \<and> ff_op g = Equal)))"

lemma filter_value_supported:
  "filter_value_from_bson_value v = Inr x \<Longrightarrow> \<exists>b. bson_value_from_proto_value x = Inr b"
  by (auto simp: filter_value_from_bson_value_def bson_value_from_proto_value_def split: bson.splits)

lemma field_op_of_supported: "field_op_of s = Inr op \<Longrightarrow> op \<noteq> NotEqual \<and> (op = Equal \<longleftrightarrow> s = ''=='')"
  by (auto simp: field_op_of_def split: if_splits)

lemma field_filter_result:
  assumes "field_filter_from_json_value B d = Inr r"
  shows "\<exists>g s. r = Some (FieldFilter g) \<and> field_filter_wf (FieldFilter g) \<and> get_str B d ''op'' = Inr s \<and>
    (ff_op g = Equal \<longleftrightarrow> s = ''=='')"
  using assms field_op_of_supported filter_value_supported
  by (auto simp: field_filter_from_json_value_def bindR_eq_Inr_iff split: option.splits)

lemma composite_filters_result:
  assumes "composite_filters B ds = Inr fs"
  shows "length fs = length ds \<and> (\<forall>f \<in> set fs. field_filter_wf f \<and> (\<exists>g. f = FieldFilter g \<and> ff_op g = Equal))"
  using assms
proof (induction ds arbitrary: fs)
  case Nil
  then show ?case by simp
next
  case (Cons d ds)
  from Cons.prems obtain doc f rest where d: "d = BDocument doc" "get_str B doc ''op'' = Inr ''==''"
    "field_filter_from_json_value B doc = Inr (Some f)" "composite_filters B ds = Inr rest" "fs = f # rest"
    by (auto simp: bindR_eq_Inr_iff split: bson.splits if_splits sum.splits fault.splits option.splits)
  from field_filter_result [OF d(3)] d(2) Cons.IH [OF d(4)] d(5) show ?case by auto
qed

lemma composite_filters_nonempty: "composite_filters B ds = Inr [] \<Longrightarrow> ds = []"
  using composite_filters_result by fastforce

lemma filter_accepted_wf:
  assumes "filter_from_json_value L B s = Inr (Some f)"
  shows "filter_wf f"
proof -
  have comp: "filter_wf g" if "array_filter B d k = Inr (Some g)" for d k g
    using that composite_filters_result composite_filters_nonempty
    by (auto simp: array_filter_def composite_filter_from_json_value_def bindR_eq_Inr_iff
        split: option.splits bson.splits if_splits)
  have single: "filter_wf g" if "field_filter_from_json_value B d = Inr (Some g)" for d g
    using field_filter_result [OF that] by auto
  from assms show ?thesis
    using comp single
    by (auto simp: filter_from_json_value_def bindR_eq_Inr_iff split: if_splits)
qed

section \<open>Statements\<close>

text \<open>C9. A filter text that is accepted denotes a well-formed filter: one comparison (never \<open>!=\<close>) with a
  value that converts back to BSON, or a non-empty conjunction of equalities with such values.\<close>

theorem accepted_filter_is_well_formed:
  assumes "filter_from_json_value L B s = Inr (Some f)"
  shows "filter_wf f"
  using assms by (rule filter_accepted_wf)

definition sample_bson :: bson_lib where
  "sample_bson = \<lparr>raw_from_bytes = Inr, raw_to_document = (\<lambda>_. Inr []), raw_from_document = (\<lambda>_. Inr []),
     bson_to_string = (\<lambda>_. ''{}''),
     bson_to_document = (\<lambda>_. Inr [(''field'', BString ''name''), (''value'', BInt32 (- 1)), (''op'', BString ''>='')]),
     not_present_text = ''missing'', unexpected_type_text = ''type''\<rparr>"

theorem accepted_filter_is_well_formed_witness:
  "filter_wf (FieldFilter \<lparr>ff_field = ''name'', ff_op = GreaterThanOrEqual,
     ff_value = Some \<lparr>fv_value_type = Some (IntegerValue (- 1))\<rparr>\<rparr>)"
proof (rule accepted_filter_is_well_formed)
  show "filter_from_json_value sample_libs sample_bson (frame ''k'' @ frame ''v'') =
    Inr (Some (FieldFilter \<lparr>ff_field = ''name'', ff_op = GreaterThanOrEqual,
      ff_value = Some \<lparr>fv_value_type = Some (IntegerValue (- 1))\<rparr>\<rparr>))"
    by code_simp
qed

end
