(* ===== verification/Db_Store.thy ===== *)
theory Db_Store
  imports Engine Keys Doc_Store Bson_Util "HOL-Library.AList"
begin

text \<open>
  The database store (\<open>src/storage/src/db_store_v2.rs\<close>): databases, collections and document ownership in
  column families of the engine, the documents themselves in the document store, and counters per
  database in memory. Every method is one definition; a method that writes is an action on the record
  \<open>db_store\<close>, so that the writes made before an early return are kept. Parameters: the engine \<open>K\<close>, the
  codecs \<open>C\<close>, the libraries \<open>L\<close>, EJDB \<open>E\<close> and the BSON library \<open>B\<close>.
\<close>

section \<open>State\<close>

definition STATE_CF :: string where
  "STATE_CF = ''DB_STATE_CF''"

definition BLOCK_STATE_CF :: string where
  "BLOCK_STATE_CF = ''BLOCK_STATE_CF''"

definition BLOCK_STATE_KEY :: string where
  "BLOCK_STATE_KEY = ''BLOCK_STATE_KEY''"

record db_store_config =
  dsc_db_path :: string
  db_store_cf_name :: string
  doc_store_cf_name :: string
  collection_store_cf_name :: string
  index_store_cf_name :: string
  doc_owner_store_cf_name :: string
  db_owner_store_cf_name :: string
  dsc_scan_max_limit :: u64
  enable_doc_store :: bool
  doc_store_conf :: doc_store_config
  doc_start_id :: i64

record collection_state =
  cs_total_doc_count :: u64

text \<open>A \<open>HashMap\<close> is an association list without repeated keys; nothing depends on its order.\<close>

record database_state =
  doc_order :: i64
  collection_states :: "(string \<times> collection_state) list"
  total_doc_count :: u64

record ('s, 'd) db_store =
  db_config :: db_store_config
  db_se :: 's
  db_doc_store :: "'d doc_store"
  db_state :: "string \<rightharpoonup> database_state"

definition hash_of :: "(string \<times> 'v) list \<Rightarrow> (string \<times> 'v) list" where
  "hash_of kvs = fold (\<lambda>kv. AList.update (fst kv) (snd kv)) kvs []"

definition db_column_families :: "db_store_config \<Rightarrow> string list" where
  "db_column_families cfg =
     [db_store_cf_name cfg, doc_store_cf_name cfg, collection_store_cf_name cfg, index_store_cf_name cfg,
      doc_owner_store_cf_name cfg, db_owner_store_cf_name cfg, STATE_CF, BLOCK_STATE_CF]"

definition db_new ::
  "(string list \<Rightarrow> string + 's) \<Rightarrow> (doc_store_config \<Rightarrow> 'd doc_store result) \<Rightarrow> 'd \<Rightarrow> db_store_config \<Rightarrow>
   ('s, 'd) db_store result" where
  "db_new open_cf new_doc_store files cfg =
     bindR (lib_err (\<lambda>e. OpenStoreError (dsc_db_path cfg)
              (''fail to open column family for db store v2 with error '' @ e))
            (open_cf (db_column_families cfg))) (\<lambda>se.
     bindR (if enable_doc_store cfg then new_doc_store (doc_store_conf cfg) else Inr (doc_store_mock files)) (\<lambda>ds.
     Inr \<lparr>db_config = cfg, db_se = se, db_doc_store = ds, db_state = Map.empty\<rparr>))"

section \<open>Access to the engine\<close>

definition db_cf :: "'s engine \<Rightarrow> string \<Rightarrow> (string \<Rightarrow> db3_error) \<Rightarrow> ('s, 'd) db_store \<Rightarrow> unit result" where
  "db_cf K cf err m = (if cf_handle K (db_se m) cf then Inr () else Inl (Raised (err ''cf is not found'')))"

definition db_write :: "'s engine \<Rightarrow> batch_op list \<Rightarrow> (('s, 'd) db_store, unit) action" where
  "db_write K ops = (\<lambda>m. case write_batch K (db_se m) ops of
     Inl e \<Rightarrow> (Inl (Raised (WriteStoreError e)), m)
   | Inr se \<Rightarrow> (Inr (), m\<lparr>db_se := se\<rparr>))"

definition put_entry :: "'s engine \<Rightarrow> 'm codec \<Rightarrow> string \<Rightarrow> bytes \<Rightarrow> 'm \<Rightarrow> (('s, 'd) db_store, unit) action" where
  "put_entry K c cf key v =
     andThen (reads (db_cf K cf WriteStoreError)) (\<lambda>_.
     andThen (reads (\<lambda>_. lib_err WriteStoreError (encode c v))) (\<lambda>buf.
     db_write K [PutCf cf key buf]))"

definition get_entry :: "'s engine \<Rightarrow> 'm codec \<Rightarrow> string \<Rightarrow> bytes \<Rightarrow> ('s, 'd) db_store \<Rightarrow> 'm option result" where
  "get_entry K c cf key m =
     bindR (db_cf K cf ReadStoreError m) (\<lambda>_.
     bindR (lib_err ReadStoreError (get_cf K (db_se m) cf key)) (\<lambda>value.
     case value of
       Some v \<Rightarrow> bindR (lib_err ReadStoreError (decode c v)) (\<lambda>x. Inr (Some x))
     | None \<Rightarrow> Inr None))"

text \<open>The loop of \<open>get_entries_with_prefix\<close>, from where \<open>prefix_iterator_cf\<close> stands.\<close>

fun prefix_entries :: "'m codec \<Rightarrow> bytes \<Rightarrow> (bytes \<times> bytes) list \<Rightarrow> 'm list result" where
  "prefix_entries c pfx [] = Inr []"
| "prefix_entries c pfx (e # it) =
     bindR (slice 0 (length pfx) (fst e)) (\<lambda>p.
     if p \<noteq> pfx then Inr []
     else bindR (lib_err ReadStoreError (decode c (snd e))) (\<lambda>x.
          bindR (prefix_entries c pfx it) (\<lambda>xs. Inr (x # xs))))"

definition get_entries_with_prefix ::
  "'s engine \<Rightarrow> 'm codec \<Rightarrow> bytes \<Rightarrow> string \<Rightarrow> ('s, 'd) db_store \<Rightarrow> 'm list result" where
  "get_entries_with_prefix K c pfx cf m =
     bindR (db_cf K cf ReadStoreError m) (\<lambda>_.
     prefix_entries c pfx (seek pfx (raw_iterator_cf K (db_se m) cf)))"

section \<open>Reading databases and collections\<close>

definition get_database :: "'s engine \<Rightarrow> codecs \<Rightarrow> db3_address \<Rightarrow> ('s, 'd) db_store \<Rightarrow> database_message option result" where
  "get_database K C db_addr m =
     get_entry K (database_codec C) (db_store_cf_name (db_config m)) (addr_as_ref db_addr) m"

definition get_event_db :: "'s engine \<Rightarrow> codecs \<Rightarrow> db3_address \<Rightarrow> ('s, 'd) db_store \<Rightarrow> event_database option result" where
  "get_event_db K C addr m =
     bindR (get_database K C addr m) (\<lambda>database.
     case database of
       Some db \<Rightarrow> (case dm_database db of Some (EventDb e) \<Rightarrow> Inr (Some e) | _ \<Rightarrow> Inr None)
     | None \<Rightarrow> Inr None)"

fun event_dbs :: "codecs \<Rightarrow> (bytes \<times> bytes) list \<Rightarrow> event_database list result" where
  "event_dbs C [] = Inr []"
| "event_dbs C (e # it) =
     bindR (lib_err ReadStoreError (decode (database_codec C) (snd e))) (\<lambda>c.
     bindR (event_dbs C it) (\<lambda>rest.
     Inr (case dm_database c of Some (EventDb db) \<Rightarrow> db # rest | _ \<Rightarrow> rest)))"

definition get_all_event_db :: "'s engine \<Rightarrow> codecs \<Rightarrow> ('s, 'd) db_store \<Rightarrow> event_database list result" where
  "get_all_event_db K C m =
     (let cf = db_store_cf_name (db_config m)
      in bindR (db_cf K cf ReadStoreError m) (\<lambda>_. event_dbs C (raw_iterator_cf K (db_se m) cf)))"

definition get_collection :: "'s engine \<Rightarrow> codecs \<Rightarrow> db3_address \<Rightarrow> string \<Rightarrow> ('s, 'd) db_store \<Rightarrow> collection option result" where
  "get_collection K C db_addr name m =
     bindR (build_collection_key db_addr name) (\<lambda>ck.
     get_entry K (collection_codec C) (collection_store_cf_name (db_config m)) ck m)"

definition is_db_collection_exist :: "'s engine \<Rightarrow> db3_address \<Rightarrow> string \<Rightarrow> ('s, 'd) db_store \<Rightarrow> bool result" where
  "is_db_collection_exist K db_addr name m =
     bindR (build_collection_key db_addr name) (\<lambda>ck.
     let cf = collection_store_cf_name (db_config m)
     in bindR (db_cf K cf ReadStoreError m) (\<lambda>_.
        bindR (lib_err ReadStoreError (get_cf K (db_se m) cf ck)) (\<lambda>value. Inr (value \<noteq> None))))"

definition get_collection_state :: "libs \<Rightarrow> db3_address \<Rightarrow> string \<Rightarrow> ('s, 'd) db_store \<Rightarrow> collection_state_proto option" where
  "get_collection_state L db_addr col m =
     (case db_state m (addr_to_hex L db_addr) of
        Some st \<Rightarrow> map_option (\<lambda>c. \<lparr>csp_total_doc_count = cs_total_doc_count c\<rparr>) (map_of (collection_states st) col)
      | None \<Rightarrow> None)"

definition build_persistence_state :: "libs \<Rightarrow> db3_address \<Rightarrow> ('s, 'd) db_store \<Rightarrow> database_state_persistence option" where
  "build_persistence_state L db_addr m =
     map_option (\<lambda>st. \<lparr>pers_addr = addr_to_hex L db_addr, pers_total_doc_count = total_doc_count st,
       pers_total_col_count = of_nat (length (collection_states st)),
       pers_collection_states = map (\<lambda>kv. (fst kv, \<lparr>csp_total_doc_count = cs_total_doc_count (snd kv)\<rparr>)) (collection_states st),
       pers_doc_order = doc_order st\<rparr>) (db_state m (addr_to_hex L db_addr))"

definition get_database_state :: "libs \<Rightarrow> db3_address \<Rightarrow> ('s, 'd) db_store \<Rightarrow> database_state_proto option" where
  "get_database_state L db_addr m =
     map_option (\<lambda>st. \<lparr>dsp_total_doc_count = total_doc_count st,
       dsp_total_col_count = of_nat (length (collection_states st)), dsp_doc_order = doc_order st\<rparr>)
       (db_state m (addr_to_hex L db_addr))"

fun states_of :: "libs \<Rightarrow> db3_address \<Rightarrow> ('s, 'd) db_store \<Rightarrow> collection list \<Rightarrow> collection_state_proto list result" where
  "states_of L db_addr m [] = Inr []"
| "states_of L db_addr m (col # cols) =
     (case get_collection_state L db_addr (col_name col) m of
        Some st \<Rightarrow> bindR (states_of L db_addr m cols) (\<lambda>sts. Inr (st # sts))
      | None \<Rightarrow> Inl (Raised (CollectionNotFound (addr_to_hex L db_addr) (col_name col))))"

definition get_collection_of_database ::
  "'s engine \<Rightarrow> codecs \<Rightarrow> libs \<Rightarrow> db3_address \<Rightarrow> ('s, 'd) db_store \<Rightarrow>
   (collection list \<times> collection_state_proto list) result" where
  "get_collection_of_database K C L db_addr m =
     bindR (get_entries_with_prefix K (collection_codec C) (addr_as_ref db_addr)
              (collection_store_cf_name (db_config m)) m) (\<lambda>collections.
     bindR (states_of L db_addr m collections) (\<lambda>states. Inr (collections, states)))"

fun owner_loop ::
  "'s engine \<Rightarrow> codecs \<Rightarrow> libs \<Rightarrow> db3_address \<Rightarrow> ('s, 'd) db_store \<Rightarrow> (bytes \<times> bytes) list \<Rightarrow>
   (bytes \<times> database_message \<times> database_state_proto) list result" where
  "owner_loop K C L owner m [] = Inr []"
| "owner_loop K C L owner m (e # it) =
     bindR (slice 0 20 (fst e)) (\<lambda>p.
     if p \<noteq> addr_as_ref owner then Inr []
     else bindR (map_err (\<lambda>err. ReadStoreError (display_db3_error err)) (addr_try_from (snd e))) (\<lambda>addr.
          bindR (owner_loop K C L owner m it) (\<lambda>rest.
          Inr (case (get_database K C addr m, get_database_state L addr m) of
                 (Inr (Some d), Some st) \<Rightarrow> (fst e, d, st) # rest
               | _ \<Rightarrow> rest))))"

definition get_database_of_owner_internal ::
  "'s engine \<Rightarrow> codecs \<Rightarrow> libs \<Rightarrow> db3_address \<Rightarrow> ('s, 'd) db_store \<Rightarrow>
   (bytes \<times> database_message \<times> database_state_proto) list result" where
  "get_database_of_owner_internal K C L owner m =
     (let cf = db_owner_store_cf_name (db_config m)
      in bindR (db_cf K cf ReadStoreError m) (\<lambda>_.
         owner_loop K C L owner m (seek (addr_as_ref owner) (raw_iterator_cf K (db_se m) cf))))"

definition get_database_of_owner ::
  "'s engine \<Rightarrow> codecs \<Rightarrow> libs \<Rightarrow> db3_address \<Rightarrow> ('s, 'd) db_store \<Rightarrow>
   (database_message list \<times> database_state_proto list) result" where
  "get_database_of_owner K C L owner m =
     bindR (get_database_of_owner_internal K C L owner m) (\<lambda>es. Inr (map (fst \<circ> snd) es, map (snd \<circ> snd) es))"

section \<open>The in-memory counters\<close>

definition update_db_state_for_add_db :: "string \<Rightarrow> (('s, 'd) db_store, unit) action" where
  "update_db_state_for_add_db db_addr = modify (\<lambda>m. m\<lparr>db_state := (db_state m)(db_addr \<mapsto>
     \<lparr>doc_order = 0, collection_states = [], total_doc_count = 0\<rparr>)\<rparr>)"

definition update_db_state_for_new_collection :: "string \<Rightarrow> string \<Rightarrow> (('s, 'd) db_store, unit) action" where
  "update_db_state_for_new_collection db_addr col = modify (\<lambda>m. case db_state m db_addr of
     None \<Rightarrow> m
   | Some st \<Rightarrow> m\<lparr>db_state := (db_state m)(db_addr \<mapsto>
       st\<lparr>collection_states := AList.update col \<lparr>cs_total_doc_count = 0\<rparr> (collection_states st)\<rparr>)\<rparr>)"

text \<open>\<open>get_mut\<close> on a collection's counter.\<close>

definition adjust_collection :: "string \<Rightarrow> (u64 \<Rightarrow> u64) \<Rightarrow> (string \<times> collection_state) list \<Rightarrow> (string \<times> collection_state) list" where
  "adjust_collection col f cols = AList.map_entry col (\<lambda>c. c\<lparr>cs_total_doc_count := f (cs_total_doc_count c)\<rparr>) cols"

definition update_db_state_for_delete_docs :: "string \<Rightarrow> string \<Rightarrow> u64 \<Rightarrow> (('s, 'd) db_store, unit) action" where
  "update_db_state_for_delete_docs db_addr col count = modify (\<lambda>m. case db_state m db_addr of
     None \<Rightarrow> m
   | Some st \<Rightarrow> m\<lparr>db_state := (db_state m)(db_addr \<mapsto>
       st\<lparr>total_doc_count := total_doc_count st - count,
          collection_states := adjust_collection col (\<lambda>n. n - count) (collection_states st)\<rparr>)\<rparr>)"

text \<open>\<open>iter().max()\<close> on \<open>i64\<close>.\<close>

fun max_i64 :: "i64 list \<Rightarrow> i64 option" where
  "max_i64 [] = None"
| "max_i64 (x # xs) = (case max_i64 xs of None \<Rightarrow> Some x | Some y \<Rightarrow> Some (if sint x \<le> sint y then y else x))"

definition update_db_state_for_add_docs ::
  "string \<Rightarrow> string \<Rightarrow> nat \<Rightarrow> i64 list option \<Rightarrow> (('s, 'd) db_store, i64 list option) action" where
  "update_db_state_for_add_docs db_addr_hex col doc_count doc_ids = (\<lambda>m. case db_state m db_addr_hex of
     None \<Rightarrow> (Inr None, m)
   | Some st \<Rightarrow>
       let finish = (\<lambda>ids order. (Inr (Some ids), m\<lparr>db_state := (db_state m)(db_addr_hex \<mapsto>
             st\<lparr>doc_order := order, total_doc_count := total_doc_count st + of_nat doc_count,
                collection_states := adjust_collection col (\<lambda>n. n + of_nat doc_count) (collection_states st)\<rparr>)\<rparr>))
       in (case doc_ids of
             Some temp_ids \<Rightarrow>
               if length temp_ids \<noteq> doc_count
               then (Inl (Raised (WriteStoreError (''doc_ids and docs length mismatch '' @
                      show_nat (length temp_ids) @ '' != '' @ show_nat doc_count))), m)
               else finish temp_ids (case max_i64 temp_ids of Some i \<Rightarrow> i | None \<Rightarrow> doc_order st + of_nat doc_count)
           | None \<Rightarrow>
               finish (map (\<lambda>i. doc_order st + of_nat i) [1..<doc_count + 1]) (doc_order st + of_nat doc_count)))"

section \<open>Flush and recovery\<close>

definition flush_database_state :: "'s engine \<Rightarrow> codecs \<Rightarrow> libs \<Rightarrow> (('s, 'd) db_store, unit) action" where
  "flush_database_state K C L =
     andThen (gets (\<lambda>m. db_store_cf_name (db_config m))) (\<lambda>cf.
     andThen (reads (db_cf K cf ReadStoreError)) (\<lambda>_.
     andThen (gets (\<lambda>m. raw_iterator_cf K (db_se m) cf)) (\<lambda>it.
     for_each (\<lambda>e.
       andThen (reads (\<lambda>_. addr_try_from (fst e))) (\<lambda>addr.
       andThen (gets (build_persistence_state L addr)) (\<lambda>state.
       case state of
         None \<Rightarrow> ok ()
       | Some st \<Rightarrow> put_entry K (persistence_codec C) STATE_CF (fst e) st))) it)))"

definition recover_block_state :: "'s engine \<Rightarrow> codecs \<Rightarrow> ('s, 'd) db_store \<Rightarrow> block_state_proto option result" where
  "recover_block_state K C m = get_entry K (block_state_codec C) BLOCK_STATE_CF (as_bytes BLOCK_STATE_KEY) m"

definition store_block_state :: "'s engine \<Rightarrow> codecs \<Rightarrow> block_state_proto \<Rightarrow> (('s, 'd) db_store, unit) action" where
  "store_block_state K C state = put_entry K (block_state_codec C) BLOCK_STATE_CF (as_bytes BLOCK_STATE_KEY) state"

definition recover_from_state :: "'s engine \<Rightarrow> codecs \<Rightarrow> db3_address \<Rightarrow> ('s, 'd) db_store \<Rightarrow> database_state_persistence option result" where
  "recover_from_state K C address m = get_entry K (persistence_codec C) STATE_CF (addr_as_ref address) m"

fun doc_id_loop :: "db3_address \<Rightarrow> i64 \<Rightarrow> (bytes \<times> bytes) list \<Rightarrow> i64 result" where
  "doc_id_loop address docid [] = Inr docid"
| "doc_id_loop address docid (e # it) =
     bindR (is_the_same_db (fst e) address) (\<lambda>same.
     if \<not> same then Inr docid
     else bindR (decode_id (fst e)) (\<lambda>i. doc_id_loop address i it))"

definition recover_db_doc_id :: "'s engine \<Rightarrow> db3_address \<Rightarrow> ('s, 'd) db_store \<Rightarrow> i64 option result" where
  "recover_db_doc_id K address m =
     (let cf = doc_owner_store_cf_name (db_config m)
      in bindR (db_cf K cf ReadStoreError m) (\<lambda>_.
         bindR (doc_id_loop address 0 (seek (build_prefix address) (raw_iterator_cf K (db_se m) cf))) (\<lambda>docid.
         Inr (Some docid))))"

definition recover_database :: "'s engine \<Rightarrow> codecs \<Rightarrow> db3_address \<Rightarrow> ('s, 'd) db_store \<Rightarrow> database_state result" where
  "recover_database K C address m =
     bindR (map_err (\<lambda>e. ReadStoreError (''fail to convert db state with err '' @ display_db3_error e))
              (recover_from_state K C address m)) (\<lambda>persisted.
     case persisted of
       Some state \<Rightarrow>
         Inr \<lparr>doc_order = pers_doc_order state + 1,
           collection_states = hash_of (map (\<lambda>kv. (fst kv, \<lparr>cs_total_doc_count = csp_total_doc_count (snd kv)\<rparr>))
             (pers_collection_states state)),
           total_doc_count = pers_total_col_count state\<rparr>
     | None \<Rightarrow>
         bindR (get_entries_with_prefix K (collection_codec C) (addr_as_ref address)
                  (collection_store_cf_name (db_config m)) m) (\<lambda>collections.
         let cols = hash_of (map (\<lambda>c. (col_name c, \<lparr>cs_total_doc_count = 0\<rparr>)) collections)
         in bindR (recover_db_doc_id K address m) (\<lambda>recovered.
            case recovered of
              Some i \<Rightarrow> Inr \<lparr>doc_order = i + 1, collection_states = cols, total_doc_count = 0\<rparr>
            | None \<Rightarrow> Inr \<lparr>doc_order = doc_start_id (db_config m), collection_states = cols, total_doc_count = 0\<rparr>)))"

definition recover_db_state :: "'s engine \<Rightarrow> codecs \<Rightarrow> libs \<Rightarrow> (('s, 'd) db_store, unit) action" where
  "recover_db_state K C L =
     andThen (gets (\<lambda>m. db_store_cf_name (db_config m))) (\<lambda>cf.
     andThen (reads (db_cf K cf ReadStoreError)) (\<lambda>_.
     andThen (gets (\<lambda>m. raw_iterator_cf K (db_se m) cf)) (\<lambda>it.
     for_each (\<lambda>e.
       andThen (reads (\<lambda>_. addr_try_from (fst e))) (\<lambda>address.
       andThen (reads (recover_database K C address)) (\<lambda>st.
       modify (\<lambda>m. m\<lparr>db_state := (db_state m)(addr_to_hex L address \<mapsto> st)\<rparr>)))) it)))"

section \<open>Collections\<close>

definition save_collection_internal ::
  "'s engine \<Rightarrow> codecs \<Rightarrow> libs \<Rightarrow> 'd ejdb \<Rightarrow> db3_address \<Rightarrow> db3_address \<Rightarrow> string \<Rightarrow> index_field list \<Rightarrow>
   (('s, 'd) db_store, unit) action" where
  "save_collection_internal K C L E sender db_addr name indexes =
     andThen (reads (get_database K C db_addr)) (\<lambda>db.
     if db = None then fail (ReadStoreError ''fail to find database'')
     else andThen (reads (\<lambda>_. build_collection_key db_addr name)) (\<lambda>ck.
     andThen (gets (\<lambda>m. collection_store_cf_name (db_config m))) (\<lambda>cf.
     andThen (reads (db_cf K cf ReadStoreError)) (\<lambda>_.
     andThen (reads (\<lambda>_. lib_err WriteStoreError (encode (collection_codec C)
       \<lparr>col_name = name, col_index_fields = indexes, col_sender = addr_as_ref sender\<rparr>))) (\<lambda>buf.
     andThen (db_write K [PutCf cf ck buf]) (\<lambda>_.
     andThen (update_db_state_for_new_collection (addr_to_hex L db_addr) name) (\<lambda>_.
     andThen (gets (\<lambda>m. enable_doc_store (db_config m))) (\<lambda>enabled.
     if enabled
     then map_err_of (\<lambda>e. WriteStoreError (display_db3_error e))
       (on_field db_doc_store (\<lambda>t m. m\<lparr>db_doc_store := t\<rparr>) (ds_add_index E L db_addr name indexes))
     else ok ()))))))))"

definition create_collection ::
  "'s engine \<Rightarrow> codecs \<Rightarrow> libs \<Rightarrow> 'd ejdb \<Rightarrow> db3_address \<Rightarrow> db3_address \<Rightarrow> collection_mutation \<Rightarrow> u64 \<Rightarrow> u32 \<Rightarrow> u16 \<Rightarrow>
   (('s, 'd) db_store, unit) action" where
  "create_collection K C L E sender db_addr cm block order idx =
     andThen (reads (is_db_collection_exist K db_addr (cm_collection_name cm))) (\<lambda>exist.
     if exist then fail (CollectionAlreadyExist (cm_collection_name cm) (addr_to_hex L db_addr))
     else save_collection_internal K C L E sender db_addr (cm_collection_name cm) (cm_index_fields cm))"

definition db_add_index ::
  "'s engine \<Rightarrow> codecs \<Rightarrow> libs \<Rightarrow> 'd ejdb \<Rightarrow> db3_address \<Rightarrow> string \<Rightarrow> index_field list \<Rightarrow> db3_address \<Rightarrow>
   (('s, 'd) db_store, unit) action" where
  "db_add_index K C L E db_addr col indexes sender =
     andThen (reads (get_database K C db_addr)) (\<lambda>db.
     if db = None then fail (DatabaseNotFound (addr_to_hex L db_addr))
     else andThen (reads (get_collection K C db_addr col)) (\<lambda>found.
     case found of
       None \<Rightarrow> fail (CollectionNotFound col (addr_to_hex L db_addr))
     | Some collection \<Rightarrow>
         if col_sender collection \<noteq> addr_as_ref sender then fail CollectionPermissionDenied
         else let path_set = set (map ix_path (col_index_fields collection));
                  exist_paths = filter (\<lambda>p. p \<in> path_set) (map ix_path indexes)
              in if length exist_paths > 0
                 then fail (InvalidKeyPathError (''the index paths '' @ debug_list exist_paths @ '' exist''))
                 else save_collection_internal K C L E sender db_addr col (col_index_fields collection @ indexes)))"

section \<open>Document ownership\<close>

definition create_doc_ownership ::
  "'s engine \<Rightarrow> db3_address \<Rightarrow> db3_address \<Rightarrow> i64 list \<Rightarrow> (('s, 'd) db_store, unit) action" where
  "create_doc_ownership K sender db_addr doc_ids =
     andThen (gets (\<lambda>m. doc_owner_store_cf_name (db_config m))) (\<lambda>cf.
     andThen (reads (db_cf K cf ReadStoreError)) (\<lambda>_.
     db_write K (map (\<lambda>i. PutCf cf (db_doc_key_encode \<lparr>ddk_db = db_addr, ddk_id = i\<rparr>) (addr_as_ref sender)) doc_ids)))"

definition delete_doc_ids_from_owner_store ::
  "'s engine \<Rightarrow> db3_address \<Rightarrow> i64 list \<Rightarrow> (('s, 'd) db_store, unit) action" where
  "delete_doc_ids_from_owner_store K db_addr doc_ids =
     andThen (gets (\<lambda>m. doc_owner_store_cf_name (db_config m))) (\<lambda>cf.
     andThen (reads (db_cf K cf ReadStoreError)) (\<lambda>_.
     db_write K (map (\<lambda>i. DeleteCf cf (db_doc_key_encode \<lparr>ddk_db = db_addr, ddk_id = i\<rparr>)) doc_ids)))"

fun owners_checked :: "'s engine \<Rightarrow> 's \<Rightarrow> string \<Rightarrow> db3_address \<Rightarrow> db3_address \<Rightarrow> i64 list \<Rightarrow> unit result" where
  "owners_checked K se cf sender db_addr [] = Inr ()"
| "owners_checked K se cf sender db_addr (i # ids) =
     bindR (lib_err ReadStoreError (get_cf K se cf (db_doc_key_encode \<lparr>ddk_db = db_addr, ddk_id = i\<rparr>))) (\<lambda>value.
     case value of
       Some owner \<Rightarrow>
         if owner \<noteq> addr_as_ref sender then Inl (Raised (OwnerVerifyFailed ''doc owner is not the sender''))
         else owners_checked K se cf sender db_addr ids
     | None \<Rightarrow> Inl (Raised (OwnerVerifyFailed ''doc id is not found'')))"

definition verify_docs_ownership ::
  "'s engine \<Rightarrow> db3_address \<Rightarrow> db3_address \<Rightarrow> i64 list \<Rightarrow> ('s, 'd) db_store \<Rightarrow> unit result" where
  "verify_docs_ownership K sender db_addr doc_ids m =
     (let cf = doc_owner_store_cf_name (db_config m)
      in bindR (db_cf K cf ReadStoreError m) (\<lambda>_. owners_checked K (db_se m) cf sender db_addr doc_ids))"

definition get_doc_key_from_doc_id :: "'s engine \<Rightarrow> i64 \<Rightarrow> ('s, 'd) db_store \<Rightarrow> bytes result" where
  "get_doc_key_from_doc_id K i m =
     (let cf = doc_owner_store_cf_name (db_config m)
      in bindR (db_cf K cf ReadStoreError m) (\<lambda>_.
         bindR (lib_err ReadStoreError (get_cf K (db_se m) cf (be64 i))) (\<lambda>value.
         ok_or value (ReadStoreError (''doc owner key not found for doc id '' @ show_i64 i)))))"

section \<open>Documents\<close>

text \<open>The check every document operation starts with.\<close>

definition require_collection ::
  "'s engine \<Rightarrow> libs \<Rightarrow> db3_address \<Rightarrow> string \<Rightarrow> (('s, 'd) db_store, unit) action" where
  "require_collection K L db_addr col =
     andThen (reads (is_db_collection_exist K db_addr col)) (\<lambda>exist.
     if \<not> exist then fail (CollectionNotFound col (addr_to_hex L db_addr)) else ok ())"

abbreviation on_docs :: "('d doc_store, 'a) action \<Rightarrow> (('s, 'd) db_store, 'a) action" where
  "on_docs act \<equiv> on_field db_doc_store (\<lambda>t m. m\<lparr>db_doc_store := t\<rparr>) act"

definition update_docs ::
  "'s engine \<Rightarrow> libs \<Rightarrow> 'd ejdb \<Rightarrow> db3_address \<Rightarrow> db3_address \<Rightarrow> string \<Rightarrow> string list \<Rightarrow> i64 list \<Rightarrow>
   (('s, 'd) db_store, unit) action" where
  "update_docs K L E db_addr sender col docs doc_ids =
     andThen (require_collection K L db_addr col) (\<lambda>_.
     andThen (reads (verify_docs_ownership K sender db_addr doc_ids)) (\<lambda>_.
     andThen (gets (\<lambda>m. enable_doc_store (db_config m))) (\<lambda>enabled.
     if enabled then on_docs (patch_docs E L db_addr col docs doc_ids) else ok ())))"

definition query_docs ::
  "'s engine \<Rightarrow> libs \<Rightarrow> 'd ejdb \<Rightarrow> db3_address \<Rightarrow> string \<Rightarrow> query \<Rightarrow> (('s, 'd) db_store, document list \<times> u64) action" where
  "query_docs K L E db_addr col q =
     andThen (require_collection K L db_addr col) (\<lambda>_.
     andThen (gets (\<lambda>m. enable_doc_store (db_config m))) (\<lambda>enabled.
     if enabled
     then andThen (on_docs (execute_query E L db_addr col q)) (\<lambda>(rows, count).
       ok (map (\<lambda>r. \<lparr>doc_id = fst r, doc_doc = snd r\<rparr>) rows, count))
     else ok ([], 0)))"

definition delete_docs ::
  "'s engine \<Rightarrow> libs \<Rightarrow> 'd ejdb \<Rightarrow> db3_address \<Rightarrow> db3_address \<Rightarrow> string \<Rightarrow> i64 list \<Rightarrow>
   (('s, 'd) db_store, unit) action" where
  "delete_docs K L E db_addr sender col doc_ids =
     andThen (require_collection K L db_addr col) (\<lambda>_.
     andThen (reads (verify_docs_ownership K sender db_addr doc_ids)) (\<lambda>_.
     andThen (gets (\<lambda>m. enable_doc_store (db_config m))) (\<lambda>enabled.
     andThen (if enabled then on_docs (ds_delete_docs E L db_addr col doc_ids) else ok ()) (\<lambda>_.
     andThen (update_db_state_for_delete_docs (addr_to_hex L db_addr) col (of_nat (length doc_ids))) (\<lambda>_.
     delete_doc_ids_from_owner_store K db_addr doc_ids)))))"

definition add_docs ::
  "'s engine \<Rightarrow> libs \<Rightarrow> 'd ejdb \<Rightarrow> db3_address \<Rightarrow> db3_address \<Rightarrow> string \<Rightarrow> string list \<Rightarrow> i64 list option \<Rightarrow>
   (('s, 'd) db_store, i64 list) action" where
  "add_docs K L E db_addr sender col docs given_doc_ids =
     andThen (require_collection K L db_addr col) (\<lambda>_.
     andThen (update_db_state_for_add_docs (addr_to_hex L db_addr) col (length docs) given_doc_ids) (\<lambda>doc_ids.
     case doc_ids of
       None \<Rightarrow> ok []
     | Some all_doc_ids \<Rightarrow>
         andThen (create_doc_ownership K sender db_addr all_doc_ids) (\<lambda>_.
         andThen (gets (\<lambda>m. enable_doc_store (db_config m))) (\<lambda>enabled.
         andThen (if enabled then on_docs (add_str_docs E L db_addr col docs all_doc_ids) else ok ()) (\<lambda>_.
         ok all_doc_ids)))))"

definition get_doc ::
  "'s engine \<Rightarrow> libs \<Rightarrow> 'd ejdb \<Rightarrow> db3_address \<Rightarrow> string \<Rightarrow> i64 \<Rightarrow> (('s, 'd) db_store, document option) action" where
  "get_doc K L E db_addr col i =
     andThen (require_collection K L db_addr col) (\<lambda>_.
     andThen (gets (\<lambda>m. enable_doc_store (db_config m))) (\<lambda>enabled.
     if enabled
     then andThen (on_docs (ds_get_doc E L db_addr col i)) (\<lambda>doc.
       ok (map_option (\<lambda>d. \<lparr>doc_id = i, doc_doc = d\<rparr>) doc))
     else ok None))"

section \<open>Databases\<close>

text \<open>The shared tail of the two creations: encode the message, write it with the owner entry, reset the
  counters.\<close>

definition put_database ::
  "'s engine \<Rightarrow> codecs \<Rightarrow> libs \<Rightarrow> db3_address \<Rightarrow> db_id \<Rightarrow> u64 \<Rightarrow> u32 \<Rightarrow> database \<Rightarrow> (('s, 'd) db_store, unit) action" where
  "put_database K C L sender db_addr block order database =
     andThen (gets db_config) (\<lambda>cfg.
     andThen (reads (db_cf K (db_store_cf_name cfg) ReadStoreError)) (\<lambda>_.
     andThen (reads (db_cf K (db_owner_store_cf_name cfg) ReadStoreError)) (\<lambda>_.
     andThen (reads (\<lambda>_. lib_err WriteStoreError (encode (database_codec C) \<lparr>dm_database = Some database\<rparr>))) (\<lambda>buf.
     andThen (db_write K
       [PutCf (db_store_cf_name cfg) (addr_as_ref db_addr) buf,
        PutCf (db_owner_store_cf_name cfg)
          (db_owner_key_encode \<lparr>dok_owner = sender, dok_block = block, dok_order = order\<rparr>) (addr_as_ref db_addr)]) (\<lambda>_.
     update_db_state_for_add_db (dbid_to_hex L db_addr))))))"

definition create_doc_file :: "libs \<Rightarrow> 'd ejdb \<Rightarrow> db_id \<Rightarrow> (('s, 'd) db_store, unit) action" where
  "create_doc_file L E db_addr =
     andThen (gets (\<lambda>m. enable_doc_store (db_config m))) (\<lambda>enabled.
     if enabled then map_err_of (\<lambda>e. WriteStoreError (display_db3_error e)) (on_docs (ds_create_database E L db_addr))
     else ok ())"

definition create_event_database ::
  "'s engine \<Rightarrow> codecs \<Rightarrow> libs \<Rightarrow> 'd ejdb \<Rightarrow> db3_address \<Rightarrow> event_database_mutation \<Rightarrow> u64 \<Rightarrow> u64 \<Rightarrow> u64 \<Rightarrow> u32 \<Rightarrow>
   (('s, 'd) db_store, db_id) action" where
  "create_event_database K C L E sender em nonce network_id block order =
     (let db_addr = dbid_from L sender nonce network_id
      in andThen (put_database K C L sender db_addr block order (EventDb
           \<lparr>ed_address = addr_as_ref db_addr, ed_sender = addr_as_ref sender,
            ed_contract_address = em_contract_address em, ed_desc = em_desc em, ed_ttl = em_ttl em,
            ed_events_json_abi = em_events_json_abi em, ed_evm_node_url = em_evm_node_url em,
            ed_start_block = em_start_block em\<rparr>)) (\<lambda>_.
         andThen (for_each (\<lambda>(idx, cm). create_collection K C L E sender db_addr cm block order (of_nat idx))
           (enumerate 0 (em_tables em))) (\<lambda>_.
         andThen (create_doc_file L E db_addr) (\<lambda>_.
         ok db_addr))))"

fun find_owner_key :: "db3_address \<Rightarrow> db3_address \<Rightarrow> (bytes \<times> bytes) list \<Rightarrow> bytes option result" where
  "find_owner_key owner db_addr [] = Inr None"
| "find_owner_key owner db_addr (e # it) =
     bindR (slice 0 20 (fst e)) (\<lambda>p.
     if p \<noteq> addr_as_ref owner then Inr None
     else bindR (map_err (\<lambda>err. ReadStoreError (display_db3_error err)) (addr_try_from (snd e))) (\<lambda>addr.
          if addr_as_ref addr = addr_as_ref db_addr then Inr (Some (fst e)) else find_owner_key owner db_addr it))"

definition delete_event_db_internal ::
  "'s engine \<Rightarrow> db3_address \<Rightarrow> db3_address \<Rightarrow> (('s, 'd) db_store, unit) action" where
  "delete_event_db_internal K owner db_addr =
     andThen (gets db_config) (\<lambda>cfg.
     andThen (reads (db_cf K (db_owner_store_cf_name cfg) ReadStoreError)) (\<lambda>_.
     andThen (reads (\<lambda>m. find_owner_key owner db_addr
       (seek (addr_as_ref owner) (raw_iterator_cf K (db_se m) (db_owner_store_cf_name cfg))))) (\<lambda>key.
     andThen (reads (db_cf K (db_store_cf_name cfg) ReadStoreError)) (\<lambda>_.
     db_write K ((case key of Some k \<Rightarrow> [DeleteCf (db_owner_store_cf_name cfg) k] | None \<Rightarrow> []) @
       [DeleteCf (db_store_cf_name cfg) (addr_as_ref db_addr)])))))"

definition delete_event_db ::
  "'s engine \<Rightarrow> codecs \<Rightarrow> libs \<Rightarrow> db3_address \<Rightarrow> db3_address \<Rightarrow> (('s, 'd) db_store, unit) action" where
  "delete_event_db K C L sender db_addr =
     andThen (reads (get_event_db K C db_addr)) (\<lambda>found.
     case found of
       Some database \<Rightarrow>
         if ed_sender database \<noteq> addr_as_ref sender then fail DatabasePermissionDenied
         else delete_event_db_internal K sender db_addr
     | None \<Rightarrow> fail (DatabaseNotFound (addr_to_hex L db_addr)))"

definition create_predefined_doc_database ::
  "'s engine \<Rightarrow> codecs \<Rightarrow> libs \<Rightarrow> 'd ejdb \<Rightarrow> db3_address \<Rightarrow> db_id \<Rightarrow> string \<Rightarrow> u64 \<Rightarrow> u32 \<Rightarrow>
   (('s, 'd) db_store, unit) action" where
  "create_predefined_doc_database K C L E sender db_addr desc block order =
     andThen (gets (get_database K C db_addr)) (\<lambda>found.
     case found of
       Inr (Some _) \<Rightarrow> fail (DatabaseAlreadyExist (dbid_to_hex L db_addr))
     | _ \<Rightarrow>
         andThen (put_database K C L sender db_addr block order (DocDb
           \<lparr>dd_address = addr_as_ref db_addr, dd_sender = addr_as_ref sender, dd_desc = desc\<rparr>)) (\<lambda>_.
         create_doc_file L E db_addr))"

definition create_doc_database ::
  "'s engine \<Rightarrow> codecs \<Rightarrow> libs \<Rightarrow> 'd ejdb \<Rightarrow> db3_address \<Rightarrow> document_database_mutation \<Rightarrow> u64 \<Rightarrow> u64 \<Rightarrow> u64 \<Rightarrow> u32 \<Rightarrow>
   (('s, 'd) db_store, db_id) action" where
  "create_doc_database K C L E sender dm nonce network_id block order =
     (let db_addr = dbid_from L sender nonce network_id
      in andThen (create_predefined_doc_database K C L E sender db_addr (ddm_db_desc dm) block order) (\<lambda>_.
         ok db_addr))"

section \<open>Applying mutations\<close>

abbreviation apply_err :: "(('s, 'd) db_store, 'a) action \<Rightarrow> (('s, 'd) db_store, 'a) action" where
  "apply_err act \<equiv> map_err_of (\<lambda>e. ApplyMutationError (display_db3_error e)) act"

text \<open>The address of a body, as two of the actions and as the other ones report its errors.\<close>

definition body_address :: "body_wrapper \<Rightarrow> (('s, 'd) db_store, db3_address) action" where
  "body_address w = reads (\<lambda>_. addr_try_from (bw_db_address w))"

text \<open>The loops that stop after the first body of the right kind.\<close>

fun first_body :: "(body \<Rightarrow> 'x option) \<Rightarrow> body_wrapper list \<Rightarrow> (body_wrapper \<times> 'x) option" where
  "first_body sel [] = None"
| "first_body sel (w # ws) =
     (case Option.bind (bw_body w) sel of Some x \<Rightarrow> Some (w, x) | None \<Rightarrow> first_body sel ws)"

definition apply_delete_event_db ::
  "'s engine \<Rightarrow> codecs \<Rightarrow> libs \<Rightarrow> body_wrapper list \<Rightarrow> db3_address \<Rightarrow> (('s, 'd) db_store, extra_item list) action" where
  "apply_delete_event_db K C L bodies address =
     (case bodies of
        [] \<Rightarrow> ok []
      | w # _ \<Rightarrow>
          if bw_body w = Some DeleteEventDatabaseMutation
          then andThen (body_address w) (\<lambda>db_addr.
               andThen (delete_event_db K C L address db_addr) (\<lambda>_.
               ok [\<lparr>ei_key = ''db_addr'', ei_value = addr_to_hex L db_addr\<rparr>]))
          else ok [])"

definition apply_add_index ::
  "'s engine \<Rightarrow> codecs \<Rightarrow> libs \<Rightarrow> 'd ejdb \<Rightarrow> body_wrapper list \<Rightarrow> db3_address \<Rightarrow> (('s, 'd) db_store, extra_item list) action" where
  "apply_add_index K C L E bodies address =
     (case first_body (\<lambda>b. case b of AddIndexMutation x \<Rightarrow> Some x | _ \<Rightarrow> None) bodies of
        None \<Rightarrow> ok []
      | Some (w, x) \<Rightarrow>
          andThen (body_address w) (\<lambda>db_addr.
          andThen (db_add_index K C L E db_addr (ai_collection_name x) (ai_index_fields x) address) (\<lambda>_.
          ok [\<lparr>ei_key = ''collection'', ei_value = ai_collection_name x\<rparr>])))"

definition apply_mint_collection ::
  "'s engine \<Rightarrow> codecs \<Rightarrow> libs \<Rightarrow> 'd ejdb \<Rightarrow> body_wrapper list \<Rightarrow> (('s, 'd) db_store, extra_item list) action" where
  "apply_mint_collection K C L E bodies =
     (case first_body (\<lambda>b. case b of MintCollectionMutation x \<Rightarrow> Some x | _ \<Rightarrow> None) bodies of
        None \<Rightarrow> ok []
      | Some (w, x) \<Rightarrow>
          andThen (reads (\<lambda>_. addr_try_from_str L (mc_sender x))) (\<lambda>sender.
          andThen (reads (\<lambda>_. addr_try_from_str L (mc_db_addr x))) (\<lambda>db_addr.
          andThen (reads (is_db_collection_exist K db_addr (mc_name x))) (\<lambda>exist.
          if exist then fail (CollectionAlreadyExist (mc_name x) (addr_to_hex L db_addr))
          else andThen (save_collection_internal K C L E sender db_addr (mc_name x) []) (\<lambda>_.
               ok [\<lparr>ei_key = ''collection'', ei_value = mc_name x\<rparr>])))))"

definition apply_mint_document_db ::
  "'s engine \<Rightarrow> codecs \<Rightarrow> libs \<Rightarrow> 'd ejdb \<Rightarrow> body_wrapper list \<Rightarrow> u64 \<Rightarrow> u32 \<Rightarrow> (('s, 'd) db_store, extra_item list) action" where
  "apply_mint_document_db K C L E bodies block order =
     (case first_body (\<lambda>b. case b of MintDocDatabaseMutation x \<Rightarrow> Some x | _ \<Rightarrow> None) bodies of
        None \<Rightarrow> ok []
      | Some (w, x) \<Rightarrow>
          andThen (reads (\<lambda>_. addr_try_from_str L (md_sender x))) (\<lambda>sender.
          andThen (reads (\<lambda>_. addr_try_from_str L (md_db_addr x))) (\<lambda>db_addr.
          andThen (map_err_of (\<lambda>e. ApplyMutationError (''fail to create predefined database '' @ display_db3_error e))
            (create_predefined_doc_database K C L E sender db_addr (md_desc x) block order)) (\<lambda>_.
          ok [\<lparr>ei_key = ''db_addr'', ei_value = dbid_to_hex L db_addr\<rparr>]))))"

definition apply_create_event_db ::
  "'s engine \<Rightarrow> codecs \<Rightarrow> libs \<Rightarrow> 'd ejdb \<Rightarrow> body_wrapper list \<Rightarrow> db3_address \<Rightarrow> u64 \<Rightarrow> u64 \<Rightarrow> u64 \<Rightarrow> u32 \<Rightarrow>
   (('s, 'd) db_store, extra_item list) action" where
  "apply_create_event_db K C L E bodies address nonce network block order =
     (case first_body (\<lambda>b. case b of EventDatabaseMutation x \<Rightarrow> Some x | _ \<Rightarrow> None) bodies of
        None \<Rightarrow> ok []
      | Some (w, x) \<Rightarrow>
          andThen (apply_err (create_event_database K C L E address x nonce network block order)) (\<lambda>db_id.
          ok [\<lparr>ei_key = ''db_addr'', ei_value = dbid_to_hex L db_id\<rparr>]))"

definition apply_create_document_db ::
  "'s engine \<Rightarrow> codecs \<Rightarrow> libs \<Rightarrow> 'd ejdb \<Rightarrow> body_wrapper list \<Rightarrow> db3_address \<Rightarrow> u64 \<Rightarrow> u64 \<Rightarrow> u64 \<Rightarrow> u32 \<Rightarrow>
   (('s, 'd) db_store, extra_item list) action" where
  "apply_create_document_db K C L E bodies address nonce network block order =
     (case first_body (\<lambda>b. case b of DocDatabaseMutation x \<Rightarrow> Some x | _ \<Rightarrow> None) bodies of
        None \<Rightarrow> ok []
      | Some (w, x) \<Rightarrow>
          andThen (apply_err (create_doc_database K C L E address x nonce network block order)) (\<lambda>db_id.
          ok [\<lparr>ei_key = ''db_addr'', ei_value = dbid_to_hex L db_id\<rparr>]))"

definition apply_add_collection ::
  "'s engine \<Rightarrow> codecs \<Rightarrow> libs \<Rightarrow> 'd ejdb \<Rightarrow> db3_address \<Rightarrow> u64 \<Rightarrow> u32 \<Rightarrow> nat \<times> body_wrapper \<Rightarrow>
   (('s, 'd) db_store, extra_item list) action" where
  "apply_add_collection K C L E address block order iw =
     andThen (apply_err (body_address (snd iw))) (\<lambda>db_addr.
     case bw_body (snd iw) of
       Some (CollectionMutation cm) \<Rightarrow>
         andThen (apply_err (create_collection K C L E address db_addr cm block order (of_nat (fst iw)))) (\<lambda>_.
         ok [\<lparr>ei_key = ''collection'', ei_value = cm_collection_name cm\<rparr>])
     | _ \<Rightarrow> ok [])"

definition documents_of :: "bson_lib \<Rightarrow> bytes list \<Rightarrow> (('s, 'd) db_store, string list) action" where
  "documents_of B bufs = apply_err (reads (\<lambda>_. map_result (\<lambda>buf.
     bindR (bytes_to_bson_document B buf) (\<lambda>d. Inr (bson_to_string B d))) bufs))"

definition apply_add_document ::
  "'s engine \<Rightarrow> libs \<Rightarrow> 'd ejdb \<Rightarrow> bson_lib \<Rightarrow> db3_address \<Rightarrow> (string \<rightharpoonup> i64 list) \<Rightarrow> nat \<times> body_wrapper \<Rightarrow>
   (('s, 'd) db_store, extra_item list) action" where
  "apply_add_document K L E B address doc_ids_map iw =
     andThen (apply_err (body_address (snd iw))) (\<lambda>db_addr.
     case bw_body (snd iw) of
       Some (DocumentMutation dm) \<Rightarrow>
         andThen (documents_of B (dom_documents dm)) (\<lambda>docs.
         andThen (apply_err (add_docs K L E db_addr address (dom_collection_name dm) docs
           (doc_ids_map (show_nat (fst iw))))) (\<lambda>ids.
         ok (map (\<lambda>i. \<lparr>ei_key = ''document'', ei_value = show_i64 i\<rparr>) ids)))
     | _ \<Rightarrow> ok [])"

definition apply_update_document ::
  "'s engine \<Rightarrow> libs \<Rightarrow> 'd ejdb \<Rightarrow> bson_lib \<Rightarrow> db3_address \<Rightarrow> body_wrapper \<Rightarrow> (('s, 'd) db_store, extra_item list) action" where
  "apply_update_document K L E B address w =
     andThen (apply_err (body_address w)) (\<lambda>db_addr.
     case bw_body w of
       Some (DocumentMutation dm) \<Rightarrow>
         if length (dom_documents dm) \<noteq> length (dom_ids dm)
         then fail (ApplyMutationError (''doc ids size '' @ show_nat (length (dom_ids dm)) @
                '' not equal to documents size '' @ show_nat (length (dom_documents dm))))
         else andThen (documents_of B (dom_documents dm)) (\<lambda>docs.
              andThen (apply_err (update_docs K L E db_addr address (dom_collection_name dm) docs (dom_ids dm))) (\<lambda>_.
              ok []))
     | _ \<Rightarrow> ok [])"

definition apply_delete_document ::
  "'s engine \<Rightarrow> libs \<Rightarrow> 'd ejdb \<Rightarrow> db3_address \<Rightarrow> body_wrapper \<Rightarrow> (('s, 'd) db_store, extra_item list) action" where
  "apply_delete_document K L E address w =
     andThen (apply_err (body_address w)) (\<lambda>db_addr.
     case bw_body w of
       Some (DocumentMutation dm) \<Rightarrow>
         andThen (apply_err (delete_docs K L E db_addr address (dom_collection_name dm) (dom_ids dm))) (\<lambda>_. ok [])
     | _ \<Rightarrow> ok [])"

definition apply_mutation ::
  "'s engine \<Rightarrow> codecs \<Rightarrow> libs \<Rightarrow> 'd ejdb \<Rightarrow> bson_lib \<Rightarrow> mutation_action \<Rightarrow> mutation \<Rightarrow> db3_address \<Rightarrow> u64 \<Rightarrow> u64 \<Rightarrow>
   u64 \<Rightarrow> u32 \<Rightarrow> (string \<rightharpoonup> i64 list) \<Rightarrow> (('s, 'd) db_store, extra_item list) action" where
  "apply_mutation K C L E B action dm address network nonce block order doc_ids_map =
     andThen (case action of
         DeleteEventDb \<Rightarrow> apply_delete_event_db K C L (mut_bodies dm) address
       | AddIndex \<Rightarrow> apply_add_index K C L E (mut_bodies dm) address
       | MintCollection \<Rightarrow> apply_mint_collection K C L E (mut_bodies dm)
       | MintDocumentDb \<Rightarrow> apply_mint_document_db K C L E (mut_bodies dm) block order
       | CreateEventDb \<Rightarrow> apply_create_event_db K C L E (mut_bodies dm) address nonce network block order
       | CreateDocumentDb \<Rightarrow> apply_create_document_db K C L E (mut_bodies dm) address nonce network block order
       | AddCollection \<Rightarrow> collect_each (apply_add_collection K C L E address block order) (enumerate 0 (mut_bodies dm))
       | AddDocument \<Rightarrow> collect_each (apply_add_document K L E B address doc_ids_map) (enumerate 0 (mut_bodies dm))
       | UpdateDocument \<Rightarrow> collect_each (apply_update_document K L E B address) (mut_bodies dm)
       | DeleteDocument \<Rightarrow> collect_each (apply_delete_document K L E address) (mut_bodies dm)) (\<lambda>items.
     andThen (store_block_state K C \<lparr>bsp_block = block, bsp_order = order\<rparr>) (\<lambda>_.
     ok items))"

end
