(* ===== verification/Platform.thy ===== *)
theory Platform
  imports Engine Messages Ids
begin

text \<open>
  What a node stands on: an ordered storage engine, the message codecs and the library functions. On a
  \<open>fallible_platform\<close> reads and writes of the engine may report errors; on a \<open>platform\<close> they succeed.
\<close>

locale fallible_platform = ordered_engine K + lawful_codecs C + lawful_libs L
  for K :: "'s engine" and C :: codecs and L :: libs

locale platform = reliable_engine K + lawful_codecs C + lawful_libs L
  for K :: "'s engine" and C :: codecs and L :: libs

sublocale platform \<subseteq> fallible_platform ..

lemma platform_fallible: "platform K C L \<Longrightarrow> fallible_platform K C L"
  by (simp add: platform_def fallible_platform_def reliable_engine_def)

end
