(* ===== verification/Db_Invariant.thy ===== *)
theory Db_Invariant
  imports Db_Store Platform
begin

text \<open>
  The well-formedness of the database store and its preservation: every entry of every column family has
  the shape its readers expect, and every stored database has its counters. All operations keep it,
  whatever they return and whatever calls of the engine fail; a mutation that fails leaves the
  recorded block state as it was.
\<close>

section \<open>Well-formed stores\<close>

definition db_ready :: "'s engine \<Rightarrow> ('s, 'd) db_store \<Rightarrow> bool" where
  "db_ready K m \<longleftrightarrow>
     distinct (db_column_families (db_config m)) \<and>
     (\<forall>cf \<in> set (db_column_families (db_config m)). cf_handle K (db_se m) cf)"

definition database_address :: "database \<Rightarrow> bytes" where
  "database_address d = (case d of DocDb x \<Rightarrow> dd_address x | EventDb x \<Rightarrow> ed_address x)"

text \<open>The shape of an entry, by the column family it is in.\<close>

definition entry_ok :: "codecs \<Rightarrow> db_store_config \<Rightarrow> string \<Rightarrow> bytes \<Rightarrow> bytes \<Rightarrow> bool" where
  "entry_ok C cfg cf k v \<longleftrightarrow>
     (cf = doc_owner_store_cf_name cfg \<longrightarrow>
        (\<exists>dk s. k = db_doc_key_encode dk \<and> v = addr_as_ref s)) \<and>
     (cf = db_store_cf_name cfg \<longrightarrow>
        (\<exists>a d. k = addr_as_ref a \<and> decode (database_codec C) v = Inr \<lparr>dm_database = Some d\<rparr> \<and>
           database_address d = addr_as_ref a)) \<and>
     (cf = collection_store_cf_name cfg \<longrightarrow>
        (\<exists>a c s. build_collection_key a (col_name c) = Inr k \<and> decode (collection_codec C) v = Inr c \<and>
           col_sender c = addr_as_ref s)) \<and>
     (cf = db_owner_store_cf_name cfg \<longrightarrow>
        (\<exists>okey a. k = db_owner_key_encode okey \<and> v = addr_as_ref a))"

definition entries_wf :: "'s engine \<Rightarrow> codecs \<Rightarrow> ('s, 'd) db_store \<Rightarrow> bool" where
  "entries_wf K C m \<longleftrightarrow>
     (\<forall>cf k v. cf_map K (db_se m) cf k = Some v \<longrightarrow> entry_ok C (db_config m) cf k v)"

text \<open>Every stored database has counters.\<close>

definition states_cover :: "'s engine \<Rightarrow> libs \<Rightarrow> ('s, 'd) db_store \<Rightarrow> bool" where
  "states_cover K L m \<longleftrightarrow>
     (\<forall>a. cf_map K (db_se m) (db_store_cf_name (db_config m)) (addr_as_ref a) \<noteq> None \<longrightarrow>
        db_state m (addr_to_hex L a) \<noteq> None)"

definition db_wf :: "'s engine \<Rightarrow> codecs \<Rightarrow> libs \<Rightarrow> ('s, 'd) db_store \<Rightarrow> bool" where
  "db_wf K C L m \<longleftrightarrow> db_ready K m \<and> entries_wf K C m \<and> states_cover K L m"

text \<open>The invariant the operations keep: well-formed, with a fixed configuration and recorded block.\<close>

definition db_inv :: "'s engine \<Rightarrow> codecs \<Rightarrow> libs \<Rightarrow> db_store_config \<Rightarrow> (bytes \<rightharpoonup> bytes) \<Rightarrow> ('s, 'd) db_store \<Rightarrow> bool" where
  "db_inv K C L cfg blk m \<longleftrightarrow> db_wf K C L m \<and> db_config m = cfg \<and> cf_map K (db_se m) BLOCK_STATE_CF = blk"

lemma dbid_to_hex_eq: "dbid_to_hex L a = addr_to_hex L a"
  by (simp add: dbid_to_hex_def addr_to_hex_def)

lemma db_families [simp]:
  "db_store_cf_name cfg \<in> set (db_column_families cfg)"
  "collection_store_cf_name cfg \<in> set (db_column_families cfg)"
  "doc_owner_store_cf_name cfg \<in> set (db_column_families cfg)"
  "db_owner_store_cf_name cfg \<in> set (db_column_families cfg)"
  "STATE_CF \<in> set (db_column_families cfg)"
  "BLOCK_STATE_CF \<in> set (db_column_families cfg)"
  by (simp_all add: db_column_families_def)

lemma db_ready_distinct:
  assumes "db_ready K m"
  shows "distinct [db_store_cf_name (db_config m), collection_store_cf_name (db_config m),
    doc_owner_store_cf_name (db_config m), db_owner_store_cf_name (db_config m), STATE_CF, BLOCK_STATE_CF]"
  using assms by (auto simp: db_ready_def db_column_families_def)

lemma db_ready_cf: "db_ready K m \<Longrightarrow> cf \<in> set (db_column_families (db_config m)) \<Longrightarrow> db_cf K cf e m = Inr ()"
  by (simp add: db_ready_def db_cf_def)

text \<open>The invariant does not look at the document store.\<close>

lemma db_inv_docs [simp]: "db_inv K C L cfg blk (m\<lparr>db_doc_store := t\<rparr>) = db_inv K C L cfg blk m"
  by (simp add: db_inv_def db_wf_def db_ready_def entries_wf_def states_cover_def)

lemma keeps_on_docs [keeps_intros]: "keeps (db_inv K C L cfg blk) (on_docs act)"
  by (simp add: keeps_def action_simps)

lemma db_inv_config: "db_inv K C L cfg blk m \<Longrightarrow> db_config m = cfg"
  by (simp add: db_inv_def)

text \<open>Counters may be changed and added, not removed.\<close>

lemma db_inv_states:
  assumes "db_inv K C L cfg blk m" "dom (db_state m) \<subseteq> dom st"
  shows "db_inv K C L cfg blk (m\<lparr>db_state := st\<rparr>)"
  using assms by (fastforce simp: db_inv_def db_wf_def db_ready_def entries_wf_def states_cover_def)

fun op_ok :: "codecs \<Rightarrow> db_store_config \<Rightarrow> batch_op \<Rightarrow> bool" where
  "op_ok C cfg (PutCf cf k v) = entry_ok C cfg cf k v"
| "op_ok C cfg _ = True"

lemma apply_batch_entries:
  assumes "\<forall>cf k v. f cf k = Some v \<longrightarrow> P cf k v"
    and "\<forall>cf k v. PutCf cf k v \<in> set ops \<longrightarrow> P cf k v"
  shows "apply_batch cf ops (f cf) k = Some v \<Longrightarrow> P cf k v"
proof -
  have "\<forall>k v. m k = Some v \<longrightarrow> P cf k v \<Longrightarrow> apply_batch cf ops m k = Some v \<Longrightarrow> P cf k v" for m
    using assms(2)
  proof (induction ops arbitrary: m)
    case Nil
    then show ?case by simp
  next
    case (Cons x ops)
    have "\<forall>k v. apply_batch_op cf x m k = Some v \<longrightarrow> P cf k v"
      using Cons.prems(1,3) by (cases x) (auto split: if_splits)
    then show ?case using Cons.IH Cons.prems(2,3) by auto
  qed
  then show "apply_batch cf ops (f cf) k = Some v \<Longrightarrow> P cf k v" using assms(1) by blast
qed

section \<open>Writes\<close>

context fallible_platform
begin

lemma db_write_cases:
  obtains (failed) e where "db_write K ops m = (Inl e, m)"
  | (written) se where "write_batch K (db_se m) ops = Inr se" "db_write K ops m = (Inr (), m\<lparr>db_se := se\<rparr>)"
  by (cases "write_batch K (db_se m) ops") (auto simp: db_write_def)

lemma entries_wf_write:
  assumes "entries_wf K C m" "\<forall>x \<in> set ops. op_ok C (db_config m) x" "write_batch K (db_se m) ops = Inr se"
  shows "entries_wf K C (m\<lparr>db_se := se\<rparr>)"
  unfolding entries_wf_def
proof (intro allI impI)
  fix cf k v
  assume "cf_map K (db_se (m\<lparr>db_se := se\<rparr>)) cf k = Some v"
  then have "apply_batch cf ops (cf_map K (db_se m) cf) k = Some v"
    by (simp add: write_applies [OF assms(3)])
  then show "entry_ok C (db_config (m\<lparr>db_se := se\<rparr>)) cf k v"
    using apply_batch_entries [where f = "cf_map K (db_se m)" and P = "entry_ok C (db_config m)" and ops = ops] assms(1,2)
    by (fastforce simp: entries_wf_def)
qed

text \<open>A batch of well-shaped entries that adds no database keeps the invariant.\<close>

definition adds_no_database :: "db_store_config \<Rightarrow> batch_op \<Rightarrow> bool" where
  "adds_no_database cfg x \<longleftrightarrow> (case x of PutCf cf k v \<Rightarrow> cf \<noteq> db_store_cf_name cfg | _ \<Rightarrow> True)"

lemma no_new_database:
  "\<forall>x \<in> set ops. adds_no_database cfg x \<Longrightarrow> apply_batch (db_store_cf_name cfg) ops m k \<noteq> None \<Longrightarrow> m k \<noteq> None"
proof (induction ops arbitrary: m)
  case Nil
  then show ?case by simp
next
  case (Cons x ops)
  then have "apply_batch_op (db_store_cf_name cfg) x m k \<noteq> None" by simp
  then show ?case using Cons.prems(1) by (cases x) (auto simp: adds_no_database_def split: if_splits)
qed

lemma keeps_db_write:
  assumes "\<forall>x \<in> set ops. op_ok C cfg x \<and> adds_no_database cfg x \<and> op_cf x \<noteq> BLOCK_STATE_CF"
  shows "keeps (db_inv K C L cfg blk) (db_write K ops)"
proof (rule keepsI)
  fix m :: "('s, 'd) db_store"
  assume inv: "db_inv K C L cfg blk m"
  then have cfg: "db_config m = cfg" by (simp add: db_inv_def)
  show "db_inv K C L cfg blk (snd (db_write K ops m))"
  proof (cases rule: db_write_cases [of ops m])
    case (failed e)
    then show ?thesis using inv by simp
  next
    case (written se)
    have "entries_wf K C (m\<lparr>db_se := se\<rparr>)"
      using entries_wf_write [OF _ _ written(1)] inv assms cfg by (simp add: db_inv_def db_wf_def)
    moreover have "states_cover K L (m\<lparr>db_se := se\<rparr>)"
      using inv assms cfg no_new_database [of ops cfg] unfolding states_cover_def
      by (auto simp: write_applies [OF written(1)] db_inv_def db_wf_def states_cover_def)
    moreover have "cf_map K se BLOCK_STATE_CF = blk"
      using inv assms by (simp add: write_applies [OF written(1)] apply_batch_other db_inv_def)
    ultimately show ?thesis
      using inv written by (auto simp: db_inv_def db_wf_def db_ready_def write_handles [OF written(1)])
  qed
qed

section \<open>Every operation keeps the invariant\<close>

lemma keeps_reads_any: "(\<And>x. keeps I (f x)) \<Longrightarrow> keeps I (andThen (reads g) f)"
  by (rule keeps_reads)

lemma keeps_config:
  "(\<And>m. db_config m = cfg \<Longrightarrow> keeps (db_inv K C L cfg blk) (f (g m))) \<Longrightarrow>
     keeps (db_inv K C L cfg blk) (andThen (gets g) f)"
  by (rule keeps_gets) (simp add: db_inv_def)

lemma keeps_counters:
  "keeps (db_inv K C L cfg blk) (update_db_state_for_add_db a)"
  "keeps (db_inv K C L cfg blk) (update_db_state_for_new_collection a col)"
  "keeps (db_inv K C L cfg blk) (update_db_state_for_delete_docs a col n)"
  by (auto simp: update_db_state_for_add_db_def update_db_state_for_new_collection_def
      update_db_state_for_delete_docs_def split: option.split intro!: keeps_modify db_inv_states)

lemma keeps_add_counters: "keeps (db_inv K C L cfg blk) (update_db_state_for_add_docs a col n ids)"
  by (rule keepsI) (auto simp: update_db_state_for_add_docs_def Let_def split: option.split intro!: db_inv_states)

lemma db_inv_distinct:
  "db_inv K C L cfg blk m \<Longrightarrow> distinct [db_store_cf_name cfg, collection_store_cf_name cfg,
    doc_owner_store_cf_name cfg, db_owner_store_cf_name cfg, STATE_CF, BLOCK_STATE_CF]"
  using db_ready_distinct [of K m] by (auto simp: db_inv_def db_wf_def)

lemma keeps_owner_writes:
  "keeps (db_inv K C L cfg blk) (create_doc_ownership K sender db_addr ids)"
  "keeps (db_inv K C L cfg blk) (delete_doc_ids_from_owner_store K db_addr ids)"
  unfolding create_doc_ownership_def delete_doc_ids_from_owner_store_def
  by (rule keeps_gets, rule keeps_reads_any, rule keeps_db_write,
      frule db_inv_distinct, auto simp: entry_ok_def adds_no_database_def dest: db_inv_config)+

lemma put_database_tail:
  assumes "encode (database_codec C) \<lparr>dm_database = Some d\<rparr> = Inr buf" "database_address d = addr_as_ref a"
  shows "keeps (db_inv K C L cfg blk) (andThen (db_write K
       [PutCf (db_store_cf_name cfg) (addr_as_ref a) buf,
        PutCf (db_owner_store_cf_name cfg) (db_owner_key_encode okey) (addr_as_ref a)])
     (\<lambda>_. update_db_state_for_add_db (addr_to_hex L a)))"
proof (rule keepsI)
  fix m :: "('s, 'd) db_store"
  assume inv: "db_inv K C L cfg blk m"
  let ?ops = "[PutCf (db_store_cf_name cfg) (addr_as_ref a) buf,
        PutCf (db_owner_store_cf_name cfg) (db_owner_key_encode okey) (addr_as_ref a)]"
  let ?act = "andThen (db_write K ?ops) (\<lambda>_. update_db_state_for_add_db (addr_to_hex L a))"
  have cfg: "db_config m = cfg" using inv by (rule db_inv_config)
  note d = db_inv_distinct [OF inv]
  show "db_inv K C L cfg blk (snd (?act m))"
  proof (cases rule: db_write_cases [of ?ops m])
    case (failed e)
    then show ?thesis using inv by (simp add: action_simps)
  next
    case (written se)
    let ?m = "m\<lparr>db_se := se\<rparr>"
    have wf: "db_ready K m" "entries_wf K C m" "states_cover K L m" "cf_map K (db_se m) BLOCK_STATE_CF = blk"
      using inv by (simp_all add: db_inv_def db_wf_def)
    have "op_ok C cfg x" if "x \<in> set ?ops" for x
      using that d codec_okD [OF database_ok assms(1)] assms(2) by (auto simp: entry_ok_def)
    then have e: "entries_wf K C ?m"
      using entries_wf_write [OF wf(2) _ written(1)] cfg by blast
    have run: "snd (?act m) = ?m\<lparr>db_state := (db_state m)(addr_to_hex L a \<mapsto>
        \<lparr>doc_order = 0, collection_states = [], total_doc_count = 0\<rparr>)\<rparr>"
      by (simp add: andThen_simps written(2) update_db_state_for_add_db_def modify_def)
    have "states_cover K L (snd (?act m))"
      unfolding states_cover_def
    proof (intro allI impI)
      fix b
      assume "cf_map K (db_se (snd (?act m))) (db_store_cf_name (db_config (snd (?act m)))) (addr_as_ref b) \<noteq> None"
      then have "b = a \<or> cf_map K (db_se m) (db_store_cf_name (db_config m)) (addr_as_ref b) \<noteq> None"
        using d cfg by (auto simp: run write_applies [OF written(1)] split: if_splits)
      then show "db_state (snd (?act m)) (addr_to_hex L b) \<noteq> None"
        using wf(3) by (auto simp: run states_cover_def)
    qed
    moreover have "cf_map K se BLOCK_STATE_CF = blk"
      using wf(4) d by (simp add: write_applies [OF written(1)])
    ultimately show ?thesis
      using e wf(1) cfg
      by (auto simp: db_inv_def db_wf_def run db_ready_def entries_wf_def write_handles [OF written(1)])
  qed
qed

lemma keeps_put_database:
  assumes "database_address d = addr_as_ref a"
  shows "keeps (db_inv K C L cfg blk) (put_database K C L sender a block order d)"
  unfolding put_database_def dbid_to_hex_eq
  by (rule keeps_config, rule keeps_reads_any, rule keeps_reads_any, rule keeps_reads)
    (simp add: put_database_tail assms)

lemma keeps_create_doc_file: "keeps (db_inv K C L cfg blk) (create_doc_file L E a)"
  unfolding create_doc_file_def by (intro keeps_intros)

lemma collection_put_ok:
  assumes "build_collection_key a name = Inr ck"
    "encode (collection_codec C) \<lparr>col_name = name, col_index_fields = ix, col_sender = addr_as_ref s\<rparr> = Inr buf"
    "db_inv K C L cfg blk m"
  shows "op_ok C cfg (PutCf (collection_store_cf_name cfg) ck buf) \<and>
    adds_no_database cfg (PutCf (collection_store_cf_name cfg) ck buf) \<and>
    collection_store_cf_name cfg \<noteq> BLOCK_STATE_CF"
proof -
  have "\<exists>a c s. build_collection_key a (col_name c) = Inr ck \<and> decode (collection_codec C) buf = Inr c \<and>
      col_sender c = addr_as_ref s"
    by (rule exI [of _ a], rule exI [of _ "\<lparr>col_name = name, col_index_fields = ix, col_sender = addr_as_ref s\<rparr>"],
        rule exI [of _ s]) (use assms(1) codec_okD [OF collection_ok assms(2)] in simp)
  then show ?thesis using db_inv_distinct [OF assms(3)] by (auto simp: entry_ok_def adds_no_database_def)
qed

lemma keeps_save_collection:
  "keeps (db_inv K C L cfg blk) (save_collection_internal K C L E sender a name indexes)"
proof -
  have tail: "keeps (db_inv K C L cfg blk)
      (andThen (db_write K [PutCf (collection_store_cf_name cfg) ck buf]) (\<lambda>_.
       andThen (update_db_state_for_new_collection (addr_to_hex L a) name) (\<lambda>_.
       andThen (gets (\<lambda>m. enable_doc_store (db_config m))) (\<lambda>enabled.
       if enabled
       then map_err_of (\<lambda>e. WriteStoreError (display_db3_error e)) (on_docs (ds_add_index E L a name indexes))
       else ok ()))))"
    if "build_collection_key a name = Inr ck"
      "encode (collection_codec C) \<lparr>col_name = name, col_index_fields = indexes, col_sender = addr_as_ref sender\<rparr> = Inr buf"
      "db_inv K C L cfg blk m" for ck buf and m :: "('s, 'd) db_store"
    using collection_put_ok [OF that]
    by (intro keeps_andThen keeps_db_write keeps_counters keeps_intros) auto
  show ?thesis
    unfolding save_collection_internal_def
    by (rule keeps_reads_any, rule keeps_if, rule keeps_pure, rule keeps_reads, rule keeps_config,
        rule keeps_reads_any, rule keeps_reads, simp, rule tail, assumption+)
qed

lemma keeps_create_collection:
  "keeps (db_inv K C L cfg blk) (create_collection K C L E sender a cm block order idx)"
  unfolding create_collection_def by (intro keeps_reads_any keeps_if keeps_pure keeps_save_collection)

lemma keeps_add_index: "keeps (db_inv K C L cfg blk) (db_add_index K C L E a col indexes sender)"
  unfolding db_add_index_def Let_def
  by (intro keeps_reads_any keeps_if keeps_pure keeps_option keeps_save_collection)

lemma keeps_create_event: "keeps (db_inv K C L cfg blk) (create_event_database K C L E s em nonce net block order)"
  unfolding create_event_database_def Let_def
  by (intro keeps_andThen keeps_put_database keeps_for_each keeps_create_doc_file keeps_pure)
    (auto simp: database_address_def keeps_create_collection)

lemma keeps_create_doc_db:
  "keeps (db_inv K C L cfg blk) (create_predefined_doc_database K C L E s a desc block order)"
  unfolding create_predefined_doc_database_def
  by (rule keeps_config) (auto simp: database_address_def split: sum.split option.split
      intro!: keeps_andThen keeps_put_database keeps_create_doc_file keeps_pure)

lemma keeps_delete_event_internal: "keeps (db_inv K C L cfg blk) (delete_event_db_internal K s a)"
  unfolding delete_event_db_internal_def
  by (rule keeps_gets, rule keeps_reads_any, rule keeps_reads_any, rule keeps_reads_any, rule keeps_db_write,
      frule db_inv_distinct, auto simp: adds_no_database_def split: option.split dest: db_inv_config)

lemma keeps_delete_event: "keeps (db_inv K C L cfg blk) (delete_event_db K C L s a)"
  unfolding delete_event_db_def
  by (intro keeps_reads_any keeps_option keeps_if keeps_pure keeps_delete_event_internal)

lemma keeps_require: "keeps (db_inv K C L cfg blk) (require_collection K L a col)"
  unfolding require_collection_def by (intro keeps_reads_any keeps_if keeps_pure)

lemma keeps_document_ops:
  "keeps (db_inv K C L cfg blk) (update_docs K L E a s col docs ids)"
  "keeps (db_inv K C L cfg blk) (delete_docs K L E a s col ids)"
  "keeps (db_inv K C L cfg blk) (add_docs K L E a s col docs given)"
  "keeps (db_inv K C L cfg blk) (query_docs K L E a col q)"
  "keeps (db_inv K C L cfg blk) (get_doc K L E a col i)"
  unfolding update_docs_def delete_docs_def add_docs_def query_docs_def get_doc_def
  by (intro keeps_andThen keeps_require keeps_intros keeps_counters keeps_add_counters keeps_owner_writes;
      auto intro: keeps_intros)+

lemmas keeps_database_ops = keeps_create_event keeps_create_doc_db keeps_delete_event keeps_create_collection
  keeps_add_index keeps_save_collection keeps_document_ops

section \<open>Applying mutations\<close>

lemma keeps_body_address: "keeps I (body_address w)"
  by (simp add: body_address_def keeps_pure)

lemma keeps_documents_of: "keeps I (documents_of B bufs)"
  by (simp add: documents_of_def keeps_map_err_of keeps_pure)

lemma keeps_body [keeps_intros]:
  "(\<And>b. keeps I (f b)) \<Longrightarrow> keeps I n \<Longrightarrow> keeps I (case x of Some b \<Rightarrow> f b | None \<Rightarrow> n)"
  by (cases x) auto

lemma keeps_apply_singles:
  "keeps (db_inv K C L cfg blk) (apply_delete_event_db K C L bodies s)"
  "keeps (db_inv K C L cfg blk) (apply_add_index K C L E bodies s)"
  "keeps (db_inv K C L cfg blk) (apply_mint_collection K C L E bodies)"
  "keeps (db_inv K C L cfg blk) (apply_mint_document_db K C L E bodies block order)"
  "keeps (db_inv K C L cfg blk) (apply_create_event_db K C L E bodies s nonce net block order)"
  "keeps (db_inv K C L cfg blk) (apply_create_document_db K C L E bodies s nonce net block order)"
  unfolding apply_delete_event_db_def apply_add_index_def apply_mint_collection_def apply_mint_document_db_def
    apply_create_event_db_def apply_create_document_db_def create_doc_database_def Let_def
  by (auto split: list.split option.split prod.split
      intro!: keeps_andThen keeps_body_address keeps_database_ops keeps_pure keeps_map_err_of keeps_if)

lemma keeps_apply_each:
  "keeps (db_inv K C L cfg blk) (apply_add_collection K C L E s block order iw)"
  "keeps (db_inv K C L cfg blk) (apply_add_document K L E B s ids_map iw)"
  "keeps (db_inv K C L cfg blk) (apply_update_document K L E B s w)"
  "keeps (db_inv K C L cfg blk) (apply_delete_document K L E s w)"
  unfolding apply_add_collection_def apply_add_document_def apply_update_document_def apply_delete_document_def
  by (auto split: option.split body.split
      intro!: keeps_andThen keeps_body_address keeps_documents_of keeps_database_ops keeps_pure keeps_map_err_of keeps_if)

lemma keeps_apply_action:
  "keeps (db_inv K C L cfg blk) (case action of
         DeleteEventDb \<Rightarrow> apply_delete_event_db K C L (mut_bodies dm) address
       | AddIndex \<Rightarrow> apply_add_index K C L E (mut_bodies dm) address
       | MintCollection \<Rightarrow> apply_mint_collection K C L E (mut_bodies dm)
       | MintDocumentDb \<Rightarrow> apply_mint_document_db K C L E (mut_bodies dm) block order
       | CreateEventDb \<Rightarrow> apply_create_event_db K C L E (mut_bodies dm) address nonce network block order
       | CreateDocumentDb \<Rightarrow> apply_create_document_db K C L E (mut_bodies dm) address nonce network block order
       | AddCollection \<Rightarrow> collect_each (apply_add_collection K C L E address block order) (enumerate 0 (mut_bodies dm))
       | AddDocument \<Rightarrow> collect_each (apply_add_document K L E B address doc_ids_map) (enumerate 0 (mut_bodies dm))
       | UpdateDocument \<Rightarrow> collect_each (apply_update_document K L E B address) (mut_bodies dm)
       | DeleteDocument \<Rightarrow> collect_each (apply_delete_document K L E address) (mut_bodies dm))"
  by (cases action) (simp_all add: keeps_apply_singles keeps_apply_each keeps_collect_each)

text \<open>Recording the block: the only write to its column family.\<close>

lemma store_block_state_effect:
  assumes "db_inv K C L cfg blk m" "store_block_state K C bst m = (r, m')"
  shows "case r of Inl e \<Rightarrow> m' = m
    | Inr _ \<Rightarrow> db_wf K C L m' \<and> db_config m' = cfg \<and>
        (\<exists>buf. decode (block_state_codec C) buf = Inr bst \<and>
           cf_map K (db_se m') BLOCK_STATE_CF = blk(as_bytes BLOCK_STATE_KEY \<mapsto> buf))"
proof (cases "encode (block_state_codec C) bst")
  case (Inl e)
  with assms show ?thesis
    by (auto simp: store_block_state_def put_entry_def action_simps split: sum.splits)
next
  case (Inr buf)
  let ?ops = "[PutCf BLOCK_STATE_CF (as_bytes BLOCK_STATE_KEY) buf]"
  note d = db_inv_distinct [OF assms(1)]
  have wf: "db_ready K m" "entries_wf K C m" "states_cover K L m" "db_config m = cfg"
    "cf_map K (db_se m) BLOCK_STATE_CF = blk"
    using assms(1) by (simp_all add: db_inv_def db_wf_def)
  have run: "store_block_state K C bst m = db_write K ?ops m"
    using wf(1) Inr by (simp add: store_block_state_def put_entry_def action_simps db_ready_cf)
  show ?thesis
  proof (cases rule: db_write_cases [of ?ops m])
    case (failed e)
    then show ?thesis using assms(2) run by auto
  next
    case (written se)
    have "\<forall>x \<in> set ?ops. op_ok C (db_config m) x" using d wf(4) by (auto simp: entry_ok_def)
    from entries_wf_write [OF wf(2) this written(1)] have "entries_wf K C (m\<lparr>db_se := se\<rparr>)" .
    moreover have "states_cover K L (m\<lparr>db_se := se\<rparr>)"
      using wf(3,4) d by (auto simp: states_cover_def write_applies [OF written(1)])
    moreover have "db_ready K (m\<lparr>db_se := se\<rparr>)"
      using wf(1) by (simp add: db_ready_def write_handles [OF written(1)])
    moreover have "cf_map K se BLOCK_STATE_CF = blk(as_bytes BLOCK_STATE_KEY \<mapsto> buf)"
      using wf(5) by (simp add: write_applies [OF written(1)])
    ultimately show ?thesis
      using assms(2) run written codec_okD [OF block_state_ok Inr] wf(4) by (auto simp: db_wf_def)
  qed
qed

lemma apply_mutation_inv:
  assumes "db_inv K C L cfg blk m"
    "apply_mutation K C L E B action dm address network nonce block order ids_map m = (r, m')"
  shows "db_wf K C L m' \<and> db_config m' = cfg \<and>
    (case r of Inl e \<Rightarrow> cf_map K (db_se m') BLOCK_STATE_CF = blk
     | Inr _ \<Rightarrow> \<exists>buf. decode (block_state_codec C) buf = Inr \<lparr>bsp_block = block, bsp_order = order\<rparr> \<and>
         cf_map K (db_se m') BLOCK_STATE_CF = blk(as_bytes BLOCK_STATE_KEY \<mapsto> buf))"
proof -
  let ?act = "(case action of
         DeleteEventDb \<Rightarrow> apply_delete_event_db K C L (mut_bodies dm) address
       | AddIndex \<Rightarrow> apply_add_index K C L E (mut_bodies dm) address
       | MintCollection \<Rightarrow> apply_mint_collection K C L E (mut_bodies dm)
       | MintDocumentDb \<Rightarrow> apply_mint_document_db K C L E (mut_bodies dm) block order
       | CreateEventDb \<Rightarrow> apply_create_event_db K C L E (mut_bodies dm) address nonce network block order
       | CreateDocumentDb \<Rightarrow> apply_create_document_db K C L E (mut_bodies dm) address nonce network block order
       | AddCollection \<Rightarrow> collect_each (apply_add_collection K C L E address block order) (enumerate 0 (mut_bodies dm))
       | AddDocument \<Rightarrow> collect_each (apply_add_document K L E B address ids_map) (enumerate 0 (mut_bodies dm))
       | UpdateDocument \<Rightarrow> collect_each (apply_update_document K L E B address) (mut_bodies dm)
       | DeleteDocument \<Rightarrow> collect_each (apply_delete_document K L E address) (mut_bodies dm))"
  obtain q m1 where m1: "?act m = (q, m1)" by force
  have inv: "db_inv K C L cfg blk m1"
    using keepsD [OF keeps_apply_action assms(1)] m1 by (metis (no_types, lifting) snd_conv)
  show ?thesis
  proof (cases q)
    case (Inl e)
    then have "r = Inl e" "m' = m1" using assms(2) m1 by (simp_all add: apply_mutation_def andThen_def)
    then show ?thesis using inv by (simp add: db_inv_def)
  next
    case (Inr items)
    obtain q2 m2 where m2: "store_block_state K C \<lparr>bsp_block = block, bsp_order = order\<rparr> m1 = (q2, m2)" by force
    have "m' = m2" and r: "r = (case q2 of Inl e \<Rightarrow> Inl e | Inr _ \<Rightarrow> Inr items)"
      using assms(2) m1 m2 Inr by (auto simp: apply_mutation_def andThen_def ok_def split: sum.splits)
    then show ?thesis using store_block_state_effect [OF inv m2] inv by (cases q2) (auto simp: db_inv_def)
  qed
qed

section \<open>Flush and restart\<close>

lemma keeps_flush: "keeps (db_inv K C L cfg blk) (flush_database_state K C L)"
proof -
  have put: "keeps (db_inv K C L cfg blk) (put_entry K c STATE_CF k v)"
    if "db_inv K C L cfg blk m" for c k v and m :: "('s, 'd) db_store"
    unfolding put_entry_def
    by (rule keeps_reads_any, rule keeps_reads_any, rule keeps_db_write)
      (use db_inv_distinct [OF that] in \<open>auto simp: entry_ok_def adds_no_database_def\<close>)
  have body: "keeps (db_inv K C L cfg blk) (andThen (reads (\<lambda>_. addr_try_from (fst e))) (\<lambda>addr.
       andThen (gets (build_persistence_state L addr)) (\<lambda>state.
       case state of None \<Rightarrow> ok ()
       | Some st \<Rightarrow> put_entry K (persistence_codec C) STATE_CF (fst e) st)))" for e
    by (rule keeps_reads, rule keeps_gets) (auto split: option.split intro: keeps_pure put)
  show ?thesis
    unfolding flush_database_state_def
    by (rule keeps_config, rule keeps_reads_any, rule keeps_andThen, rule keeps_pure, rule keeps_for_each, rule body)
qed

definition recover_entry :: "bytes \<times> bytes \<Rightarrow> (('s, 'd) db_store, unit) action" where
  "recover_entry e =
     andThen (reads (\<lambda>_. addr_try_from (fst e))) (\<lambda>address.
     andThen (reads (recover_database K C address)) (\<lambda>st.
     modify (\<lambda>m. m\<lparr>db_state := (db_state m)(addr_to_hex L address \<mapsto> st)\<rparr>)))"

lemma recover_entries:
  assumes "for_each recover_entry it m = (Inr (), m')"
  shows "db_se m' = db_se m \<and> db_config m' = db_config m \<and> db_doc_store m' = db_doc_store m \<and>
    dom (db_state m) \<subseteq> dom (db_state m') \<and>
    (\<forall>e \<in> set it. \<forall>a. fst e = addr_as_ref a \<longrightarrow> addr_to_hex L a \<in> dom (db_state m'))"
  using assms
proof (induction it arbitrary: m)
  case Nil
  then show ?case by (simp add: action_simps)
next
  case (Cons e it)
  obtain m1 where m1: "recover_entry e m = (Inr (), m1)" and rest: "for_each recover_entry it m1 = (Inr (), m')"
    using Cons.prems by (auto simp: andThen_eq_Inr_iff)
  from m1 obtain address st where a: "addr_try_from (fst e) = Inr address"
    "m1 = m\<lparr>db_state := (db_state m)(addr_to_hex L address \<mapsto> st)\<rparr>"
    by (auto simp: recover_entry_def andThen_eq_Inr_iff reads_def modify_def)
  have "dom (db_state m1) = insert (addr_to_hex L address) (dom (db_state m))" "db_se m1 = db_se m"
    "db_config m1 = db_config m" "db_doc_store m1 = db_doc_store m" by (simp_all add: a(2))
  moreover have "fst e = addr_as_ref address" using a(1) by (simp add: addr_try_from_Inr)
  ultimately show ?case using Cons.IH [OF rest] by auto
qed

lemma recover_wf:
  assumes "db_ready K m" "entries_wf K C m" "recover_db_state K C L m = (Inr (), m')"
  shows "db_wf K C L m' \<and> db_config m' = db_config m \<and> db_se m' = db_se m"
proof -
  let ?it = "raw_iterator_cf K (db_se m) (db_store_cf_name (db_config m))"
  have "for_each recover_entry ?it m = (Inr (), m')"
    using assms(1,3) unfolding recover_db_state_def recover_entry_def [symmetric]
    by (simp add: action_simps db_ready_cf)
  note r = recover_entries [OF this]
  have "states_cover K L m'"
    unfolding states_cover_def
  proof (intro allI impI)
    fix a
    assume "cf_map K (db_se m') (db_store_cf_name (db_config m')) (addr_as_ref a) \<noteq> None"
    then obtain v where "(addr_as_ref a, v) \<in> set ?it" using r by (auto simp: iterator_mem)
    then show "db_state m' (addr_to_hex L a) \<noteq> None" using r by fastforce
  qed
  then show ?thesis using r assms(1,2) by (simp add: db_wf_def db_ready_def entries_wf_def)
qed

end

text \<open>The store as a machine: mutations, flushes, reads through the document store, and restarts, which
  open the store again on the same engine state and recover the counters.\<close>

inductive db_step ::
  "'s engine \<Rightarrow> codecs \<Rightarrow> libs \<Rightarrow> 'd ejdb \<Rightarrow> bson_lib \<Rightarrow> ('s, 'd) db_store \<Rightarrow> ('s, 'd) db_store \<Rightarrow> bool"
  for K C L E B where
  step_apply: "db_step K C L E B m
    (snd (apply_mutation K C L E B action dm address network nonce block order ids_map m))"
| step_flush: "db_step K C L E B m (snd (flush_database_state K C L m))"
| step_query: "db_step K C L E B m (snd (query_docs K L E a col q m))"
| step_get: "db_step K C L E B m (snd (get_doc K L E a col i m))"
| step_restart: "db_new (\<lambda>_. Inr (db_se m)) new_docs files (db_config m) = Inr m0 \<Longrightarrow>
    recover_db_state K C L m0 = (Inr (), m') \<Longrightarrow> db_step K C L E B m m'"

context fallible_platform
begin

lemma db_step_wf:
  assumes "db_step K C L E B m m'" "db_wf K C L m"
  shows "db_wf K C L m' \<and> db_config m' = db_config m"
proof -
  let ?blk = "cf_map K (db_se m) BLOCK_STATE_CF"
  have inv: "db_inv K C L (db_config m) ?blk m" using assms(2) by (simp add: db_inv_def)
  from assms(1) show ?thesis
  proof (cases rule: db_step.cases)
    case (step_apply action dm address network nonce block order ids_map)
    then show ?thesis using apply_mutation_inv [OF inv surjective_pairing] by blast
  next
    case step_flush
    then show ?thesis using keepsD [OF keeps_flush inv] by (simp add: db_inv_def)
  next
    case (step_query a col q)
    then show ?thesis using keepsD [OF keeps_document_ops(4) inv] by (simp add: db_inv_def)
  next
    case (step_get a col i)
    then show ?thesis using keepsD [OF keeps_document_ops(5) inv] by (simp add: db_inv_def)
  next
    case (step_restart new_docs files m0)
    then have "db_se m0 = db_se m" "db_config m0 = db_config m"
      by (auto simp: db_new_def bindR_eq_Inr_iff split: if_splits)
    then have "db_ready K m0" "entries_wf K C m0" "db_config m0 = db_config m"
      using assms(2) by (simp_all add: db_wf_def db_ready_def entries_wf_def)
    then show ?thesis using recover_wf step_restart(2) by metis
  qed
qed

lemma db_steps_wf:
  "(db_step K C L E B)\<^sup>*\<^sup>* m m' \<Longrightarrow> db_wf K C L m \<Longrightarrow> db_wf K C L m' \<and> db_config m' = db_config m"
  by (induction rule: rtranclp_induct) (use db_step_wf in metis)+

end

end
