(* ===== verification/Db_Documents.thy ===== *)
theory Db_Documents
  imports Db_Invariant
begin

text \<open>
  What the document operations of the database store do: ownership checks come before any change, added
  documents get the ids their database hands out, belong to their sender and are read back.
\<close>

definition owner_of :: "'s engine \<Rightarrow> ('s, 'd) db_store \<Rightarrow> db3_address \<Rightarrow> i64 \<Rightarrow> bytes option" where
  "owner_of K m a i =
     cf_map K (db_se m) (doc_owner_store_cf_name (db_config m)) (db_doc_key_encode \<lparr>ddk_db = a, ddk_id = i\<rparr>)"

section \<open>Ownership\<close>

context fallible_platform
begin

lemma owners_checked_owned:
  "owners_checked K se cf s a ids = Inr () \<Longrightarrow> i \<in> set ids \<Longrightarrow>
     cf_map K se cf (db_doc_key_encode \<lparr>ddk_db = a, ddk_id = i\<rparr>) = Some (addr_as_ref s)"
proof (induction ids)
  case Nil
  then show ?case by simp
next
  case (Cons j ids)
  then obtain v where "get_cf K se cf (db_doc_key_encode \<lparr>ddk_db = a, ddk_id = j\<rparr>) = Inr (Some v)"
    "v = addr_as_ref s" "owners_checked K se cf s a ids = Inr ()"
    by (auto simp: bindR_eq_Inr_iff split: option.splits if_splits)
  then show ?case using Cons get_reads by fastforce
qed

lemma verified_owned:
  "verify_docs_ownership K s a ids m = Inr () \<Longrightarrow> i \<in> set ids \<Longrightarrow> owner_of K m a i = Some (addr_as_ref s)"
  using owners_checked_owned by (auto simp: verify_docs_ownership_def owner_of_def bindR_eq_Inr_iff Let_def)

lemma require_collection_same: "snd (require_collection K L a col m) = m"
  by (simp add: require_collection_def action_simps split: sum.split)

lemma unowned_rejected:
  assumes "i \<in> set ids" "owner_of K m a i \<noteq> Some (addr_as_ref s)"
  shows "\<exists>e. delete_docs K L E a s col ids m = (Inl e, m)"
    and "\<exists>e. update_docs K L E a s col docs ids m = (Inl e, m)"
proof -
  obtain r where r: "require_collection K L a col m = (r, m)"
    using require_collection_same by (metis prod.collapse)
  obtain e where "verify_docs_ownership K s a ids m = Inl e"
    using verified_owned [OF _ assms(1), of s a m] assms(2) by (cases "verify_docs_ownership K s a ids m") auto
  with r show "\<exists>e. delete_docs K L E a s col ids m = (Inl e, m)"
    and "\<exists>e. update_docs K L E a s col docs ids m = (Inl e, m)"
    by (cases r; simp add: delete_docs_def update_docs_def action_simps)+
qed

end

section \<open>Adding documents\<close>

lemma adjust_map_of:
  "map_of (adjust_collection col f cols) c =
     (if c = col then map_option (\<lambda>s. s\<lparr>cs_total_doc_count := f (cs_total_doc_count s)\<rparr>) (map_of cols c) else map_of cols c)"
  by (simp add: adjust_collection_def map_of_map_entry split: option.split)

definition new_ids :: "i64 \<Rightarrow> nat \<Rightarrow> i64 list" where
  "new_ids order n = map (\<lambda>i. order + of_nat i) [1..<n + 1]"

lemma length_new_ids [simp]: "length (new_ids order n) = n"
  by (simp add: new_ids_def)

lemma distinct_new_ids:
  assumes "n < 2 ^ 64"
  shows "distinct (new_ids order n)"
proof -
  have "inj_on (\<lambda>i. order + of_nat i :: i64) {1..<n + 1}"
  proof (rule inj_onI)
    fix i j
    assume ij: "i \<in> {1..<n + 1}" "j \<in> {1..<n + 1}" "order + of_nat i = order + (of_nat j :: i64)"
    then have "(of_nat i :: i64) = of_nat j" by simp
    moreover have "i < 2 ^ 64" "j < 2 ^ 64" using ij assms by auto
    moreover have "unat (of_nat k :: i64) = k" if "k < 2 ^ 64" for k using that by (simp add: unat_of_nat)
    ultimately show "i = j" by metis
  qed
  then show ?thesis by (simp add: new_ids_def distinct_map del: upt_Suc)
qed

text \<open>Signed arithmetic that does not leave the range.\<close>

lemma sint_of_int_range: "- (2 ^ 63) \<le> k \<Longrightarrow> k < 2 ^ 63 \<Longrightarrow> sint (of_int k :: i64) = k"
  by (simp add: signed_of_int signed_take_bit_int_eq_self)

lemma sint_add_nat:
  assumes "sint (a :: i64) + int n < 2 ^ 63"
  shows "sint (a + of_nat n) = sint a + int n"
proof -
  have "a + of_nat n = of_int (sint a + int n)" by simp
  moreover have "- (2 ^ 63) \<le> sint a" using sint_ge [of a] by simp
  ultimately show ?thesis using assms sint_of_int_range [of "sint a + int n"] by simp
qed

lemma new_ids_range:
  assumes "sint order + int n < 2 ^ 63" "i \<in> set (new_ids order n)"
  shows "sint order < sint i \<and> sint i \<le> sint (order + of_nat n)"
proof -
  obtain k where k: "1 \<le> k" "k \<le> n" "i = order + of_nat k" using assms(2) by (auto simp: new_ids_def)
  then have "sint order + int k < 2 ^ 63" using assms(1) by simp
  from sint_add_nat [OF this] sint_add_nat [OF assms(1)] k show ?thesis by simp
qed

text \<open>A counter update that succeeded, for whatever ids it settled on.\<close>

lemma add_counters_run:
  assumes "update_db_state_for_add_docs hex col n given m = (Inr (Some ids), m')" "db_state m hex = Some st"
  shows "length ids = n" "db_se m' = db_se m" "db_config m' = db_config m" "db_doc_store m' = db_doc_store m"
    "\<exists>order. db_state m' = (db_state m)(hex \<mapsto>
       st\<lparr>doc_order := order, total_doc_count := total_doc_count st + of_nat n,
          collection_states := adjust_collection col (\<lambda>k. k + of_nat n) (collection_states st)\<rparr>) \<and>
       (given = None \<longrightarrow> ids = new_ids (doc_order st) n \<and> order = doc_order st + of_nat n) \<and>
       (\<forall>gs. given = Some gs \<longrightarrow> ids = gs \<and>
          order = (case max_i64 gs of Some i \<Rightarrow> i | None \<Rightarrow> doc_order st + of_nat n))"
  using assms by (auto simp: update_db_state_for_add_docs_def new_ids_def Let_def split: option.splits if_splits)

lemma add_counters_none:
  assumes "db_state m hex = Some st"
  shows "\<exists>m'. update_db_state_for_add_docs hex col n None m = (Inr (Some (new_ids (doc_order st) n)), m')"
  using assms by (simp add: update_db_state_for_add_docs_def new_ids_def Let_def)

context platform
begin

lemma db_write_ok:
  obtains se where "write_batch K (db_se m) ops = Inr se" "db_write K ops m = (Inr (), m\<lparr>db_se := se\<rparr>)"
  using write_total [of "db_se m" ops] by (auto simp: db_write_def)

lemma collection_exist_eq:
  assumes "db_ready K m" "build_collection_key a col = Inr ck"
  shows "is_db_collection_exist K a col m =
    Inr (cf_map K (db_se m) (collection_store_cf_name (db_config m)) ck \<noteq> None)"
  using assms by (simp add: is_db_collection_exist_def db_ready_cf get_cf_eq Let_def)

lemma require_ok: "is_db_collection_exist K a col m = Inr True \<Longrightarrow> require_collection K L a col m = (Inr (), m)"
  by (simp add: require_collection_def action_simps)

lemma ownership_written:
  assumes "db_ready K m"
  obtains m' where "create_doc_ownership K s a ids m = (Inr (), m')"
    "\<And>b i. owner_of K m' b i = (if b = a \<and> i \<in> set ids then Some (addr_as_ref s) else owner_of K m b i)"
    "\<And>cf. cf \<noteq> doc_owner_store_cf_name (db_config m) \<Longrightarrow> cf_map K (db_se m') cf = cf_map K (db_se m) cf"
    "db_config m' = db_config m" "db_state m' = db_state m" "db_doc_store m' = db_doc_store m" "db_ready K m'"
proof -
  let ?cf = "doc_owner_store_cf_name (db_config m)"
  let ?key = "\<lambda>i. db_doc_key_encode \<lparr>ddk_db = a, ddk_id = i\<rparr>"
  let ?ops = "map (\<lambda>i. PutCf ?cf (?key i) (addr_as_ref s)) ids"
  obtain se where se: "write_batch K (db_se m) ?ops = Inr se" "db_write K ?ops m = (Inr (), m\<lparr>db_se := se\<rparr>)"
    by (rule db_write_ok)
  have run: "create_doc_ownership K s a ids m = (Inr (), m\<lparr>db_se := se\<rparr>)"
    using assms se(2) by (simp add: create_doc_ownership_def action_simps db_ready_cf)
  have map: "map_of (rev (map (\<lambda>i. (?key i, addr_as_ref s)) ids)) k =
      (if k \<in> ?key ` set ids then Some (addr_as_ref s) else None)" for k
    by (induction ids) (auto simp: map_of_append map_add_def split: option.split)
  show ?thesis
  proof (rule that [OF run])
    show "owner_of K (m\<lparr>db_se := se\<rparr>) b i =
        (if b = a \<and> i \<in> set ids then Some (addr_as_ref s) else owner_of K m b i)" for b i
      by (auto simp: owner_of_def write_applies [OF se(1)] apply_batch_puts map)
    show "cf_map K (db_se (m\<lparr>db_se := se\<rparr>)) cf = cf_map K (db_se m) cf" if "cf \<noteq> ?cf" for cf
      using that by (simp add: write_applies [OF se(1)] apply_batch_other)
    show "db_ready K (m\<lparr>db_se := se\<rparr>)" using assms by (simp add: db_ready_def write_handles [OF se(1)])
  qed simp_all
qed

text \<open>\<open>add_docs\<close> once the counters have settled the ids.\<close>

lemma add_docs_run:
  assumes "db_ready K m" "is_db_collection_exist K a col m = Inr True"
    "update_db_state_for_add_docs (addr_to_hex L a) col (length docs) given m = (Inr (Some ids), m1)"
    "db_state m (addr_to_hex L a) = Some st" "reliable_files E" "distinct ids"
  obtains m' where "add_docs K L E a s col docs given m = (Inr ids, m')"
    "\<And>b i. owner_of K m' b i = (if b = a \<and> i \<in> set ids then Some (addr_as_ref s) else owner_of K m b i)"
    "db_config m' = db_config m" "db_state m' = db_state m1" "db_ready K m'"
    "is_db_collection_exist K a col m' = Inr True"
    "\<And>j. enable_doc_store (db_config m) \<Longrightarrow> j < length docs \<Longrightarrow>
       doc_at E (dstore_files (db_doc_store m')) (db_file_path L (db_doc_store m') a) col (ids ! j) =
         Some (ejdb_render E (docs ! j))"
proof -
  note c = add_counters_run [OF assms(3,4)]
  have r1: "db_ready K m1" using assms(1) c by (simp add: db_ready_def)
  obtain m2 where m2: "create_doc_ownership K s a ids m1 = (Inr (), m2)"
    "\<And>b i. owner_of K m2 b i = (if b = a \<and> i \<in> set ids then Some (addr_as_ref s) else owner_of K m1 b i)"
    "\<And>cf. cf \<noteq> doc_owner_store_cf_name (db_config m1) \<Longrightarrow> cf_map K (db_se m2) cf = cf_map K (db_se m1) cf"
    "db_config m2 = db_config m1" "db_state m2 = db_state m1" "db_doc_store m2 = db_doc_store m1" "db_ready K m2"
    by (rule ownership_written [OF r1, of s a ids]) (rule that)
  have own: "owner_of K m1 b i = owner_of K m b i" for b i using c by (simp add: owner_of_def)
  obtain ck where ck: "build_collection_key a col = Inr ck"
    using assms(2) by (auto simp: is_db_collection_exist_def bindR_eq_Inr_iff)
  have exist: "is_db_collection_exist K a col n = Inr True"
    if "db_ready K n" "db_se n = db_se m2" "db_config n = db_config m" for n :: "('s, 'd) db_store"
    using that ck assms(1,2) m2(3,4) c db_ready_distinct [OF assms(1)] by (auto simp: collection_exist_eq)
  show ?thesis
  proof (cases "enable_doc_store (db_config m)")
    case False
    have "add_docs K L E a s col docs given m = (Inr ids, m2)"
      using False m2(1,4) c(3) by (simp add: add_docs_def action_simps require_ok [OF assms(2)] assms(3))
    then show ?thesis
      by (rule that) (use False m2 own c exist [OF m2(7) refl] in auto)
  next
    case True
    have len: "length docs = length ids" using c(1) by simp
    obtain t where t: "add_str_docs E L a col docs ids (db_doc_store m2) = (Inr (), t)"
      "dstore_config t = dstore_config (db_doc_store m2)"
      "\<And>p c j. doc_at E (dstore_files t) p c j =
        (if p = db_file_path L (db_doc_store m2) a \<and> c = col then (case map_of (zip ids docs) j of
           Some doc \<Rightarrow> Some (ejdb_render E doc) | None \<Rightarrow> doc_at E (dstore_files (db_doc_store m2)) p c j)
         else doc_at E (dstore_files (db_doc_store m2)) p c j)"
      by (rule reliable_files.add_str_docs_ok [OF assms(5) len assms(6)]) (rule that)
    let ?m = "m2\<lparr>db_doc_store := t\<rparr>"
    have "add_docs K L E a s col docs given m = (Inr ids, ?m)"
      using True m2(1,4) c(3) t(1) by (simp add: add_docs_def action_simps require_ok [OF assms(2)] assms(3))
    moreover have "owner_of K ?m b i = (if b = a \<and> i \<in> set ids then Some (addr_as_ref s) else owner_of K m b i)" for b i
      using m2(2) [of b i] own by (simp add: owner_of_def)
    moreover have ready: "db_ready K ?m" using m2(7) by (simp add: db_ready_def)
    moreover have "is_db_collection_exist K a col ?m = Inr True"
      by (rule exist [OF ready]) (use m2(4) c in simp_all)
    moreover have "doc_at E (dstore_files (db_doc_store ?m)) (db_file_path L (db_doc_store ?m) a) col (ids ! j) =
         Some (ejdb_render E (docs ! j))" if "j < length docs" for j
      using that c(1) assms(6) t(2) db_file_path_cong [OF t(2), of L a]
      by (simp add: t(3) map_of_zip_nth)
    ultimately show ?thesis using that [of ?m] m2(4,5) c(3) by simp
  qed
qed

lemma get_doc_run:
  assumes "is_db_collection_exist K a col m = Inr True" "reliable_files E" "enable_doc_store (db_config m)"
    "doc_at E (dstore_files (db_doc_store m)) (db_file_path L (db_doc_store m) a) col i = Some d"
  shows "fst (get_doc K L E a col i m) = Inr (Some \<lparr>doc_id = i, doc_doc = d\<rparr>)"
  using assms(3) reliable_files.ds_get_doc_ok [OF assms(2,4)]
  by (simp add: get_doc_def action_simps require_ok [OF assms(1)])

end

end
