(* ===== verification/Db_Databases.thy ===== *)
theory Db_Databases
  imports Db_Documents
begin

text \<open>
  Databases and collections: creation is visible to the reads, a second creation is refused, and what is
  not named stays as it was.
\<close>

context platform
begin

lemma get_entry_eq:
  assumes "db_ready K m" "cf \<in> set (db_column_families (db_config m))"
  shows "get_entry K c cf key m = (case cf_map K (db_se m) cf key of
     Some v \<Rightarrow> bindR (lib_err ReadStoreError (decode c v)) (\<lambda>x. Inr (Some x)) | None \<Rightarrow> Inr None)"
  using assms by (simp add: get_entry_def db_ready_cf get_cf_eq)

lemma get_database_eq:
  assumes "db_ready K m"
  shows "get_database K C a m = (case cf_map K (db_se m) (db_store_cf_name (db_config m)) (addr_as_ref a) of
     Some v \<Rightarrow> bindR (lib_err ReadStoreError (decode (database_codec C) v)) (\<lambda>x. Inr (Some x)) | None \<Rightarrow> Inr None)"
  unfolding get_database_def by (rule get_entry_eq [OF assms]) simp

lemma get_collection_eq:
  assumes "db_ready K m" "build_collection_key a name = Inr ck"
  shows "get_collection K C a name m = (case cf_map K (db_se m) (collection_store_cf_name (db_config m)) ck of
     Some v \<Rightarrow> bindR (lib_err ReadStoreError (decode (collection_codec C) v)) (\<lambda>x. Inr (Some x)) | None \<Rightarrow> Inr None)"
  unfolding get_collection_def using assms(2) by (simp add: get_entry_eq [OF assms(1)])

lemma create_doc_file_ok:
  assumes "reliable_files E"
  obtains t where "create_doc_file L E a m = (Inr (), m\<lparr>db_doc_store := t\<rparr>)"
proof (cases "enable_doc_store (db_config m)")
  case True
  obtain t where "ds_create_database E L a (db_doc_store m) = (Inr (), t)"
    using reliable_files.create_database_ok [OF assms] by blast
  then show ?thesis using that [of t] True by (simp add: create_doc_file_def action_simps)
next
  case False
  then show ?thesis using that [of "db_doc_store m"] by (simp add: create_doc_file_def action_simps)
qed

lemma create_database_run:
  assumes "db_ready K m" "get_database K C a m = Inr None" "reliable_files E"
    "encode (database_codec C) \<lparr>dm_database = Some (DocDb
       \<lparr>dd_address = addr_as_ref a, dd_sender = addr_as_ref s, dd_desc = desc\<rparr>)\<rparr> = Inr buf"
  obtains m' where "create_predefined_doc_database K C L E s a desc block order m = (Inr (), m')"
    "get_database K C a m' = Inr (Some \<lparr>dm_database = Some (DocDb
       \<lparr>dd_address = addr_as_ref a, dd_sender = addr_as_ref s, dd_desc = desc\<rparr>)\<rparr>)"
    "\<And>b. b \<noteq> a \<Longrightarrow> get_database K C b m' = get_database K C b m"
    "db_state m' = (db_state m)(addr_to_hex L a \<mapsto> \<lparr>doc_order = 0, collection_states = [], total_doc_count = 0\<rparr>)"
    "db_config m' = db_config m" "db_ready K m'"
    "cf_map K (db_se m') (db_owner_store_cf_name (db_config m))
       (db_owner_key_encode \<lparr>dok_owner = s, dok_block = block, dok_order = order\<rparr>) = Some (addr_as_ref a)"
    "\<And>cf. cf \<noteq> db_store_cf_name (db_config m) \<Longrightarrow> cf \<noteq> db_owner_store_cf_name (db_config m) \<Longrightarrow>
       cf_map K (db_se m') cf = cf_map K (db_se m) cf"
proof -
  let ?cfg = "db_config m"
  let ?ops = "[PutCf (db_store_cf_name ?cfg) (addr_as_ref a) buf,
    PutCf (db_owner_store_cf_name ?cfg) (db_owner_key_encode \<lparr>dok_owner = s, dok_block = block, dok_order = order\<rparr>)
      (addr_as_ref a)]"
  obtain se where se: "write_batch K (db_se m) ?ops = Inr se" "db_write K ?ops m = (Inr (), m\<lparr>db_se := se\<rparr>)"
    by (rule db_write_ok)
  let ?m1 = "m\<lparr>db_se := se, db_state := (db_state m)(addr_to_hex L a \<mapsto>
    \<lparr>doc_order = 0, collection_states = [], total_doc_count = 0\<rparr>)\<rparr>"
  obtain t where t: "create_doc_file L E a ?m1 = (Inr (), ?m1\<lparr>db_doc_store := t\<rparr>)"
    by (rule create_doc_file_ok [OF assms(3)])
  let ?m' = "?m1\<lparr>db_doc_store := t\<rparr>"
  note d = db_ready_distinct [OF assms(1)]
  have run: "create_predefined_doc_database K C L E s a desc block order m = (Inr (), ?m')"
    using assms(1,2,4) se(2) t
    by (simp add: create_predefined_doc_database_def put_database_def update_db_state_for_add_db_def
        dbid_to_hex_eq action_simps db_ready_cf)
  have ready: "db_ready K ?m'" using assms(1) by (simp add: db_ready_def write_handles [OF se(1)])
  show ?thesis
  proof (rule that [OF run])
    show "get_database K C a ?m' = Inr (Some \<lparr>dm_database = Some (DocDb
       \<lparr>dd_address = addr_as_ref a, dd_sender = addr_as_ref s, dd_desc = desc\<rparr>)\<rparr>)"
      using d codec_okD [OF database_ok assms(4)] by (auto simp: get_database_eq [OF ready] write_applies [OF se(1)])
    show "get_database K C b ?m' = get_database K C b m" if "b \<noteq> a" for b
      using d that by (auto simp: get_database_eq [OF ready] get_database_eq [OF assms(1)] write_applies [OF se(1)])
    show "db_ready K ?m'" by (rule ready)
  qed (use d in \<open>auto simp: write_applies [OF se(1)]\<close>)
qed

lemma create_existing_database:
  assumes "get_database K C a m = Inr (Some d)"
  shows "create_predefined_doc_database K C L E s a desc block order m =
    (Inl (Raised (DatabaseAlreadyExist (addr_to_hex L a))), m)"
  using assms by (simp add: create_predefined_doc_database_def action_simps dbid_to_hex_eq)

lemma create_existing_collection:
  assumes "is_db_collection_exist K a (cm_collection_name cm) m = Inr True"
  shows "create_collection K C L E s a cm block order idx m =
    (Inl (Raised (CollectionAlreadyExist (cm_collection_name cm) (addr_to_hex L a))), m)"
  using assms by (simp add: create_collection_def action_simps)

lemma save_collection_run:
  assumes "db_ready K m" "get_database K C a m = Inr (Some d)" "build_collection_key a name = Inr ck"
    "c = \<lparr>col_name = name, col_index_fields = ix, col_sender = addr_as_ref s\<rparr>"
    "encode (collection_codec C) c = Inr buf" "reliable_files E" "\<forall>f \<in> set ix. unat (ix_index_type f) < 4"
  obtains m' where "save_collection_internal K C L E s a name ix m = (Inr (), m')"
    "get_collection K C a name m' = Inr (Some c)"
    "\<And>b n. (b, n) \<noteq> (a, name) \<Longrightarrow> get_collection K C b n m' = get_collection K C b n m"
    "db_state m' = (case db_state m (addr_to_hex L a) of None \<Rightarrow> db_state m
       | Some st \<Rightarrow> (db_state m)(addr_to_hex L a \<mapsto>
           st\<lparr>collection_states := AList.update name \<lparr>cs_total_doc_count = 0\<rparr> (collection_states st)\<rparr>))"
    "db_config m' = db_config m" "db_ready K m'" "is_db_collection_exist K a name m' = Inr True"
    "\<And>cf. cf \<noteq> collection_store_cf_name (db_config m) \<Longrightarrow> cf_map K (db_se m') cf = cf_map K (db_se m) cf"
proof -
  let ?cf = "collection_store_cf_name (db_config m)"
  obtain se where se: "write_batch K (db_se m) [PutCf ?cf ck buf] = Inr se"
    "db_write K [PutCf ?cf ck buf] m = (Inr (), m\<lparr>db_se := se\<rparr>)"
    by (rule db_write_ok)
  define sts where "sts = (case db_state m (addr_to_hex L a) of None \<Rightarrow> db_state m
       | Some st \<Rightarrow> (db_state m)(addr_to_hex L a \<mapsto>
           st\<lparr>collection_states := AList.update name \<lparr>cs_total_doc_count = 0\<rparr> (collection_states st)\<rparr>))"
  define m1 where "m1 = m\<lparr>db_se := se, db_state := sts\<rparr>"
  have u: "update_db_state_for_new_collection (addr_to_hex L a) name (m\<lparr>db_se := se\<rparr>) = (Inr (), m1)"
    by (cases "db_state m (addr_to_hex L a)")
      (simp_all add: update_db_state_for_new_collection_def action_simps m1_def sts_def)
  have m1: "db_config m1 = db_config m" "db_se m1 = se" "db_doc_store m1 = db_doc_store m" "db_state m1 = sts"
    by (simp_all add: m1_def)
  obtain t where t: "ds_add_index E L a name ix (db_doc_store m) = (Inr (), t)"
    using reliable_files.add_index_ok [OF assms(6,7)] by blast
  define m' where "m' = (if enable_doc_store (db_config m) then m1\<lparr>db_doc_store := t\<rparr> else m1)"
  have run: "save_collection_internal K C L E s a name ix m = (Inr (), m')"
    using assms(1-5) se(2) u m1 t
    by (simp add: save_collection_internal_def action_simps db_ready_cf m'_def)
  have view: "db_config m' = db_config m" "db_se m' = se" "db_state m' = db_state m1"
    by (simp_all add: m'_def m1)
  have ready: "db_ready K m'" using assms(1) by (simp add: db_ready_def view write_handles [OF se(1)])
  show ?thesis
  proof (rule that [OF run])
    show "get_collection K C a name m' = Inr (Some c)"
      using codec_okD [OF collection_ok assms(5)]
      by (simp add: get_collection_eq [OF ready assms(3)] view write_applies [OF se(1)])
    show "get_collection K C b n m' = get_collection K C b n m" if "(b, n) \<noteq> (a, name)" for b n
    proof (cases "build_collection_key b n")
      case (Inl e)
      then show ?thesis by (simp add: get_collection_def)
    next
      case (Inr k)
      then have "k \<noteq> ck" using collection_key_inject [of b n k a name] assms(3) that by auto
      then show ?thesis
        by (simp add: get_collection_eq [OF ready Inr] get_collection_eq [OF assms(1) Inr] view write_applies [OF se(1)])
    qed
    show "is_db_collection_exist K a name m' = Inr True"
      by (simp add: collection_exist_eq [OF ready assms(3)] view write_applies [OF se(1)])
    show "cf_map K (db_se m') cf = cf_map K (db_se m) cf" if "cf \<noteq> ?cf" for cf
      using that by (simp add: view write_applies [OF se(1)])
    show "db_ready K m'" by (rule ready)
  qed (simp_all add: view m1 sts_def)
qed

end

end
