(* ===== verification/Mutation_Store.thy ===== *)
theory Mutation_Store
  imports Engine Messages Keys
begin

text \<open>
  The mutation log (\<open>src/storage/src/mutation_store.rs\<close>): mutation bodies by transaction id, headers
  by (block, order), rollup and garbage-collection records by start block, the current block and
  order, and the counters reported to clients. Every method is one definition; a method that writes
  is an action on the record \<open>mutation_store\<close>. The engine \<open>K\<close>, the message codecs \<open>C\<close> and the
  library functions \<open>L\<close> are parameters; the wall clock is an argument \<open>now\<close>.
\<close>

section \<open>State\<close>

record mutation_store_config =
  msc_db_path :: string
  block_store_cf_name :: string
  tx_store_cf_name :: string
  rollup_store_cf_name :: string
  gc_cf_name :: string
  message_max_buffer :: u64
  msc_scan_max_limit :: u64
  block_state_cf_name :: string

definition default_mutation_store_config :: mutation_store_config where
  "default_mutation_store_config = \<lparr>
     msc_db_path = ''./store'',
     block_store_cf_name = ''block_store_cf'',
     tx_store_cf_name = ''tx_store_cf'',
     rollup_store_cf_name = ''rollup_store_cf'',
     gc_cf_name = ''gc_store_cf'',
     message_max_buffer = 8 * 1024,
     msc_scan_max_limit = 50,
     block_state_cf_name = ''block_state_cf''\<rparr>"

definition MS_STATE_CF :: string where
  "MS_STATE_CF = ''STATE_CF''"

definition BLOCK_KEY :: string where
  "BLOCK_KEY = ''block_key''"

record block_state =
  bs_block :: u64
  bs_order :: u32

record mutation_cost =
  rollup_ar_cost :: u256
  rollup_evm_cost :: u256

record 's mutation_store =
  ms_config :: mutation_store_config
  ms_se :: 's
  ms_block_state :: block_state
  mutation_count :: u64
  total_mutation_bytes :: u64
  total_rollup_bytes :: u64
  gc_count :: u64
  rollup_count :: u64
  total_gc_bytes :: u64
  rollup_cost :: mutation_cost
  total_rollup_raw_bytes :: u64
  total_rollup_mutation_count :: u64

text \<open>\<open>new\<close>, after the engine has been opened with the column families it asks for.\<close>

definition ms_column_families :: "mutation_store_config \<Rightarrow> string list" where
  "ms_column_families cfg =
     [block_store_cf_name cfg, tx_store_cf_name cfg, rollup_store_cf_name cfg, gc_cf_name cfg,
      block_state_cf_name cfg, MS_STATE_CF]"

definition ms_new :: "(string list \<Rightarrow> string + 's) \<Rightarrow> mutation_store_config \<Rightarrow> 's mutation_store result" where
  "ms_new open_cf cfg =
     bindR (lib_err (\<lambda>e. OpenStoreError (msc_db_path cfg)
              (''fail to open column family for mutation store with error '' @ e))
            (open_cf (ms_column_families cfg)))
       (\<lambda>se. Inr \<lparr>ms_config = cfg, ms_se = se, ms_block_state = \<lparr>bs_block = 0, bs_order = 0\<rparr>,
          mutation_count = 0, total_mutation_bytes = 0, total_rollup_bytes = 0, gc_count = 0,
          rollup_count = 0, total_gc_bytes = 0,
          rollup_cost = \<lparr>rollup_ar_cost = 0, rollup_evm_cost = 0\<rparr>,
          total_rollup_raw_bytes = 0, total_rollup_mutation_count = 0\<rparr>)"

section \<open>Access to the engine\<close>

definition ms_cf :: "'s engine \<Rightarrow> string \<Rightarrow> db3_error \<Rightarrow> 's mutation_store \<Rightarrow> unit result" where
  "ms_cf K cf err m = (if cf_handle K (ms_se m) cf then Inr () else Inl (Raised err))"

definition cf_missing :: "(string \<Rightarrow> db3_error) \<Rightarrow> db3_error" where
  "cf_missing e = e ''cf is not found''"

definition ms_write :: "'s engine \<Rightarrow> batch_op list \<Rightarrow> ('s mutation_store, unit) action" where
  "ms_write K ops = (\<lambda>m. case write_batch K (ms_se m) ops of
     Inl e \<Rightarrow> (Inl (Raised (WriteStoreError e)), m)
   | Inr se \<Rightarrow> (Inr (), m\<lparr>ms_se := se\<rparr>))"

definition add_record ::
  "'s engine \<Rightarrow> 'm codec \<Rightarrow> string \<Rightarrow> bytes \<Rightarrow> 'm \<Rightarrow> ('s mutation_store, nat) action" where
  "add_record K c cf key v =
     andThen (reads (ms_cf K cf (cf_missing ReadStoreError))) (\<lambda>_.
     andThen (reads (\<lambda>_. lib_err WriteStoreError (encode c v))) (\<lambda>buf.
     andThen (ms_write K [PutCf cf key buf]) (\<lambda>_.
     ok (length buf))))"

definition get_record ::
  "'s engine \<Rightarrow> 'm codec \<Rightarrow> string \<Rightarrow> bytes \<Rightarrow> 's mutation_store \<Rightarrow> 'm option result" where
  "get_record K c cf k m =
     bindR (ms_cf K cf (cf_missing ReadStoreError) m) (\<lambda>_.
     bindR (lib_err ReadStoreError (get_cf K (ms_se m) cf k)) (\<lambda>value.
     case value of
       Some v \<Rightarrow> bindR (lib_err ReadStoreError (decode c v)) (\<lambda>r. Inr (Some r))
     | None \<Rightarrow> Inr None))"

text \<open>The iterator after \<open>seek\<close> and one \<open>next\<close>: the entry it stands on, decoded.\<close>

definition decode_entry :: "'m codec \<Rightarrow> (bytes \<times> bytes) list \<Rightarrow> 'm option result" where
  "decode_entry c it = (case it of
     [] \<Rightarrow> Inr None
   | (k, v) # _ \<Rightarrow> bindR (lib_err ReadStoreError (decode c v)) (\<lambda>r. Inr (Some r)))"

definition get_next_record ::
  "'s engine \<Rightarrow> 'm codec \<Rightarrow> string \<Rightarrow> bytes \<Rightarrow> 's mutation_store \<Rightarrow> 'm option result" where
  "get_next_record K c cf k m =
     bindR (ms_cf K cf (cf_missing ReadStoreError) m) (\<lambda>_.
     decode_entry c (tl (seek k (raw_iterator_cf K (ms_se m) cf))))"

definition get_last_record ::
  "'s engine \<Rightarrow> 'm codec \<Rightarrow> string \<Rightarrow> 's mutation_store \<Rightarrow> 'm option result" where
  "get_last_record K c cf m =
     bindR (ms_cf K cf (cf_missing ReadStoreError) m) (\<lambda>_.
     decode_entry c (rev (raw_iterator_cf K (ms_se m) cf)))"

text \<open>The two loops of \<open>scan_records\<close>: skip up to \<open>start\<close>, then collect up to \<open>end\<close>, walking
  backwards; a value that does not decode is stepped over.\<close>

fun scan_skip :: "u32 \<Rightarrow> u32 \<Rightarrow> 'e list \<Rightarrow> u32 \<times> 'e list" where
  "scan_skip count start [] = (count, [])"
| "scan_skip count start (e # it) =
     (if count < start then scan_skip (count + 1) start it else (count, e # it))"

fun scan_take :: "'m codec \<Rightarrow> u32 \<Rightarrow> u32 \<Rightarrow> (bytes \<times> bytes) list \<Rightarrow> 'm list" where
  "scan_take c count end [] = []"
| "scan_take c count end (e # it) =
     (if count < end
      then (case decode c (snd e) of
              Inr r \<Rightarrow> r # scan_take c (count + 1) end it
            | Inl _ \<Rightarrow> scan_take c (count + 1) end it)
      else [])"

definition scan_records ::
  "'s engine \<Rightarrow> 'm codec \<Rightarrow> string \<Rightarrow> u32 \<Rightarrow> u32 \<Rightarrow> 's mutation_store \<Rightarrow> 'm list result" where
  "scan_records K c cf from limit m =
     (if limit > ucast (msc_scan_max_limit (ms_config m))
      then Inl (Raised (ReadStoreError ''reach the scan max limit''))
      else bindR (ms_cf K cf (cf_missing ReadStoreError) m) (\<lambda>_.
        let (count, it) = scan_skip 0 from (rev (raw_iterator_cf K (ms_se m) cf))
        in Inr (scan_take c count (from + limit) it)))"

section \<open>Recovery and counters\<close>

definition get_latest_state :: "'s mutation_store \<Rightarrow> mutation_state" where
  "get_latest_state m = \<lparr>
     mst_mutation_count = mutation_count m,
     mst_total_mutation_bytes = total_mutation_bytes m,
     mst_gc_count = gc_count m,
     mst_rollup_count = rollup_count m,
     mst_total_rollup_bytes = total_rollup_bytes m,
     mst_total_storage_cost = be256 (rollup_ar_cost (rollup_cost m)),
     mst_total_evm_cost = be256 (rollup_evm_cost (rollup_cost m)),
     mst_total_gc_bytes = total_gc_bytes m,
     mst_total_rollup_raw_bytes = total_rollup_raw_bytes m,
     mst_total_rollup_mutation_count = total_rollup_mutation_count m\<rparr>"

definition flush_state :: "'s engine \<Rightarrow> codecs \<Rightarrow> u64 \<Rightarrow> ('s mutation_store, unit) action" where
  "flush_state K C now =
     andThen (gets get_latest_state) (\<lambda>state.
     andThen (add_record K (mstate_codec C) MS_STATE_CF (be64 (now div 60 div 60)) state) (\<lambda>_.
     ok ()))"

text \<open>\<open>U256::from(&[u8])\<close> panics on more than 32 bytes.\<close>

definition u256_from_slice :: "bytes \<Rightarrow> u256 result" where
  "u256_from_slice bs =
     (if length bs \<le> 32 then Inr (from_be256 bs) else Inl (Panicked ''assertion failed: 4 * 8 >= slice.len()''))"

definition recover_last_state :: "'s engine \<Rightarrow> codecs \<Rightarrow> ('s mutation_store, unit) action" where
  "recover_last_state K C =
     andThen (reads (get_last_record K (mstate_codec C) MS_STATE_CF)) (\<lambda>last.
     case last of
       None \<Rightarrow> ok ()
     | Some r \<Rightarrow>
         andThen (modify (\<lambda>m. m\<lparr>mutation_count := mst_mutation_count r,
           total_mutation_bytes := mst_total_mutation_bytes r,
           gc_count := mst_gc_count r,
           rollup_count := mst_rollup_count r,
           total_rollup_bytes := mst_total_rollup_bytes r,
           total_gc_bytes := mst_total_gc_bytes r,
           total_rollup_raw_bytes := mst_total_rollup_raw_bytes r,
           total_rollup_mutation_count := mst_total_rollup_mutation_count r\<rparr>)) (\<lambda>_.
         andThen (reads (\<lambda>_. u256_from_slice (mst_total_storage_cost r))) (\<lambda>ar.
         andThen (modify (\<lambda>m. m\<lparr>rollup_cost := (rollup_cost m)\<lparr>rollup_ar_cost := ar\<rparr>\<rparr>)) (\<lambda>_.
         andThen (reads (\<lambda>_. u256_from_slice (mst_total_evm_cost r))) (\<lambda>evm.
         modify (\<lambda>m. m\<lparr>rollup_cost := (rollup_cost m)\<lparr>rollup_evm_cost := evm\<rparr>\<rparr>))))))"

definition ms_recover :: "'s engine \<Rightarrow> codecs \<Rightarrow> ('s mutation_store, unit) action" where
  "ms_recover K C =
     andThen (gets (\<lambda>m. block_state_cf_name (ms_config m))) (\<lambda>cf.
     andThen (reads (ms_cf K cf (ReadStoreError ''cf is not found when recovering mutation store''))) (\<lambda>_.
     andThen (reads (\<lambda>m. lib_err (\<lambda>e. ReadStoreError (''fail to read block key value '' @ e))
                (get_cf K (ms_se m) cf (as_bytes BLOCK_KEY)))) (\<lambda>value.
     andThen (case value of
         None \<Rightarrow> ok ()
       | Some v \<Rightarrow>
           if length v = 8
           then modify (\<lambda>m. m\<lparr>ms_block_state := \<lparr>bs_block = from_be64 v + 1, bs_order = 0\<rparr>\<rparr>)
           else fail (KeyCodecError ''invalid array length'')) (\<lambda>_.
     recover_last_state K C))))"

section \<open>Rollup and garbage-collection records\<close>

definition add_gc_record :: "'s engine \<Rightarrow> codecs \<Rightarrow> gc_record \<Rightarrow> ('s mutation_store, unit) action" where
  "add_gc_record K C r =
     andThen (gets (\<lambda>m. gc_cf_name (ms_config m))) (\<lambda>cf.
     andThen (add_record K (gc_codec C) cf (be64 (gr_start_block r)) r) (\<lambda>record_size.
     modify (\<lambda>m. m\<lparr>gc_count := gc_count m + 1,
       total_gc_bytes := total_gc_bytes m + of_nat record_size\<rparr>)))"

fun rounds_loop :: "u64 \<Rightarrow> u64 \<Rightarrow> 'e list \<Rightarrow> bool" where
  "rounds_loop min_rounds count [] = False"
| "rounds_loop min_rounds count (e # it) =
     (if count + 1 \<ge> min_rounds then True else rounds_loop min_rounds (count + 1) it)"

definition has_enough_round_left :: "'s engine \<Rightarrow> u64 \<Rightarrow> u64 \<Rightarrow> 's mutation_store \<Rightarrow> bool result" where
  "has_enough_round_left K start_block min_rounds m =
     (let cf = rollup_store_cf_name (ms_config m)
      in bindR (ms_cf K cf (cf_missing ReadStoreError) m) (\<lambda>_.
         Inr (rounds_loop min_rounds 0 (seek (be64 start_block) (raw_iterator_cf K (ms_se m) cf)))))"

definition get_last_gc_record :: "'s engine \<Rightarrow> codecs \<Rightarrow> 's mutation_store \<Rightarrow> gc_record option result" where
  "get_last_gc_record K C m = get_last_record K (gc_codec C) (gc_cf_name (ms_config m)) m"

definition get_next_rollup_record ::
  "'s engine \<Rightarrow> codecs \<Rightarrow> u64 \<Rightarrow> 's mutation_store \<Rightarrow> rollup_record option result" where
  "get_next_rollup_record K C start_block m =
     get_next_record K (rollup_codec C) (rollup_store_cf_name (ms_config m)) (be64 start_block) m"

definition get_rollup_record ::
  "'s engine \<Rightarrow> codecs \<Rightarrow> u64 \<Rightarrow> 's mutation_store \<Rightarrow> rollup_record option result" where
  "get_rollup_record K C start_block m =
     get_record K (rollup_codec C) (rollup_store_cf_name (ms_config m)) (be64 start_block) m"

definition get_last_rollup_record ::
  "'s engine \<Rightarrow> codecs \<Rightarrow> 's mutation_store \<Rightarrow> rollup_record option result" where
  "get_last_rollup_record K C m =
     get_last_record K (rollup_codec C) (rollup_store_cf_name (ms_config m)) m"

text \<open>\<open>U256 + u64\<close> panics when the sum does not fit.\<close>

definition u256_add :: "u256 \<Rightarrow> u64 \<Rightarrow> u256 result" where
  "u256_add a b =
     (if unat a + unat b < 2 ^ 256 then Inr (a + ucast b) else Inl (Panicked ''arithmetic operation overflow''))"

definition add_rollup_record :: "'s engine \<Rightarrow> codecs \<Rightarrow> rollup_record \<Rightarrow> ('s mutation_store, unit) action" where
  "add_rollup_record K C r =
     andThen (gets (\<lambda>m. rollup_store_cf_name (ms_config m))) (\<lambda>cf.
     andThen (reads (ms_cf K cf (cf_missing ReadStoreError))) (\<lambda>_.
     andThen (reads (\<lambda>_. lib_err WriteStoreError (encode (rollup_codec C) r))) (\<lambda>buf.
     andThen (ms_write K [PutCf cf (be64 (rr_start_block r)) buf]) (\<lambda>_.
     andThen (modify (\<lambda>m. m\<lparr>rollup_count := rollup_count m + 1,
       total_rollup_bytes := total_rollup_bytes m + rr_compress_data_size r,
       total_rollup_raw_bytes := total_rollup_raw_bytes m + rr_raw_data_size r\<rparr>)) (\<lambda>_.
     andThen (reads (\<lambda>m. u256_add (rollup_ar_cost (rollup_cost m)) (rr_cost r))) (\<lambda>ar.
     andThen (modify (\<lambda>m. m\<lparr>rollup_cost := (rollup_cost m)\<lparr>rollup_ar_cost := ar\<rparr>\<rparr>)) (\<lambda>_.
     andThen (reads (\<lambda>m. u256_add (rollup_ar_cost (rollup_cost m)) (rr_cost r))) (\<lambda>evm.
     modify (\<lambda>m. m\<lparr>rollup_cost := (rollup_cost m)\<lparr>rollup_evm_cost := evm\<rparr>\<rparr>)))))))))"

definition scan_rollup_records ::
  "'s engine \<Rightarrow> codecs \<Rightarrow> u32 \<Rightarrow> u32 \<Rightarrow> 's mutation_store \<Rightarrow> rollup_record list result" where
  "scan_rollup_records K C from limit m =
     scan_records K (rollup_codec C) (rollup_store_cf_name (ms_config m)) from limit m"

definition scan_mutation_headers ::
  "'s engine \<Rightarrow> codecs \<Rightarrow> u32 \<Rightarrow> u32 \<Rightarrow> 's mutation_store \<Rightarrow> mutation_header list result" where
  "scan_mutation_headers K C from limit m =
     scan_records K (header_codec C) (block_store_cf_name (ms_config m)) from limit m"

definition scan_gc_records ::
  "'s engine \<Rightarrow> codecs \<Rightarrow> u32 \<Rightarrow> u32 \<Rightarrow> 's mutation_store \<Rightarrow> gc_record list result" where
  "scan_gc_records K C from limit m =
     scan_records K (gc_codec C) (gc_cf_name (ms_config m)) from limit m"

section \<open>Blocks and orders\<close>

definition increase_block_return_last_state :: "'s engine \<Rightarrow> ('s mutation_store, u64 \<times> u32) action" where
  "increase_block_return_last_state K =
     andThen (gets ms_block_state) (\<lambda>last.
     andThen (modify (\<lambda>m. m\<lparr>ms_block_state := \<lparr>bs_block = bs_block last + 1, bs_order = 0\<rparr>\<rparr>)) (\<lambda>_.
     andThen (gets (\<lambda>m. block_state_cf_name (ms_config m))) (\<lambda>cf.
     andThen (reads (ms_cf K cf (cf_missing WriteStoreError))) (\<lambda>_.
     andThen (ms_write K [PutCf cf (as_bytes BLOCK_KEY) (be64 (bs_block last + 1))]) (\<lambda>_.
     ok (bs_block last, bs_order last))))))"

definition get_current_block :: "'s mutation_store \<Rightarrow> u64 result" where
  "get_current_block m = Inr (bs_block (ms_block_state m))"

definition increase_order :: "('s mutation_store, u64 \<times> u32) action" where
  "increase_order =
     andThen (modify (\<lambda>m. m\<lparr>ms_block_state :=
       (ms_block_state m)\<lparr>bs_order := bs_order (ms_block_state m) + 1\<rparr>\<rparr>)) (\<lambda>_.
     gets (\<lambda>m. (bs_block (ms_block_state m), bs_order (ms_block_state m))))"

definition set_block_state :: "u64 \<Rightarrow> u32 \<Rightarrow> ('s mutation_store, unit) action" where
  "set_block_state block order = modify (\<lambda>m. m\<lparr>ms_block_state := \<lparr>bs_block = block, bs_order = order\<rparr>\<rparr>)"

definition generate_mutation_block_and_order ::
  "libs \<Rightarrow> bytes \<Rightarrow> string \<Rightarrow> ('s mutation_store, string \<times> u64 \<times> u32) action" where
  "generate_mutation_block_and_order L payload signature =
     (let hex_id = tx_to_hex L (tx_from_pair L payload (as_bytes signature))
      in andThen increase_order (\<lambda>(block, order). ok (hex_id, block, order)))"

section \<open>Mutations\<close>

definition block_order_key :: "u64 \<Rightarrow> u32 \<Rightarrow> bytes" where
  "block_order_key block order = be64 block @ be32 order"

definition get_mutation ::
  "'s engine \<Rightarrow> codecs \<Rightarrow> tx_id \<Rightarrow> 's mutation_store \<Rightarrow> mutation_body option result" where
  "get_mutation K C t m = get_record K (body_codec C) (tx_store_cf_name (ms_config m)) (tx_as_ref t) m"

definition get_mutation_header ::
  "'s engine \<Rightarrow> codecs \<Rightarrow> u64 \<Rightarrow> u32 \<Rightarrow> 's mutation_store \<Rightarrow> mutation_header option result" where
  "get_mutation_header K C block order m =
     get_record K (header_codec C) (block_store_cf_name (ms_config m)) (block_order_key block order) m"

fun range_loop ::
  "'s engine \<Rightarrow> codecs \<Rightarrow> libs \<Rightarrow> 's mutation_store \<Rightarrow> bytes \<Rightarrow> (bytes \<times> bytes) list \<Rightarrow>
   (mutation_header \<times> mutation_body) list result" where
  "range_loop K C L m end_id [] = Inr []"
| "range_loop K C L m end_id (e # it) =
     (if fst e \<ge> end_id then Inr []
      else case decode (header_codec C) (snd e) of
             Inl _ \<Rightarrow> range_loop K C L m end_id it
           | Inr h \<Rightarrow>
               bindR (map_err (\<lambda>err. ReadStoreError (display_db3_error err)) (tx_try_from_hex L (mh_id h))) (\<lambda>tx.
               case get_mutation K C tx m of
                 Inr (Some mb) \<Rightarrow> bindR (range_loop K C L m end_id it) (\<lambda>rest. Inr ((h, mb) # rest))
               | _ \<Rightarrow> range_loop K C L m end_id it))"

definition get_range_mutations ::
  "'s engine \<Rightarrow> codecs \<Rightarrow> libs \<Rightarrow> u64 \<Rightarrow> u64 \<Rightarrow> 's mutation_store \<Rightarrow>
   (mutation_header \<times> mutation_body) list result" where
  "get_range_mutations K C L block_start block_end m =
     (if block_start \<ge> block_end then Inl (Raised (ReadStoreError ''invalid block range''))
      else let cf = block_store_cf_name (ms_config m)
           in bindR (ms_cf K cf (cf_missing ReadStoreError) m) (\<lambda>_.
              range_loop K C L m (block_order_key block_end 0)
                (seek (block_order_key block_start 0) (raw_iterator_cf K (ms_se m) cf))))"

text \<open>The bodies are deleted under the text of the header's id, the headers by a key range.\<close>

definition gc_range_mutation ::
  "'s engine \<Rightarrow> codecs \<Rightarrow> libs \<Rightarrow> u64 \<Rightarrow> u64 \<Rightarrow> ('s mutation_store, unit) action" where
  "gc_range_mutation K C L block_start block_end =
     (if block_start \<ge> block_end then fail (ReadStoreError ''invalid block range'')
      else andThen (gets ms_config) (\<lambda>cfg.
           andThen (reads (ms_cf K (tx_store_cf_name cfg) (cf_missing WriteStoreError))) (\<lambda>_.
           andThen (reads (get_range_mutations K C L block_start block_end)) (\<lambda>mutations.
           andThen (reads (ms_cf K (block_store_cf_name cfg) (cf_missing ReadStoreError))) (\<lambda>_.
           ms_write K (map (\<lambda>x. DeleteCf (tx_store_cf_name cfg) (as_bytes (mh_id (fst x)))) mutations @
             [DeleteRangeCf (block_store_cf_name cfg) (be64 block_start) (be64 block_end)]))))))"

definition encode_mutation_header ::
  "codecs \<Rightarrow> u64 \<Rightarrow> string \<Rightarrow> u32 \<Rightarrow> string \<Rightarrow> db3_address \<Rightarrow> u64 \<Rightarrow> u64 \<Rightarrow> u32 \<Rightarrow> u64 \<Rightarrow> mutation_action \<Rightarrow>
   bytes result" where
  "encode_mutation_header C now hex_id mutation_body_size doc_ids_map sender nonce block order network action =
     lib_err WriteStoreError (encode (header_codec C)
       \<lparr>mh_block_id = block, mh_order_id = order, mh_sender = addr_as_ref sender, mh_time = now,
        mh_id = hex_id, mh_size = mutation_body_size, mh_nonce = nonce, mh_network = network,
        mh_action = action_to_i32 action, mh_doc_ids_map = doc_ids_map\<rparr>)"

definition encode_mutation_body :: "codecs \<Rightarrow> bytes \<Rightarrow> string \<Rightarrow> bytes result" where
  "encode_mutation_body C payload signature =
     lib_err WriteStoreError (encode (body_codec C) \<lparr>mb_payload = payload, mb_signature = signature\<rparr>)"

definition add_mutation ::
  "'s engine \<Rightarrow> codecs \<Rightarrow> libs \<Rightarrow> u64 \<Rightarrow> bytes \<Rightarrow> string \<Rightarrow> string \<Rightarrow> db3_address \<Rightarrow> u64 \<Rightarrow> u64 \<Rightarrow> u32 \<Rightarrow> u64 \<Rightarrow>
   mutation_action \<Rightarrow> ('s mutation_store, string \<times> u64 \<times> u32) action" where
  "add_mutation K C L now payload signature doc_ids_map sender nonce block order network action =
     (let t = tx_from_pair L payload (as_bytes signature); hex_id = tx_to_hex L t
      in andThen (reads (\<lambda>_. encode_mutation_body C payload signature)) (\<lambda>buf.
         andThen (reads (\<lambda>_. encode_mutation_header C now hex_id (of_nat (length buf)) doc_ids_map sender
                    nonce block order network action)) (\<lambda>header_buf.
         andThen (gets ms_config) (\<lambda>cfg.
         andThen (reads (ms_cf K (tx_store_cf_name cfg) (cf_missing WriteStoreError))) (\<lambda>_.
         andThen (reads (ms_cf K (block_store_cf_name cfg) (cf_missing WriteStoreError))) (\<lambda>_.
         andThen (ms_write K [PutCf (tx_store_cf_name cfg) (tx_as_ref t) buf,
                    PutCf (block_store_cf_name cfg) (block_order_key block order) header_buf]) (\<lambda>_.
         andThen (modify (\<lambda>m. m\<lparr>mutation_count := mutation_count m + 1,
           total_mutation_bytes := total_mutation_bytes m + of_nat (length buf + length header_buf)\<rparr>)) (\<lambda>_.
         ok (hex_id, block, order)))))))))"

definition update_mutation_stat ::
  "codecs \<Rightarrow> libs \<Rightarrow> u64 \<Rightarrow> bytes \<Rightarrow> string \<Rightarrow> string \<Rightarrow> db3_address \<Rightarrow> u64 \<Rightarrow> u64 \<Rightarrow> u32 \<Rightarrow> u64 \<Rightarrow>
   mutation_action \<Rightarrow> ('s mutation_store, unit) action" where
  "update_mutation_stat C L now payload signature doc_ids_map sender nonce block order network action =
     (let hex_id = tx_to_hex L (tx_from_pair L payload (as_bytes signature))
      in andThen (reads (\<lambda>_. encode_mutation_body C payload signature)) (\<lambda>buf.
         andThen (reads (\<lambda>_. encode_mutation_header C now hex_id (of_nat (length buf)) doc_ids_map sender
                    nonce block order network action)) (\<lambda>header_buf.
         andThen (modify (\<lambda>m. m\<lparr>mutation_count := mutation_count m + 1,
           total_mutation_bytes := total_mutation_bytes m + of_nat (length buf + length header_buf)\<rparr>)) (\<lambda>_.
         set_block_state block order))))"

end
