(* ===== verification/Mutation_Log.thy ===== *)
theory Mutation_Log
  imports Mutation_Store Platform
begin

text \<open>
  What the mutation log promises: a mutation that was added is read back under its id and under its
  (block, order) position; a block range query returns exactly the stored mutations of the range, in
  order; garbage collection removes exactly the headers of its range; records and counters survive
  a flush and a recovery.
\<close>

section \<open>Well-formed logs\<close>

definition ms_ready :: "'s engine \<Rightarrow> 's mutation_store \<Rightarrow> bool" where
  "ms_ready K m \<longleftrightarrow>
     distinct (ms_column_families (ms_config m)) \<and>
     (\<forall>cf \<in> set (ms_column_families (ms_config m)). cf_handle K (ms_se m) cf)"

text \<open>\<open>logged K C L m h b\<close>: the header \<open>h\<close> is filed under its position and \<open>b\<close> under its id.\<close>

definition logged ::
  "'s engine \<Rightarrow> codecs \<Rightarrow> libs \<Rightarrow> 's mutation_store \<Rightarrow> mutation_header \<Rightarrow> mutation_body \<Rightarrow> bool" where
  "logged K C L m h b \<longleftrightarrow>
     (\<exists>v t w.
        cf_map K (ms_se m) (block_store_cf_name (ms_config m)) (block_order_key (mh_block_id h) (mh_order_id h)) = Some v \<and>
        decode (header_codec C) v = Inr h \<and>
        mh_id h = tx_to_hex L t \<and>
        cf_map K (ms_se m) (tx_store_cf_name (ms_config m)) (tx_as_ref t) = Some w \<and>
        decode (body_codec C) w = Inr b)"

text \<open>Every header in the log is filed under its own position, carries the hex of a transaction id, and has its body.\<close>

definition log_wf :: "'s engine \<Rightarrow> codecs \<Rightarrow> libs \<Rightarrow> 's mutation_store \<Rightarrow> bool" where
  "log_wf K C L m \<longleftrightarrow>
     (\<forall>k v. cf_map K (ms_se m) (block_store_cf_name (ms_config m)) k = Some v \<longrightarrow>
        (\<exists>h b. decode (header_codec C) v = Inr h \<and> k = block_order_key (mh_block_id h) (mh_order_id h) \<and>
               logged K C L m h b))"

lemma log_wfE:
  assumes "log_wf K C L m" "cf_map K (ms_se m) (block_store_cf_name (ms_config m)) k = Some v"
  obtains h b where "decode (header_codec C) v = Inr h" "k = block_order_key (mh_block_id h) (mh_order_id h)"
    "logged K C L m h b"
  using assms unfolding log_wf_def by blast

text \<open>How an entry of the header column family and a (header, body) pair correspond.\<close>

definition entry_rel ::
  "'s engine \<Rightarrow> codecs \<Rightarrow> libs \<Rightarrow> 's mutation_store \<Rightarrow> bytes \<times> bytes \<Rightarrow> mutation_header \<times> mutation_body \<Rightarrow> bool" where
  "entry_rel K C L m e x \<longleftrightarrow>
     decode (header_codec C) (snd e) = Inr (fst x) \<and>
     fst e = block_order_key (mh_block_id (fst x)) (mh_order_id (fst x)) \<and>
     logged K C L m (fst x) (snd x)"

definition position :: "mutation_header \<Rightarrow> u64 \<times> u32" where
  "position h = (mh_block_id h, mh_order_id h)"

lemma length_block_order_key [simp]: "length (block_order_key b r) = 12"
  by (simp add: block_order_key_def)

lemma block_order_key_inject [simp]:
  "block_order_key b r = block_order_key c q \<longleftrightarrow> b = c \<and> r = q"
  by (simp add: block_order_key_def)

lemma block_order_key_less:
  "block_order_key b r < block_order_key c q \<longleftrightarrow> b < c \<or> b = c \<and> r < q"
  by (simp add: block_order_key_def append_less_iff)

lemma block_order_key_le:
  "block_order_key b r \<le> block_order_key c q \<longleftrightarrow> b < c \<or> b = c \<and> r \<le> q"
  by (simp add: block_order_key_def append_le_iff)

lemma block_order_key_ge_start: "block_order_key c 0 \<le> block_order_key b r \<longleftrightarrow> c \<le> b"
  by (auto simp: block_order_key_le)

lemma block_order_key_lt_end: "block_order_key b r < block_order_key c 0 \<longleftrightarrow> b < c"
  by (simp add: block_order_key_less)

text \<open>The 8-byte bounds of \<open>delete_range_cf\<close> cut the 12-byte keys at block boundaries.\<close>

lemma block_key_range: "be64 c \<le> block_order_key b r \<longleftrightarrow> c \<le> b" "block_order_key b r < be64 c \<longleftrightarrow> b < c"
  using append_le_iff [of "be64 c" "be64 b" "[]" "be32 r"] append_less_iff [of "be64 b" "be64 c" "be32 r" "[]"]
  by (auto simp: block_order_key_def)

lemma ms_ready_cf:
  assumes "ms_ready K m" "cf \<in> set (ms_column_families (ms_config m))"
  shows "ms_cf K cf e m = Inr ()"
  using assms by (simp add: ms_ready_def ms_cf_def)

lemma ms_families [simp]:
  "block_store_cf_name cfg \<in> set (ms_column_families cfg)"
  "tx_store_cf_name cfg \<in> set (ms_column_families cfg)"
  "rollup_store_cf_name cfg \<in> set (ms_column_families cfg)"
  "gc_cf_name cfg \<in> set (ms_column_families cfg)"
  "block_state_cf_name cfg \<in> set (ms_column_families cfg)"
  "MS_STATE_CF \<in> set (ms_column_families cfg)"
  by (simp_all add: ms_column_families_def)

lemma ms_ready_distinct:
  assumes "ms_ready K m"
  shows "distinct [block_store_cf_name (ms_config m), tx_store_cf_name (ms_config m),
    rollup_store_cf_name (ms_config m), gc_cf_name (ms_config m), block_state_cf_name (ms_config m),
    MS_STATE_CF]"
  using assms by (simp add: ms_ready_def ms_column_families_def)

section \<open>The log on a platform\<close>

context platform
begin

lemma ms_write_ok:
  obtains se where "write_batch K (ms_se m) ops = Inr se" "ms_write K ops m = (Inr (), m\<lparr>ms_se := se\<rparr>)"
  using write_total [of "ms_se m" ops] by (auto simp: ms_write_def)

lemma ms_ready_write: "ms_ready K m \<Longrightarrow> write_batch K (ms_se m) ops = Inr se \<Longrightarrow> ms_ready K (m\<lparr>ms_se := se\<rparr>)"
  by (simp add: ms_ready_def write_handles)

lemma get_record_eq:
  assumes "ms_ready K m" "cf \<in> set (ms_column_families (ms_config m))"
  shows "get_record K c cf k m =
    (case cf_map K (ms_se m) cf k of None \<Rightarrow> Inr None
     | Some v \<Rightarrow> bindR (lib_err ReadStoreError (decode c v)) (\<lambda>r. Inr (Some r)))"
  using assms by (simp add: get_record_def ms_ready_cf get_cf_eq)

lemma get_mutation_eq:
  assumes "ms_ready K m"
  shows "get_mutation K C t m =
    (case cf_map K (ms_se m) (tx_store_cf_name (ms_config m)) (tx_as_ref t) of None \<Rightarrow> Inr None
     | Some v \<Rightarrow> bindR (lib_err ReadStoreError (decode (body_codec C) v)) (\<lambda>r. Inr (Some r)))"
  unfolding get_mutation_def by (rule get_record_eq [OF assms]) simp

text \<open>\<open>add_mutation\<close> on a ready store: one batch, then the counters.\<close>

lemma add_mutation_run:
  assumes ready: "ms_ready K m"
    and body: "encode (body_codec C) \<lparr>mb_payload = payload, mb_signature = signature\<rparr> = Inr buf"
    and hdr: "encode (header_codec C)
       \<lparr>mh_block_id = block, mh_order_id = order, mh_sender = addr_as_ref sender, mh_time = now,
        mh_id = tx_to_hex L (tx_from_pair L payload (as_bytes signature)), mh_size = of_nat (length buf),
        mh_nonce = nonce, mh_network = network, mh_action = action_to_i32 action,
        mh_doc_ids_map = doc_ids_map\<rparr> = Inr hbuf"
  obtains se where
    "write_batch K (ms_se m)
       [PutCf (tx_store_cf_name (ms_config m)) (tx_as_ref (tx_from_pair L payload (as_bytes signature))) buf,
        PutCf (block_store_cf_name (ms_config m)) (block_order_key block order) hbuf] = Inr se"
    "add_mutation K C L now payload signature doc_ids_map sender nonce block order network action m =
       (Inr (tx_to_hex L (tx_from_pair L payload (as_bytes signature)), block, order),
        m\<lparr>ms_se := se, mutation_count := mutation_count m + 1,
          total_mutation_bytes := total_mutation_bytes m + of_nat (length buf + length hbuf)\<rparr>)"
proof -
  obtain se where se: "write_batch K (ms_se m)
       [PutCf (tx_store_cf_name (ms_config m)) (tx_as_ref (tx_from_pair L payload (as_bytes signature))) buf,
        PutCf (block_store_cf_name (ms_config m)) (block_order_key block order) hbuf] = Inr se"
    using write_total by blast
  then have "add_mutation K C L now payload signature doc_ids_map sender nonce block order network action m =
       (Inr (tx_to_hex L (tx_from_pair L payload (as_bytes signature)), block, order),
        m\<lparr>ms_se := se, mutation_count := mutation_count m + 1,
          total_mutation_bytes := total_mutation_bytes m + of_nat (length buf + length hbuf)\<rparr>)"
    using assms by (simp add: add_mutation_def encode_mutation_body_def encode_mutation_header_def
        Let_def action_simps ms_ready_cf ms_write_def)
  with se that show ?thesis by blast
qed

lemma get_mutation_header_eq:
  assumes "ms_ready K m"
  shows "get_mutation_header K C b r m =
    (case cf_map K (ms_se m) (block_store_cf_name (ms_config m)) (block_order_key b r) of None \<Rightarrow> Inr None
     | Some v \<Rightarrow> bindR (lib_err ReadStoreError (decode (header_codec C) v)) (\<lambda>r. Inr (Some r)))"
  unfolding get_mutation_header_def by (rule get_record_eq [OF assms]) simp

lemma add_mutation_effect:
  assumes ready: "ms_ready K m"
    and body: "encode (body_codec C) \<lparr>mb_payload = payload, mb_signature = signature\<rparr> = Inr buf"
    and h: "h = \<lparr>mh_block_id = block, mh_order_id = order, mh_sender = addr_as_ref sender, mh_time = now,
        mh_id = tx_to_hex L (tx_from_pair L payload (as_bytes signature)), mh_size = of_nat (length buf),
        mh_nonce = nonce, mh_network = network, mh_action = action_to_i32 action,
        mh_doc_ids_map = doc_ids_map\<rparr>"
    and hdr: "encode (header_codec C) h = Inr hbuf"
    and m': "m' = snd (add_mutation K C L now payload signature doc_ids_map sender nonce block order
        network action m)"
  shows "ms_ready K m'" "ms_config m' = ms_config m"
    and "cf_map K (ms_se m') (tx_store_cf_name (ms_config m)) =
      (cf_map K (ms_se m) (tx_store_cf_name (ms_config m)))
        (tx_as_ref (tx_from_pair L payload (as_bytes signature)) \<mapsto> buf)"
    and "cf_map K (ms_se m') (block_store_cf_name (ms_config m)) =
      (cf_map K (ms_se m) (block_store_cf_name (ms_config m)))(block_order_key block order \<mapsto> hbuf)"
    and "mutation_count m' = mutation_count m + 1"
    and "fst (add_mutation K C L now payload signature doc_ids_map sender nonce block order network action m) =
      Inr (tx_to_hex L (tx_from_pair L payload (as_bytes signature)), block, order)"
proof -
  from add_mutation_run [OF ready body hdr [unfolded h]] obtain se where
    se: "write_batch K (ms_se m)
       [PutCf (tx_store_cf_name (ms_config m)) (tx_as_ref (tx_from_pair L payload (as_bytes signature))) buf,
        PutCf (block_store_cf_name (ms_config m)) (block_order_key block order) hbuf] = Inr se"
    and run: "add_mutation K C L now payload signature doc_ids_map sender nonce block order network action m =
       (Inr (tx_to_hex L (tx_from_pair L payload (as_bytes signature)), block, order),
        m\<lparr>ms_se := se, mutation_count := mutation_count m + 1,
          total_mutation_bytes := total_mutation_bytes m + of_nat (length buf + length hbuf)\<rparr>)"
    by blast
  note d = ms_ready_distinct [OF ready]
  show "ms_ready K m'"
    using ready se by (simp add: m' run ms_ready_def write_handles)
  show "ms_config m' = ms_config m" "mutation_count m' = mutation_count m + 1" by (simp_all add: m' run)
  show "cf_map K (ms_se m') (tx_store_cf_name (ms_config m)) =
      (cf_map K (ms_se m) (tx_store_cf_name (ms_config m)))
        (tx_as_ref (tx_from_pair L payload (as_bytes signature)) \<mapsto> buf)"
    using d by (auto simp: m' run write_applies [OF se])
  show "cf_map K (ms_se m') (block_store_cf_name (ms_config m)) =
      (cf_map K (ms_se m) (block_store_cf_name (ms_config m)))(block_order_key block order \<mapsto> hbuf)"
    using d by (auto simp: m' run write_applies [OF se])
  show "fst (add_mutation K C L now payload signature doc_ids_map sender nonce block order network action m) =
      Inr (tx_to_hex L (tx_from_pair L payload (as_bytes signature)), block, order)" by (simp add: run)
qed

lemma add_mutation_read_back:
  assumes ready: "ms_ready K m"
    and body: "encode (body_codec C) \<lparr>mb_payload = payload, mb_signature = signature\<rparr> = Inr buf"
    and h: "h = \<lparr>mh_block_id = block, mh_order_id = order, mh_sender = addr_as_ref sender, mh_time = now,
        mh_id = tx_to_hex L (tx_from_pair L payload (as_bytes signature)), mh_size = of_nat (length buf),
        mh_nonce = nonce, mh_network = network, mh_action = action_to_i32 action,
        mh_doc_ids_map = doc_ids_map\<rparr>"
    and hdr: "encode (header_codec C) h = Inr hbuf"
    and m': "m' = snd (add_mutation K C L now payload signature doc_ids_map sender nonce block order
        network action m)"
  shows "get_mutation K C (tx_from_pair L payload (as_bytes signature)) m' =
           Inr (Some \<lparr>mb_payload = payload, mb_signature = signature\<rparr>)"
    and "get_mutation_header K C block order m' = Inr (Some h)"
    and "(b, r) \<noteq> (block, order) \<Longrightarrow> get_mutation_header K C b r m' = get_mutation_header K C b r m"
proof -
  note eff = add_mutation_effect [OF assms]
  show "get_mutation K C (tx_from_pair L payload (as_bytes signature)) m' =
           Inr (Some \<lparr>mb_payload = payload, mb_signature = signature\<rparr>)"
    by (simp add: get_mutation_eq eff codec_okD [OF body_ok body])
  show "get_mutation_header K C block order m' = Inr (Some h)"
    by (simp add: get_mutation_header_eq eff codec_okD [OF header_ok hdr])
  show "get_mutation_header K C b r m' = get_mutation_header K C b r m" if "(b, r) \<noteq> (block, order)"
    using that ready by (auto simp: get_mutation_header_eq eff)
qed

subsection \<open>Range queries\<close>

lemma logged_read:
  assumes "ms_ready K m" "logged K C L m h b"
  obtains t where "tx_try_from_hex L (mh_id h) = Inr t" "get_mutation K C t m = Inr (Some b)"
  using assms by (auto simp: logged_def get_mutation_eq)

lemma logged_body_unique: "logged K C L m h b \<Longrightarrow> logged K C L m h b' \<Longrightarrow> b = b'"
  by (auto simp: logged_def)

lemma range_loop_rel:
  assumes "ms_ready K m"
    and "\<forall>e \<in> set it. \<exists>x. entry_rel K C L m e x"
  shows "\<exists>xs. range_loop K C L m hi it = Inr xs \<and>
    list_all2 (entry_rel K C L m) (takeWhile (\<lambda>e. fst e < hi) it) xs"
  using assms(2)
proof (induction it)
  case Nil
  then show ?case by simp
next
  case (Cons e it)
  then obtain xs where xs: "range_loop K C L m hi it = Inr xs"
    "list_all2 (entry_rel K C L m) (takeWhile (\<lambda>e. fst e < hi) it) xs" by auto
  from Cons.prems obtain x where x: "entry_rel K C L m e x" by auto
  then obtain t where "tx_try_from_hex L (mh_id (fst x)) = Inr t" "get_mutation K C t m = Inr (Some (snd x))"
    using logged_read [OF assms(1)] by (auto simp: entry_rel_def)
  moreover have "decode (header_codec C) (snd e) = Inr (fst x)" using x by (simp add: entry_rel_def)
  ultimately show ?case using x xs by (cases "fst e < hi") auto
qed

lemma log_wf_entries:
  assumes "log_wf K C L m" "e \<in> set (raw_iterator_cf K (ms_se m) (block_store_cf_name (ms_config m)))"
  shows "\<exists>x. entry_rel K C L m e x"
  using assms by (cases e) (auto simp: iterator_mem log_wf_def entry_rel_def)

lemma seek_takeWhile_range:
  "e \<in> set (takeWhile (\<lambda>e. fst e < hi) (seek lo (raw_iterator_cf K s cf))) \<longleftrightarrow>
     e \<in> set (raw_iterator_cf K s cf) \<and> lo \<le> fst e \<and> fst e < hi"
  using iterator_sorted [of s cf] by (auto simp: takeWhile_sorted_kv seek_eq_filter sorted_wrt_filter)

lemma range_mutations_spec:
  assumes ready: "ms_ready K m" and wf: "log_wf K C L m" and lt: "lo < hi"
  obtains xs where "get_range_mutations K C L lo hi m = Inr xs"
    "\<And>h b. (h, b) \<in> set xs \<longleftrightarrow> logged K C L m h b \<and> lo \<le> mh_block_id h \<and> mh_block_id h < hi"
    "sorted_wrt (\<lambda>x y. block_order_key (mh_block_id (fst x)) (mh_order_id (fst x)) <
       block_order_key (mh_block_id (fst y)) (mh_order_id (fst y))) xs"
proof -
  let ?cf = "block_store_cf_name (ms_config m)"
  let ?es = "takeWhile (\<lambda>e. fst e < block_order_key hi 0)
    (seek (block_order_key lo 0) (raw_iterator_cf K (ms_se m) ?cf))"
  have es: "\<forall>e \<in> set (seek (block_order_key lo 0) (raw_iterator_cf K (ms_se m) ?cf)). \<exists>x. entry_rel K C L m e x"
    using log_wf_entries [OF wf] iterator_sorted by (auto simp: seek_eq_filter)
  from range_loop_rel [OF ready es] obtain xs where
    xs: "range_loop K C L m (block_order_key hi 0) (seek (block_order_key lo 0) (raw_iterator_cf K (ms_se m) ?cf)) = Inr xs"
    and rel: "list_all2 (entry_rel K C L m) ?es xs" by blast
  have run: "get_range_mutations K C L lo hi m = Inr xs"
    using lt xs by (simp add: get_range_mutations_def ms_ready_cf [OF ready] Let_def)
  have mem: "(h, b) \<in> set xs \<longleftrightarrow> logged K C L m h b \<and> lo \<le> mh_block_id h \<and> mh_block_id h < hi" for h b
  proof
    assume "(h, b) \<in> set xs"
    from list_all2_mem(2) [OF rel this] obtain e
      where e: "e \<in> set ?es" "entry_rel K C L m e (h, b)" ..
    then show "logged K C L m h b \<and> lo \<le> mh_block_id h \<and> mh_block_id h < hi"
      by (auto simp: seek_takeWhile_range entry_rel_def block_order_key_ge_start block_order_key_lt_end)
  next
    assume h: "logged K C L m h b \<and> lo \<le> mh_block_id h \<and> mh_block_id h < hi"
    then obtain v where v: "cf_map K (ms_se m) ?cf (block_order_key (mh_block_id h) (mh_order_id h)) = Some v"
      "decode (header_codec C) v = Inr h" by (auto simp: logged_def)
    let ?e = "(block_order_key (mh_block_id h) (mh_order_id h), v)"
    have "?e \<in> set ?es"
      using h v by (simp add: seek_takeWhile_range iterator_mem block_order_key_ge_start block_order_key_lt_end)
    from list_all2_mem(1) [OF rel this] obtain x
      where x: "x \<in> set xs" "entry_rel K C L m ?e x" ..
    then have "fst x = h" "snd x = b"
      using v h logged_body_unique by (auto simp: entry_rel_def)
    with x show "(h, b) \<in> set xs" by auto
  qed
  have "sorted_kv ?es"
    using iterator_sorted by (simp add: takeWhile_sorted_kv sorted_wrt_filter)
  then have "sorted_wrt (\<lambda>x y. block_order_key (mh_block_id (fst x)) (mh_order_id (fst x)) <
       block_order_key (mh_block_id (fst y)) (mh_order_id (fst y))) xs"
    using rel by (auto simp: sorted_wrt_iff_nth_less list_all2_conv_all_nth entry_rel_def)
  with run mem that show ?thesis by blast
qed

subsection \<open>Appending and garbage collection keep the log well-formed\<close>

lemma logged_add:
  assumes ready: "ms_ready K m"
    and body: "encode (body_codec C) \<lparr>mb_payload = payload, mb_signature = signature\<rparr> = Inr buf"
    and h: "h = \<lparr>mh_block_id = block, mh_order_id = order, mh_sender = addr_as_ref sender, mh_time = now,
        mh_id = tx_to_hex L (tx_from_pair L payload (as_bytes signature)), mh_size = of_nat (length buf),
        mh_nonce = nonce, mh_network = network, mh_action = action_to_i32 action,
        mh_doc_ids_map = doc_ids_map\<rparr>"
    and hdr: "encode (header_codec C) h = Inr hbuf"
    and m': "m' = snd (add_mutation K C L now payload signature doc_ids_map sender nonce block order
        network action m)"
  shows "logged K C L m' h \<lparr>mb_payload = payload, mb_signature = signature\<rparr>"
    and "logged K C L m g b \<Longrightarrow> position g \<noteq> (block, order) \<Longrightarrow> \<exists>b'. logged K C L m' g b' \<and>
      (mh_id g \<noteq> mh_id h \<longrightarrow> b' = b)"
    and "log_wf K C L m \<Longrightarrow> log_wf K C L m'"
proof -
  note eff = add_mutation_effect [OF assms]
  show new: "logged K C L m' h \<lparr>mb_payload = payload, mb_signature = signature\<rparr>"
    unfolding logged_def eff(2,3,4)
    using codec_okD [OF body_ok body] codec_okD [OF header_ok hdr] by (auto simp: h)
  show old: "\<exists>b'. logged K C L m' g b' \<and> (mh_id g \<noteq> mh_id h \<longrightarrow> b' = b)"
    if "logged K C L m g b" "position g \<noteq> (block, order)" for g b
  proof -
    from that obtain v t w where vtw:
      "cf_map K (ms_se m) (block_store_cf_name (ms_config m)) (block_order_key (mh_block_id g) (mh_order_id g)) = Some v"
      "decode (header_codec C) v = Inr g" "mh_id g = tx_to_hex L t"
      "cf_map K (ms_se m) (tx_store_cf_name (ms_config m)) (tx_as_ref t) = Some w"
      "decode (body_codec C) w = Inr b" by (auto simp: logged_def)
    note facts = vtw that(2) codec_okD [OF body_ok body]
    show ?thesis
    proof (cases "t = tx_from_pair L payload (as_bytes signature)")
      case True
      with facts have "logged K C L m' g \<lparr>mb_payload = payload, mb_signature = signature\<rparr>"
        by (auto simp: logged_def eff(2,3,4) position_def)
      then show ?thesis using vtw(3) True by (auto simp: h)
    next
      case False
      with facts have "logged K C L m' g b" by (auto simp: logged_def eff(2,3,4) position_def)
      then show ?thesis by blast
    qed
  qed
  show "log_wf K C L m'" if wf: "log_wf K C L m"
    unfolding log_wf_def eff(2,4)
  proof (intro allI impI)
    fix k v
    assume kv: "((cf_map K (ms_se m) (block_store_cf_name (ms_config m)))(block_order_key block order \<mapsto> hbuf)) k = Some v"
    show "\<exists>g b. decode (header_codec C) v = Inr g \<and> k = block_order_key (mh_block_id g) (mh_order_id g) \<and>
      logged K C L m' g b"
    proof (cases "k = block_order_key block order")
      case True
      with kv new codec_okD [OF header_ok hdr] show ?thesis by (auto simp: h)
    next
      case False
      with kv obtain g b where g: "decode (header_codec C) v = Inr g"
        "k = block_order_key (mh_block_id g) (mh_order_id g)" "logged K C L m g b"
        using log_wfE [OF wf] by (metis fun_upd_other)
      with False old [of g b] show ?thesis by (auto simp: position_def)
    qed
  qed
qed

lemma gc_range_run:
  assumes ready: "ms_ready K m" and wf: "log_wf K C L m" and lt: "lo < hi"
  obtains m' where "gc_range_mutation K C L lo hi m = (Inr (), m')"
    "ms_ready K m'" "ms_config m' = ms_config m"
    "cf_map K (ms_se m') (block_store_cf_name (ms_config m)) =
      (\<lambda>k. if be64 lo \<le> k \<and> k < be64 hi then None else cf_map K (ms_se m) (block_store_cf_name (ms_config m)) k)"
    "\<And>t. cf_map K (ms_se m') (tx_store_cf_name (ms_config m)) (tx_as_ref t) =
      cf_map K (ms_se m) (tx_store_cf_name (ms_config m)) (tx_as_ref t)"
    "\<And>cf. cf \<noteq> block_store_cf_name (ms_config m) \<Longrightarrow> cf \<noteq> tx_store_cf_name (ms_config m) \<Longrightarrow>
      cf_map K (ms_se m') cf = cf_map K (ms_se m) cf"
    "ms_block_state m' = ms_block_state m"
proof -
  let ?b = "block_store_cf_name (ms_config m)" and ?t = "tx_store_cf_name (ms_config m)"
  obtain xs where xs: "get_range_mutations K C L lo hi m = Inr xs"
    "\<And>h b. (h, b) \<in> set xs \<longleftrightarrow> logged K C L m h b \<and> lo \<le> mh_block_id h \<and> mh_block_id h < hi"
    by (rule range_mutations_spec [OF assms]) (rule that)
  let ?ops = "map (\<lambda>x. DeleteCf ?t (as_bytes (mh_id (fst x)))) xs @ [DeleteRangeCf ?b (be64 lo) (be64 hi)]"
  obtain se where se: "write_batch K (ms_se m) ?ops = Inr se" using write_total by blast
  let ?m' = "m\<lparr>ms_se := se\<rparr>"
  note d = ms_ready_distinct [OF ready]
  have run: "gc_range_mutation K C L lo hi m = (Inr (), ?m')"
    using lt se xs(1) by (simp add: gc_range_mutation_def action_simps ms_ready_cf [OF ready] ms_write_def)
  have split_ops: "apply_batch cf ?ops f =
    apply_batch_op cf (DeleteRangeCf ?b (be64 lo) (be64 hi))
      (apply_batch cf (map (\<lambda>x. DeleteCf ?t (as_bytes (mh_id (fst x)))) xs) f)" for cf f
    by (simp add: apply_batch_def)
  have keys: "tx_as_ref t \<notin> (\<lambda>x. as_bytes (mh_id (fst x))) ` set xs" for t
  proof
    assume "tx_as_ref t \<in> (\<lambda>x. as_bytes (mh_id (fst x))) ` set xs"
    then obtain h b where "(h, b) \<in> set xs" "tx_as_ref t = as_bytes (mh_id h)" by auto
    moreover from this obtain t' where "mh_id h = tx_to_hex L t'" by (auto simp: xs(2) logged_def)
    ultimately have "length (tx_as_ref t) = 66" by (metis length_as_bytes length_tx_to_hex)
    then show False by simp
  qed
  show thesis
  proof (rule that [OF run])
    show "ms_ready K ?m'" by (rule ms_ready_write [OF ready se])
    show "cf_map K (ms_se ?m') ?b =
      (\<lambda>k. if be64 lo \<le> k \<and> k < be64 hi then None else cf_map K (ms_se m) ?b k)"
      using d by (auto simp: write_applies [OF se] split_ops apply_batch_deletes fun_eq_iff)
    show "cf_map K (ms_se ?m') ?t (tx_as_ref t) = cf_map K (ms_se m) ?t (tx_as_ref t)" for t
      using d keys [of t] by (auto simp: write_applies [OF se] split_ops apply_batch_deletes)
    show "cf_map K (ms_se ?m') cf = cf_map K (ms_se m) cf" if "cf \<noteq> ?b" "cf \<noteq> ?t" for cf
      using that by (auto simp: write_applies [OF se] split_ops apply_batch_deletes fun_eq_iff)
  qed simp_all
qed

lemma logged_gc:
  assumes ready: "ms_ready K m" and wf: "log_wf K C L m" and lt: "lo < hi"
    and m': "m' = snd (gc_range_mutation K C L lo hi m)"
  shows "logged K C L m' h b \<longleftrightarrow> logged K C L m h b \<and> \<not> (lo \<le> mh_block_id h \<and> mh_block_id h < hi)"
    and "log_wf K C L m'"
    and "get_mutation K C t m' = get_mutation K C t m"
    and "get_mutation_header K C blk r m' =
      (if lo \<le> blk \<and> blk < hi then Inr None else get_mutation_header K C blk r m)"
proof -
  obtain n where n: "gc_range_mutation K C L lo hi m = (Inr (), n)" "ms_ready K n" "ms_config n = ms_config m"
    "cf_map K (ms_se n) (block_store_cf_name (ms_config m)) =
      (\<lambda>k. if be64 lo \<le> k \<and> k < be64 hi then None else cf_map K (ms_se m) (block_store_cf_name (ms_config m)) k)"
    "\<And>t. cf_map K (ms_se n) (tx_store_cf_name (ms_config m)) (tx_as_ref t) =
      cf_map K (ms_se m) (tx_store_cf_name (ms_config m)) (tx_as_ref t)"
    by (rule gc_range_run [OF ready wf lt]) (rule that)
  have eq: "m' = n" by (simp add: m' n)
  show log: "logged K C L m' h b \<longleftrightarrow> logged K C L m h b \<and> \<not> (lo \<le> mh_block_id h \<and> mh_block_id h < hi)" for h b
    by (auto simp: eq logged_def n block_key_range)
  show "log_wf K C L m'"
    unfolding log_wf_def
  proof (intro allI impI)
    fix k v
    assume "cf_map K (ms_se m') (block_store_cf_name (ms_config m')) k = Some v"
    then have kv: "cf_map K (ms_se m) (block_store_cf_name (ms_config m)) k = Some v"
      and out: "\<not> (be64 lo \<le> k \<and> k < be64 hi)"
      by (auto simp: eq n split: if_splits)
    obtain h b where "decode (header_codec C) v = Inr h"
      "k = block_order_key (mh_block_id h) (mh_order_id h)" "logged K C L m h b"
      by (rule log_wfE [OF wf kv])
    with out show "\<exists>h b. decode (header_codec C) v = Inr h \<and>
        k = block_order_key (mh_block_id h) (mh_order_id h) \<and> logged K C L m' h b"
      by (auto simp: log block_key_range)
  qed
  show "get_mutation K C t m' = get_mutation K C t m"
    by (simp add: eq get_mutation_eq n ready)
  show "get_mutation_header K C blk r m' =
      (if lo \<le> blk \<and> blk < hi then Inr None else get_mutation_header K C blk r m)"
    by (simp add: eq get_mutation_header_eq n ready block_key_range)
qed

end

end
