(* ===== verification/Sample_Codecs.thy ===== *)
theory Sample_Codecs
  imports Messages Keys Engine
begin

text \<open>
  An executable instance of the message codecs: a message is a list of fields, and a list of fields
  is framed byte by byte. It shows that the laws of \<open>lawful_codecs\<close> can hold and lets theorems about
  the stores be run on concrete values; nothing in the models depends on it.
\<close>

section \<open>Framing\<close>

fun frame_field :: "bytes \<Rightarrow> bytes" where
  "frame_field [] = [0]"
| "frame_field (b # bs) = 1 # b # frame_field bs"

definition frames :: "bytes list \<Rightarrow> bytes" where
  "frames fs = concat (map frame_field fs)"

fun unframes :: "bytes \<Rightarrow> bytes list option" where
  "unframes [] = Some []"
| "unframes [b] = (if b = 0 then Some [[]] else None)"
| "unframes (b # c # bs) =
     (if b = 0 then map_option (Cons []) (unframes (c # bs))
      else case unframes bs of Some (f # fs) \<Rightarrow> Some ((c # f) # fs) | _ \<Rightarrow> None)"

lemma unframes_field: "unframes (frame_field f @ bs) = map_option (Cons f) (unframes bs)"
proof (induction f)
  case Nil
  then show ?case by (cases bs) simp_all
next
  case (Cons b f)
  then show ?case by (cases "unframes bs") simp_all
qed

lemma unframes_frames [simp]: "unframes (frames fs) = Some fs"
  by (induction fs) (simp_all add: frames_def unframes_field)

definition frame_codec :: "('m \<Rightarrow> bytes list) \<Rightarrow> (bytes list \<Rightarrow> 'm option) \<Rightarrow> 'm codec" where
  "frame_codec f g = \<lparr>
     encode = (\<lambda>m. Inr (frames (f m))),
     decode = (\<lambda>bs. case Option.bind (unframes bs) g of None \<Rightarrow> Inl ''failed to decode'' | Some m \<Rightarrow> Inr m)\<rparr>"

lemma frame_codec_ok: "(\<And>m. g (f m) = Some m) \<Longrightarrow> codec_ok (frame_codec f g)"
  by (auto simp: codec_ok_def frame_codec_def)

lemma encode_frame_codec [simp]: "encode (frame_codec f g) m = Inr (frames (f m))"
  by (simp add: frame_codec_def)

definition from_bytes :: "bytes \<Rightarrow> string" where
  "from_bytes bs = map (\<lambda>b. char_of (unat b)) bs"

lemma from_bytes_as_bytes [simp]: "from_bytes (as_bytes s) = s"
proof -
  have "char_of (unat (of_char c :: u8)) = c" for c :: char
  proof -
    have "unat (of_char c :: u8) = (of_char c :: nat)"
      by (cases c) (simp add: of_char_def horner_sum_simps)
    then show ?thesis by simp
  qed
  then show ?thesis by (induction s) (simp_all add: from_bytes_def as_bytes_def)
qed

text \<open>A list of sub-messages is one field.\<close>

fun traverse :: "('x \<Rightarrow> 'y option) \<Rightarrow> 'x list \<Rightarrow> 'y list option" where
  "traverse f [] = Some []"
| "traverse f (x # xs) = (case f x of None \<Rightarrow> None | Some y \<Rightarrow> map_option (Cons y) (traverse f xs))"

definition list_field :: "('m \<Rightarrow> bytes list) \<Rightarrow> 'm list \<Rightarrow> bytes" where
  "list_field f ms = frames (map (\<lambda>m. frames (f m)) ms)"

definition list_of_field :: "(bytes list \<Rightarrow> 'm option) \<Rightarrow> bytes \<Rightarrow> 'm list option" where
  "list_of_field g bs = Option.bind (unframes bs) (traverse (\<lambda>x. Option.bind (unframes x) g))"

lemma list_of_list_field [simp]:
  "(\<And>m. g (f m) = Some m) \<Longrightarrow> list_of_field g (list_field f ms) = Some ms"
proof -
  assume "\<And>m. g (f m) = Some m"
  then have "traverse (\<lambda>x. Option.bind (unframes x) g) (map (\<lambda>m. frames (f m)) ms) = Some ms"
    by (induction ms) simp_all
  then show ?thesis by (simp add: list_of_field_def list_field_def)
qed

section \<open>Messages as fields\<close>

definition header_fields :: "mutation_header \<Rightarrow> bytes list" where
  "header_fields h = [be64 (mh_block_id h), be32 (mh_order_id h), mh_sender h, be64 (mh_time h),
     as_bytes (mh_id h), be32 (mh_size h), be64 (mh_nonce h), be64 (mh_network h), be32 (mh_action h),
     as_bytes (mh_doc_ids_map h)]"

definition header_of :: "bytes list \<Rightarrow> mutation_header option" where
  "header_of fs = (case fs of
     [a, b, c, d, e, f, g, h, i, j] \<Rightarrow> Some \<lparr>mh_block_id = from_be64 a, mh_order_id = from_be32 b,
       mh_sender = c, mh_time = from_be64 d, mh_id = from_bytes e, mh_size = from_be32 f,
       mh_nonce = from_be64 g, mh_network = from_be64 h, mh_action = from_be32 i,
       mh_doc_ids_map = from_bytes j\<rparr>
   | _ \<Rightarrow> None)"

definition body_fields :: "mutation_body \<Rightarrow> bytes list" where
  "body_fields b = [mb_payload b, as_bytes (mb_signature b)]"

definition body_of :: "bytes list \<Rightarrow> mutation_body option" where
  "body_of fs = (case fs of [a, b] \<Rightarrow> Some \<lparr>mb_payload = a, mb_signature = from_bytes b\<rparr> | _ \<Rightarrow> None)"

definition rollup_fields :: "rollup_record \<Rightarrow> bytes list" where
  "rollup_fields r = [be64 (rr_end_block r), be64 (rr_raw_data_size r), be64 (rr_compress_data_size r),
     be64 (rr_processed_time r), as_bytes (rr_arweave_tx r), be64 (rr_time r), be64 (rr_mutation_count r),
     be64 (rr_cost r), be64 (rr_start_block r), as_bytes (rr_evm_tx r), be64 (rr_evm_cost r)]"

definition rollup_of :: "bytes list \<Rightarrow> rollup_record option" where
  "rollup_of fs = (case fs of
     [a, b, c, d, e, f, g, h, i, j, k] \<Rightarrow> Some \<lparr>rr_end_block = from_be64 a, rr_raw_data_size = from_be64 b,
       rr_compress_data_size = from_be64 c, rr_processed_time = from_be64 d, rr_arweave_tx = from_bytes e,
       rr_time = from_be64 f, rr_mutation_count = from_be64 g, rr_cost = from_be64 h,
       rr_start_block = from_be64 i, rr_evm_tx = from_bytes j, rr_evm_cost = from_be64 k\<rparr>
   | _ \<Rightarrow> None)"

definition gc_fields :: "gc_record \<Rightarrow> bytes list" where
  "gc_fields r = [be64 (gr_start_block r), be64 (gr_end_block r), be64 (gr_data_size r), be64 (gr_time r),
     be64 (gr_processed_time r)]"

definition gc_of :: "bytes list \<Rightarrow> gc_record option" where
  "gc_of fs = (case fs of
     [a, b, c, d, e] \<Rightarrow> Some \<lparr>gr_start_block = from_be64 a, gr_end_block = from_be64 b,
       gr_data_size = from_be64 c, gr_time = from_be64 d, gr_processed_time = from_be64 e\<rparr>
   | _ \<Rightarrow> None)"

definition mstate_fields :: "mutation_state \<Rightarrow> bytes list" where
  "mstate_fields s = [be64 (mst_mutation_count s), be64 (mst_total_mutation_bytes s), be64 (mst_gc_count s),
     be64 (mst_rollup_count s), be64 (mst_total_rollup_bytes s), mst_total_storage_cost s,
     mst_total_evm_cost s, be64 (mst_total_gc_bytes s), be64 (mst_total_rollup_raw_bytes s),
     be64 (mst_total_rollup_mutation_count s)]"

definition mstate_of :: "bytes list \<Rightarrow> mutation_state option" where
  "mstate_of fs = (case fs of
     [a, b, c, d, e, f, g, h, i, j] \<Rightarrow> Some \<lparr>mst_mutation_count = from_be64 a,
       mst_total_mutation_bytes = from_be64 b, mst_gc_count = from_be64 c, mst_rollup_count = from_be64 d,
       mst_total_rollup_bytes = from_be64 e, mst_total_storage_cost = f, mst_total_evm_cost = g,
       mst_total_gc_bytes = from_be64 h, mst_total_rollup_raw_bytes = from_be64 i,
       mst_total_rollup_mutation_count = from_be64 j\<rparr>
   | _ \<Rightarrow> None)"

definition database_fields :: "database_message \<Rightarrow> bytes list" where
  "database_fields m = (case dm_database m of
     None \<Rightarrow> []
   | Some (DocDb d) \<Rightarrow> [dd_address d, dd_sender d, as_bytes (dd_desc d)]
   | Some (EventDb e) \<Rightarrow> [ed_address e, ed_sender e, as_bytes (ed_contract_address e), as_bytes (ed_desc e),
       be64 (ed_ttl e), as_bytes (ed_events_json_abi e), as_bytes (ed_evm_node_url e), be64 (ed_start_block e)])"

definition database_of :: "bytes list \<Rightarrow> database_message option" where
  "database_of fs = (case fs of
     [] \<Rightarrow> Some \<lparr>dm_database = None\<rparr>
   | [a, b, c] \<Rightarrow> Some \<lparr>dm_database = Some (DocDb \<lparr>dd_address = a, dd_sender = b, dd_desc = from_bytes c\<rparr>)\<rparr>
   | [a, b, c, d, e, f, g, h] \<Rightarrow> Some \<lparr>dm_database = Some (EventDb \<lparr>ed_address = a, ed_sender = b,
       ed_contract_address = from_bytes c, ed_desc = from_bytes d, ed_ttl = from_be64 e,
       ed_events_json_abi = from_bytes f, ed_evm_node_url = from_bytes g, ed_start_block = from_be64 h\<rparr>)\<rparr>
   | _ \<Rightarrow> None)"

definition index_fields :: "index_field \<Rightarrow> bytes list" where
  "index_fields i = [as_bytes (ix_path i), be32 (ix_index_type i)]"

definition index_of :: "bytes list \<Rightarrow> index_field option" where
  "index_of fs = (case fs of [a, b] \<Rightarrow> Some \<lparr>ix_path = from_bytes a, ix_index_type = from_be32 b\<rparr> | _ \<Rightarrow> None)"

definition collection_fields :: "collection \<Rightarrow> bytes list" where
  "collection_fields c = [as_bytes (col_name c), list_field index_fields (col_index_fields c), col_sender c]"

definition collection_of :: "bytes list \<Rightarrow> collection option" where
  "collection_of fs = (case fs of
     [a, b, c] \<Rightarrow> map_option (\<lambda>is. \<lparr>col_name = from_bytes a, col_index_fields = is, col_sender = c\<rparr>)
       (list_of_field index_of b)
   | _ \<Rightarrow> None)"

definition cstate_fields :: "string \<times> collection_state_proto \<Rightarrow> bytes list" where
  "cstate_fields p = [as_bytes (fst p), be64 (csp_total_doc_count (snd p))]"

definition cstate_of :: "bytes list \<Rightarrow> (string \<times> collection_state_proto) option" where
  "cstate_of fs = (case fs of
     [a, b] \<Rightarrow> Some (from_bytes a, \<lparr>csp_total_doc_count = from_be64 b\<rparr>) | _ \<Rightarrow> None)"

definition persistence_fields :: "database_state_persistence \<Rightarrow> bytes list" where
  "persistence_fields p = [as_bytes (pers_addr p), be64 (pers_total_doc_count p), be64 (pers_total_col_count p),
     list_field cstate_fields (pers_collection_states p), be64 (pers_doc_order p)]"

definition persistence_of :: "bytes list \<Rightarrow> database_state_persistence option" where
  "persistence_of fs = (case fs of
     [a, b, c, d, e] \<Rightarrow> map_option (\<lambda>cs. \<lparr>pers_addr = from_bytes a, pers_total_doc_count = from_be64 b,
       pers_total_col_count = from_be64 c, pers_collection_states = cs, pers_doc_order = from_be64 e\<rparr>)
       (list_of_field cstate_of d)
   | _ \<Rightarrow> None)"

definition block_state_fields :: "block_state_proto \<Rightarrow> bytes list" where
  "block_state_fields s = [be64 (bsp_block s), be32 (bsp_order s)]"

definition block_state_of :: "bytes list \<Rightarrow> block_state_proto option" where
  "block_state_of fs = (case fs of [a, b] \<Rightarrow> Some \<lparr>bsp_block = from_be64 a, bsp_order = from_be32 b\<rparr> | _ \<Rightarrow> None)"

definition config_fields :: "system_config \<Rightarrow> bytes list" where
  "config_fields c = [be64 (sc_min_rollup_size c), be64 (sc_rollup_interval c), be64 (sc_network_id c),
     as_bytes (sc_evm_node_url c), as_bytes (sc_ar_node_url c), be32 (sc_chain_id c),
     be64 (sc_rollup_max_interval c), as_bytes (sc_contract_addr c), be64 (sc_min_gc_offset c)]"

definition config_of :: "bytes list \<Rightarrow> system_config option" where
  "config_of fs = (case fs of
     [a, b, c, d, e, f, g, h, i] \<Rightarrow> Some \<lparr>sc_min_rollup_size = from_be64 a, sc_rollup_interval = from_be64 b,
       sc_network_id = from_be64 c, sc_evm_node_url = from_bytes d, sc_ar_node_url = from_bytes e,
       sc_chain_id = from_be32 f, sc_rollup_max_interval = from_be64 g, sc_contract_addr = from_bytes h,
       sc_min_gc_offset = from_be64 i\<rparr>
   | _ \<Rightarrow> None)"

lemma fields_roundtrip:
  "header_of (header_fields h) = Some h" "body_of (body_fields b) = Some b"
  "rollup_of (rollup_fields r) = Some r" "gc_of (gc_fields g) = Some g"
  "mstate_of (mstate_fields s) = Some s" "index_of (index_fields i) = Some i"
  "block_state_of (block_state_fields t) = Some t"
  "config_of (config_fields y) = Some y"
  by (simp_all add: header_of_def header_fields_def body_of_def body_fields_def rollup_of_def rollup_fields_def
      gc_of_def gc_fields_def mstate_of_def mstate_fields_def index_of_def index_fields_def
      block_state_of_def block_state_fields_def config_of_def config_fields_def)

lemma cstate_fields_roundtrip: "cstate_of (cstate_fields c) = Some c"
  by (cases c) (simp add: cstate_of_def cstate_fields_def)

lemma nested_fields_roundtrip:
  "collection_of (collection_fields x) = Some x" "persistence_of (persistence_fields p) = Some p"
  by (simp_all add: collection_of_def collection_fields_def persistence_of_def persistence_fields_def
      fields_roundtrip cstate_fields_roundtrip)

lemma database_fields_roundtrip: "database_of (database_fields m) = Some m"
  by (cases m) (auto simp: database_of_def database_fields_def split: option.split database.split)

definition sample_codecs :: codecs where
  "sample_codecs = \<lparr>
     header_codec = frame_codec header_fields header_of,
     body_codec = frame_codec body_fields body_of,
     rollup_codec = frame_codec rollup_fields rollup_of,
     gc_codec = frame_codec gc_fields gc_of,
     mstate_codec = frame_codec mstate_fields mstate_of,
     database_codec = frame_codec database_fields database_of,
     collection_codec = frame_codec collection_fields collection_of,
     persistence_codec = frame_codec persistence_fields persistence_of,
     block_state_codec = frame_codec block_state_fields block_state_of,
     config_codec = frame_codec config_fields config_of\<rparr>"

interpretation framed: lawful_codecs sample_codecs
  by unfold_locales
    (simp_all add: sample_codecs_def frame_codec_ok fields_roundtrip nested_fields_roundtrip
      database_fields_roundtrip)

lemma sample_codecs_encode [simp]:
  "encode (header_codec sample_codecs) h = Inr (frames (header_fields h))"
  "encode (body_codec sample_codecs) b = Inr (frames (body_fields b))"
  "encode (rollup_codec sample_codecs) r = Inr (frames (rollup_fields r))"
  "encode (gc_codec sample_codecs) g = Inr (frames (gc_fields g))"
  "encode (mstate_codec sample_codecs) s = Inr (frames (mstate_fields s))"
  "encode (database_codec sample_codecs) d = Inr (frames (database_fields d))"
  "encode (collection_codec sample_codecs) x = Inr (frames (collection_fields x))"
  "encode (persistence_codec sample_codecs) p = Inr (frames (persistence_fields p))"
  "encode (block_state_codec sample_codecs) t = Inr (frames (block_state_fields t))"
  "encode (config_codec sample_codecs) y = Inr (frames (config_fields y))"
  by (simp_all add: sample_codecs_def)

end
