(* ===== verification/Log_Machine.thy ===== *)
theory Log_Machine
  imports Mutation_Log Sample_Codecs "HOL-Library.Product_Lexorder"
begin

text \<open>
  The mutation log as a state machine: writes (mutations, records, counters, garbage collection), the
  block clock, and restarts. Every state reached from a fresh store is well-formed, and the positions
  the clock hands out never repeat as long as a block was produced between two restarts.
\<close>

section \<open>Steps\<close>

text \<open>The writes, each with whatever result it returns.\<close>

inductive log_write :: "'s engine \<Rightarrow> codecs \<Rightarrow> libs \<Rightarrow> 's mutation_store \<Rightarrow> 's mutation_store \<Rightarrow> bool"
  for K C L where
  write_mutation: "log_write K C L m (snd (add_mutation K C L now payload signature doc_ids_map sender nonce
    block order network action m))"
| write_rollup: "log_write K C L m (snd (add_rollup_record K C r m))"
| write_gc_record: "log_write K C L m (snd (add_gc_record K C g m))"
| write_gc: "log_write K C L m (snd (gc_range_mutation K C L lo hi m))"
| write_flush: "log_write K C L m (snd (flush_state K C now m))"

text \<open>The clock: an order is issued, a block is closed, or the process restarts on the same engine
  state. The flag of a state records whether a block was closed since the last start; with
  \<open>closed_first\<close> only such states restart. Steps at the end of the
  counters' ranges (\<open>2 ^ 32\<close> mutations in a block, \<open>2 ^ 64\<close> blocks) are left out: there the
  counters wrap.\<close>

inductive clock_step ::
  "'s engine \<Rightarrow> codecs \<Rightarrow> libs \<Rightarrow> bool \<Rightarrow> 's mutation_store \<times> bool \<Rightarrow> (u64 \<times> u32) option \<Rightarrow>
   's mutation_store \<times> bool \<Rightarrow> bool" for K C L closed_first where
  clock_issue: "increase_order m = (Inr p, m') \<Longrightarrow> bs_order (ms_block_state m) \<noteq> - 1 \<Longrightarrow>
    clock_step K C L closed_first (m, f) (Some p) (m', f)"
| clock_block: "increase_block_return_last_state K m = (Inr p, m') \<Longrightarrow> bs_block (ms_block_state m) \<noteq> - 1 \<Longrightarrow>
    clock_step K C L closed_first (m, f) None (m', True)"
| clock_restart: "ms_new (\<lambda>_. Inr (ms_se m)) (ms_config m) = Inr m0 \<Longrightarrow> ms_recover K C m0 = (Inr (), m') \<Longrightarrow>
    bs_block (ms_block_state m) \<noteq> - 1 \<Longrightarrow> closed_first \<longrightarrow> f \<Longrightarrow>
    clock_step K C L closed_first (m, f) None (m', False)"
| clock_write: "log_write K C L m m' \<Longrightarrow> clock_step K C L closed_first (m, f) None (m', f)"

text \<open>Runs of a labelled step relation, with the labels it emits.\<close>

inductive emits :: "('c \<Rightarrow> 'p option \<Rightarrow> 'c \<Rightarrow> bool) \<Rightarrow> 'c \<Rightarrow> 'p list \<Rightarrow> 'c \<Rightarrow> bool" for step where
  emits_nil: "emits step c [] c"
| emits_silent: "step c None d \<Longrightarrow> emits step d ps e \<Longrightarrow> emits step c ps e"
| emits_label: "step c (Some p) d \<Longrightarrow> emits step d ps e \<Longrightarrow> emits step c (p # ps) e"

text \<open>What makes emitted labels grow: a position that no step lowers and every label passes.\<close>

locale monotone_source =
  fixes step :: "'c \<Rightarrow> ('p :: linorder) option \<Rightarrow> 'c \<Rightarrow> bool"
    and inv :: "'c \<Rightarrow> bool"
    and cur :: "'c \<Rightarrow> 'p"
  assumes step_inv: "inv c \<Longrightarrow> step c e d \<Longrightarrow> inv d"
    and step_mono: "inv c \<Longrightarrow> step c e d \<Longrightarrow> cur c \<le> cur d"
    and step_label: "inv c \<Longrightarrow> step c (Some p) d \<Longrightarrow> cur c < p \<and> p \<le> cur d"
begin

lemma emits_sorted: "emits step c ps d \<Longrightarrow> inv c \<Longrightarrow> sorted_wrt (<) ps \<and> (\<forall>p \<in> set ps. cur c < p)"
proof (induction rule: emits.induct)
  case (emits_nil c)
  then show ?case by simp
next
  case (emits_silent c d ps e)
  then have "inv d" "cur c \<le> cur d" using step_inv step_mono by blast+
  then show ?case using emits_silent.IH order.strict_trans1 by blast
next
  case (emits_label c p d ps e)
  then have "inv d" "cur c < p" "p \<le> cur d" using step_inv step_label by blast+
  then show ?case using emits_label.IH
    by (auto intro: order.strict_trans1 order.strict_trans)
qed

lemma emits_distinct: "emits step c ps d \<Longrightarrow> inv c \<Longrightarrow> distinct ps"
  using emits_sorted strict_sorted_iff by blast

end

section \<open>What the writes leave alone\<close>

lemma word_less_plus_one:
  assumes "w \<noteq> - 1"
  shows "w < w + (1 :: 'w :: len word)"
proof -
  have "1 + w \<noteq> 0" using assms by (metis add.commute add_eq_0_iff)
  then show ?thesis by (simp add: word_less_nat_alt add.commute [of w] unatSuc)
qed

context platform
begin

text \<open>\<open>same_view cfs m0 m\<close>: ready, with the configuration, the clock and the column families \<open>cfs\<close> of \<open>m0\<close>.\<close>

definition same_view :: "string set \<Rightarrow> 's mutation_store \<Rightarrow> 's mutation_store \<Rightarrow> bool" where
  "same_view cfs m0 m \<longleftrightarrow> ms_ready K m \<and> ms_config m = ms_config m0 \<and> ms_block_state m = ms_block_state m0 \<and>
     (\<forall>cf \<in> cfs. cf_map K (ms_se m) cf = cf_map K (ms_se m0) cf)"

lemma keeps_ms_write:
  assumes "\<forall>x \<in> set ops. op_cf x \<notin> cfs"
  shows "keeps (same_view cfs m0) (ms_write K ops)"
proof (rule keepsI)
  fix s
  assume s: "same_view cfs m0 s"
  obtain se where se: "write_batch K (ms_se s) ops = Inr se" "ms_write K ops s = (Inr (), s\<lparr>ms_se := se\<rparr>)"
    by (rule ms_write_ok)
  have "cf_map K se cf = cf_map K (ms_se s) cf" if "cf \<in> cfs" for cf
    by (subst write_applies [OF se(1)], rule apply_batch_other) (use that assms in auto)
  then show "same_view cfs m0 (snd (ms_write K ops s))"
    using s se ms_ready_write [of s ops se] by (auto simp: same_view_def)
qed

lemma same_view_config: "same_view cfs m0 s \<Longrightarrow> ms_config s = ms_config m0"
  by (simp add: same_view_def)

lemma same_view_upd:
  "same_view cfs m0 s \<Longrightarrow> ms_se t = ms_se s \<Longrightarrow> ms_config t = ms_config s \<Longrightarrow>
     ms_block_state t = ms_block_state s \<Longrightarrow> same_view cfs m0 t"
  by (auto simp: same_view_def ms_ready_def)

lemma keeps_add_record: "cf \<notin> cfs \<Longrightarrow> keeps (same_view cfs m0) (add_record K c cf key v)"
  unfolding add_record_def by (intro keeps_intros keeps_ms_write) auto

lemma add_mutation_view:
  "keeps (same_view (- {tx_store_cf_name (ms_config m), block_store_cf_name (ms_config m)}) m)
     (add_mutation K C L now payload signature doc_ids_map sender nonce block order network action)"
  unfolding add_mutation_def Let_def
  by (intro keeps_andThen keeps_pure(5) keeps_gets keeps_ms_write keeps_modify)
    (auto dest: same_view_config elim: same_view_upd intro: keeps_intros)

lemma gc_range_view:
  "keeps (same_view (- {tx_store_cf_name (ms_config m), block_store_cf_name (ms_config m)}) m)
     (gc_range_mutation K C L lo hi)"
  unfolding gc_range_mutation_def
  by (intro keeps_if keeps_andThen keeps_pure keeps_gets keeps_ms_write) (auto dest: same_view_config)

lemma add_rollup_view: "keeps (same_view (- {rollup_store_cf_name (ms_config m)}) m) (add_rollup_record K C r)"
  unfolding add_rollup_record_def
  by (intro keeps_andThen keeps_pure(5) keeps_gets keeps_ms_write keeps_modify)
    (auto dest: same_view_config elim: same_view_upd intro: keeps_intros)

lemma add_gc_view: "keeps (same_view (- {gc_cf_name (ms_config m)}) m) (add_gc_record K C g)"
  unfolding add_gc_record_def
  by (intro keeps_andThen keeps_gets keeps_add_record keeps_modify)
    (auto dest: same_view_config elim: same_view_upd)

lemma flush_view: "keeps (same_view (- {MS_STATE_CF}) m) (flush_state K C now)"
  unfolding flush_state_def by (intro keeps_andThen keeps_pure keeps_add_record) auto

lemmas view_rules = add_mutation_view gc_range_view add_rollup_view add_gc_view flush_view

lemma same_view_start: "ms_ready K m \<Longrightarrow> same_view cfs m m"
  by (simp add: same_view_def)

lemma same_view_mono: "same_view cfs m0 m \<Longrightarrow> cfs' \<subseteq> cfs \<Longrightarrow> same_view cfs' m0 m"
  by (auto simp: same_view_def)

lemma log_write_clock:
  assumes "log_write K C L m m'" "ms_ready K m"
  shows "same_view {block_state_cf_name (ms_config m)} m m'"
proof -
  note d = ms_ready_distinct [OF assms(2)]
  show ?thesis
    by (cases rule: log_write.cases [OF assms(1)])
      (use d same_view_mono [OF keepsD [OF view_rules(1) same_view_start [OF assms(2)]]]
        same_view_mono [OF keepsD [OF view_rules(2) same_view_start [OF assms(2)]]]
        same_view_mono [OF keepsD [OF view_rules(3) same_view_start [OF assms(2)]]]
        same_view_mono [OF keepsD [OF view_rules(4) same_view_start [OF assms(2)]]]
        same_view_mono [OF keepsD [OF view_rules(5) same_view_start [OF assms(2)]]] in auto)
qed

section \<open>The block clock\<close>

lemma recover_last_state_clock:
  "recover_last_state K C m = (r, m') \<Longrightarrow>
     ms_config m' = ms_config m \<and> ms_se m' = ms_se m \<and> ms_block_state m' = ms_block_state m"
  by (auto simp: recover_last_state_def action_simps split: sum.splits option.splits)

lemma restart_view:
  assumes "ms_new (\<lambda>_. Inr (ms_se m)) (ms_config m) = Inr m0" "ms_recover K C m0 = (Inr (), m')"
  shows "ms_config m' = ms_config m" "ms_se m' = ms_se m"
  using assms recover_last_state_clock
  by (auto simp: ms_new_def ms_recover_def action_simps get_cf_eq split: sum.splits option.splits if_splits)

lemma restart_clock:
  assumes "ms_new (\<lambda>_. Inr (ms_se m)) (ms_config m) = Inr m0" "ms_recover K C m0 = (Inr (), m')"
    "cf_map K (ms_se m) (block_state_cf_name (ms_config m)) (as_bytes BLOCK_KEY) = Some (be64 b)"
  shows "ms_config m' = ms_config m" "ms_se m' = ms_se m" "ms_block_state m' = \<lparr>bs_block = b + 1, bs_order = 0\<rparr>"
  using assms recover_last_state_clock
  by (auto simp: ms_new_def ms_recover_def action_simps get_cf_eq split: sum.splits)

text \<open>Ready, and the last closed block is on disk once a block was closed.\<close>

definition clock_inv :: "'s mutation_store \<times> bool \<Rightarrow> bool" where
  "clock_inv c \<longleftrightarrow> ms_ready K (fst c) \<and>
     (snd c \<longrightarrow> cf_map K (ms_se (fst c)) (block_state_cf_name (ms_config (fst c))) (as_bytes BLOCK_KEY) =
        Some (be64 (bs_block (ms_block_state (fst c)))))"

definition clock_pos :: "'s mutation_store \<times> bool \<Rightarrow> u64 \<times> u32" where
  "clock_pos c = (bs_block (ms_block_state (fst c)), bs_order (ms_block_state (fst c)))"

lemma increase_block_run:
  assumes "increase_block_return_last_state K m = (Inr p, m')" "ms_ready K m"
  shows "ms_ready K m'" "ms_config m' = ms_config m"
    "ms_block_state m' = \<lparr>bs_block = bs_block (ms_block_state m) + 1, bs_order = 0\<rparr>"
    "cf_map K (ms_se m') (block_state_cf_name (ms_config m)) (as_bytes BLOCK_KEY) =
       Some (be64 (bs_block (ms_block_state m) + 1))"
    "p = (bs_block (ms_block_state m), bs_order (ms_block_state m))"
    "\<And>cf. cf \<noteq> block_state_cf_name (ms_config m) \<Longrightarrow> cf_map K (ms_se m') cf = cf_map K (ms_se m) cf"
proof -
  let ?ops = "[PutCf (block_state_cf_name (ms_config m)) (as_bytes BLOCK_KEY) (be64 (bs_block (ms_block_state m) + 1))]"
  obtain se where se: "write_batch K (ms_se m) ?ops = Inr se" using write_total by blast
  have "cf_handle K (ms_se m) (block_state_cf_name (ms_config m))"
    using assms(2) by (simp add: ms_ready_def)
  then have run: "p = (bs_block (ms_block_state m), bs_order (ms_block_state m))"
    "m' = m\<lparr>ms_block_state := \<lparr>bs_block = bs_block (ms_block_state m) + 1, bs_order = 0\<rparr>, ms_se := se\<rparr>"
    using assms(1) se by (auto simp: increase_block_return_last_state_def action_simps ms_cf_def ms_write_def)
  then show "p = (bs_block (ms_block_state m), bs_order (ms_block_state m))"
    "ms_config m' = ms_config m"
    "ms_block_state m' = \<lparr>bs_block = bs_block (ms_block_state m) + 1, bs_order = 0\<rparr>" by simp_all
  show "ms_ready K m'" using assms(2) run(2) write_handles [OF se] by (simp add: ms_ready_def)
  show "cf_map K (ms_se m') (block_state_cf_name (ms_config m)) (as_bytes BLOCK_KEY) =
       Some (be64 (bs_block (ms_block_state m) + 1))"
    using run(2) by (simp add: write_applies [OF se])
  show "cf_map K (ms_se m') cf = cf_map K (ms_se m) cf" if "cf \<noteq> block_state_cf_name (ms_config m)" for cf
    using run(2) that by (simp add: write_applies [OF se])
qed

lemma increase_order_run:
  "increase_order m = (Inr p, m') \<longleftrightarrow>
     p = (bs_block (ms_block_state m), bs_order (ms_block_state m) + 1) \<and>
     m' = m\<lparr>ms_block_state := (ms_block_state m)\<lparr>bs_order := bs_order (ms_block_state m) + 1\<rparr>\<rparr>"
  by (auto simp: increase_order_def action_simps)

section \<open>The log stays well-formed\<close>

lemma log_wf_cong:
  assumes "log_wf K C L m" "same_view {tx_store_cf_name (ms_config m), block_store_cf_name (ms_config m)} m m'"
  shows "log_wf K C L m'"
  using assms by (simp add: log_wf_def logged_def same_view_def)

lemma add_mutation_encode_fails:
  assumes "\<not> (\<exists>buf hbuf. encode (body_codec C) \<lparr>mb_payload = payload, mb_signature = signature\<rparr> = Inr buf \<and>
      encode (header_codec C)
       \<lparr>mh_block_id = block, mh_order_id = order, mh_sender = addr_as_ref sender, mh_time = now,
        mh_id = tx_to_hex L (tx_from_pair L payload (as_bytes signature)), mh_size = of_nat (length buf),
        mh_nonce = nonce, mh_network = network, mh_action = action_to_i32 action,
        mh_doc_ids_map = doc_ids_map\<rparr> = Inr hbuf)"
  shows "snd (add_mutation K C L now payload signature doc_ids_map sender nonce block order network action m) = m"
  using assms by (auto simp: add_mutation_def encode_mutation_body_def encode_mutation_header_def Let_def
      action_simps lib_err_def split: sum.splits)

lemma log_write_wf:
  assumes "log_write K C L m m'" "ms_ready K m" "log_wf K C L m"
  shows "log_wf K C L m'"
  using assms(1)
proof (cases rule: log_write.cases)
  case (write_mutation now payload signature doc_ids_map sender nonce block order network action)
  then show ?thesis using assms(2,3) logged_add(3) add_mutation_encode_fails by metis
next
  case (write_gc lo hi)
  show ?thesis
  proof (cases "lo < hi")
    case True
    then show ?thesis using logged_gc(2) [OF assms(2,3)] write_gc by blast
  next
    case False
    then have "m' = m" using write_gc by (simp add: gc_range_mutation_def action_simps)
    then show ?thesis using assms(3) by simp
  qed
next
  case (write_rollup r)
  then show ?thesis using log_wf_cong [OF assms(3)] ms_ready_distinct [OF assms(2)]
      same_view_mono [OF keepsD [OF add_rollup_view same_view_start [OF assms(2)]]] by auto
next
  case (write_gc_record g)
  then show ?thesis using log_wf_cong [OF assms(3)] ms_ready_distinct [OF assms(2)]
      same_view_mono [OF keepsD [OF add_gc_view same_view_start [OF assms(2)]]] by auto
next
  case (write_flush now)
  then show ?thesis using log_wf_cong [OF assms(3)] ms_ready_distinct [OF assms(2)]
      same_view_mono [OF keepsD [OF flush_view same_view_start [OF assms(2)]]] by auto
qed

lemma clock_step_wf:
  assumes "clock_step K C L cf c e d" "ms_ready K (fst c)" "log_wf K C L (fst c)"
  shows "ms_ready K (fst d) \<and> log_wf K C L (fst d) \<and> ms_config (fst d) = ms_config (fst c)"
  using assms(1)
proof (cases rule: clock_step.cases)
  case (clock_issue m p m' f)
  with assms show ?thesis
    by (auto simp: increase_order_run ms_ready_def log_wf_def logged_def)
next
  case (clock_block m p m' f)
  then have "ms_ready K m" using assms(2) by simp
  from increase_block_run [OF clock_block(4) this] ms_ready_distinct [OF this] clock_block assms(3)
  show ?thesis by (auto simp: log_wf_def logged_def)
next
  case (clock_restart m m0 m' f)
  from restart_view [OF clock_restart(4,5)] clock_restart assms(2,3) show ?thesis
    by (auto simp: log_wf_def logged_def ms_ready_def)
next
  case (clock_write m m' f)
  with log_write_wf [of m m'] log_write_clock [of m m'] assms(2,3) show ?thesis
    by (auto simp: same_view_def)
qed

lemma emits_wf:
  "emits (clock_step K C L cf) c ps d \<Longrightarrow> ms_ready K (fst c) \<Longrightarrow> log_wf K C L (fst c) \<Longrightarrow>
     ms_ready K (fst d) \<and> log_wf K C L (fst d)"
  by (induction rule: emits.induct) (use clock_step_wf in blast)+

lemma fresh_store:
  assumes "ms_new open_cf cfg = Inr m" "cf_map K (ms_se m) (block_store_cf_name cfg) = Map.empty"
    "distinct (ms_column_families cfg)" "\<forall>cf \<in> set (ms_column_families cfg). cf_handle K (ms_se m) cf"
  shows "ms_ready K m" "log_wf K C L m" "ms_block_state m = \<lparr>bs_block = 0, bs_order = 0\<rparr>"
    "ms_config m = cfg"
  using assms by (auto simp: ms_new_def ms_ready_def log_wf_def bindR_eq_Inr_iff)

subsection \<open>Steps that can always be taken\<close>

lemma issue_step:
  assumes "bs_order (ms_block_state m) \<noteq> - 1"
  shows "clock_step K C L cf (m, f) (Some (bs_block (ms_block_state m), bs_order (ms_block_state m) + 1))
    (m\<lparr>ms_block_state := (ms_block_state m)\<lparr>bs_order := bs_order (ms_block_state m) + 1\<rparr>\<rparr>, f)"
  by (rule clock_issue) (simp_all add: increase_order_run assms)

lemma block_step:
  assumes "ms_ready K m" "bs_block (ms_block_state m) \<noteq> - 1"
  shows "\<exists>m' p. increase_block_return_last_state K m = (Inr p, m') \<and>
    clock_step K C L cf (m, f) None (m', True)"
proof -
  let ?b = "bs_block (ms_block_state m) + 1"
  obtain se where se: "write_batch K (ms_se m)
      [PutCf (block_state_cf_name (ms_config m)) (as_bytes BLOCK_KEY) (be64 ?b)] = Inr se"
    using write_total by blast
  have "cf_handle K (ms_se m) (block_state_cf_name (ms_config m))"
    using assms(1) by (simp add: ms_ready_def)
  with se have "increase_block_return_last_state K m =
    (Inr (bs_block (ms_block_state m), bs_order (ms_block_state m)),
     m\<lparr>ms_block_state := \<lparr>bs_block = ?b, bs_order = 0\<rparr>, ms_se := se\<rparr>)"
    by (simp add: increase_block_return_last_state_def action_simps ms_cf_def ms_write_def)
  with clock_block assms(2) show ?thesis by metis
qed

lemma restart_step:
  assumes "ms_ready K m" "bs_block (ms_block_state m) \<noteq> - 1" "cf \<longrightarrow> f"
    "cf_map K (ms_se m) MS_STATE_CF = Map.empty"
    "cf_map K (ms_se m) (block_state_cf_name (ms_config m)) (as_bytes BLOCK_KEY) = Some (be64 b)"
  shows "\<exists>m'. clock_step K C L cf (m, f) None (m', False) \<and> ms_config m' = ms_config m \<and>
    ms_se m' = ms_se m \<and> ms_block_state m' = \<lparr>bs_block = b + 1, bs_order = 0\<rparr>"
proof -
  obtain m0 where m0: "ms_new (\<lambda>_. Inr (ms_se m)) (ms_config m) = Inr m0" by (simp add: ms_new_def)
  then have view: "ms_config m0 = ms_config m" "ms_se m0 = ms_se m" by (auto simp: ms_new_def)
  have none: "raw_iterator_cf K (ms_se m) MS_STATE_CF = []"
    using assms(4) by (simp add: cf_map_def)
  have ready: "ms_ready K m0" using assms(1) view by (simp add: ms_ready_def)
  have "recover_last_state K C n = (Inr (), n)" if "ms_ready K n" "ms_se n = ms_se m" for n
    using that none by (simp add: recover_last_state_def get_last_record_def decode_entry_def action_simps
        ms_ready_cf)
  moreover have "ms_ready K (m0\<lparr>ms_block_state := x\<rparr>)" for x using ready by (simp add: ms_ready_def)
  ultimately have "ms_recover K C m0 = (Inr (), m0\<lparr>ms_block_state := \<lparr>bs_block = b + 1, bs_order = 0\<rparr>\<rparr>)"
    using assms(5) view ready by (simp add: ms_recover_def action_simps get_cf_eq ms_ready_cf)
  from restart_clock [OF m0 this assms(5)] clock_restart [OF m0 this assms(2,3)] show ?thesis by blast
qed

lemma clock_step_pos:
  assumes "clock_inv c" "clock_step K C L True c e d"
  shows "clock_inv d \<and> clock_pos c \<le> clock_pos d \<and> (\<forall>p. e = Some p \<longrightarrow> clock_pos c < p \<and> p \<le> clock_pos d)"
  using assms(2)
proof (cases rule: clock_step.cases)
  case (clock_issue m p m' f)
  with assms(1) show ?thesis
    by (auto simp: increase_order_run clock_inv_def clock_pos_def ms_ready_def less_prod_def less_eq_prod_def
        word_less_plus_one order.strict_implies_order)
next
  case (clock_block m p m' f)
  then have "ms_ready K m" using assms(1) by (simp add: clock_inv_def)
  from increase_block_run [OF clock_block(4) this] clock_block show ?thesis
    by (auto simp: clock_inv_def clock_pos_def less_prod_def less_eq_prod_def word_less_plus_one)
next
  case (clock_restart m m0 m' f)
  then have ready: "ms_ready K m" and saved: "cf_map K (ms_se m) (block_state_cf_name (ms_config m))
      (as_bytes BLOCK_KEY) = Some (be64 (bs_block (ms_block_state m)))"
    using assms(1) by (simp_all add: clock_inv_def)
  from restart_clock [OF clock_restart(4,5) saved] clock_restart ready show ?thesis
    by (auto simp: clock_inv_def clock_pos_def ms_ready_def less_eq_prod_def word_less_plus_one)
next
  case (clock_write m m' f)
  then have "ms_ready K m" using assms(1) by (simp add: clock_inv_def)
  from log_write_clock [OF clock_write(4) this] clock_write assms(1) show ?thesis
    by (auto simp: clock_inv_def clock_pos_def same_view_def)
qed

end

sublocale platform \<subseteq> clock: monotone_source "clock_step K C L True" clock_inv clock_pos
  by unfold_locales (use clock_step_pos in blast)+

context platform
begin

lemma clock_sorted: "emits (clock_step K C L True) c ps d \<Longrightarrow> clock_inv c \<Longrightarrow> sorted_wrt (<) ps"
  using clock.emits_sorted by blast

end

end
