(* ===== verification/Log_Theorems.thy ===== *)
theory Log_Theorems
  imports Log_Machine
begin

text \<open>
  The statements about the mutation log, with the engine, the codecs and the libraries as hypotheses,
  and the runs of each on the in-memory engine.
\<close>

section \<open>A concrete log\<close>

text \<open>The platform of the executable instances, and a store opened on an empty engine.\<close>

interpretation node: platform mem_engine sample_codecs sample_libs ..

lemma node_platform: "platform mem_engine sample_codecs sample_libs"
  by (rule node.platform_axioms)

definition sample_log :: "mem_state mutation_store" where
  "sample_log = projr (ms_new (\<lambda>cfs. Inr (mem_open cfs)) default_mutation_store_config)"

definition fresh_log :: "'s engine \<Rightarrow> 's mutation_store \<Rightarrow> bool" where
  "fresh_log K m \<longleftrightarrow>
     ms_new (\<lambda>_. Inr (ms_se m)) (ms_config m) = Inr m \<and>
     cf_map K (ms_se m) (block_store_cf_name (ms_config m)) = Map.empty \<and> ms_ready K m"

lemma sample_log_fields:
  "ms_config sample_log = default_mutation_store_config"
  "ms_se sample_log = mem_open (ms_column_families default_mutation_store_config)"
  by (simp_all add: sample_log_def ms_new_def)

lemma default_families: "ms_column_families default_mutation_store_config =
  [''block_store_cf'', ''tx_store_cf'', ''rollup_store_cf'', ''gc_store_cf'', ''block_state_cf'', ''STATE_CF'']"
  by (simp add: ms_column_families_def default_mutation_store_config_def MS_STATE_CF_def)

lemma mem_open_map [simp]: "cf_map mem_engine (mem_open cfs) cf = Map.empty"
  by (simp add: cf_map_def mem_engine_def mem_open_def)

lemma sample_log_ready: "ms_ready mem_engine sample_log"
  by (simp add: ms_ready_def sample_log_fields default_families) (simp add: mem_engine_def mem_open_def)

lemma sample_log_fresh: "fresh_log mem_engine sample_log"
  using sample_log_ready by (simp add: fresh_log_def sample_log_fields) (simp add: sample_log_def ms_new_def)

lemma fresh_log_wf: "fresh_log K m \<Longrightarrow> log_wf K C L m"
  by (simp add: fresh_log_def log_wf_def)

definition sample_payload :: bytes where
  "sample_payload = [1, 2, 3]"

text \<open>The log after one mutation at block 5, order 1.\<close>

definition sample_log1 :: "mem_state mutation_store" where
  "sample_log1 = snd (add_mutation mem_engine sample_codecs sample_libs 100 sample_payload ''sig'' ''{}''
     addr_one 7 5 1 3 AddDocument sample_log)"

lemma sample_log1_wf:
  "ms_ready mem_engine sample_log1" "log_wf mem_engine sample_codecs sample_libs sample_log1"
proof -
  have w: "log_write mem_engine sample_codecs sample_libs sample_log sample_log1"
    unfolding sample_log1_def by (rule write_mutation)
  show "ms_ready mem_engine sample_log1"
    using node.log_write_clock [OF w sample_log_ready] by (simp add: node.same_view_def)
  show "log_wf mem_engine sample_codecs sample_libs sample_log1"
    by (rule node.log_write_wf [OF w sample_log_ready fresh_log_wf [OF sample_log_fresh]])
qed

section \<open>Reading back\<close>

text \<open>C1. A mutation that encodes is stored: afterwards its body is found under its transaction id, its
  header under its (block, order) position, with the sender, nonce, network, action, time, size and
  document ids it was added with; every other position is unchanged, and the count grows by one.\<close>

theorem added_mutation_is_read_back:
  assumes "platform K C L" and "ms_ready K m"
    and "encode (body_codec C) \<lparr>mb_payload = payload, mb_signature = signature\<rparr> = Inr buf"
    and "h = \<lparr>mh_block_id = block, mh_order_id = order, mh_sender = addr_as_ref sender, mh_time = now,
        mh_id = tx_to_hex L (tx_from_pair L payload (as_bytes signature)), mh_size = of_nat (length buf),
        mh_nonce = nonce, mh_network = network, mh_action = action_to_i32 action,
        mh_doc_ids_map = doc_ids_map\<rparr>"
    and "encode (header_codec C) h = Inr hbuf"
  shows "\<exists>m'. add_mutation K C L now payload signature doc_ids_map sender nonce block order network action m =
            (Inr (tx_to_hex L (tx_from_pair L payload (as_bytes signature)), block, order), m') \<and>
          get_mutation K C (tx_from_pair L payload (as_bytes signature)) m' =
            Inr (Some \<lparr>mb_payload = payload, mb_signature = signature\<rparr>) \<and>
          get_mutation_header K C block order m' = Inr (Some h) \<and>
          (\<forall>b r. (b, r) = (block, order) \<or> get_mutation_header K C b r m' = get_mutation_header K C b r m) \<and>
          mutation_count m' = mutation_count m + 1"
  using platform.add_mutation_effect(5,6) [OF assms refl] platform.add_mutation_read_back [OF assms refl]
  by (metis prod.collapse)

theorem added_mutation_is_read_back_witness:
  "\<exists>m'. add_mutation mem_engine sample_codecs sample_libs 100 sample_payload ''sig'' ''{}'' addr_one 7 5 1 3
       AddDocument sample_log =
       (Inr (tx_to_hex sample_libs (tx_from_pair sample_libs sample_payload (as_bytes ''sig'')), 5, 1), m') \<and>
     get_mutation mem_engine sample_codecs (tx_from_pair sample_libs sample_payload (as_bytes ''sig'')) m' =
       Inr (Some \<lparr>mb_payload = sample_payload, mb_signature = ''sig''\<rparr>)"
  using added_mutation_is_read_back [OF node_platform sample_log_ready sample_codecs_encode(2) refl
      sample_codecs_encode(1)]
  by blast

section \<open>Range queries\<close>

text \<open>C2. On a well-formed log a query for the blocks \<open>lo..hi\<close> succeeds and returns exactly the logged
  mutations of those blocks, each with its own body, in strictly ascending (block, order).\<close>

theorem range_query_is_exact:
  assumes "platform K C L" and "ms_ready K m" and "log_wf K C L m" and "lo < hi"
  shows "\<exists>xs. get_range_mutations K C L lo hi m = Inr xs \<and>
    (\<forall>h b. (h, b) \<in> set xs \<longleftrightarrow> logged K C L m h b \<and> lo \<le> mh_block_id h \<and> mh_block_id h < hi) \<and>
    sorted_wrt (\<lambda>x y. position (fst x) < position (fst y)) xs"
proof -
  have pos: "position g < position h \<longleftrightarrow>
    block_order_key (mh_block_id g) (mh_order_id g) < block_order_key (mh_block_id h) (mh_order_id h)" for g h
    by (auto simp: position_def block_order_key_less less_prod_def)
  show ?thesis
    unfolding pos by (rule platform.range_mutations_spec [OF assms]) blast
qed

theorem range_query_is_exact_witness:
  "\<exists>xs. get_range_mutations mem_engine sample_codecs sample_libs 5 6 sample_log1 = Inr xs \<and>
    (\<forall>h b. (h, b) \<in> set xs \<longleftrightarrow> logged mem_engine sample_codecs sample_libs sample_log1 h b \<and>
       5 \<le> mh_block_id h \<and> mh_block_id h < 6)"
  using range_query_is_exact [OF node_platform sample_log1_wf, of 5 6] by auto

section \<open>Garbage collection\<close>

text \<open>C3. Garbage collection of \<open>lo..hi\<close> on a well-formed log succeeds and removes the headers of
  exactly those blocks; what stays is well-formed. The bodies stay readable: each is deleted under the
  text of its id (66 characters) and is stored under the 32 raw bytes, so no body is ever reclaimed.\<close>

theorem gc_drops_headers_keeps_bodies:
  assumes "platform K C L" and "ms_ready K m" and "log_wf K C L m" and "lo < hi"
  shows "\<exists>m'. gc_range_mutation K C L lo hi m = (Inr (), m') \<and> log_wf K C L m' \<and>
    (\<forall>h b. logged K C L m' h b \<longleftrightarrow> logged K C L m h b \<and> \<not> (lo \<le> mh_block_id h \<and> mh_block_id h < hi)) \<and>
    (\<forall>b r. get_mutation_header K C b r m' =
       (if lo \<le> b \<and> b < hi then Inr None else get_mutation_header K C b r m)) \<and>
    (\<forall>t. get_mutation K C t m' = get_mutation K C t m)"
proof -
  obtain m' where m': "gc_range_mutation K C L lo hi m = (Inr (), m')"
    by (rule platform.gc_range_run [OF assms]) (rule that)
  then have "m' = snd (gc_range_mutation K C L lo hi m)" by simp
  from platform.logged_gc [OF assms this] m' show ?thesis by blast
qed

theorem gc_drops_headers_keeps_bodies_witness:
  "\<exists>m'. gc_range_mutation mem_engine sample_codecs sample_libs 5 6 sample_log1 = (Inr (), m') \<and>
     get_mutation_header mem_engine sample_codecs 5 1 m' = Inr None \<and>
     (\<forall>t. get_mutation mem_engine sample_codecs t m' = get_mutation mem_engine sample_codecs t sample_log1)"
  using gc_drops_headers_keeps_bodies [OF node_platform sample_log1_wf, of 5 6] by auto

section \<open>The log as a machine\<close>

text \<open>C4. Whatever sequence of mutations, records, flushes, garbage collections, block changes and
  restarts runs from a fresh store, errors included, the log is well-formed: every header is filed under
  its own position, carries the text of a transaction id, and has a readable body.\<close>

theorem reachable_log_is_well_formed:
  assumes "platform K C L" and "fresh_log K m" and "emits (clock_step K C L closed_first) (m, f) ps (m', f')"
  shows "ms_ready K m' \<and> log_wf K C L m'"
  using platform.emits_wf [OF assms(1,3)] assms(2) by (simp add: fresh_log_def fresh_log_wf [OF assms(2)])

lemma sample_run:
  "emits (clock_step mem_engine sample_codecs sample_libs cf) (sample_log, False) [] (sample_log1, False)"
  unfolding sample_log1_def by (rule emits_silent, rule clock_write, rule write_mutation, rule emits_nil)

theorem reachable_log_is_well_formed_witness:
  "ms_ready mem_engine sample_log1 \<and> log_wf mem_engine sample_codecs sample_libs sample_log1"
  by (rule reachable_log_is_well_formed [OF node_platform sample_log_fresh sample_run [of False]])



text \<open>C6. Without a closed block in between, a second restart hands out positions again: recovery starts
  from the last closed block on disk and does not record the block it starts in. From a fresh store, a
  closed block, a restart, a mutation and another restart lead to the same position (2, 1) twice.\<close>

theorem second_restart_reuses_positions:
  assumes "platform K C L" and "fresh_log K m" and "cf_map K (ms_se m) MS_STATE_CF = Map.empty"
  shows "\<exists>c. emits (clock_step K C L False) (m, False) [(2, 1), (2, 1)] c"
proof -
  note P = assms(1)
  have r0: "ms_ready K m" and b0: "ms_block_state m = \<lparr>bs_block = 0, bs_order = 0\<rparr>"
    using assms(2) by (auto simp: fresh_log_def ms_new_def dest: arg_cong [of _ _ ms_block_state])
  obtain m1 p where m1: "increase_block_return_last_state K m = (Inr p, m1)"
    "clock_step K C L False (m, False) None (m1, True)"
    using platform.block_step [OF P r0, of False False] b0 by auto
  note run1 = platform.increase_block_run [OF P m1(1) r0, unfolded b0]
  have e1: "cf_map K (ms_se m1) MS_STATE_CF = Map.empty"
    using run1(6) [of MS_STATE_CF] ms_ready_distinct [OF r0] assms(3) by auto
  have k1: "cf_map K (ms_se m1) (block_state_cf_name (ms_config m1)) (as_bytes BLOCK_KEY) = Some (be64 1)"
    using run1(2,4) by simp
  obtain m2 where m2: "clock_step K C L False (m1, True) None (m2, False)" "ms_config m2 = ms_config m1"
    "ms_se m2 = ms_se m1" "ms_block_state m2 = \<lparr>bs_block = 2, bs_order = 0\<rparr>"
    using platform.restart_step [OF P run1(1) _ _ e1 k1, of False True] run1(3) by auto
  let ?m3 = "m2\<lparr>ms_block_state := \<lparr>bs_block = 2, bs_order = 1\<rparr>\<rparr>"
  have s3: "clock_step K C L False (m2, False) (Some (2, 1)) (?m3, False)"
    using platform.issue_step [OF P, of m2 False False] m2(4) by simp
  have r3: "ms_ready K ?m3" using run1(1) m2 by (simp add: ms_ready_def)
  obtain m4 where m4: "clock_step K C L False (?m3, False) None (m4, False)"
    "ms_block_state m4 = \<lparr>bs_block = 2, bs_order = 0\<rparr>"
    using platform.restart_step [OF P r3, of False False 1] e1 k1 m2 by auto
  obtain m5 where s5: "clock_step K C L False (m4, False) (Some (2, 1)) (m5, False)"
    using platform.issue_step [OF P, of m4 False False] m4(2) by auto
  have "emits (clock_step K C L False) (m, False) [(2, 1), (2, 1)] (m5, False)"
    by (rule emits_silent, rule m1(2), rule emits_silent, rule m2(1), rule emits_label, rule s3,
        rule emits_silent, rule m4(1), rule emits_label, rule s5, rule emits_nil)
  then show ?thesis ..
qed

theorem second_restart_reuses_positions_witness:
  "\<exists>c. emits (clock_step mem_engine sample_codecs sample_libs False) (sample_log, False) [(2, 1), (2, 1)] c"
  by (rule second_restart_reuses_positions [OF node_platform sample_log_fresh]) (simp add: sample_log_fields)

end
