(* ===== verification/Db_Theorems.thy ===== *)
theory Db_Theorems
  imports Db_Databases Log_Theorems
begin

text \<open>The statements about the database store, and their runs on in-memory instances.\<close>

section \<open>A concrete store\<close>

definition sample_db_config :: db_store_config where
  "sample_db_config = \<lparr>dsc_db_path = ''./db'', db_store_cf_name = ''db'', doc_store_cf_name = ''doc'',
     collection_store_cf_name = ''col'', index_store_cf_name = ''index'', doc_owner_store_cf_name = ''docowner'',
     db_owner_store_cf_name = ''dbowner'', dsc_scan_max_limit = 50, enable_doc_store = True,
     doc_store_conf = \<lparr>db_root_path = ''./docs'', in_memory_db_handle_limit = 16\<rparr>, doc_start_id = 1000\<rparr>"

text \<open>Opened on an empty engine; with one database; with one collection; with one document.\<close>

definition sample_db0 :: "(mem_state, mem_files) db_store" where
  "sample_db0 = projr (db_new (\<lambda>cfs. Inr (mem_open cfs))
     (\<lambda>c. Inr \<lparr>dstore_config = c, dstore_files = [], dstore_dbs = []\<rparr>) [] sample_db_config)"

definition sample_db1 :: "(mem_state, mem_files) db_store" where
  "sample_db1 = snd (create_predefined_doc_database mem_engine sample_codecs sample_libs mem_ejdb addr_one addr_zero
     ''desc'' 1 1 sample_db0)"

definition sample_db2 :: "(mem_state, mem_files) db_store" where
  "sample_db2 = snd (save_collection_internal mem_engine sample_codecs sample_libs mem_ejdb addr_one addr_zero
     ''books'' [] sample_db1)"

lemma sample_fallible: "fallible_platform mem_engine sample_codecs sample_libs"
  by (rule node.fallible_platform_axioms)

lemma sample_files: "reliable_files mem_ejdb"
  by (rule mem_files.reliable_files_axioms)

lemma sample_db0_fields:
  "db_config sample_db0 = sample_db_config" "db_se sample_db0 = mem_open (db_column_families sample_db_config)"
  "db_state sample_db0 = Map.empty"
  by (simp_all add: sample_db0_def db_new_def sample_db_config_def)

lemma sample_families: "db_column_families sample_db_config =
  [''db'', ''doc'', ''col'', ''index'', ''docowner'', ''dbowner'', ''DB_STATE_CF'', ''BLOCK_STATE_CF'']"
  by (simp add: db_column_families_def sample_db_config_def STATE_CF_def BLOCK_STATE_CF_def)

lemma sample_db0_ready: "db_ready mem_engine sample_db0"
  by (simp add: db_ready_def sample_db0_fields sample_families) (simp add: mem_engine_def mem_open_def)

lemma sample_db0_wf: "db_wf mem_engine sample_codecs sample_libs sample_db0"
  using sample_db0_ready by (simp add: db_wf_def entries_wf_def states_cover_def sample_db0_fields)

abbreviation sample_get_database ::
  "(mem_state, mem_files) db_store \<Rightarrow> database_message option result" where
  "sample_get_database \<equiv> get_database mem_engine sample_codecs addr_zero"

lemma sample_no_database: "sample_get_database sample_db0 = Inr None"
  by (simp add: platform.get_database_eq [OF node_platform sample_db0_ready] sample_db0_fields)

lemma sample_db1_facts:
  "db_ready mem_engine sample_db1" "\<exists>d. sample_get_database sample_db1 = Inr (Some d)"
  "db_state sample_db1 (addr_to_hex sample_libs addr_zero) =
     Some \<lparr>doc_order = 0, collection_states = [], total_doc_count = 0\<rparr>"
  "db_config sample_db1 = sample_db_config"
  by (rule platform.create_database_run [OF node_platform sample_db0_ready sample_no_database sample_files sample_codecs_encode(6),
        where s = addr_one and desc = "''desc''" and block = 1 and order = 1];
      simp add: sample_db1_def sample_db0_fields)+

lemma sample_key: "build_collection_key addr_zero ''books'' = Inr (addr_as_ref addr_zero @ as_bytes ''books'')"
  by (simp add: build_collection_key_def)

lemma sample_db2_facts:
  "db_ready mem_engine sample_db2"
  "is_db_collection_exist mem_engine addr_zero ''books'' sample_db2 = Inr True"
  "db_state sample_db2 (addr_to_hex sample_libs addr_zero) =
     Some \<lparr>doc_order = 0, collection_states = [(''books'', \<lparr>cs_total_doc_count = 0\<rparr>)], total_doc_count = 0\<rparr>"
  "db_config sample_db2 = sample_db_config"
proof -
  obtain d where d: "sample_get_database sample_db1 = Inr (Some d)" using sample_db1_facts(2) ..
  note run = platform.save_collection_run [OF node_platform sample_db1_facts(1) d sample_key refl sample_codecs_encode(7) sample_files,
      where s = addr_one and ix = "[]"]
  show "db_ready mem_engine sample_db2"
    "is_db_collection_exist mem_engine addr_zero ''books'' sample_db2 = Inr True"
    "db_state sample_db2 (addr_to_hex sample_libs addr_zero) =
       Some \<lparr>doc_order = 0, collection_states = [(''books'', \<lparr>cs_total_doc_count = 0\<rparr>)], total_doc_count = 0\<rparr>"
    "db_config sample_db2 = sample_db_config"
    by (rule run; simp add: sample_db2_def sample_db1_facts)+
qed

lemma sample_db2_cf: "cf_map mem_engine (db_se sample_db2) ''docowner'' = Map.empty"
proof -
  obtain d where d: "sample_get_database sample_db1 = Inr (Some d)" using sample_db1_facts(2) ..
  have "cf_map mem_engine (db_se sample_db1) ''docowner'' = Map.empty"
    by (rule platform.create_database_run [OF node_platform sample_db0_ready sample_no_database sample_files
          sample_codecs_encode(6), where s = addr_one and desc = "''desc''" and block = 1 and order = 1])
      (simp add: sample_db1_def sample_db0_fields sample_db_config_def)
  then show ?thesis
    by (rule_tac platform.save_collection_run [OF node_platform sample_db1_facts(1) d sample_key refl
          sample_codecs_encode(7) sample_files, where s = addr_one and ix = "[]"])
      (auto simp: sample_db2_def sample_db1_facts sample_db_config_def)
qed



section \<open>Invariants\<close>

text \<open>C10. Whatever mutations, queries, flushes and restarts a well-formed store goes through, and whatever
  engine calls fail on the way, it stays well-formed: ownership entries are addresses under document
  keys, database and collection entries decode to values that match their keys, and every stored
  database has counters.\<close>

theorem reachable_store_is_well_formed:
  assumes "fallible_platform K C L" and "db_wf K C L m" and "(db_step K C L E B)\<^sup>*\<^sup>* m m'"
  shows "db_wf K C L m' \<and> db_config m' = db_config m"
  using fallible_platform.db_steps_wf [OF assms(1,3,2)] .

theorem reachable_store_is_well_formed_witness:
  "db_wf mem_engine sample_codecs sample_libs (snd (apply_mutation mem_engine sample_codecs sample_libs mem_ejdb
     sample_bson CreateDocumentDb \<lparr>mut_action = 0, mut_bodies = []\<rparr> addr_one 1 1 1 1 Map.empty sample_db0))"
  using reachable_store_is_well_formed [OF sample_fallible sample_db0_wf r_into_rtranclp [of "db_step _ _ _ _ _", OF step_apply]]
  by blast

text \<open>C11. Applying a mutation records its (block, order) exactly when it succeeds; a mutation that fails, at
  whatever point, leaves the recorded position as it was, and the store stays well-formed.\<close>

theorem block_is_recorded_iff_applied:
  assumes "fallible_platform K C L" and "db_wf K C L m"
    and "apply_mutation K C L E B action dm address network nonce block order ids_map m = (r, m')"
  shows "db_wf K C L m' \<and>
    (case r of
       Inl e \<Rightarrow> cf_map K (db_se m') BLOCK_STATE_CF = cf_map K (db_se m) BLOCK_STATE_CF
     | Inr items \<Rightarrow> \<exists>buf. cf_map K (db_se m') BLOCK_STATE_CF =
           (cf_map K (db_se m) BLOCK_STATE_CF)(as_bytes BLOCK_STATE_KEY \<mapsto> buf) \<and>
         decode (block_state_codec C) buf = Inr \<lparr>bsp_block = block, bsp_order = order\<rparr>)"
proof -
  have "db_inv K C L (db_config m) (cf_map K (db_se m) BLOCK_STATE_CF) m" using assms(2) by (simp add: db_inv_def)
  from fallible_platform.apply_mutation_inv [OF assms(1) this assms(3)] show ?thesis
    by (cases r) auto
qed

theorem block_is_recorded_iff_applied_witness:
  "\<exists>r m'. apply_mutation mem_engine sample_codecs sample_libs mem_ejdb sample_bson AddCollection
     \<lparr>mut_action = 1, mut_bodies = [\<lparr>bw_db_address = [1], bw_body = None\<rparr>]\<rparr> addr_one 1 1 7 2 Map.empty sample_db0 = (Inl r, m') \<and>
     cf_map mem_engine (db_se m') BLOCK_STATE_CF = cf_map mem_engine (db_se sample_db0) BLOCK_STATE_CF"
proof -
  let ?run = "apply_mutation mem_engine sample_codecs sample_libs mem_ejdb sample_bson AddCollection
     \<lparr>mut_action = 1, mut_bodies = [\<lparr>bw_db_address = [1], bw_body = None\<rparr>]\<rparr> addr_one 1 1 7 2 Map.empty sample_db0"
  obtain e m' where run: "?run = (Inl e, m')"
    by (simp add: apply_mutation_def apply_add_collection_def body_address_def addr_try_from_def action_simps)
  from block_is_recorded_iff_applied [OF sample_fallible sample_db0_wf run] run show ?thesis by auto
qed

section \<open>Documents\<close>

text \<open>C12. A sender who does not own every document named in a request cannot update or delete any of them: the
  request fails and nothing in the store changes, even when engine calls fail.\<close>

theorem only_owners_change_documents:
  assumes "fallible_platform K C L" and "i \<in> set ids" and "owner_of K m a i \<noteq> Some (addr_as_ref sender)"
  shows "(\<exists>e. delete_docs K L E a sender col ids m = (Inl e, m)) \<and>
    (\<exists>e. update_docs K L E a sender col docs ids m = (Inl e, m))"
  using fallible_platform.unowned_rejected [OF assms] by blast

theorem only_owners_change_documents_witness:
  "\<exists>e. delete_docs mem_engine sample_libs mem_ejdb addr_zero addr_one ''books'' [5] sample_db2 = (Inl e, sample_db2)"
proof -
  have "cf_map mem_engine (db_se sample_db2) ''docowner'' (db_doc_key_encode \<lparr>ddk_db = addr_zero, ddk_id = 5\<rparr>) = None"
    by (simp add: sample_db2_cf)
  then have "owner_of mem_engine sample_db2 addr_zero 5 \<noteq> Some (addr_as_ref addr_one)"
    by (simp add: owner_of_def sample_db2_facts sample_db_config_def)
  from only_owners_change_documents [OF sample_fallible _ this, of "[5]"] show ?thesis by simp
qed

text \<open>C13. Documents added without given ids get the ids after the database's counter, in order; each belongs
  to the sender and is read back with its text; no other ownership entry changes; and the counters of the
  database and of the collection grow by the number of documents.\<close>

theorem added_documents_are_owned_and_readable:
  assumes "platform K C L" and "reliable_files E" and "db_ready K m"
    and "is_db_collection_exist K a col m = Inr True" and "db_state m (addr_to_hex L a) = Some st"
    and "enable_doc_store (db_config m)" and "length docs < 2 ^ 64"
    and "ids = new_ids (doc_order st) (length docs)"
  shows "\<exists>m'. add_docs K L E a s col docs None m = (Inr ids, m') \<and>
    (\<forall>b i. owner_of K m' b i = (if b = a \<and> i \<in> set ids then Some (addr_as_ref s) else owner_of K m b i)) \<and>
    (\<forall>j < length docs. fst (get_doc K L E a col (ids ! j) m') =
       Inr (Some \<lparr>doc_id = ids ! j, doc_doc = ejdb_render E (docs ! j)\<rparr>)) \<and>
    db_state m' = (db_state m)(addr_to_hex L a \<mapsto>
      \<lparr>doc_order = doc_order st + of_nat (length docs),
       collection_states = adjust_collection col (\<lambda>k. k + of_nat (length docs)) (collection_states st),
       total_doc_count = total_doc_count st + of_nat (length docs)\<rparr>)"
proof -
  note P = assms(1)
  obtain m1 where m1: "update_db_state_for_add_docs (addr_to_hex L a) col (length docs) None m = (Inr (Some ids), m1)"
    using add_counters_none [where col = col and n = "length docs", OF assms(5)] assms(8) by blast
  have dist: "distinct ids" using assms(7,8) distinct_new_ids by simp
  obtain m' where m': "add_docs K L E a s col docs None m = (Inr ids, m')"
    "\<And>b i. owner_of K m' b i = (if b = a \<and> i \<in> set ids then Some (addr_as_ref s) else owner_of K m b i)"
    "db_config m' = db_config m" "db_state m' = db_state m1" "db_ready K m'"
    "is_db_collection_exist K a col m' = Inr True"
    "\<And>j. enable_doc_store (db_config m) \<Longrightarrow> j < length docs \<Longrightarrow>
       doc_at E (dstore_files (db_doc_store m')) (db_file_path L (db_doc_store m') a) col (ids ! j) =
         Some (ejdb_render E (docs ! j))"
    by (rule platform.add_docs_run [OF P assms(3,4) m1 assms(5,2) dist]) (rule that)
  have "fst (get_doc K L E a col (ids ! j) m') =
       Inr (Some \<lparr>doc_id = ids ! j, doc_doc = ejdb_render E (docs ! j)\<rparr>)" if "j < length docs" for j
    by (rule platform.get_doc_run [OF P m'(6) assms(2)]) (use m'(3,7) that assms(6) in auto)
  with m' add_counters_run(5) [OF m1 assms(5)] show ?thesis by (auto simp: database_state.defs)
qed

theorem added_documents_are_owned_and_readable_witness:
  "\<exists>m'. add_docs mem_engine sample_libs mem_ejdb addr_zero addr_one ''books'' [''a'', ''b''] None sample_db2 = (Inr [1, 2], m') \<and>
     fst (get_doc mem_engine sample_libs mem_ejdb addr_zero ''books'' 2 m') = Inr (Some \<lparr>doc_id = 2, doc_doc = ''b''\<rparr>)"
proof -
  have en: "enable_doc_store (db_config sample_db2)" by (simp add: sample_db2_facts sample_db_config_def)
  have ids: "[1, 2] = new_ids 0 (length [''a'', ''b''])" by (simp add: new_ids_def upt_rec)
  from added_documents_are_owned_and_readable [OF node_platform sample_files sample_db2_facts(1,2,3) en,
      where docs = "[''a'', ''b'']" and ids = "[1, 2]" and s = addr_one] ids
  obtain m' where m': "add_docs mem_engine sample_libs mem_ejdb addr_zero addr_one ''books'' [''a'', ''b''] None sample_db2 =
      (Inr [1, 2], m')"
    "\<forall>j < length [''a'', ''b'']. fst (get_doc mem_engine sample_libs mem_ejdb addr_zero ''books'' ([1, 2] ! j) m') =
       Inr (Some \<lparr>doc_id = [1, 2] ! j, doc_doc = ejdb_render mem_ejdb ([''a'', ''b''] ! j)\<rparr>)"
    by auto
  from m'(2) have "fst (get_doc mem_engine sample_libs mem_ejdb addr_zero ''books'' 2 m') =
      Inr (Some \<lparr>doc_id = 2, doc_doc = ''b''\<rparr>)"
    by (auto simp: mem_ejdb_def dest: spec [of _ 1])
  with m'(1) show ?thesis by blast
qed

text \<open>C14. Ids handed out by the database are fresh: if every document of a database has an id up to its counter
  and the counter does not leave the range of \<open>i64\<close>, the new ids belong to no document, and afterwards every
  document of the database has again an id up to its counter.\<close>

theorem generated_ids_are_fresh:
  assumes "platform K C L" and "reliable_files E" and "db_ready K m"
    and "is_db_collection_exist K a col m = Inr True" and "db_state m (addr_to_hex L a) = Some st"
    and "sint (doc_order st) + int (length docs) < 2 ^ 63" and "length docs < 2 ^ 64"
    and "\<And>i. owner_of K m a i \<noteq> None \<Longrightarrow> sint i \<le> sint (doc_order st)"
  shows "\<exists>ids m' st'. add_docs K L E a s col docs None m = (Inr ids, m') \<and>
    (\<forall>i \<in> set ids. owner_of K m a i = None) \<and> distinct ids \<and>
    db_state m' (addr_to_hex L a) = Some st' \<and>
    (\<forall>i. owner_of K m' a i = None \<or> sint i \<le> sint (doc_order st'))"
proof -
  let ?ids = "new_ids (doc_order st) (length docs)"
  obtain m1 where m1: "update_db_state_for_add_docs (addr_to_hex L a) col (length docs) None m = (Inr (Some ?ids), m1)"
    using add_counters_none [where col = col and n = "length docs", OF assms(5)] by blast
  have dist: "distinct ?ids" using assms(7) distinct_new_ids by simp
  obtain m' where m': "add_docs K L E a s col docs None m = (Inr ?ids, m')"
    "\<And>b i. owner_of K m' b i = (if b = a \<and> i \<in> set ?ids then Some (addr_as_ref s) else owner_of K m b i)"
    "db_state m' = db_state m1"
    by (rule platform.add_docs_run [OF assms(1,3,4) m1 assms(5,2) dist]) (rule that)
  obtain st' where st': "db_state m1 (addr_to_hex L a) = Some st'" "doc_order st' = doc_order st + of_nat (length docs)"
    using add_counters_run(5) [OF m1 assms(5)] by auto
  have fresh: "owner_of K m a i = None" if "i \<in> set ?ids" for i
    using new_ids_range [OF assms(6) that] assms(8) [of i] by fastforce
  have "sint (doc_order st) \<le> sint (doc_order st')"
    using sint_add_nat [OF assms(6)] by (simp add: st'(2))
  then have "owner_of K m' a i = None \<or> sint i \<le> sint (doc_order st')" for i
    using m'(2) [of a i] new_ids_range [OF assms(6), of i] assms(8) [of i] st'(2)
    by (cases "owner_of K m a i") (auto split: if_splits)
  with m' fresh st' dist show ?thesis by metis
qed

theorem generated_ids_are_fresh_witness:
  "\<exists>ids m' st'. add_docs mem_engine sample_libs mem_ejdb addr_zero addr_one ''books'' [''a''] None sample_db2 = (Inr ids, m') \<and>
     db_state m' (addr_to_hex sample_libs addr_zero) = Some st' \<and>
     (\<forall>i. owner_of mem_engine m' addr_zero i = None \<or> sint i \<le> sint (doc_order st'))"
proof -
  have none: "owner_of mem_engine sample_db2 addr_zero i = None" for i
    using sample_db2_cf by (simp add: owner_of_def sample_db2_facts sample_db_config_def)
  show ?thesis
    using generated_ids_are_fresh [OF node_platform sample_files sample_db2_facts(1,2,3), where docs = "[''a'']" and s = addr_one]
      none by auto
qed

text \<open>C15. Ids that come with a mutation (a replay) set the counter to their maximum even when that lies behind
  it. A document at the next id is then overwritten by the next addition: its ownership passes to
  another sender.\<close>

theorem replayed_ids_can_rewind_the_counter:
  assumes "platform K C L" and "reliable_files E" and "db_ready K m"
    and "is_db_collection_exist K a col m = Inr True" and "db_state m (addr_to_hex L a) = Some st"
    and "owner_of K m a (i + 1) = Some (addr_as_ref alice)" and "alice \<noteq> bob"
  shows "\<exists>m1 m2. add_docs K L E a bob col [doc] (Some [i]) m = (Inr [i], m1) \<and>
    add_docs K L E a bob col [doc'] None m1 = (Inr [i + 1], m2) \<and>
    owner_of K m2 a (i + 1) = Some (addr_as_ref bob)"
proof -
  note P = assms(1)
  let ?st = "st\<lparr>doc_order := i, total_doc_count := total_doc_count st + 1,
    collection_states := adjust_collection col (\<lambda>k. k + 1) (collection_states st)\<rparr>"
  let ?n = "m\<lparr>db_state := (db_state m)(addr_to_hex L a \<mapsto> ?st)\<rparr>"
  have c: "update_db_state_for_add_docs (addr_to_hex L a) col (length [doc]) (Some [i]) m = (Inr (Some [i]), ?n)"
    using assms(5) by (simp add: update_db_state_for_add_docs_def Let_def)
  obtain m1 where m1: "add_docs K L E a bob col [doc] (Some [i]) m = (Inr [i], m1)" "db_state m1 = db_state ?n"
    "db_ready K m1" "is_db_collection_exist K a col m1 = Inr True"
    by (rule platform.add_docs_run [OF P assms(3,4) c assms(5,2)]) (simp, rule that)
  have st1: "db_state m1 (addr_to_hex L a) = Some ?st" by (simp add: m1(2))
  obtain n1 where c1: "update_db_state_for_add_docs (addr_to_hex L a) col (length [doc']) None m1 = (Inr (Some [i + 1]), n1)"
    using add_counters_none [where col = col and n = "length [doc']", OF st1] by (auto simp: new_ids_def)
  obtain m2 where "add_docs K L E a bob col [doc'] None m1 = (Inr [i + 1], m2)"
    "\<And>b j. owner_of K m2 b j = (if b = a \<and> j \<in> set [i + 1] then Some (addr_as_ref bob) else owner_of K m1 b j)"
    by (rule platform.add_docs_run [OF P m1(3,4) c1 st1 assms(2), where s = bob]) (simp, rule that)
  with m1(1) show ?thesis by auto
qed

theorem replayed_ids_can_rewind_the_counter_witness:
  "\<exists>m m1 m2. owner_of mem_engine m addr_zero 1 = Some (addr_as_ref addr_one) \<and>
     add_docs mem_engine sample_libs mem_ejdb addr_zero addr_zero ''books'' [''x''] (Some [0]) m = (Inr [0], m1) \<and>
     add_docs mem_engine sample_libs mem_ejdb addr_zero addr_zero ''books'' [''y''] None m1 = (Inr [1], m2) \<and>
     owner_of mem_engine m2 addr_zero 1 = Some (addr_as_ref addr_zero)"
proof -
  obtain m1 where c: "update_db_state_for_add_docs (addr_to_hex sample_libs addr_zero) ''books'' (length [''a'']) None sample_db2 =
      (Inr (Some [1]), m1)"
    using add_counters_none [where col = "''books''" and n = "length [''a'']", OF sample_db2_facts(3)]
    by (auto simp: new_ids_def)
  have dist: "distinct [1 :: i64]" by simp
  obtain m where m0: "add_docs mem_engine sample_libs mem_ejdb addr_zero addr_one ''books'' [''a''] None sample_db2 = (Inr [1], m)"
    and m: "\<And>b j. owner_of mem_engine m b j =
      (if b = addr_zero \<and> j \<in> set [1] then Some (addr_as_ref addr_one) else owner_of mem_engine sample_db2 b j)"
    "db_state m = db_state m1" "db_ready mem_engine m"
    "is_db_collection_exist mem_engine addr_zero ''books'' m = Inr True"
    by (rule platform.add_docs_run [OF node_platform sample_db2_facts(1,2) c sample_db2_facts(3) sample_files dist,
          where s = addr_one]) (rule that)
  obtain st where st: "db_state m (addr_to_hex sample_libs addr_zero) = Some st"
    using add_counters_run(5) [OF c sample_db2_facts(3)] m(2) by auto
  have own: "owner_of mem_engine m addr_zero (0 + 1) = Some (addr_as_ref addr_one)" by (simp add: m(1))
  have ne: "addr_one \<noteq> addr_zero"
  proof
    assume "addr_one = addr_zero"
    then have "hd (addr_as_ref addr_one) = hd (addr_as_ref addr_zero)" by simp
    then show False by simp
  qed
  from replayed_ids_can_rewind_the_counter [OF node_platform sample_files m(3,4) st own ne, of "''x''" "''y''"] own
  show ?thesis by auto
qed

section \<open>Databases and collections\<close>



text \<open>C17. A new collection of an existing database is read back with its index fields and its sender; every
  other collection is as before; creating it again is refused and changes nothing.\<close>

theorem created_collection_is_visible_once:
  assumes "platform K C L" and "reliable_files E" and "db_ready K m" and "get_database K C a m = Inr (Some d)"
    and "build_collection_key a (cm_collection_name cm) = Inr ck"
    and "is_db_collection_exist K a (cm_collection_name cm) m = Inr False"
    and "c = \<lparr>col_name = cm_collection_name cm, col_index_fields = cm_index_fields cm, col_sender = addr_as_ref s\<rparr>"
    and "encode (collection_codec C) c = Inr buf"
    and "\<forall>f \<in> set (cm_index_fields cm). unat (ix_index_type f) < 4"
  shows "\<exists>m'. create_collection K C L E s a cm block order idx m = (Inr (), m') \<and>
    get_collection K C a (cm_collection_name cm) m' = Inr (Some c) \<and>
    (\<forall>b n. (b, n) = (a, cm_collection_name cm) \<or> get_collection K C b n m' = get_collection K C b n m) \<and>
    create_collection K C L E s' a cm block' order' idx' m' =
      (Inl (Raised (CollectionAlreadyExist (cm_collection_name cm) (addr_to_hex L a))), m')"
proof -
  obtain m' where m': "save_collection_internal K C L E s a (cm_collection_name cm) (cm_index_fields cm) m = (Inr (), m')"
    "get_collection K C a (cm_collection_name cm) m' = Inr (Some c)"
    "\<And>b n. (b, n) \<noteq> (a, cm_collection_name cm) \<Longrightarrow> get_collection K C b n m' = get_collection K C b n m"
    "is_db_collection_exist K a (cm_collection_name cm) m' = Inr True"
    by (rule platform.save_collection_run [OF assms(1,3-5,7,8,2,9)]) (rule that)
  have "create_collection K C L E s a cm block order idx m = (Inr (), m')"
    using assms(6) m'(1) by (simp add: create_collection_def action_simps)
  then show ?thesis
    using m' platform.create_existing_collection [OF assms(1) m'(4)] by blast
qed

theorem created_collection_is_visible_once_witness:
  "\<exists>m'. create_collection mem_engine sample_codecs sample_libs mem_ejdb addr_one addr_zero
      \<lparr>cm_index_fields = [], cm_collection_name = ''books''\<rparr> 1 2 0 sample_db1 = (Inr (), m') \<and>
    get_collection mem_engine sample_codecs addr_zero ''books'' m' =
      Inr (Some \<lparr>col_name = ''books'', col_index_fields = [], col_sender = addr_as_ref addr_one\<rparr>)"
proof -
  obtain d where d: "sample_get_database sample_db1 = Inr (Some d)" using sample_db1_facts(2) ..
  have "cf_map mem_engine (db_se sample_db1) ''col'' = Map.empty"
    by (rule platform.create_database_run [OF node_platform sample_db0_ready sample_no_database sample_files
          sample_codecs_encode(6), where s = addr_one and desc = "''desc''" and block = 1 and order = 1])
      (simp add: sample_db1_def sample_db0_fields sample_db_config_def)
  then have no: "is_db_collection_exist mem_engine addr_zero ''books'' sample_db1 = Inr False"
    by (simp add: platform.collection_exist_eq [OF node_platform sample_db1_facts(1) sample_key] sample_db1_facts
        sample_db_config_def)
  show ?thesis
    using created_collection_is_visible_once [OF node_platform sample_files sample_db1_facts(1) d,
        where cm = "\<lparr>cm_index_fields = [], cm_collection_name = ''books''\<rparr>" and s = addr_one] sample_key no
    by (simp add: sample_codecs_encode(7)) blast
qed

section \<open>Divergences\<close>

text \<open>C18. On a well-formed store the lookup of a document key by document id alone never finds anything: it
  reads the eight bytes of the id, and every key of the column family has 33 bytes.\<close>

theorem document_key_lookup_never_finds:
  assumes "platform K C L" and "db_wf K C L m"
  shows "get_doc_key_from_doc_id K i m =
    Inl (Raised (ReadStoreError (''doc owner key not found for doc id '' @ show_i64 i)))"
proof -
  have ready: "db_ready K m" and wf: "entries_wf K C m" using assms(2) by (simp_all add: db_wf_def)
  have "cf_map K (db_se m) (doc_owner_store_cf_name (db_config m)) (be64 i) = None"
  proof (rule ccontr)
    assume "cf_map K (db_se m) (doc_owner_store_cf_name (db_config m)) (be64 i) \<noteq> None"
    then obtain dk where "be64 i = db_doc_key_encode dk"
      using wf by (fastforce simp: entries_wf_def entry_ok_def)
    then have "length (be64 i) = 33" by simp
    then show False by simp
  qed
  moreover have "reliable_engine K" using assms(1) by (simp add: platform_def)
  ultimately show ?thesis
    using ready by (simp add: get_doc_key_from_doc_id_def db_ready_cf Let_def reliable_engine.get_cf_eq)
qed

theorem document_key_lookup_never_finds_witness:
  "get_doc_key_from_doc_id mem_engine 5 sample_db0 =
     Inl (Raised (ReadStoreError (''doc owner key not found for doc id '' @ show_i64 5)))"
  by (rule document_key_lookup_never_finds [OF node_platform sample_db0_wf])



text \<open>C20. Adding an index to a collection sets the collection's document count back to zero, whatever it was:
  the index is saved by the same routine that creates collections.\<close>

theorem adding_an_index_resets_the_count:
  assumes "platform K C L" and "reliable_files E" and "db_ready K m" and "get_database K C a m = Inr (Some d)"
    and "get_collection K C a col m = Inr (Some c)" and "col_sender c = addr_as_ref s"
    and "\<forall>f \<in> set ix. ix_path f \<notin> set (map ix_path (col_index_fields c))"
    and "c' = \<lparr>col_name = col, col_index_fields = col_index_fields c @ ix, col_sender = addr_as_ref s\<rparr>"
    and "encode (collection_codec C) c' = Inr buf"
    and "\<forall>f \<in> set (col_index_fields c @ ix). unat (ix_index_type f) < 4"
    and "db_state m (addr_to_hex L a) = Some st"
  shows "\<exists>m'. db_add_index K C L E a col ix s m = (Inr (), m') \<and>
    get_collection K C a col m' = Inr (Some c') \<and>
    get_collection_state L a col m' = Some \<lparr>csp_total_doc_count = 0\<rparr>"
proof -
  obtain ck where ck: "build_collection_key a col = Inr ck"
    using assms(5) by (auto simp: get_collection_def bindR_eq_Inr_iff)
  obtain m' where m': "save_collection_internal K C L E s a col (col_index_fields c @ ix) m = (Inr (), m')"
    "get_collection K C a col m' = Inr (Some c')"
    "db_state m' = (case db_state m (addr_to_hex L a) of None \<Rightarrow> db_state m
       | Some st \<Rightarrow> (db_state m)(addr_to_hex L a \<mapsto>
           st\<lparr>collection_states := AList.update col \<lparr>cs_total_doc_count = 0\<rparr> (collection_states st)\<rparr>))"
    by (rule platform.save_collection_run [OF assms(1,3,4) ck assms(8,9,2,10)]) (rule that)
  have "filter (\<lambda>p. p \<in> set (map ix_path (col_index_fields c))) (map ix_path ix) = []"
    using assms(7) by (auto simp: filter_empty_conv)
  then have "db_add_index K C L E a col ix s m = (Inr (), m')"
    using assms(4-6) m'(1) by (simp add: db_add_index_def action_simps Let_def)
  with m'(2,3) assms(11) show ?thesis
    by (auto simp: get_collection_state_def update_conv')
qed

theorem adding_an_index_resets_the_count_witness:
  "\<exists>m'. db_add_index mem_engine sample_codecs sample_libs mem_ejdb addr_zero ''books''
       [\<lparr>ix_path = ''/title'', ix_index_type = 0\<rparr>] addr_one sample_db2 = (Inr (), m') \<and>
     get_collection_state sample_libs addr_zero ''books'' m' = Some \<lparr>csp_total_doc_count = 0\<rparr>"
proof -
  let ?c = "\<lparr>col_name = ''books'', col_index_fields = [], col_sender = addr_as_ref addr_one\<rparr>"
  let ?ix = "[\<lparr>ix_path = ''/title'', ix_index_type = 0\<rparr>]"
  obtain d where d: "sample_get_database sample_db1 = Inr (Some d)" using sample_db1_facts(2) ..
  note run = platform.save_collection_run [OF node_platform sample_db1_facts(1) d sample_key refl sample_codecs_encode(7)
      sample_files, where s = addr_one and ix = "[]"]
  have c: "get_collection mem_engine sample_codecs addr_zero ''books'' sample_db2 = Inr (Some ?c)"
    by (rule run) (simp_all add: sample_db2_def)
  have cf: "cf_map mem_engine (db_se sample_db2) ''db'' = cf_map mem_engine (db_se sample_db1) ''db''"
    by (rule run) (simp_all add: sample_db2_def sample_db1_facts sample_db_config_def)
  have d2: "sample_get_database sample_db2 = Inr (Some d)"
    using d cf by (simp add: platform.get_database_eq [OF node_platform sample_db1_facts(1)]
        platform.get_database_eq [OF node_platform sample_db2_facts(1)] sample_db1_facts(4) sample_db2_facts(4)
        sample_db_config_def)
  show ?thesis
    using adding_an_index_resets_the_count [OF node_platform sample_files sample_db2_facts(1) d2 c, where s = addr_one and ix = ?ix]
      sample_db2_facts(3) by (simp add: sample_codecs_encode(7)) blast
qed

end
