(* ===== verification/State_Store.thy ===== *)
theory State_Store
  imports Sample_Codecs "HOL-Library.AList"
begin

text \<open>
  The state store (\<open>src/storage/src/state_store.rs\<close>): account nonces, node configurations and event
  progress in an MDBX environment. MDBX is not part of the repository: \<open>mdbx\<close> names the operations the
  store calls, each of which may report an error. A read-write transaction works on a copy of the
  environment that \<open>commit\<close> publishes; leaving the function without it aborts the transaction. The
  store's only field is the environment, which is therefore the state of its actions.
\<close>

section \<open>MDBX\<close>

record 't mdbx =
  begin_ro_txn :: "'t \<Rightarrow> string + unit"
  begin_rw_txn :: "'t \<Rightarrow> string + 't" \<comment> \<open>the transaction's copy\<close>
  open_table :: "'t \<Rightarrow> string \<Rightarrow> string + unit"
  create_table :: "'t \<Rightarrow> string \<Rightarrow> string + 't"
  mdbx_get :: "'t \<Rightarrow> string \<Rightarrow> bytes \<Rightarrow> string + bytes option"
  mdbx_put :: "'t \<Rightarrow> string \<Rightarrow> bytes \<Rightarrow> bytes \<Rightarrow> string + 't"
  mdbx_commit :: "'t \<Rightarrow> string + 't"
  len_diff_text :: string \<comment> \<open>the error of decoding a value of another length as \<open>[u8; N]\<close>\<close>

text \<open>What a table holds under a key.\<close>

definition table_map :: "'t mdbx \<Rightarrow> 't \<Rightarrow> string \<Rightarrow> (bytes \<rightharpoonup> bytes)" where
  "table_map X t n k = (case mdbx_get X t n k of Inr v \<Rightarrow> v | Inl _ \<Rightarrow> None)"

locale transactional =
  fixes X :: "'t mdbx"
  assumes begin_rw_copies: "begin_rw_txn X t = Inr u \<Longrightarrow> table_map X u = table_map X t"
    and put_updates: "mdbx_put X t n k v = Inr u \<Longrightarrow>
      table_map X u = (table_map X t)(n := (table_map X t n)(k \<mapsto> v))"
    and commit_publishes: "mdbx_commit X t = Inr u \<Longrightarrow> table_map X u = table_map X t"

text \<open>An environment whose calls succeed.\<close>

locale reliable_mdbx = transactional +
  assumes begin_ro_ok: "begin_ro_txn X t = Inr ()"
    and begin_rw_ok: "\<exists>u. begin_rw_txn X t = Inr u"
    and open_ok: "open_table X t n = Inr ()"
    and get_ok: "\<exists>v. mdbx_get X t n k = Inr v"
    and put_ok: "\<exists>u. mdbx_put X t n k v = Inr u"
    and commit_ok: "\<exists>u. mdbx_commit X t = Inr u"
begin

lemma get_eq: "mdbx_get X t n k = Inr (table_map X t n k)"
  using get_ok [of t n k] by (auto simp: table_map_def)

end

section \<open>The store\<close>

definition ACCOUNT_META_TABLE :: string where
  "ACCOUNT_META_TABLE = ''ACCOUNT_META_TABLE''"

definition CONFIG_META_TABLE :: string where
  "CONFIG_META_TABLE = ''CONFIG_META_TABLE''"

definition CONTRACT_EVENT_TABLE :: string where
  "CONTRACT_EVENT_TABLE = ''CONTRACT_EVENT_TABLE''"

lemmas table_names = ACCOUNT_META_TABLE_def CONFIG_META_TABLE_def CONTRACT_EVENT_TABLE_def

definition ss_new :: "'t mdbx \<Rightarrow> (string \<Rightarrow> string + 't) \<Rightarrow> string \<Rightarrow> 't result" where
  "ss_new X mdbx_open db_path =
     bindR (lib_err (\<lambda>e. OpenStoreError db_path (''fail to open db path for state_store with error '' @ e))
       (mdbx_open db_path)) (\<lambda>t.
     bindR (lib_err (\<lambda>e. WriteStoreError (''open tx '' @ e)) (begin_rw_txn X t)) (\<lambda>x0.
     bindR (lib_err (\<lambda>e. WriteStoreError (''fail to create account meta table with error '' @ e))
       (create_table X x0 ACCOUNT_META_TABLE)) (\<lambda>x1.
     bindR (lib_err (\<lambda>e. WriteStoreError (''fail to create config meta table with error '' @ e))
       (create_table X x1 CONFIG_META_TABLE)) (\<lambda>x2.
     bindR (lib_err (\<lambda>e. WriteStoreError (''fail to create config event table with error '' @ e))
       (create_table X x2 CONTRACT_EVENT_TABLE)) (\<lambda>x3.
     lib_err (\<lambda>e. WriteStoreError (''fail to commit the transaction with error '' @ e))
       (mdbx_commit X x3))))))"

text \<open>\<open>get::<[u8; 8]>\<close>\<close>

definition get_array8 :: "'t mdbx \<Rightarrow> 't \<Rightarrow> string \<Rightarrow> bytes \<Rightarrow> string + bytes option" where
  "get_array8 X t n k = (case mdbx_get X t n k of
     Inr (Some v) \<Rightarrow> if length v = 8 then Inr (Some v) else Inl (len_diff_text X)
   | r \<Rightarrow> r)"

definition get_value_err :: "string \<Rightarrow> db3_error" where
  "get_value_err e = WriteStoreError (''get value with key '' @ e)"

text \<open>Put one value in the transaction \<open>x\<close> and commit: the end of every write of the store.\<close>

definition put_commit :: "'t mdbx \<Rightarrow> 't \<Rightarrow> string \<Rightarrow> bytes \<Rightarrow> bytes \<Rightarrow> ('t, unit) action" where
  "put_commit X x n k v =
     andThen (reads (\<lambda>_. lib_err get_value_err (mdbx_put X x n k v))) (\<lambda>x1.
     andThen (reads (\<lambda>_. lib_err get_value_err (mdbx_commit X x1))) (\<lambda>t.
     modify (\<lambda>_. t)))"

definition begin_write :: "'t mdbx \<Rightarrow> string \<Rightarrow> ('t, 't) action" where
  "begin_write X n =
     andThen (reads (\<lambda>t. lib_err (\<lambda>e. WriteStoreError (''open tx '' @ e)) (begin_rw_txn X t))) (\<lambda>x.
     andThen (reads (\<lambda>_. lib_err (\<lambda>e. WriteStoreError (''open table '' @ e)) (open_table X x n))) (\<lambda>_.
     ok x))"

definition get_u64_value :: "'t mdbx \<Rightarrow> bytes \<Rightarrow> string \<Rightarrow> 't \<Rightarrow> u64 option result" where
  "get_u64_value X key table t =
     bindR (lib_err (\<lambda>e. ReadStoreError (''open tx '' @ e)) (begin_ro_txn X t)) (\<lambda>_.
     bindR (lib_err (\<lambda>e. ReadStoreError (''open table '' @ e)) (open_table X t table)) (\<lambda>_.
     bindR (lib_err (\<lambda>e. ReadStoreError (''get value with key '' @ e)) (get_array8 X t table key)) (\<lambda>value.
     Inr (map_option from_be64 value))))"

definition get_event_progress :: "'t mdbx \<Rightarrow> db3_address \<Rightarrow> 't \<Rightarrow> u64 option result" where
  "get_event_progress X address t = get_u64_value X (addr_as_ref address) CONTRACT_EVENT_TABLE t"

definition store_event_progress :: "'t mdbx \<Rightarrow> db3_address \<Rightarrow> u64 \<Rightarrow> ('t, unit) action" where
  "store_event_progress X address block =
     andThen (begin_write X CONTRACT_EVENT_TABLE) (\<lambda>x.
     put_commit X x CONTRACT_EVENT_TABLE (addr_as_ref address) (be64 block))"

definition get_nonce :: "'t mdbx \<Rightarrow> db3_address \<Rightarrow> 't \<Rightarrow> u64 result" where
  "get_nonce X acct t = (case get_u64_value X (addr_as_ref acct) ACCOUNT_META_TABLE t of
     Inr (Some v) \<Rightarrow> Inr v | _ \<Rightarrow> Inr 0)"

definition store_node_config :: "'t mdbx \<Rightarrow> codecs \<Rightarrow> string \<Rightarrow> system_config \<Rightarrow> ('t, unit) action" where
  "store_node_config X C key config =
     andThen (begin_write X CONFIG_META_TABLE) (\<lambda>x.
     andThen (reads (\<lambda>_. lib_err WriteStoreError (encode (config_codec C) config))) (\<lambda>buf.
     put_commit X x CONFIG_META_TABLE (as_bytes key) buf))"

definition get_node_config :: "'t mdbx \<Rightarrow> codecs \<Rightarrow> string \<Rightarrow> 't \<Rightarrow> system_config option result" where
  "get_node_config X C key t =
     bindR (lib_err (\<lambda>e. ReadStoreError (''open tx '' @ e)) (begin_ro_txn X t)) (\<lambda>_.
     bindR (lib_err (\<lambda>e. ReadStoreError (''open table '' @ e)) (open_table X t CONFIG_META_TABLE)) (\<lambda>_.
     bindR (lib_err get_value_err (mdbx_get X t CONFIG_META_TABLE (as_bytes key))) (\<lambda>value.
     case value of
       None \<Rightarrow> Inr None
     | Some v \<Rightarrow> bindR (lib_err (\<lambda>e. ReadStoreError (''fail to decode database message '' @ e))
         (decode (config_codec C) v)) (\<lambda>config. Inr (Some config)))))"

definition incr_nonce :: "'t mdbx \<Rightarrow> db3_address \<Rightarrow> u64 \<Rightarrow> ('t, u64) action" where
  "incr_nonce X acct nonce =
     andThen (begin_write X ACCOUNT_META_TABLE) (\<lambda>x.
     andThen (reads (\<lambda>_. lib_err get_value_err (get_array8 X x ACCOUNT_META_TABLE (addr_as_ref acct)))) (\<lambda>value.
     case value of
       Some v \<Rightarrow>
         let new_nonce = from_be64 v + 1
         in if new_nonce = nonce
            then andThen (put_commit X x ACCOUNT_META_TABLE (addr_as_ref acct) (be64 new_nonce)) (\<lambda>_. ok new_nonce)
            else fail (WriteStoreError ''bad nonce'')
     | None \<Rightarrow>
         if nonce = 1
         then andThen (put_commit X x ACCOUNT_META_TABLE (addr_as_ref acct) (be64 1)) (\<lambda>_. ok 1)
         else fail (WriteStoreError ''bad nonce'')))"

section \<open>Nonces\<close>

text \<open>Every stored nonce is eight bytes.\<close>

definition nonces_wf :: "'t mdbx \<Rightarrow> 't \<Rightarrow> bool" where
  "nonces_wf X t \<longleftrightarrow> (\<forall>acct. case table_map X t ACCOUNT_META_TABLE (addr_as_ref acct) of
     None \<Rightarrow> True | Some v \<Rightarrow> length v = 8)"

definition nonce_of :: "'t mdbx \<Rightarrow> 't \<Rightarrow> db3_address \<Rightarrow> u64" where
  "nonce_of X t acct = (case table_map X t ACCOUNT_META_TABLE (addr_as_ref acct) of
     None \<Rightarrow> 0 | Some v \<Rightarrow> from_be64 v)"

text \<open>A sequence of requests, each an account and the nonce it claims; the accepted ones in order.\<close>

fun accept_all :: "'t mdbx \<Rightarrow> (db3_address \<times> u64) list \<Rightarrow> 't \<Rightarrow> (db3_address \<times> u64) list \<times> 't" where
  "accept_all X [] t = ([], t)"
| "accept_all X (q # qs) t =
     (case incr_nonce X (fst q) (snd q) t of
        (Inr _, t') \<Rightarrow> (let (acc, u) = accept_all X qs t' in (q # acc, u))
      | (Inl _, t') \<Rightarrow> accept_all X qs t')"

context transactional
begin

text \<open>Whatever fails, a write that did not commit leaves the store as it was.\<close>

lemma put_commit_cases:
  obtains (failed) e where "put_commit X x n k v t = (Inl e, t)"
  | (committed) u where "put_commit X x n k v t = (Inr (), u)"
      "table_map X u = (table_map X x)(n := (table_map X x n)(k \<mapsto> v))"
proof (cases "mdbx_put X x n k v")
  case (Inl e)
  then show ?thesis using failed by (simp add: put_commit_def action_simps)
next
  case (Inr x1)
  show ?thesis
  proof (cases "mdbx_commit X x1")
    case (Inl e)
    then show ?thesis using failed Inr by (simp add: put_commit_def action_simps)
  next
    case u: (Inr u)
    then show ?thesis
      using committed [of u] Inr commit_publishes [OF u] put_updates [OF Inr] by (simp add: put_commit_def action_simps)
  qed
qed

lemma begin_write_cases:
  obtains (failed) e where "begin_write X n t = (Inl e, t)"
  | (started) x where "begin_write X n t = (Inr x, t)" "table_map X x = table_map X t"
proof (cases "begin_rw_txn X t")
  case (Inl e)
  then show ?thesis using failed by (simp add: begin_write_def action_simps)
next
  case (Inr x)
  then show ?thesis
    using failed started begin_rw_copies by (cases "open_table X x n") (simp_all add: begin_write_def action_simps)
qed

lemma incr_nonce_safe:
  assumes "incr_nonce X acct n t = (r, u)"
  shows "case r of Inl e \<Rightarrow> u = t
    | Inr v \<Rightarrow> v = n \<and> n = nonce_of X t acct + 1 \<and>
        table_map X u = (table_map X t)(ACCOUNT_META_TABLE :=
          (table_map X t ACCOUNT_META_TABLE)(addr_as_ref acct \<mapsto> be64 n))"
proof (cases rule: begin_write_cases [of ACCOUNT_META_TABLE t])
  case (failed e)
  with assms show ?thesis by (auto simp: incr_nonce_def action_simps)
next
  case (started x)
  show ?thesis
  proof (cases "get_array8 X x ACCOUNT_META_TABLE (addr_as_ref acct)")
    case (Inl e)
    with assms started show ?thesis by (auto simp: incr_nonce_def action_simps)
  next
    case (Inr v)
    then have v: "v = table_map X t ACCOUNT_META_TABLE (addr_as_ref acct)"
      by (auto simp: started(2) [symmetric] table_map_def get_array8_def split: sum.splits option.splits if_splits)
    show ?thesis
    proof (cases "n = nonce_of X t acct + 1")
      case False
      then show ?thesis using assms started(1) Inr v
        by (auto simp: incr_nonce_def action_simps nonce_of_def Let_def split: option.splits)
    next
      case True
      show ?thesis
        by (rule put_commit_cases [of x ACCOUNT_META_TABLE "addr_as_ref acct" "be64 n" t])
          (use assms started Inr v True in
            \<open>auto simp: incr_nonce_def action_simps nonce_of_def Let_def split: option.splits\<close>)
    qed
  qed
qed

end

context reliable_mdbx
begin

lemma put_commit_ok:
  obtains u where "put_commit X x n k v t = (Inr (), u)"
    "table_map X u = (table_map X x)(n := (table_map X x n)(k \<mapsto> v))"
proof -
  obtain x1 where x1: "mdbx_put X x n k v = Inr x1" using put_ok by blast
  obtain u where u: "mdbx_commit X x1 = Inr u" using commit_ok by blast
  show ?thesis
    using that [of u] x1 u commit_publishes [OF u] put_updates [OF x1] by (simp add: put_commit_def action_simps)
qed

lemma begin_write_ok:
  obtains x where "begin_write X n t = (Inr x, t)" "table_map X x = table_map X t"
  using begin_rw_ok [of t] begin_rw_copies open_ok by (auto simp: begin_write_def action_simps)

lemma get_nonce_eq: "nonces_wf X t \<Longrightarrow> get_nonce X acct t = Inr (nonce_of X t acct)"
  by (auto simp: get_nonce_def get_u64_value_def get_array8_def begin_ro_ok open_ok get_eq nonces_wf_def
      nonce_of_def split: option.splits dest: spec [of _ acct])

lemma incr_nonce_spec:
  assumes wf: "nonces_wf X t"
  shows "n \<noteq> nonce_of X t acct + 1 \<Longrightarrow> incr_nonce X acct n t = (Inl (Raised (WriteStoreError ''bad nonce'')), t)"
    and "n = nonce_of X t acct + 1 \<Longrightarrow> \<exists>u. incr_nonce X acct n t = (Inr n, u) \<and> nonces_wf X u \<and>
      nonce_of X u = (nonce_of X t)(acct := n)"
proof -
  obtain x where x: "begin_write X ACCOUNT_META_TABLE t = (Inr x, t)" "table_map X x = table_map X t"
    by (rule begin_write_ok)
  have stored: "get_array8 X x ACCOUNT_META_TABLE (addr_as_ref acct) =
      Inr (table_map X t ACCOUNT_META_TABLE (addr_as_ref acct))"
    using wf by (auto simp: get_array8_def get_eq x(2) nonces_wf_def split: option.splits dest: spec [of _ acct])
  show "incr_nonce X acct n t = (Inl (Raised (WriteStoreError ''bad nonce'')), t)" if "n \<noteq> nonce_of X t acct + 1"
    using that by (auto simp: incr_nonce_def x(1) stored action_simps nonce_of_def Let_def
        split: option.splits)
  obtain u where u: "put_commit X x ACCOUNT_META_TABLE (addr_as_ref acct) (be64 n) t = (Inr (), u)"
    "table_map X u = (table_map X x)(ACCOUNT_META_TABLE := (table_map X x ACCOUNT_META_TABLE)(addr_as_ref acct \<mapsto> be64 n))"
    by (rule put_commit_ok)
  show "\<exists>u. incr_nonce X acct n t = (Inr n, u) \<and> nonces_wf X u \<and> nonce_of X u = (nonce_of X t)(acct := n)"
    if "n = nonce_of X t acct + 1"
  proof (intro exI conjI)
    show "incr_nonce X acct n t = (Inr n, u)"
      using that u(1) by (auto simp: incr_nonce_def x(1) stored action_simps nonce_of_def Let_def
          split: option.splits)
    show "nonces_wf X u" using wf by (auto simp: nonces_wf_def u(2) x(2))
    show "nonce_of X u = (nonce_of X t)(acct := n)"
      by (auto simp: nonce_of_def u(2) x(2) fun_eq_iff)
  qed
qed

lemma store_node_config_spec:
  assumes "encode (config_codec C) cfg = Inr buf"
  shows "\<exists>u. store_node_config X C key cfg t = (Inr (), u) \<and>
    table_map X u = (table_map X t)(CONFIG_META_TABLE := (table_map X t CONFIG_META_TABLE)(as_bytes key \<mapsto> buf))"
proof -
  obtain x where x: "begin_write X CONFIG_META_TABLE t = (Inr x, t)" "table_map X x = table_map X t"
    by (rule begin_write_ok)
  obtain u where u: "put_commit X x CONFIG_META_TABLE (as_bytes key) buf t = (Inr (), u)"
    "table_map X u = (table_map X x)(CONFIG_META_TABLE := (table_map X x CONFIG_META_TABLE)(as_bytes key \<mapsto> buf))"
    by (rule put_commit_ok)
  show ?thesis by (rule exI [of _ u]) (use assms x u in \<open>simp add: store_node_config_def action_simps\<close>)
qed

lemma get_node_config_eq:
  "get_node_config X C key t = (case table_map X t CONFIG_META_TABLE (as_bytes key) of
     None \<Rightarrow> Inr None
   | Some v \<Rightarrow> bindR (lib_err (\<lambda>e. ReadStoreError (''fail to decode database message '' @ e))
       (decode (config_codec C) v)) (\<lambda>config. Inr (Some config)))"
  by (simp add: get_node_config_def begin_ro_ok open_ok get_eq)

lemma node_config_read_back:
  assumes "codec_ok (config_codec C)" "encode (config_codec C) cfg = Inr buf"
  shows "\<exists>u. store_node_config X C key cfg t = (Inr (), u) \<and> get_node_config X C key u = Inr (Some cfg) \<and>
    (\<forall>k. k \<noteq> key \<longrightarrow> get_node_config X C k u = get_node_config X C k t) \<and> nonce_of X u = nonce_of X t"
proof -
  from store_node_config_spec [OF assms(2)] obtain u where "store_node_config X C key cfg t = (Inr (), u)"
    "table_map X u = (table_map X t)(CONFIG_META_TABLE := (table_map X t CONFIG_META_TABLE)(as_bytes key \<mapsto> buf))"
    by blast
  then show ?thesis
    using codec_okD [OF assms] by (intro exI [of _ u])
      (auto simp: get_node_config_eq nonce_of_def table_names fun_eq_iff)
qed

lemma accept_all_spec:
  assumes "nonces_wf X t" "accept_all X qs t = (acc, u)"
  shows "nonces_wf X u \<and>
    (\<forall>acct. map snd (filter (\<lambda>q. fst q = acct) acc) =
       map (\<lambda>i. nonce_of X t acct + of_nat i) [1..<Suc (length (filter (\<lambda>q. fst q = acct) acc))] \<and>
       nonce_of X u acct = nonce_of X t acct + of_nat (length (filter (\<lambda>q. fst q = acct) acc)))"
  using assms
proof (induction qs arbitrary: t acc)
  case Nil
  then show ?case by auto
next
  case (Cons q qs)
  obtain acct n where q: "q = (acct, n)" by (cases q)
  show ?case
  proof (cases "n = nonce_of X t acct + 1")
    case False
    then have "accept_all X qs t = (acc, u)"
      using Cons.prems incr_nonce_spec(1) [OF Cons.prems(1) False] q by simp
    then show ?thesis using Cons.IH [OF Cons.prems(1)] by blast
  next
    case True
    then obtain t' where t': "incr_nonce X acct n t = (Inr n, t')" "nonces_wf X t'"
      "nonce_of X t' = (nonce_of X t)(acct := n)"
      using incr_nonce_spec(2) [OF Cons.prems(1)] by blast
    then obtain acc' where acc': "accept_all X qs t' = (acc', u)" "acc = q # acc'"
      using Cons.prems(2) q by (auto split: prod.splits)
    let ?k = "length (filter (\<lambda>q. fst q = acct) acc')"
    have upt: "map (\<lambda>i. c + of_nat i) [Suc 0..<Suc (Suc k)] =
        (c + 1) # map (\<lambda>i. (c + 1) + of_nat i) [Suc 0..<Suc k]"
      for c :: u64 and k
      by (rule nth_equalityI) (auto simp: less_Suc_eq_0_disj algebra_simps simp del: upt_Suc)
    from Cons.IH [OF t'(2) acc'(1)] show ?thesis
      by (auto simp: acc'(2) q t'(3) True upt simp del: upt_Suc)
  qed
qed

end

section \<open>An in-memory environment\<close>

type_synonym mem_env = "((string \<times> bytes) \<times> bytes) list"

definition mem_mdbx :: "mem_env mdbx" where
  "mem_mdbx = \<lparr>
     begin_ro_txn = (\<lambda>_. Inr ()),
     begin_rw_txn = (\<lambda>t. Inr t),
     open_table = (\<lambda>_ _. Inr ()),
     create_table = (\<lambda>t _. Inr t),
     mdbx_get = (\<lambda>t n k. Inr (map_of t (n, k))),
     mdbx_put = (\<lambda>t n k v. Inr (AList.update (n, k) v t)),
     mdbx_commit = (\<lambda>t. Inr t),
     len_diff_text = ''invalid length''\<rparr>"

interpretation mem_env: reliable_mdbx mem_mdbx
  by unfold_locales (auto simp: mem_mdbx_def table_map_def fun_eq_iff update_conv')

lemma mem_env_reliable: "reliable_mdbx mem_mdbx"
  by (rule mem_env.reliable_mdbx_axioms)

lemma mem_env_transactional: "transactional mem_mdbx"
  by (rule mem_env.transactional_axioms)

section \<open>Statements\<close>

text \<open>C7. On a reliable environment the requests accepted for an account carry, in order, the nonces that
  follow its stored nonce, one by one: none is skipped, repeated or reordered, whatever the other
  requests are, and the stored nonce ends at the last accepted one.\<close>

theorem accepted_nonces_are_consecutive:
  assumes "reliable_mdbx X" and "nonces_wf X t" and "accept_all X qs t = (acc, u)"
    and "mine = filter (\<lambda>q. fst q = acct) acc"
  shows "map snd mine = map (\<lambda>i. nonce_of X t acct + of_nat i) [1..<Suc (length mine)] \<and>
    get_nonce X acct u = Inr (nonce_of X t acct + of_nat (length mine))"
  using reliable_mdbx.accept_all_spec [OF assms(1-3)] reliable_mdbx.get_nonce_eq [OF assms(1), of u acct]
  by (auto simp: assms(4) simp del: upt_Suc)

lemma sample_requests:
  "accept_all mem_mdbx [(addr_one, 1), (addr_one, 1), (addr_one, 2)] [] =
     ([(addr_one, 1), (addr_one, 2)], [((ACCOUNT_META_TABLE, addr_as_ref addr_one), be64 2)])"
  by (simp add: incr_nonce_def begin_write_def put_commit_def get_array8_def mem_mdbx_def action_simps Let_def)

theorem accepted_nonces_are_consecutive_witness:
  "get_nonce mem_mdbx addr_one (snd (accept_all mem_mdbx [(addr_one, 1), (addr_one, 1), (addr_one, 2)] [])) = Inr 2"
proof -
  have "nonces_wf mem_mdbx []" by (simp add: nonces_wf_def table_map_def mem_mdbx_def)
  from accepted_nonces_are_consecutive [OF mem_env_reliable this sample_requests refl, of addr_one]
  show ?thesis unfolding sample_requests by (simp add: nonce_of_def table_map_def mem_mdbx_def)
qed

text \<open>C8. Even when calls of the environment fail, a request is all or nothing: an error leaves the store as
  it was, and a success means that the claimed nonce was the stored one plus one, sets exactly that
  account's entry and touches no other table or account.\<close>

theorem nonce_request_is_all_or_nothing:
  assumes "transactional X" and "incr_nonce X acct n t = (r, u)"
  shows "case r of Inl e \<Rightarrow> u = t
    | Inr v \<Rightarrow> v = n \<and> n = nonce_of X t acct + 1 \<and>
        table_map X u = (table_map X t)(ACCOUNT_META_TABLE :=
          (table_map X t ACCOUNT_META_TABLE)(addr_as_ref acct \<mapsto> be64 n))"
  using assms by (rule transactional.incr_nonce_safe)

theorem nonce_request_is_all_or_nothing_witness:
  "snd (incr_nonce mem_mdbx addr_one 5 []) = []"
proof -
  have "fst (incr_nonce mem_mdbx addr_one 5 []) = Inl (Raised (WriteStoreError ''bad nonce''))"
    by (simp add: incr_nonce_def begin_write_def get_array8_def mem_mdbx_def action_simps)
  with nonce_request_is_all_or_nothing [OF mem_env_transactional surjective_pairing, of addr_one 5 "[]"]
  show ?thesis by simp
qed

end
