(* ===== verification/World.thy ===== *)
theory World
  imports Rust_Text Messages "HOL-Library.AList"
begin

text \<open>
  What lies outside the node and is not under \<open>src/\<close>: the local disk (\<open>std::fs\<close>, \<open>tempdir\<close>), the wallet
  and key libraries (\<open>rsa\<close>, \<open>ethers\<close>), the Arweave client (\<open>arweave_rs\<close>), Arrow and Parquet, and the
  EVM client with the generated contract bindings. They are the fields of one parameter \<open>outside\<close>;
  operations that read or change the world thread a state of type \<open>'w\<close>, keys, wallets and clients are
  opaque handles of type \<open>'h\<close>, and every call that can fail returns a text. The locales at the end state
  the documented behaviour some results rest on.
\<close>

section \<open>Data that crosses the boundary\<close>

text \<open>A tag of an Arweave transaction: two byte strings.\<close>

type_synonym ar_tag = "bytes \<times> bytes"

record tx_status =
  txs_block_height :: u64
  txs_block_indep_hash :: bytes
  txs_number_of_confirmations :: u64

text \<open>An Arrow record batch: named columns of equal length.\<close>

datatype column =
    BinaryColumn "bytes list" | Utf8Column "string list" | UInt64Column "u64 list" | UInt32Column "u32 list"

record record_batch =
  rb_num_rows :: nat
  rb_columns :: "(string \<times> column) list"

fun column_length :: "column \<Rightarrow> nat" where
  "column_length (BinaryColumn xs) = length xs"
| "column_length (Utf8Column xs) = length xs"
| "column_length (UInt64Column xs) = length xs"
| "column_length (UInt32Column xs) = length xs"

text \<open>The calls of the contract \<open>DB3MetaStore\<close> the client makes.\<close>

datatype contract_call =
    RegisterDataNetwork string bytes
  | CreateDocDatabase u256 bytes
  | UpdateRollupSteps u256 bytes

record data_network =
  dn_latest_arweave_tx :: bytes
  dn_admin :: bytes

section \<open>The parameter\<close>

record ('w, 'h) outside =
  \<comment> \<open>the disk\<close>
  path_exists :: "string \<Rightarrow> 'w \<Rightarrow> bool"
  file_create :: "string \<Rightarrow> 'w \<Rightarrow> (string + unit) \<times> 'w"
  file_write_all :: "string \<Rightarrow> bytes \<Rightarrow> 'w \<Rightarrow> (string + unit) \<times> 'w"
  file_sync_all :: "string \<Rightarrow> 'w \<Rightarrow> (string + unit) \<times> 'w"
  file_read :: "string \<Rightarrow> 'w \<Rightarrow> (string + bytes) \<times> 'w"
  file_len :: "string \<Rightarrow> 'w \<Rightarrow> (string + u64) \<times> 'w"
  temp_dir_in :: "string \<Rightarrow> string \<Rightarrow> 'w \<Rightarrow> (string + string) \<times> 'w"
  temp_dir_drop :: "string \<Rightarrow> 'w \<Rightarrow> 'w"
  \<comment> \<open>text encodings\<close>
  b64_encode :: "bytes \<Rightarrow> string"
  b64_decode :: "string \<Rightarrow> string + bytes"
  url_parse :: "string \<Rightarrow> string + string"
  \<comment> \<open>keys and wallets\<close>
  rsa_new :: "'w \<Rightarrow> (string + 'h) \<times> 'w"
  rsa_to_der :: "'h \<Rightarrow> string + bytes"
  rsa_from_der :: "bytes \<Rightarrow> string + 'h"
  ar_signer_address :: "'h \<Rightarrow> string + string"
  wallet_new :: "'w \<Rightarrow> 'h \<times> 'w"
  wallet_to_bytes :: "'h \<Rightarrow> bytes"
  wallet_from_bytes :: "bytes \<Rightarrow> string + 'h"
  wallet_with_chain_id :: "u32 \<Rightarrow> 'h \<Rightarrow> 'h"
  wallet_address :: "'h \<Rightarrow> bytes"
  \<comment> \<open>Arweave\<close>
  ar_from_private_key :: "'h \<Rightarrow> string \<Rightarrow> string + 'h"
  ar_wallet_address :: "'h \<Rightarrow> string"
  ar_wallet_client :: "string \<Rightarrow> 'h"
  ar_balance :: "'h \<Rightarrow> string \<Rightarrow> 'w \<Rightarrow> (string + string) \<times> 'w"
  ar_currency :: "string \<Rightarrow> string + u256"
  ar_id_from_str :: "string \<Rightarrow> string + bytes"
  ar_id_display :: "bytes \<Rightarrow> string"
  ar_from_utf8_str :: "string \<Rightarrow> string + bytes"
  ar_to_utf8_string :: "bytes \<Rightarrow> string + string"
  ar_get_tx_data :: "'h \<Rightarrow> bytes \<Rightarrow> 'w \<Rightarrow> (string + bytes option) \<times> 'w"
  ar_get_tx_tags :: "'h \<Rightarrow> bytes \<Rightarrow> 'w \<Rightarrow> (string + ar_tag list option) \<times> 'w"
  ar_get_tx_status :: "'h \<Rightarrow> bytes \<Rightarrow> 'w \<Rightarrow> (string + u16 \<times> tx_status option) \<times> 'w"
  ar_get_fee_by_size :: "'h \<Rightarrow> u64 \<Rightarrow> 'w \<Rightarrow> (string + u64) \<times> 'w"
  ar_upload_from_path :: "'h \<Rightarrow> string \<Rightarrow> ar_tag list \<Rightarrow> u64 \<Rightarrow> 'w \<Rightarrow> (string + string \<times> u64) \<times> 'w"
  \<comment> \<open>Arrow and Parquet\<close>
  batch_try_new :: "(string \<times> column) list \<Rightarrow> string + record_batch"
  array_memory_size :: "record_batch \<Rightarrow> nat"
  parquet_write :: "record_batch \<Rightarrow> string + bytes"
  parquet_num_rows :: "record_batch \<Rightarrow> u64"
  parquet_open :: "bytes \<Rightarrow> string + (string + record_batch) list"
  \<comment> \<open>EVM\<close>
  evm_address_parse :: "string \<Rightarrow> string + bytes"
  evm_connect :: "string \<Rightarrow> 'h \<Rightarrow> 'w \<Rightarrow> (string + 'h) \<times> 'w"
  evm_send :: "'h \<Rightarrow> bytes \<Rightarrow> bool \<Rightarrow> contract_call \<Rightarrow> 'w \<Rightarrow> (string + bytes) \<times> 'w"
  evm_get_transaction :: "'h \<Rightarrow> bytes \<Rightarrow> 'w \<Rightarrow> (string + (u256 option \<times> u256) option) \<times> 'w"
  evm_data_network :: "'h \<Rightarrow> bytes \<Rightarrow> u256 \<Rightarrow> 'w \<Rightarrow> (string + data_network) \<times> 'w"

section \<open>Calls\<close>

text \<open>A call of the world whose error text becomes an error of the node.\<close>

definition call :: "(string \<Rightarrow> db3_error) \<Rightarrow> ('w \<Rightarrow> (string + 'a) \<times> 'w) \<Rightarrow> ('w, 'a) action" where
  "call f op w = (lib_err f (fst (op w)), snd (op w))"

text \<open>A pure library function that can fail.\<close>

definition lift_lib :: "(string \<Rightarrow> db3_error) \<Rightarrow> string + 'a \<Rightarrow> ('w, 'a) action" where
  "lift_lib f r = reads (\<lambda>_. lib_err f r)"

text \<open>A temporary directory lives as long as the computation that uses it, whatever its outcome.\<close>

definition with_temp_dir ::
  "('w, 'h) outside \<Rightarrow> string \<Rightarrow> string \<Rightarrow> (string \<Rightarrow> ('w, 'a) action) \<Rightarrow> ('w, 'a) action" where
  "with_temp_dir W base pre act =
     andThen (call RollupError (temp_dir_in W base pre)) (\<lambda>dir w.
       let (r, w') = act dir w in (r, temp_dir_drop W dir w'))"

lemma call_apply [action_simps]: "op w = (r, w') \<Longrightarrow> call f op w = (lib_err f r, w')"
  by (simp add: call_def)

lemma lift_lib_apply [action_simps]:
  "lift_lib f (Inl e) w = (Inl (Raised (f e)), w)" "lift_lib f (Inr x) w = (Inr x, w)"
  by (simp_all add: lift_lib_def reads_def)

lemma andThen_lift_lib_Inr [action_simps]: "andThen (lift_lib f (Inr x)) g = g x"
  by (rule ext) (simp add: andThen_def lift_lib_apply)

lemma call_Inr_iff: "call f op w = (Inr x, w') \<longleftrightarrow> op w = (Inr x, w')"
  by (cases "op w") (simp add: call_def)

end
