(* ===== verification/Rust_Utf8.thy ===== *)
theory Rust_Utf8
  imports Rust_Text
begin

text \<open>
  \<open>std::str::from_utf8\<close>: which byte strings are text, and what the error says. A character of a
  text is a byte of its UTF-8 form, so a valid byte string is its own text.
\<close>

definition between :: "nat \<Rightarrow> nat \<Rightarrow> u8 \<Rightarrow> bool" where
  "between lo hi b \<longleftrightarrow> lo \<le> unat b \<and> unat b \<le> hi"

text \<open>The first code point of a non-empty byte string: its length, or the length of the bad prefix
  (\<open>None\<close> when the bytes end too early).\<close>

definition continuation :: "bytes \<Rightarrow> nat \<Rightarrow> nat \<Rightarrow> nat \<Rightarrow> nat option + unit" where
  "continuation bs i lo hi =
     (if i < length bs then if between lo hi (bs ! i) then Inr () else Inl (Some i) else Inl None)"

fun all_continuations :: "bytes \<Rightarrow> (nat \<times> nat \<times> nat) list \<Rightarrow> nat option + unit" where
  "all_continuations bs [] = Inr ()"
| "all_continuations bs ((i, lo, hi) # cs) =
     (case continuation bs i lo hi of Inl e \<Rightarrow> Inl e | Inr _ \<Rightarrow> all_continuations bs cs)"

definition utf8_rest :: "u8 \<Rightarrow> (nat \<times> nat \<times> nat) list option" where
  "utf8_rest b =
     (if unat b < 128 then Some []
      else if between 194 223 b then Some [(1, 128, 191)]
      else if b = 224 then Some [(1, 160, 191), (2, 128, 191)]
      else if between 225 236 b \<or> between 238 239 b then Some [(1, 128, 191), (2, 128, 191)]
      else if b = 237 then Some [(1, 128, 159), (2, 128, 191)]
      else if b = 240 then Some [(1, 144, 191), (2, 128, 191), (3, 128, 191)]
      else if between 241 243 b then Some [(1, 128, 191), (2, 128, 191), (3, 128, 191)]
      else if b = 244 then Some [(1, 128, 143), (2, 128, 191), (3, 128, 191)]
      else None)"

definition utf8_head :: "bytes \<Rightarrow> nat option + nat" where
  "utf8_head bs = (case utf8_rest (hd bs) of
     None \<Rightarrow> Inl (Some 1)
   | Some cs \<Rightarrow> (case all_continuations bs cs of Inl e \<Rightarrow> Inl e | Inr _ \<Rightarrow> Inr (Suc (length cs))))"

lemma utf8_head_pos: "utf8_head bs = Inr n \<Longrightarrow> 0 < n"
  by (auto simp: utf8_head_def split: option.splits sum.splits)

function utf8_check :: "nat \<Rightarrow> bytes \<Rightarrow> string + unit" where
  "utf8_check pos bs =
     (if bs = [] then Inr ()
      else case utf8_head bs of
             Inl (Some n) \<Rightarrow> Inl (''invalid utf-8 sequence of '' @ show_nat n @ '' bytes from index '' @ show_nat pos)
           | Inl None \<Rightarrow> Inl (''incomplete utf-8 byte sequence from index '' @ show_nat pos)
           | Inr n \<Rightarrow> utf8_check (pos + n) (drop n bs))"
  by pat_completeness auto

termination
  by (relation "measure (\<lambda>(pos, bs). length bs)") (auto simp: utf8_head_pos)

declare utf8_check.simps [simp del]

definition from_utf8 :: "bytes \<Rightarrow> string + string" where
  "from_utf8 bs = (case utf8_check 0 bs of Inl e \<Rightarrow> Inl e | Inr _ \<Rightarrow> Inr (map (\<lambda>b. char_of (unat b)) bs))"

lemma utf8_check_ascii: "\<forall>b \<in> set bs. unat b < 128 \<Longrightarrow> utf8_check pos bs = Inr ()"
proof (induction bs arbitrary: pos)
  case Nil
  then show ?case by (simp add: utf8_check.simps)
next
  case (Cons b bs)
  then have "utf8_head (b # bs) = Inr 1" by (simp add: utf8_head_def utf8_rest_def)
  with Cons show ?case by (subst utf8_check.simps) simp
qed

lemma unat_of_char: "unat (of_char c :: u8) = (of_char c :: nat)"
proof -
  have "(of_char c :: u8) = of_nat (of_char c)" by (cases c) (simp add: of_char_def horner_sum_simps)
  moreover have "(of_char c :: nat) < 256" using nat_of_char_less_256 by simp
  ultimately show ?thesis by (simp add: unat_of_nat)
qed

lemma char_of_as_bytes: "map (\<lambda>b. char_of (unat b)) (as_bytes s) = s"
  by (simp add: as_bytes_def comp_def unat_of_char)

text \<open>ASCII text is read back as it was.\<close>

lemma from_utf8_ascii: "\<forall>c \<in> set s. (of_char c :: nat) < 128 \<Longrightarrow> from_utf8 (as_bytes s) = Inr s"
proof -
  assume a: "\<forall>c \<in> set s. (of_char c :: nat) < 128"
  then have "\<forall>b \<in> set (as_bytes s). unat b < 128" by (auto simp: as_bytes_def unat_of_char)
  then show ?thesis by (simp add: from_utf8_def utf8_check_ascii char_of_as_bytes)
qed

end
