(* ===== verification/Key_Store.thy ===== *)
theory Key_Store
  imports World Rust_Utf8 State_Store
begin

text \<open>
  Keys on disk (\<open>src/storage/src/key_store.rs\<close>) and the system store (\<open>src/storage/src/system_store.rs\<close>):
  secrets in base64 files under a root directory, the wallets that are generated once and read back
  afterwards, and the configuration of a node role in the state store.
\<close>

section \<open>KeyStore\<close>

record key_store_config =
  ksc_key_root_path :: string

record key_store =
  ks_config :: key_store_config

definition key_store_new :: "key_store_config \<Rightarrow> key_store" where
  "key_store_new config = \<lparr>ks_config = config\<rparr>"

definition key_path :: "key_store \<Rightarrow> string \<Rightarrow> string" where
  "key_path s key = path_push (path_push [] (ksc_key_root_path (ks_config s))) (key @ ''.secret'')"

definition has_key :: "('w, 'h) outside \<Rightarrow> key_store \<Rightarrow> string \<Rightarrow> 'w \<Rightarrow> bool" where
  "has_key W s key w = path_exists W (key_path s key) w"

definition write_key :: "('w, 'h) outside \<Rightarrow> key_store \<Rightarrow> string \<Rightarrow> bytes \<Rightarrow> ('w, unit) action" where
  "write_key W s key secret =
     andThen (gets (has_key W s key)) (\<lambda>present.
     if present then fail (WriteStoreError ''key exist'')
     else let path = key_path s key
          in andThen (call (\<lambda>e. WriteStoreError (''keystore fail to open file '' @ e @ '' with path '' @ debug_str path))
                (file_create W path)) (\<lambda>_.
             andThen (call (\<lambda>e. WriteStoreError (''keystore fail to open file '' @ e))
                (file_write_all W path (as_bytes (b64_encode W secret)))) (\<lambda>_.
             call (\<lambda>e. WriteStoreError (''fail to open file '' @ e)) (file_sync_all W path))))"

definition get_key :: "('w, 'h) outside \<Rightarrow> key_store \<Rightarrow> string \<Rightarrow> ('w, bytes) action" where
  "get_key W s key =
     andThen (gets (has_key W s key)) (\<lambda>present.
     if \<not> present then fail (ReadStoreError ''key exist'')
     else andThen (call (\<lambda>e. ReadStoreError (''fail to open file '' @ e)) (file_read W (key_path s key))) (\<lambda>content.
          andThen (lift_lib (\<lambda>e. ReadStoreError (''decode content with key '' @ key @ ''  with error '' @ e))
            (from_utf8 content)) (\<lambda>b64_str.
          lift_lib (\<lambda>e. ReadStoreError (''fail to b64 decode with '' @ key @ '', '' @ b64_str @ '' and error '' @ e))
            (b64_decode W b64_str))))"

section \<open>SystemStore\<close>

datatype system_role = DataRollupNode | DataIndexNode

definition get_name :: "system_role \<Rightarrow> string" where
  "get_name role = (case role of DataRollupNode \<Rightarrow> ''storage'' | DataIndexNode \<Rightarrow> ''index'')"

record system_store_config =
  sys_key_root_path :: string
  sys_evm_wallet_key :: string
  sys_ar_wallet_key :: string

definition get_config ::
  "'t mdbx \<Rightarrow> codecs \<Rightarrow> system_role \<Rightarrow> 't \<Rightarrow> system_config option result" where
  "get_config X C role t = get_node_config X C (get_name role) t"

definition update_config :: "'t mdbx \<Rightarrow> codecs \<Rightarrow> system_role \<Rightarrow> system_config \<Rightarrow> ('t, unit) action" where
  "update_config X C role config = store_node_config X C (get_name role) config"

text \<open>An RSA key is read back, or generated and written; the two callers differ in what they build from it.\<close>

definition generate_rsa_key :: "('w, 'h) outside \<Rightarrow> key_store \<Rightarrow> string \<Rightarrow> ('w, 'h) action" where
  "generate_rsa_key W s key =
     andThen (call ArwareOpError (rsa_new W)) (\<lambda>priv_key.
     andThen (lift_lib ArwareOpError (rsa_to_der W priv_key)) (\<lambda>doc.
     andThen (map_err_of (\<lambda>e. ArwareOpError (display_db3_error e)) (write_key W s key doc)) (\<lambda>_.
     ok priv_key)))"

definition load_rsa_key :: "('w, 'h) outside \<Rightarrow> key_store \<Rightarrow> string \<Rightarrow> ('w, 'h) action" where
  "load_rsa_key W s key =
     andThen (get_key W s key) (\<lambda>content. lift_lib ArwareOpError (rsa_from_der W content))"

definition system_keys :: "system_store_config \<Rightarrow> key_store" where
  "system_keys sys = key_store_new \<lparr>ksc_key_root_path = sys_key_root_path sys\<rparr>"

definition get_ar_address :: "('w, 'h) outside \<Rightarrow> system_store_config \<Rightarrow> ('w, string) action" where
  "get_ar_address W sys =
     (let s = system_keys sys; key = sys_ar_wallet_key sys
      in andThen (gets (has_key W s key)) (\<lambda>present.
         andThen (if present then load_rsa_key W s key else generate_rsa_key W s key) (\<lambda>priv_key.
         lift_lib ArwareOpError (ar_signer_address W priv_key))))"

definition get_ar_wallet :: "('w, 'h) outside \<Rightarrow> system_store_config \<Rightarrow> string \<Rightarrow> ('w, 'h) action" where
  "get_ar_wallet W sys url =
     andThen (lift_lib ArwareOpError (url_parse W url)) (\<lambda>arweave_url.
     let s = system_keys sys; key = sys_ar_wallet_key sys
     in andThen (gets (has_key W s key)) (\<lambda>present.
        andThen (if present then load_rsa_key W s key else generate_rsa_key W s key) (\<lambda>priv_key.
        lift_lib ArwareOpError (ar_from_private_key W priv_key arweave_url))))"

definition get_evm_wallet :: "('w, 'h) outside \<Rightarrow> system_store_config \<Rightarrow> u32 \<Rightarrow> ('w, 'h) action" where
  "get_evm_wallet W sys chain_id =
     (let s = system_keys sys; key = sys_evm_wallet_key sys
      in andThen (gets (has_key W s key)) (\<lambda>present.
         if present
         then andThen (get_key W s key) (\<lambda>content.
              andThen (lift_lib RollupError (wallet_from_bytes W content)) (\<lambda>wallet.
              ok (wallet_with_chain_id W chain_id wallet)))
         else andThen (\<lambda>w. let (wallet, w') = wallet_new W w in (Inr wallet, w')) (\<lambda>wallet.
              andThen (write_key W s key (wallet_to_bytes W wallet)) (\<lambda>_.
              ok (wallet_with_chain_id W chain_id wallet)))))"

definition get_evm_address :: "('w, 'h) outside \<Rightarrow> system_store_config \<Rightarrow> ('w, bytes) action" where
  "get_evm_address W sys = andThen (get_evm_wallet W sys 0) (\<lambda>wallet. ok (wallet_address W wallet))"

end
