(* ===== verification/Ar_Toolbox.thy ===== *)
theory Ar_Toolbox
  imports Key_Store
begin

text \<open>
  Files on Arweave (\<open>src/storage/src/ar_fs.rs\<close>) and the rollup tool box
  (\<open>src/node/src/ar_toolbox.rs\<close>): a transaction carries a Parquet file of mutations and tags with its
  block range and the transaction of the rollup before it.
\<close>

section \<open>ArFileSystem\<close>

definition AR_SCHEMA_VERSION_1 :: string where
  "AR_SCHEMA_VERSION_1 = ''1''"

record ar_fs_config =
  afc_arweave_url :: string
  afc_key_root_path :: string

record 'h ar_filesystem =
  afs_arweave :: 'h
  afs_wallet :: 'h

definition build_arweave :: "('w, 'h) outside \<Rightarrow> string \<Rightarrow> string \<Rightarrow> ('w, 'h) action" where
  "build_arweave W key_root_path url =
     andThen (lift_lib ArwareOpError (url_parse W url)) (\<lambda>arweave_url.
     let s = key_store_new \<lparr>ksc_key_root_path = key_root_path\<rparr>
     in andThen (gets (has_key W s ''ar'')) (\<lambda>present.
        andThen (if present then load_rsa_key W s ''ar'' else generate_rsa_key W s ''ar'') (\<lambda>priv_key.
        lift_lib ArwareOpError (ar_from_private_key W priv_key arweave_url))))"

definition ar_fs_new :: "('w, 'h) outside \<Rightarrow> ar_fs_config \<Rightarrow> ('w, 'h ar_filesystem) action" where
  "ar_fs_new W config =
     andThen (build_arweave W (afc_key_root_path config) (afc_arweave_url config)) (\<lambda>arweave.
     andThen (lift_lib ArwareOpError (url_parse W (afc_arweave_url config))) (\<lambda>arweave_url.
     ok \<lparr>afs_arweave = arweave, afs_wallet = ar_wallet_client W arweave_url\<rparr>))"

definition afs_get_address :: "('w, 'h) outside \<Rightarrow> 'h ar_filesystem \<Rightarrow> string" where
  "afs_get_address W fs = ar_wallet_address W (afs_arweave fs)"

definition get_balance :: "('w, 'h) outside \<Rightarrow> 'h ar_filesystem \<Rightarrow> ('w, u256) action" where
  "get_balance W fs =
     andThen (call ArwareOpError (ar_balance W (afs_wallet fs) (ar_wallet_address W (afs_arweave fs)))) (\<lambda>balance.
     lift_lib ArwareOpError (ar_currency W balance))"

definition download_file :: "('w, 'h) outside \<Rightarrow> 'h ar_filesystem \<Rightarrow> string \<Rightarrow> string \<Rightarrow> ('w, unit) action" where
  "download_file W fs path_to_write tx =
     andThen (lift_lib ArwareOpError (ar_id_from_str W tx)) (\<lambda>tx_b64.
     andThen (call ArwareOpError (ar_get_tx_data W (afs_arweave fs) tx_b64)) (\<lambda>content.
     case content of
       Some d \<Rightarrow>
         andThen (call ArwareOpError (file_create W path_to_write)) (\<lambda>_.
         andThen (call ArwareOpError (file_write_all W path_to_write d)) (\<lambda>_.
         call ArwareOpError (file_sync_all W path_to_write)))
     | None \<Rightarrow> fail (ArwareOpError ''fail to download file'')))"

text \<open>\<open>Tag::from_utf8_strs\<close> converts the name, then the value.\<close>

definition tag_from_utf8_strs :: "('w, 'h) outside \<Rightarrow> string \<Rightarrow> string \<Rightarrow> ar_tag result" where
  "tag_from_utf8_strs W name val =
     bindR (lib_err ArwareOpError (ar_from_utf8_str W name)) (\<lambda>n.
     bindR (lib_err ArwareOpError (ar_from_utf8_str W val)) (\<lambda>v. Inr (n, v)))"

definition upload_tags ::
  "('w, 'h) outside \<Rightarrow> string \<Rightarrow> u64 \<Rightarrow> u64 \<Rightarrow> u64 \<Rightarrow> string \<Rightarrow> ar_tag list result" where
  "upload_tags W last_ar_tx start_block end_block network_id filename =
     bindR (map_result (\<lambda>(n, v). tag_from_utf8_strs W n v)
       [(''App-Name'', ''DB3 Network''), (''Version-Id'', AR_SCHEMA_VERSION_1),
        (''Start-Block'', show_u64 start_block), (''End-Block'', show_u64 end_block),
        (''File-Name'', filename), (''Network-Id'', show_u64 network_id)]) (\<lambda>tags.
     if last_ar_tx \<noteq> []
     then bindR (lib_err ArwareOpError (ar_from_utf8_str W last_ar_tx)) (\<lambda>v.
          bindR (lib_err ArwareOpError (ar_from_utf8_str W ''Last-Rollup-Tx'')) (\<lambda>n.
          Inr (tags @ [(n, v)])))
     else Inr tags)"

definition upload_file ::
  "('w, 'h) outside \<Rightarrow> 'h ar_filesystem \<Rightarrow> string \<Rightarrow> string \<Rightarrow> u64 \<Rightarrow> u64 \<Rightarrow> u64 \<Rightarrow> string \<Rightarrow> ('w, string \<times> u64) action" where
  "upload_file W fs path last_ar_tx start_block end_block network_id filename =
     andThen (reads (\<lambda>_. upload_tags W last_ar_tx start_block end_block network_id filename)) (\<lambda>tags.
     andThen (call ArwareOpError (file_len W path)) (\<lambda>len.
     andThen (call ArwareOpError (ar_get_fee_by_size W (afs_arweave fs) len)) (\<lambda>fee.
     call ArwareOpError (ar_upload_from_path W (afs_arweave fs) path tags fee))))"

definition get_tx_status :: "('w, 'h) outside \<Rightarrow> 'h ar_filesystem \<Rightarrow> string \<Rightarrow> ('w, tx_status option) action" where
  "get_tx_status W fs i =
     andThen (lift_lib ArwareOpError (ar_id_from_str W i)) (\<lambda>tx_id.
     andThen (call ArwareOpError (ar_get_tx_status W (afs_arweave fs) tx_id)) (\<lambda>(code, status).
     if code = 202 then ok None
     else if code = 200 then ok status
     else fail (ArwareOpError ''fail to get tx status '')))"

definition get_tags :: "('w, 'h) outside \<Rightarrow> 'h ar_filesystem \<Rightarrow> string \<Rightarrow> ('w, ar_tag list) action" where
  "get_tags W fs id_str =
     andThen (lift_lib ArwareOpError (ar_id_from_str W id_str)) (\<lambda>tx_id.
     andThen (call ArwareOpError (ar_get_tx_tags W (afs_arweave fs) tx_id)) (\<lambda>tx.
     case tx of Some tags \<Rightarrow> ok tags | None \<Rightarrow> fail (ArwareOpError ''fail to get tx tags '')))"

text \<open>The value of the first tag of a name; names that are no text are skipped.\<close>

fun find_tag :: "('w, 'h) outside \<Rightarrow> string \<Rightarrow> ar_tag list \<Rightarrow> string option result" where
  "find_tag W wanted [] = Inr None"
| "find_tag W wanted ((n, v) # tags) =
     (case ar_to_utf8_string W n of
        Inr name \<Rightarrow>
          if name = wanted then bindR (lib_err ArwareOpError (ar_to_utf8_string W v)) (\<lambda>s. Inr (Some s))
          else find_tag W wanted tags
      | Inl _ \<Rightarrow> find_tag W wanted tags)"

definition get_last_rollup_tag :: "('w, 'h) outside \<Rightarrow> 'h ar_filesystem \<Rightarrow> string \<Rightarrow> ('w, string option) action" where
  "get_last_rollup_tag W fs id_str =
     andThen (get_tags W fs id_str) (\<lambda>tags. reads (\<lambda>_. find_tag W ''Last-Rollup-Tx'' tags))"

section \<open>ArToolBox\<close>

record 'h ar_toolbox =
  atb_filesystem :: "'h ar_filesystem"
  atb_temp_data_path :: string

definition ar_toolbox_new :: "'h ar_filesystem \<Rightarrow> string \<Rightarrow> 'h ar_toolbox result" where
  "ar_toolbox_new fs temp_data_path = Inr \<lparr>atb_filesystem = fs, atb_temp_data_path = temp_data_path\<rparr>"

fun collect_batches :: "(string + record_batch) list \<Rightarrow> record_batch list result" where
  "collect_batches [] = Inr []"
| "collect_batches (b # bs) = bindR (lib_err RollupError b) (\<lambda>x. bindR (collect_batches bs) (\<lambda>xs. Inr (x # xs)))"

definition parse_gzip_file :: "('w, 'h) outside \<Rightarrow> string \<Rightarrow> ('w, record_batch list) action" where
  "parse_gzip_file W path =
     andThen (call RollupError (file_read W path)) (\<lambda>content.
     andThen (lift_lib RollupError (parquet_open W content)) (\<lambda>batches.
     reads (\<lambda>_. collect_batches batches)))"

definition download_and_parse_record_batch ::
  "('w, 'h) outside \<Rightarrow> 'h ar_toolbox \<Rightarrow> string \<Rightarrow> ('w, record_batch list) action" where
  "download_and_parse_record_batch W tb tx =
     with_temp_dir W (atb_temp_data_path tb) ''download'' (\<lambda>dir.
       let file_path = path_push dir (tx @ ''.gz.parquet'')
       in andThen (download_file W (atb_filesystem tb) file_path tx) (\<lambda>_.
          parse_gzip_file W file_path))"

text \<open>The accumulator of \<open>get_tx_tags\<close>: start block, end block, last rollup transaction, version. A later
  tag of a name replaces an earlier one.\<close>

type_synonym tx_tags = "u64 option \<times> u64 option \<times> string option \<times> string option"

definition tag_text :: "('w, 'h) outside \<Rightarrow> bytes \<Rightarrow> string result" where
  "tag_text W v = lib_err ArwareOpError (ar_to_utf8_string W v)"

definition read_tag :: "('w, 'h) outside \<Rightarrow> string \<Rightarrow> bytes \<Rightarrow> tx_tags \<Rightarrow> tx_tags result" where
  "read_tag W name v acc =
     (case acc of (start_block, end_block, last_rollup_tx, version_id) \<Rightarrow>
        if name = ''Last-Rollup-Tx'' then
          bindR (tag_text W v) (\<lambda>s. Inr (start_block, end_block, Some s, version_id))
        else if name = ''Start-Block'' then
          bindR (tag_text W v) (\<lambda>s. bindR (lib_err ArwareOpError (parse_u64 s)) (\<lambda>n.
          Inr (Some n, end_block, last_rollup_tx, version_id)))
        else if name = ''End-Block'' then
          bindR (tag_text W v) (\<lambda>s. bindR (lib_err ArwareOpError (parse_u64 s)) (\<lambda>n.
          Inr (start_block, Some n, last_rollup_tx, version_id)))
        else if name = ''Version-Id'' then
          bindR (tag_text W v) (\<lambda>s. Inr (start_block, end_block, last_rollup_tx, Some s))
        else Inr acc)"

fun read_tags :: "('w, 'h) outside \<Rightarrow> ar_tag list \<Rightarrow> tx_tags \<Rightarrow> tx_tags result" where
  "read_tags W [] acc = Inr acc"
| "read_tags W ((n, v) # tags) acc =
     (case ar_to_utf8_string W n of
        Inr name \<Rightarrow> bindR (read_tag W name v acc) (read_tags W tags)
      | Inl _ \<Rightarrow> read_tags W tags acc)"

definition get_tx_tags ::
  "('w, 'h) outside \<Rightarrow> 'h ar_toolbox \<Rightarrow> string \<Rightarrow> ('w, u64 \<times> u64 \<times> string option \<times> string option) action" where
  "get_tx_tags W tb tx_id =
     andThen (get_tags W (atb_filesystem tb) tx_id) (\<lambda>tags.
     andThen (reads (\<lambda>_. read_tags W tags (None, None, None, None))) (\<lambda>acc.
     case acc of
       (Some start_block, Some end_block, last_rollup_tx, version_id) \<Rightarrow>
         ok (start_block, end_block, last_rollup_tx, version_id)
     | _ \<Rightarrow> fail (ArwareOpError (''Missing start or end block for tx '' @ tx_id))))"

definition get_version_id :: "('w, 'h) outside \<Rightarrow> 'h ar_toolbox \<Rightarrow> string \<Rightarrow> ('w, string option) action" where
  "get_version_id W tb tx_id =
     andThen (get_tags W (atb_filesystem tb) tx_id) (\<lambda>tags. reads (\<lambda>_. find_tag W ''Version-Id'' tags))"

definition get_start_block :: "('w, 'h) outside \<Rightarrow> 'h ar_toolbox \<Rightarrow> string \<Rightarrow> ('w, string option) action" where
  "get_start_block W tb tx_id =
     andThen (get_tags W (atb_filesystem tb) tx_id) (\<lambda>tags. reads (\<lambda>_. find_tag W ''Start-Block'' tags))"

definition dump_recordbatch :: "('w, 'h) outside \<Rightarrow> string \<Rightarrow> record_batch \<Rightarrow> ('w, u64 \<times> u64) action" where
  "dump_recordbatch W path rb =
     andThen (call RollupError (file_create W path)) (\<lambda>_.
     andThen (lift_lib RollupError (parquet_write W rb)) (\<lambda>content.
     andThen (call RollupError (file_write_all W path content)) (\<lambda>_.
     andThen (call RollupError (file_len W path)) (\<lambda>len.
     ok (parquet_num_rows W rb, len)))))"

definition compress_and_upload_record_batch ::
  "('w, 'h) outside \<Rightarrow> 'h ar_toolbox \<Rightarrow> string \<Rightarrow> u64 \<Rightarrow> u64 \<Rightarrow> record_batch \<Rightarrow> u64 \<Rightarrow>
   ('w, string \<times> u64 \<times> u64 \<times> u64) action" where
  "compress_and_upload_record_batch W tb tx last_end_block current_block rb network_id =
     with_temp_dir W (atb_temp_data_path tb) ''compression'' (\<lambda>dir.
       let file_path = path_push dir ''rollup.gz.parquet''
       in andThen (dump_recordbatch W file_path rb) (\<lambda>(num_rows, size).
          andThen (get_balance W (atb_filesystem tb)) (\<lambda>_.
          andThen (upload_file W (atb_filesystem tb) file_path tx last_end_block current_block network_id
            (show_u64 last_end_block @ ''_'' @ show_u64 current_block @ ''.gz.parquet'')) (\<lambda>(i, reward).
          ok (i, reward, num_rows, size)))))"

section \<open>Record batches\<close>

definition convert_mutations_to_recordbatch ::
  "('w, 'h) outside \<Rightarrow> (mutation_header \<times> mutation_body) list \<Rightarrow> record_batch result" where
  "convert_mutations_to_recordbatch W mutations =
     lib_err RollupError (batch_try_new W
       [(''payload'', BinaryColumn (map (\<lambda>x. mb_payload (snd x)) mutations)),
        (''signature'', Utf8Column (map (\<lambda>x. mb_signature (snd x)) mutations)),
        (''block'', UInt64Column (map (\<lambda>x. mh_block_id (fst x)) mutations)),
        (''order'', UInt32Column (map (\<lambda>x. mh_order_id (fst x)) mutations)),
        (''doc_ids'', Utf8Column (map (\<lambda>x. mh_doc_ids_map (fst x)) mutations))])"

definition unwrap_none :: string where
  "unwrap_none = ''called `Option::unwrap()` on a `None` value''"

definition unwrap :: "'a option \<Rightarrow> 'a result" where
  "unwrap x = (case x of Some y \<Rightarrow> Inr y | None \<Rightarrow> Inl (Panicked unwrap_none))"

fun as_binary :: "column \<Rightarrow> bytes list option" where
  "as_binary (BinaryColumn xs) = Some xs" | "as_binary _ = None"

fun as_utf8 :: "column \<Rightarrow> string list option" where
  "as_utf8 (Utf8Column xs) = Some xs" | "as_utf8 _ = None"

fun as_uint64 :: "column \<Rightarrow> u64 list option" where
  "as_uint64 (UInt64Column xs) = Some xs" | "as_uint64 _ = None"

fun as_uint32 :: "column \<Rightarrow> u32 list option" where
  "as_uint32 (UInt32Column xs) = Some xs" | "as_uint32 _ = None"

text \<open>\<open>column_by_name(name).unwrap().downcast_ref().unwrap()\<close>, and \<open>value(i)\<close>, which panics out of range.\<close>

definition typed_column :: "(column \<Rightarrow> 'a list option) \<Rightarrow> string \<Rightarrow> record_batch \<Rightarrow> 'a list result" where
  "typed_column as name rb =
     bindR (unwrap (map_of (rb_columns rb) name)) (\<lambda>c. unwrap (as c))"

definition value_at :: "'a list \<Rightarrow> nat \<Rightarrow> 'a result" where
  "value_at xs i = (if i < length xs then Inr (xs ! i) else Inl (Panicked ''index out of bounds''))"

definition convert_recordbatch_to_mutation ::
  "record_batch \<Rightarrow> string option \<Rightarrow> (mutation_body \<times> u64 \<times> u32 \<times> string) list result" where
  "convert_recordbatch_to_mutation rb version =
     bindR (typed_column as_binary ''payload'' rb) (\<lambda>payloads.
     bindR (typed_column as_utf8 ''signature'' rb) (\<lambda>signatures.
     bindR (typed_column as_uint64 ''block'' rb) (\<lambda>blocks.
     bindR (typed_column as_uint32 ''order'' rb) (\<lambda>orders.
     bindR (case version of
         Some _ \<Rightarrow> bindR (typed_column as_utf8 ''doc_ids'' rb) (\<lambda>ids. Inr (Some ids))
       | None \<Rightarrow> Inr None) (\<lambda>doc_ids_opt.
     map_result (\<lambda>i.
       bindR (value_at payloads i) (\<lambda>payload.
       bindR (value_at signatures i) (\<lambda>signature.
       bindR (value_at blocks i) (\<lambda>block.
       bindR (value_at orders i) (\<lambda>order.
       bindR (case doc_ids_opt of Some ids \<Rightarrow> value_at ids i | None \<Rightarrow> Inr []) (\<lambda>doc_ids.
       Inr (\<lparr>mb_payload = payload, mb_signature = signature\<rparr>, block, order, doc_ids)))))))
       [0..<rb_num_rows rb])))))"

end
