(* ===== verification/Meta_Store_Client.thy ===== *)
theory Meta_Store_Client
  imports World
begin

text \<open>
  The client of the contract that names the latest rollup (\<open>src/storage/src/meta_store_client.rs\<close>). The
  generated bindings and the provider are fields of \<open>outside\<close>; the waiting loop after a transaction
  is the recursion \<open>poll_fee\<close>.
\<close>

record 'h meta_store_client =
  msc_address :: bytes
  msc_client :: 'h
  msc_use_legacy_tx :: bool

definition meta_store_client_new ::
  "('w, 'h) outside \<Rightarrow> string \<Rightarrow> string \<Rightarrow> 'h \<Rightarrow> bool \<Rightarrow> ('w, 'h meta_store_client) action" where
  "meta_store_client_new W contract_addr rpc_url wallet use_legacy_tx =
     andThen (lift_lib (\<lambda>_. InvalidAddress) (evm_address_parse W contract_addr)) (\<lambda>address.
     andThen (call (\<lambda>e. InvalidArUrlError (''fail to connect rpc url for error '' @ e))
       (evm_connect W rpc_url wallet)) (\<lambda>client.
     ok \<lparr>msc_address = address, msc_client = client, msc_use_legacy_tx = use_legacy_tx\<rparr>))"

definition send_call ::
  "('w, 'h) outside \<Rightarrow> 'h meta_store_client \<Rightarrow> (string \<Rightarrow> db3_error) \<Rightarrow> contract_call \<Rightarrow> ('w, bytes) action" where
  "send_call W c err tx = call err (evm_send W (msc_client c) (msc_address c) (msc_use_legacy_tx c) tx)"

definition register_data_network ::
  "('w, 'h) outside \<Rightarrow> 'h meta_store_client \<Rightarrow> bytes \<Rightarrow> string \<Rightarrow> ('w, unit) action" where
  "register_data_network W c rollup_node_address rollup_node_url =
     andThen (send_call W c (\<lambda>e. StoreEventError (''fail to register data network '' @ e))
       (RegisterDataNetwork rollup_node_url rollup_node_address)) (\<lambda>_. ok ())"

text \<open>\<open>price.checked_mul(gas)\<close> on 256-bit values.\<close>

definition checked_mul_u256 :: "u256 \<Rightarrow> u256 \<Rightarrow> u256 option" where
  "checked_mul_u256 a b = (if unat a * unat b < 2 ^ 256 then Some (a * b) else None)"

text \<open>Ask for the transaction up to \<open>count_down\<close> times; the first answer ends the loop.\<close>

fun poll_fee :: "('w, 'h) outside \<Rightarrow> 'h \<Rightarrow> bytes \<Rightarrow> nat \<Rightarrow> ('w, u256) action" where
  "poll_fee W client tx_hash 0 = ok 0"
| "poll_fee W client tx_hash (Suc count_down) =
     andThen (call StoreEventError (evm_get_transaction W client tx_hash)) (\<lambda>tx.
     case tx of
       Some (gas_price, gas) \<Rightarrow>
         (case gas_price of
            Some price \<Rightarrow> (case checked_mul_u256 price gas of Some fee \<Rightarrow> ok fee | None \<Rightarrow> ok 0)
          | None \<Rightarrow> ok 0)
     | None \<Rightarrow> poll_fee W client tx_hash count_down)"

definition create_database ::
  "('w, 'h) outside \<Rightarrow> 'h meta_store_client \<Rightarrow> u64 \<Rightarrow> string \<Rightarrow> ('w, u256 \<times> bytes) action" where
  "create_database W c network desc =
     (let desc_bytes = as_bytes desc
      in if length desc_bytes > 32 then fail (InvalidDescError ''bad desc len'')
         else andThen (send_call W c (\<lambda>e. StoreEventError (''fail to send create doc database request with error '' @ e))
                (CreateDocDatabase (ucast network) (desc_bytes @ replicate (32 - length desc_bytes) 0))) (\<lambda>tx_hash.
              andThen (poll_fee W (msc_client c) tx_hash 5) (\<lambda>fee.
              ok (fee, tx_hash))))"

definition get_latest_arweave_tx :: "('w, 'h) outside \<Rightarrow> 'h meta_store_client \<Rightarrow> u64 \<Rightarrow> ('w, string) action" where
  "get_latest_arweave_tx W c network =
     andThen (call StoreEventError (evm_data_network W (msc_client c) (msc_address c) (ucast network))) (\<lambda>dn.
     ok (ar_id_display W (dn_latest_arweave_tx dn)))"

definition get_admin :: "('w, 'h) outside \<Rightarrow> 'h meta_store_client \<Rightarrow> u64 \<Rightarrow> ('w, bytes) action" where
  "get_admin W c network =
     andThen (call StoreEventError (evm_data_network W (msc_client c) (msc_address c) (ucast network))) (\<lambda>dn.
     ok (dn_admin dn))"

definition update_rollup_step ::
  "('w, 'h) outside \<Rightarrow> 'h meta_store_client \<Rightarrow> string \<Rightarrow> u64 \<Rightarrow> ('w, u256 \<times> bytes) action" where
  "update_rollup_step W c ar_tx network =
     andThen (lift_lib (\<lambda>e. StoreEventError (''fail to decode arweave tx from base64 for error '' @ e))
       (ar_id_from_str W ar_tx)) (\<lambda>b64.
     if length b64 \<noteq> 32 then fail (StoreEventError ''fail to convert tx bytes to bytes32'')
     else andThen (send_call W c (\<lambda>e. StoreEventError (''fail to send create doc database request with error '' @ e))
            (UpdateRollupSteps (ucast network) b64)) (\<lambda>tx_hash.
          andThen (poll_fee W (msc_client c) tx_hash 5) (\<lambda>fee.
          ok (fee, tx_hash))))"

end
