(* ===== verification/Rollup_Executor.thy ===== *)
theory Rollup_Executor
  imports Ar_Toolbox Meta_Store_Client Mutation_Store
begin

text \<open>
  The rollup executor (\<open>src/node/src/rollup_executor.rs\<close>): \<open>process\<close> uploads the mutations of the blocks
  since the last rollup and files a record of it, \<open>gc_mutation\<close> then drops the oldest range that is
  rolled up. The executor shares the mutation store with the node, so an operation works on
  the executor, the store and the world together (\<open>rollup_env\<close>). What the clock shows during a run is an
  argument (\<open>rollup_clock\<close>).
\<close>

record rollup_executor_config =
  rc_temp_data_path :: string
  rc_key_root_path :: string
  rc_use_legacy_tx :: bool

record 'h rollup_executor =
  rx_config :: rollup_executor_config
  rx_ar_toolbox :: "'h ar_toolbox option"
  rx_min_rollup_size :: u64
  rx_meta_store :: "'h meta_store_client option"
  pending_mutations :: u64
  pending_data_size :: u64
  pending_start_block :: u64
  pending_end_block :: u64
  rx_network_id :: u64
  rx_rollup_max_interval :: u64
  rx_min_gc_round_offset :: u64

record ('s, 'w, 'h) rollup_env =
  re_exec :: "'h rollup_executor"
  re_storage :: "'s mutation_store"
  re_world :: 'w

record rollup_clock =
  clk_flush :: u64
  clk_elapsed :: u64
  clk_now :: u64
  clk_gc_now :: u64
  clk_gc_elapsed :: u64

abbreviation on_storage :: "('s mutation_store, 'a) action \<Rightarrow> (('s, 'w, 'h) rollup_env, 'a) action" where
  "on_storage \<equiv> on_field re_storage (\<lambda>x e. e\<lparr>re_storage := x\<rparr>)"

abbreviation on_world :: "('w, 'a) action \<Rightarrow> (('s, 'w, 'h) rollup_env, 'a) action" where
  "on_world \<equiv> on_field re_world (\<lambda>x e. e\<lparr>re_world := x\<rparr>)"

abbreviation set_exec :: "('h rollup_executor \<Rightarrow> 'h rollup_executor) \<Rightarrow> (('s, 'w, 'h) rollup_env, unit) action" where
  "set_exec f \<equiv> modify (\<lambda>e. e\<lparr>re_exec := f (re_exec e)\<rparr>)"

section \<open>Construction and configuration\<close>

text \<open>The clients a configuration asks for: the contract client, then the Arweave tool box.\<close>

definition build_toolbox :: "('w, 'h) outside \<Rightarrow> rollup_executor_config \<Rightarrow> system_config \<Rightarrow> ('w, 'h ar_toolbox) action" where
  "build_toolbox W cfg c =
     andThen (ar_fs_new W \<lparr>afc_arweave_url = sc_ar_node_url c, afc_key_root_path = rc_key_root_path cfg\<rparr>) (\<lambda>fs.
     reads (\<lambda>_. ar_toolbox_new fs (rc_temp_data_path cfg)))"

definition rollup_executor_new ::
  "('w, 'h) outside \<Rightarrow> 't mdbx \<Rightarrow> codecs \<Rightarrow> system_store_config \<Rightarrow> rollup_executor_config \<Rightarrow> 't \<Rightarrow>
   ('w, 'h rollup_executor) action" where
  "rollup_executor_new W X C sys cfg t =
     andThen (reads (\<lambda>_. get_config X C DataRollupNode t)) (\<lambda>config.
     case config of
       Some c \<Rightarrow>
         andThen (get_evm_wallet W sys (sc_chain_id c)) (\<lambda>wallet.
         andThen (meta_store_client_new W (sc_contract_addr c) (sc_evm_node_url c) wallet (rc_use_legacy_tx cfg)) (\<lambda>meta.
         andThen (build_toolbox W cfg c) (\<lambda>toolbox.
         ok \<lparr>rx_config = cfg, rx_ar_toolbox = Some toolbox, rx_min_rollup_size = sc_min_rollup_size c,
             rx_meta_store = Some meta, pending_mutations = 0, pending_data_size = 0,
             pending_start_block = 0, pending_end_block = 0, rx_network_id = sc_network_id c,
             rx_rollup_max_interval = sc_rollup_max_interval c, rx_min_gc_round_offset = sc_min_gc_offset c\<rparr>)))
     | None \<Rightarrow>
         ok \<lparr>rx_config = cfg, rx_ar_toolbox = None, rx_min_rollup_size = 0, rx_meta_store = None,
             pending_mutations = 0, pending_data_size = 0, pending_start_block = 0, pending_end_block = 0,
             rx_network_id = 0, rx_rollup_max_interval = 0, rx_min_gc_round_offset = 0\<rparr>)"

text \<open>The values are stored one by one, between calls that can fail.\<close>

definition rollup_update_config ::
  "('w, 'h) outside \<Rightarrow> 't mdbx \<Rightarrow> codecs \<Rightarrow> system_store_config \<Rightarrow> 't \<Rightarrow> (('s, 'w, 'h) rollup_env, unit) action" where
  "rollup_update_config W X C sys t =
     andThen (reads (\<lambda>_. get_config X C DataRollupNode t)) (\<lambda>config.
     case config of
       Some c \<Rightarrow>
         andThen (on_world (get_evm_wallet W sys (sc_chain_id c))) (\<lambda>wallet.
         andThen (set_exec (\<lambda>x. x\<lparr>rx_min_rollup_size := sc_min_rollup_size c,
             rx_rollup_max_interval := sc_rollup_max_interval c\<rparr>)) (\<lambda>_.
         andThen (gets (\<lambda>e. rx_config (re_exec e))) (\<lambda>cfg.
         andThen (on_world (meta_store_client_new W (sc_contract_addr c) (sc_evm_node_url c) wallet
             (rc_use_legacy_tx cfg))) (\<lambda>meta.
         andThen (set_exec (\<lambda>x. x\<lparr>rx_min_gc_round_offset := sc_min_gc_offset c, rx_meta_store := Some meta\<rparr>)) (\<lambda>_.
         andThen (on_world (build_toolbox W cfg c)) (\<lambda>toolbox.
         set_exec (\<lambda>x. x\<lparr>rx_ar_toolbox := Some toolbox, rx_network_id := sc_network_id c\<rparr>)))))))
     | None \<Rightarrow> ok ())"

section \<open>Garbage collection\<close>

definition gc_rolled_up ::
  "'s engine \<Rightarrow> codecs \<Rightarrow> libs \<Rightarrow> rollup_clock \<Rightarrow> rollup_record \<Rightarrow> ('s mutation_store, unit) action" where
  "gc_rolled_up K C L clk r =
     andThen (gc_range_mutation K C L (rr_start_block r) (rr_end_block r)) (\<lambda>_.
     add_gc_record K C \<lparr>gr_start_block = rr_start_block r, gr_end_block = rr_end_block r,
       gr_data_size = rr_raw_data_size r, gr_time = clk_gc_now clk, gr_processed_time = clk_gc_elapsed clk\<rparr>)"

definition gc_mutation ::
  "'s engine \<Rightarrow> codecs \<Rightarrow> libs \<Rightarrow> rollup_clock \<Rightarrow> u64 \<Rightarrow> ('s mutation_store, unit) action" where
  "gc_mutation K C L clk min_gc_round_offset =
     andThen (reads (get_last_gc_record K C)) (\<lambda>last_gc.
     let (last_start_block, first) = (case last_gc of
           Some r \<Rightarrow> (gr_start_block r, False)
         | None \<Rightarrow> (0, True))
     in andThen (reads (has_enough_round_left K last_start_block min_gc_round_offset)) (\<lambda>enough.
        if enough
        then andThen (reads (if first then get_rollup_record K C last_start_block
                             else get_next_rollup_record K C last_start_block)) (\<lambda>next.
             case next of
               Some r \<Rightarrow> gc_rolled_up K C L clk r
             | None \<Rightarrow> ok ())
        else ok ()))"

section \<open>Rollup\<close>

definition get_pending_rollup :: "rollup_clock \<Rightarrow> 'h rollup_executor \<Rightarrow> rollup_record" where
  "get_pending_rollup clk x = \<lparr>rr_end_block = pending_end_block x, rr_raw_data_size = pending_data_size x,
     rr_compress_data_size = 0, rr_processed_time = 0, rr_arweave_tx = [], rr_time = clk_now clk,
     rr_mutation_count = pending_mutations x, rr_cost = 0, rr_start_block = pending_start_block x,
     rr_evm_tx = [], rr_evm_cost = 0\<rparr>"

text \<open>\<open>U256::as_u64\<close> panics above the range of \<open>u64\<close>.\<close>

definition u256_as_u64 :: "u256 \<Rightarrow> u64 result" where
  "u256_as_u64 v = (if unat v < 2 ^ 64 then Inr (ucast v) else Inl (Panicked ''Integer overflow when casting to u64''))"

text \<open>The end of the last rollup and its transaction.\<close>

definition last_rollup :: "'s engine \<Rightarrow> codecs \<Rightarrow> 's mutation_store \<Rightarrow> (u64 \<times> string) result" where
  "last_rollup K C m =
     bindR (get_last_rollup_record K C m) (\<lambda>r.
     Inr (case r of Some r \<Rightarrow> (rr_end_block r, rr_arweave_tx r) | None \<Rightarrow> (0, [])))"

text \<open>Upload, announce and record one batch: the part of \<open>process\<close> after the size check.\<close>

definition rollup_batch ::
  "'s engine \<Rightarrow> codecs \<Rightarrow> libs \<Rightarrow> ('w, 'h) outside \<Rightarrow> rollup_clock \<Rightarrow> 'h ar_toolbox \<Rightarrow> 'h meta_store_client \<Rightarrow>
   u64 \<Rightarrow> string \<Rightarrow> u64 \<Rightarrow> u64 \<Rightarrow> record_batch \<Rightarrow> (('s, 'w, 'h) rollup_env, unit) action" where
  "rollup_batch K C L W clk toolbox meta network_id tx last_end_block current_block rb =
     andThen (on_world (compress_and_upload_record_batch W toolbox tx last_end_block current_block rb network_id))
       (\<lambda>(i, reward, num_rows, size).
     andThen (on_world (update_rollup_step W meta i network_id)) (\<lambda>(evm_cost, tx_hash).
     andThen (reads (\<lambda>_. u256_as_u64 evm_cost)) (\<lambda>evm_cost_u64.
     map_err_of (\<lambda>e. RollupError (display_db3_error e)) (on_storage (add_rollup_record K C
       \<lparr>rr_end_block = current_block, rr_raw_data_size = of_nat (array_memory_size W rb),
        rr_compress_data_size = size, rr_processed_time = clk_elapsed clk, rr_arweave_tx = i,
        rr_time = clk_now clk, rr_mutation_count = num_rows, rr_cost = reward,
        rr_start_block = last_end_block, rr_evm_tx = ''0x'' @ hex_encode L tx_hash,
        rr_evm_cost = evm_cost_u64\<rparr>)))))"

definition process ::
  "'s engine \<Rightarrow> codecs \<Rightarrow> libs \<Rightarrow> ('w, 'h) outside \<Rightarrow> rollup_clock \<Rightarrow> (('s, 'w, 'h) rollup_env, unit) action" where
  "process K C L W clk =
     andThen (gets re_exec) (\<lambda>x.
     case (rx_meta_store x, rx_ar_toolbox x) of
       (Some meta, Some toolbox) \<Rightarrow>
         andThen (on_storage (flush_state K C (clk_flush clk))) (\<lambda>_.
         andThen (reads (\<lambda>e. last_rollup K C (re_storage e))) (\<lambda>(last_end_block, tx).
         andThen (reads (\<lambda>e. get_current_block (re_storage e))) (\<lambda>current_block.
         if current_block \<le> last_end_block then ok ()
         else
           andThen (set_exec (\<lambda>x. x\<lparr>pending_start_block := last_end_block, pending_end_block := current_block\<rparr>)) (\<lambda>_.
           andThen (reads (\<lambda>e. get_range_mutations K C L last_end_block current_block (re_storage e))) (\<lambda>mutations.
           if mutations = [] then ok ()
           else
             andThen (set_exec (\<lambda>x. x\<lparr>pending_mutations := of_nat (length mutations)\<rparr>)) (\<lambda>_.
             andThen (reads (\<lambda>_. convert_mutations_to_recordbatch W mutations)) (\<lambda>rb.
             andThen (set_exec (\<lambda>x. x\<lparr>pending_data_size := of_nat (array_memory_size W rb)\<rparr>)) (\<lambda>_.
             if array_memory_size W rb < unat (rx_min_rollup_size x) then ok ()
             else
               andThen (set_exec (\<lambda>x. x\<lparr>pending_start_block := current_block, pending_end_block := current_block,
                 pending_data_size := 0, pending_mutations := 0\<rparr>)) (\<lambda>_.
               andThen (rollup_batch K C L W clk toolbox meta (rx_network_id x) tx last_end_block current_block rb) (\<lambda>_.
               on_storage (gc_mutation K C L clk (rx_min_gc_round_offset x))))))))))))
     | _ \<Rightarrow> ok ())"

end
