(* ===== verification/Mutation_Utils.thy ===== *)
theory Mutation_Utils
  imports Ids Messages
begin

text \<open>
  Requests and document id maps (\<open>src/node/src/mutation_utils.rs\<close>): the fields of typed data, the
  check of a signed request, and the text under which the ids of added documents travel with a
  mutation. The \<open>ethers\<close> crate (EIP-712 typed data and signatures) and the generated decoder of
  \<open>Mutation\<close> are the parameter \<open>eth_lib\<close>; a typed datum is an opaque value with its message fields.
\<close>

record ('td, 'sg) eth_lib =
  typed_data_from_str :: "string \<Rightarrow> string + 'td"
  typed_data_from_slice :: "bytes \<Rightarrow> string + 'td"
  typed_message :: "'td \<Rightarrow> string \<Rightarrow> json option"
  signature_from_str :: "string \<Rightarrow> string + 'sg"
  recover_typed_data :: "'sg \<Rightarrow> 'td \<Rightarrow> string + bytes"
  bytes_from_value :: "json \<Rightarrow> string + bytes"
  mutation_decode :: "bytes \<Rightarrow> string + mutation"

fun as_str :: "json \<Rightarrow> string option" where
  "as_str (JString s) = Some s"
| "as_str _ = None"

fun as_object :: "json \<Rightarrow> (string \<times> json) list option" where
  "as_object (JObject kvs) = Some kvs"
| "as_object _ = None"

section \<open>Fields of typed data\<close>

definition get_str_field :: "('td, 'sg) eth_lib \<Rightarrow> 'td \<Rightarrow> string \<Rightarrow> string \<Rightarrow> string" where
  "get_str_field T td name default_val = (case typed_message T td name of
     Some v \<Rightarrow> (case as_str v of Some t \<Rightarrow> t | None \<Rightarrow> default_val)
   | None \<Rightarrow> default_val)"

definition get_u32_field :: "('td, 'sg) eth_lib \<Rightarrow> 'td \<Rightarrow> string \<Rightarrow> u32 \<Rightarrow> u32" where
  "get_u32_field T td name default_val = (case typed_message T td name of
     Some v \<Rightarrow>
       (case as_str v of
          Some t \<Rightarrow> (case parse_u32 t of Inr vt \<Rightarrow> vt | Inl _ \<Rightarrow> default_val)
        | None \<Rightarrow> default_val)
   | None \<Rightarrow> default_val)"

definition get_u64_field :: "('td, 'sg) eth_lib \<Rightarrow> 'td \<Rightarrow> string \<Rightarrow> u64 \<Rightarrow> u64" where
  "get_u64_field T td name default_val = (case typed_message T td name of
     Some v \<Rightarrow>
       (case as_str v of
          Some t \<Rightarrow> (case parse_u64 t of Inr vt \<Rightarrow> vt | Inl _ \<Rightarrow> default_val)
        | None \<Rightarrow> default_val)
   | None \<Rightarrow> default_val)"

section \<open>Signed requests\<close>

abbreviation (input) apply_mut_err :: "string \<Rightarrow> string \<Rightarrow> db3_error" where
  "apply_mut_err pre e \<equiv> ApplyMutationError (pre @ e)"

definition verify_setup :: "('td, 'sg) eth_lib \<Rightarrow> string \<Rightarrow> string \<Rightarrow> (bytes \<times> 'td) result" where
  "verify_setup T payload sig =
     bindR (lib_err (apply_mut_err ''bad typed data for err '') (typed_data_from_str T payload)) (\<lambda>td.
     bindR (lib_err (apply_mut_err ''invalid signature for err '') (signature_from_str T sig)) (\<lambda>signature.
     bindR (lib_err (apply_mut_err ''invalid typed data for err '') (recover_typed_data T signature td)) (\<lambda>address.
     Inr (address, td))))"

definition unwrap_and_light_verify ::
  "('td, 'sg) eth_lib \<Rightarrow> bytes \<Rightarrow> string \<Rightarrow> (mutation \<times> db3_address \<times> u64) result" where
  "unwrap_and_light_verify T payload sig =
     bindR (lib_err (apply_mut_err ''bad typed data for err '') (typed_data_from_slice T payload)) (\<lambda>td.
     bindR (lib_err (apply_mut_err ''invalid signature for err '') (signature_from_str T sig)) (\<lambda>signature.
     case (typed_message T td ''payload'', typed_message T td ''nonce'') of
       (Some pl, Some nonce) \<Rightarrow>
         bindR (lib_err (apply_mut_err ''invalid typed data for err '') (recover_typed_data T signature td)) (\<lambda>address.
         bindR (lib_err (apply_mut_err ''invalid payload for err '') (bytes_from_value T pl)) (\<lambda>buf.
         bindR (lib_err (apply_mut_err ''invalid mutation for err '') (mutation_decode T buf)) (\<lambda>dm.
         bindR (ok_or (as_str nonce) (ApplyMutationError ''invalid nonce'')) (\<lambda>word.
         bindR (lib_err (apply_mut_err ''fail to convert payload type to i32 '') (parse_u64 word)) (\<lambda>real_nonce.
         Inr (dm, addr_of address, real_nonce))))))
     | _ \<Rightarrow> Inl (Raised (ApplyMutationError ''bad typed data''))))"

section \<open>Document id maps\<close>

definition get_create_doc_ids_map :: "libs \<Rightarrow> extra_item list \<Rightarrow> string" where
  "get_create_doc_ids_map L items =
     (let doc_ids = join_with '','' (map ei_value (filter (\<lambda>x. ei_key x = ''document'') items))
      in if doc_ids = [] then [] else json_to_string L (JObject [(''0'', JString doc_ids)]))"

fun parse_doc_ids :: "string list \<Rightarrow> i64 list result" where
  "parse_doc_ids [] = Inr []"
| "parse_doc_ids (w # ws) =
     (case parse_i64 w of
        Inr i \<Rightarrow> bindR (parse_doc_ids ws) (\<lambda>js. Inr (i # js))
      | Inl _ \<Rightarrow> Inl (Raised (ApplyMutationError (''invalid doc id '' @ w))))"

text \<open>Fields that are no text are skipped; the first text that is no list of ids ends the loop.\<close>

fun convert_fields :: "(string \<times> json) list \<Rightarrow> (string \<rightharpoonup> i64 list) \<Rightarrow> (string \<rightharpoonup> i64 list) result" where
  "convert_fields [] res = Inr res"
| "convert_fields ((k, v) # kvs) res =
     (case as_str v of
        Some s \<Rightarrow> bindR (parse_doc_ids (split_on CHR '','' s)) (\<lambda>js. convert_fields kvs (res(k \<mapsto> js)))
      | None \<Rightarrow> convert_fields kvs res)"

definition convert_doc_ids_map_to_vec :: "libs \<Rightarrow> string \<Rightarrow> (string \<rightharpoonup> i64 list) result" where
  "convert_doc_ids_map_to_vec L s =
     (case json_from_str L s of
        Inr v \<Rightarrow> (case as_object v of Some kvs \<Rightarrow> convert_fields kvs Map.empty | None \<Rightarrow> Inr Map.empty)
      | Inl _ \<Rightarrow> Inr Map.empty)"

section \<open>Round trips\<close>

text \<open>The items an addition of documents answers with.\<close>

definition document_items :: "i64 list \<Rightarrow> extra_item list" where
  "document_items ids = map (\<lambda>i. \<lparr>ei_key = ''document'', ei_value = show_i64 i\<rparr>) ids"

lemma document_items_values:
  "map ei_value (filter (\<lambda>x. ei_key x = ''document'') (document_items ids)) = map show_i64 ids"
  by (induction ids) (simp_all add: document_items_def)

lemma document_items_append: "document_items (xs @ ys) = document_items xs @ document_items ys"
  by (simp add: document_items_def)

lemma parse_doc_ids_show: "parse_doc_ids (map show_i64 ids) = Inr ids"
  by (induction ids) simp_all

lemma show_i64_nonempty: "show_i64 i \<noteq> []"
  by (simp add: show_i64_def)

lemma join_with_nonempty: "ws \<noteq> [] \<Longrightarrow> \<forall>w \<in> set ws. w \<noteq> [] \<Longrightarrow> join_with d ws \<noteq> []"
  by (induction d ws rule: join_with.induct) auto

lemma join_ids_nonempty: "ids \<noteq> [] \<Longrightarrow> join_with '','' (map show_i64 ids) \<noteq> []"
  by (rule join_with_nonempty) (auto simp: show_i64_nonempty)

lemma split_join_ids: "ids \<noteq> [] \<Longrightarrow> split_on CHR '','' (join_with '','' (map show_i64 ids)) = map show_i64 ids"
  by (rule split_on_join) (auto simp: show_i64_no_comma)

context lawful_libs
begin

lemma ids_map_roundtrip:
  assumes "ids \<noteq> []"
  shows "convert_doc_ids_map_to_vec L (get_create_doc_ids_map L (document_items ids)) = Inr [''0'' \<mapsto> ids]"
  using join_ids_nonempty [OF assms]
  by (simp add: get_create_doc_ids_map_def convert_doc_ids_map_to_vec_def document_items_values
      json_object_roundtrip split_join_ids [OF assms] parse_doc_ids_show)

end

lemma ids_map_none: "get_create_doc_ids_map L (document_items []) = []"
  by (simp add: get_create_doc_ids_map_def document_items_def)

lemma light_verifyD:
  assumes "unwrap_and_light_verify T payload sig = Inr (dm, sender, nonce)"
  obtains td sg pl buf word address where
    "typed_data_from_slice T payload = Inr td" "signature_from_str T sig = Inr sg"
    "recover_typed_data T sg td = Inr address" "sender = addr_of address"
    "typed_message T td ''payload'' = Some pl" "bytes_from_value T pl = Inr buf" "mutation_decode T buf = Inr dm"
    "typed_message T td ''nonce'' = Some (JString word)" "parse_u64 word = Inr nonce"
proof -
  have str: "as_str j = Some t \<longleftrightarrow> j = JString t" for j t by (cases j) auto
  obtain td sg where d: "typed_data_from_slice T payload = Inr td" "signature_from_str T sig = Inr sg"
    using assms by (auto simp: unwrap_and_light_verify_def bindR_eq_Inr_iff)
  with assms obtain pl n where f: "typed_message T td ''payload'' = Some pl" "typed_message T td ''nonce'' = Some n"
    by (simp add: unwrap_and_light_verify_def split: option.splits)
  show ?thesis
    using assms that [OF d _ _ f(1)] by (auto simp: unwrap_and_light_verify_def d f bindR_eq_Inr_iff str)
qed

end
