(* ===== verification/Recover.thy ===== *)
theory Recover
  imports Rollup_Executor Mutation_Utils Db_Store
begin

text \<open>
  Recovery from Arweave (\<open>src/node/src/recover.rs\<close>): from the latest transaction the contract names, the
  transactions are walked back along their \<open>Last-Rollup-Tx\<close> tags, then applied from the oldest to the
  newest. Both loops can run forever (a chain of tags may be a cycle, and new transactions may keep
  arriving), so they are partial functions: \<open>None\<close> means that they do not return.
\<close>

datatype recover_type = Index | Rollup

record recover_config =
  rvc_key_root_path :: string
  rvc_temp_data_path :: string
  rvc_recover_type :: recover_type

record ('s, 'd, 'w, 'h) recover =
  rv_config :: recover_config
  rv_toolbox :: "'h ar_toolbox"
  rv_meta_store :: "'h meta_store_client"
  rv_db_store :: "('s, 'd) db_store"
  rv_storage :: "'s mutation_store option"
  rv_network_id :: u64
  rv_world :: 'w

abbreviation on_rv_world :: "('w, 'a) action \<Rightarrow> (('s, 'd, 'w, 'h) recover, 'a) action" where
  "on_rv_world \<equiv> on_field rv_world (\<lambda>x v. v\<lparr>rv_world := x\<rparr>)"

abbreviation on_rv_db :: "(('s, 'd) db_store, 'a) action \<Rightarrow> (('s, 'd, 'w, 'h) recover, 'a) action" where
  "on_rv_db \<equiv> on_field rv_db_store (\<lambda>x v. v\<lparr>rv_db_store := x\<rparr>)"

text \<open>An action of the mutation store, when there is one.\<close>

definition on_rv_storage :: "('s mutation_store, unit) action \<Rightarrow> (('s, 'd, 'w, 'h) recover, unit) action" where
  "on_rv_storage act = (\<lambda>v. case rv_storage v of
     Some s \<Rightarrow> (case act s of (r, s') \<Rightarrow> (r, v\<lparr>rv_storage := Some s'\<rparr>))
   | None \<Rightarrow> (Inr (), v))"

definition recover_role :: "recover_type \<Rightarrow> system_role" where
  "recover_role k = (case k of Index \<Rightarrow> DataIndexNode | Rollup \<Rightarrow> DataRollupNode)"

definition recover_new ::
  "('w, 'h) outside \<Rightarrow> 't mdbx \<Rightarrow> codecs \<Rightarrow> system_store_config \<Rightarrow> 't \<Rightarrow> recover_config \<Rightarrow> ('s, 'd) db_store \<Rightarrow>
   's mutation_store option \<Rightarrow> 'w \<Rightarrow> ('s, 'd, 'w, 'h) recover result \<times> 'w" where
  "recover_new W X C sys t cfg db storage =
     andThen (reads (\<lambda>_. get_config X C (recover_role (rvc_recover_type cfg)) t)) (\<lambda>config.
     case config of
       None \<Rightarrow> fail (StoreEventError ''system config not found'')
     | Some c \<Rightarrow>
         andThen (get_evm_wallet W sys (sc_chain_id c)) (\<lambda>wallet.
         andThen (meta_store_client_new W (sc_contract_addr c) (sc_evm_node_url c) wallet False) (\<lambda>meta.
         andThen (ar_fs_new W \<lparr>afc_arweave_url = sc_ar_node_url c, afc_key_root_path = rvc_key_root_path cfg\<rparr>) (\<lambda>fs.
         andThen (reads (\<lambda>_. ar_toolbox_new fs (rvc_temp_data_path cfg))) (\<lambda>toolbox w.
         (Inr \<lparr>rv_config = cfg, rv_toolbox = toolbox, rv_meta_store = meta, rv_db_store = db,
               rv_storage = storage, rv_network_id = sc_network_id c, rv_world = w\<rparr>, w))))))"

definition recover_stat :: "'s engine \<Rightarrow> codecs \<Rightarrow> libs \<Rightarrow> (('s, 'd, 'w, 'h) recover, unit) action" where
  "recover_stat K C L =
     andThen (on_rv_db (recover_db_state K C L)) (\<lambda>_.
     on_rv_storage (ms_recover K C))"

definition is_recover_rollup :: "('s, 'd, 'w, 'h) recover \<Rightarrow> bool" where
  "is_recover_rollup v = (case rvc_recover_type (rv_config v) of Rollup \<Rightarrow> True | _ \<Rightarrow> False)"

definition rv_get_latest_arweave_tx :: "('w, 'h) outside \<Rightarrow> (('s, 'd, 'w, 'h) recover, string) action" where
  "rv_get_latest_arweave_tx W =
     andThen (gets (\<lambda>v. (rv_meta_store v, rv_network_id v))) (\<lambda>(meta, network).
     on_rv_world (get_latest_arweave_tx W meta network))"

section \<open>Replaying one transaction\<close>

definition write_store_err :: "db3_error \<Rightarrow> db3_error" where
  "write_store_err e = WriteStoreError (display_db3_error e)"

definition recover_mutation ::
  "'s engine \<Rightarrow> codecs \<Rightarrow> libs \<Rightarrow> 'd ejdb \<Rightarrow> bson_lib \<Rightarrow> ('td, 'sg) eth_lib \<Rightarrow> u64 \<Rightarrow>
   mutation_body \<times> u64 \<times> u32 \<times> string \<Rightarrow> (('s, 'd, 'w, 'h) recover, unit) action" where
  "recover_mutation K C L E B T now x = (case x of (body, block, order, doc_ids) \<Rightarrow>
     andThen (reads (\<lambda>_. map_err write_store_err (unwrap_and_light_verify T (mb_payload body) (mb_signature body))))
       (\<lambda>(dm, address, nonce).
     andThen (reads (\<lambda>_. ok_or (action_from_i32 (mut_action dm)) (WriteStoreError ''fail to convert action type''))) (\<lambda>action.
     andThen (reads (\<lambda>_. convert_doc_ids_map_to_vec L doc_ids)) (\<lambda>doc_ids_map.
     andThen (gets rv_network_id) (\<lambda>network.
     andThen (on_rv_db (apply_mutation K C L E B action dm address network nonce block order doc_ids_map)) (\<lambda>_.
     andThen (gets is_recover_rollup) (\<lambda>rollup.
     if rollup
     then on_rv_storage (update_mutation_stat C L now (mb_payload body) (mb_signature body) doc_ids address nonce
            block order network action)
     else ok ())))))))"

definition recover_from_arweave_tx ::
  "'s engine \<Rightarrow> codecs \<Rightarrow> libs \<Rightarrow> 'd ejdb \<Rightarrow> bson_lib \<Rightarrow> ('td, 'sg) eth_lib \<Rightarrow> ('w, 'h) outside \<Rightarrow> u64 \<Rightarrow> string \<Rightarrow>
   string option \<Rightarrow> (('s, 'd, 'w, 'h) recover, unit) action" where
  "recover_from_arweave_tx K C L E B T W now tx version =
     andThen (gets rv_toolbox) (\<lambda>toolbox.
     andThen (on_rv_world (download_and_parse_record_batch W toolbox tx)) (\<lambda>batches.
     for_each (\<lambda>rb.
       andThen (reads (\<lambda>_. convert_recordbatch_to_mutation rb version)) (\<lambda>mutations.
       for_each (recover_mutation K C L E B T now) mutations)) batches))"

section \<open>Walking the chain\<close>

partial_function (option) fetch_loop ::
  "('w, 'h) outside \<Rightarrow> 'h ar_toolbox \<Rightarrow> u64 \<Rightarrow> string \<Rightarrow> (string \<times> u64 \<times> string option) list \<Rightarrow> 'w \<Rightarrow>
   ((string \<times> u64 \<times> string option) list result \<times> 'w) option" where
  "fetch_loop W tb block tx txs w =
     (case get_tx_tags W tb tx w of (r, w1) \<Rightarrow>
        (case r of
           Inl e \<Rightarrow> Some (Inl e, w1)
         | Inr (start_block, end_block, last_rollup_tx, version) \<Rightarrow>
             if end_block < block then Some (Inr txs, w1)
             else (case last_rollup_tx of
                     Some t \<Rightarrow> fetch_loop W tb block t (txs @ [(tx, end_block, version)]) w1
                   | None \<Rightarrow> Some (Inr (txs @ [(tx, end_block, version)]), w1))))"

definition fetch_arweave_tx_from_block ::
  "('w, 'h) outside \<Rightarrow> u64 \<Rightarrow> ('s, 'd, 'w, 'h) recover \<Rightarrow>
   ((string \<times> u64 \<times> string option) list result \<times> ('s, 'd, 'w, 'h) recover) option" where
  "fetch_arweave_tx_from_block W block v =
     (case rv_get_latest_arweave_tx W v of (r, v1) \<Rightarrow>
        (case r of
           Inl e \<Rightarrow> Some (Inl e, v1)
         | Inr tx \<Rightarrow> map_option (\<lambda>(r2, w). (r2, v1\<lparr>rv_world := w\<rparr>))
             (fetch_loop W (rv_toolbox v1) block tx [] (rv_world v1))))"

partial_function (option) recover_from_arweave ::
  "'s engine \<Rightarrow> codecs \<Rightarrow> libs \<Rightarrow> 'd ejdb \<Rightarrow> bson_lib \<Rightarrow> ('td, 'sg) eth_lib \<Rightarrow> ('w, 'h) outside \<Rightarrow> u64 \<Rightarrow> u64 \<Rightarrow>
   ('s, 'd, 'w, 'h) recover \<Rightarrow> (u64 result \<times> ('s, 'd, 'w, 'h) recover) option" where
  "recover_from_arweave K C L E B T W now from_block v =
     Option.bind (fetch_arweave_tx_from_block W from_block v) (\<lambda>(r, v1).
       case r of
         Inl e \<Rightarrow> Some (Inl e, v1)
       | Inr txs \<Rightarrow>
           if txs = [] then Some (Inr from_block, v1)
           else (case for_each (\<lambda>(tx, end_block, version). recover_from_arweave_tx K C L E B T W now tx version) (rev txs) v1 of
                   (r2, v2) \<Rightarrow>
                     (case r2 of
                        Inl e \<Rightarrow> Some (Inl e, v2)
                      | Inr _ \<Rightarrow> recover_from_arweave K C L E B T W now (fst (snd (hd txs)) + 1) v2)))"

definition recover_from_ar ::
  "'s engine \<Rightarrow> codecs \<Rightarrow> libs \<Rightarrow> 'd ejdb \<Rightarrow> bson_lib \<Rightarrow> ('td, 'sg) eth_lib \<Rightarrow> ('w, 'h) outside \<Rightarrow> u64 \<Rightarrow>
   ('s, 'd, 'w, 'h) recover \<Rightarrow> (unit result \<times> ('s, 'd, 'w, 'h) recover) option" where
  "recover_from_ar K C L E B T W now v =
     (case recover_block_state K C (rv_db_store v) of
        Inl e \<Rightarrow> Some (Inl e, v)
      | Inr last_block \<Rightarrow>
          map_option (\<lambda>(r, v1). (bindR r (\<lambda>_. Inr ()), v1))
            (recover_from_arweave K C L E B T W now (case last_block of Some b \<Rightarrow> bsp_block b | None \<Rightarrow> 0) v))"

end
