(* ===== verification/Archive.thy ===== *)
theory Archive
  imports Rollup_Executor
begin

text \<open>
  What the rollup relies on outside the node (the locale \<open>archive\<close>, every law about a call that succeeded), and
  what follows for the tool box: the tags of an upload are read back as they were written, and a
  file of mutations is read back as the mutations.
\<close>

section \<open>Rows of a record batch\<close>

datatype cell = BinaryCell bytes | Utf8Cell string | UInt64Cell u64 | UInt32Cell u32

fun cell_at :: "column \<Rightarrow> nat \<Rightarrow> cell" where
  "cell_at (BinaryColumn xs) i = BinaryCell (xs ! i)"
| "cell_at (Utf8Column xs) i = Utf8Cell (xs ! i)"
| "cell_at (UInt64Column xs) i = UInt64Cell (xs ! i)"
| "cell_at (UInt32Column xs) i = UInt32Cell (xs ! i)"

definition batch_rows :: "record_batch \<Rightarrow> (string \<times> cell) list list" where
  "batch_rows rb = map (\<lambda>i. map (\<lambda>(n, c). (n, cell_at c i)) (rb_columns rb)) [0..<rb_num_rows rb]"

fun same_kind :: "column \<Rightarrow> column \<Rightarrow> bool" where
  "same_kind (BinaryColumn _) (BinaryColumn _) = True"
| "same_kind (Utf8Column _) (Utf8Column _) = True"
| "same_kind (UInt64Column _) (UInt64Column _) = True"
| "same_kind (UInt32Column _) (UInt32Column _) = True"
| "same_kind _ _ = False"

definition same_schema :: "record_batch \<Rightarrow> record_batch \<Rightarrow> bool" where
  "same_schema a b \<longleftrightarrow>
     list_all2 (\<lambda>x y. fst x = fst y \<and> same_kind (snd x) (snd y)) (rb_columns a) (rb_columns b)"

definition batch_ok :: "record_batch \<Rightarrow> bool" where
  "batch_ok rb \<longleftrightarrow> (\<forall>c \<in> set (rb_columns rb). column_length (snd c) = rb_num_rows rb)"

text \<open>\<open>split_of rb bs\<close>: the batches \<open>bs\<close> hold the rows of \<open>rb\<close>, in order.\<close>

definition split_of :: "record_batch \<Rightarrow> record_batch list \<Rightarrow> bool" where
  "split_of rb bs \<longleftrightarrow> concat (map batch_rows bs) = batch_rows rb \<and> (\<forall>b \<in> set bs. batch_ok b \<and> same_schema rb b)"

text \<open>A row of the schema of the tool box, as a mutation.\<close>

fun row_mutation :: "(string \<times> cell) list \<Rightarrow> mutation_body \<times> u64 \<times> u32 \<times> string" where
  "row_mutation [(_, BinaryCell p), (_, Utf8Cell s), (_, UInt64Cell b), (_, UInt32Cell r), (_, Utf8Cell d)] =
     (\<lparr>mb_payload = p, mb_signature = s\<rparr>, b, r, d)"
| "row_mutation _ = (\<lparr>mb_payload = [], mb_signature = []\<rparr>, 0, 0, [])"

definition exported :: "mutation_header \<times> mutation_body \<Rightarrow> mutation_body \<times> u64 \<times> u32 \<times> string" where
  "exported x = (snd x, mh_block_id (fst x), mh_order_id (fst x), mh_doc_ids_map (fst x))"

definition toolbox_columns ::
  "bytes list \<Rightarrow> string list \<Rightarrow> u64 list \<Rightarrow> u32 list \<Rightarrow> string list \<Rightarrow> (string \<times> column) list" where
  "toolbox_columns ps ss bs os ds =
     [(''payload'', BinaryColumn ps), (''signature'', Utf8Column ss), (''block'', UInt64Column bs),
      (''order'', UInt32Column os), (''doc_ids'', Utf8Column ds)]"

lemma same_kindE:
  "same_kind (BinaryColumn xs) c \<Longrightarrow> \<exists>ys. c = BinaryColumn ys" "same_kind (Utf8Column ss) c \<Longrightarrow> \<exists>ys. c = Utf8Column ys"
  "same_kind (UInt64Column bs) c \<Longrightarrow> \<exists>ys. c = UInt64Column ys" "same_kind (UInt32Column os) c \<Longrightarrow> \<exists>ys. c = UInt32Column ys"
  by (cases c; simp)+

lemma toolbox_schema:
  assumes "same_schema rb b" "rb_columns rb = toolbox_columns ps ss bs os ds" "batch_ok b"
  obtains ps' ss' bs' os' ds' where "rb_columns b = toolbox_columns ps' ss' bs' os' ds'"
    "length ps' = rb_num_rows b" "length ss' = rb_num_rows b" "length bs' = rb_num_rows b"
    "length os' = rb_num_rows b" "length ds' = rb_num_rows b"
  using assms unfolding same_schema_def toolbox_columns_def batch_ok_def
  by (fastforce simp: list_all2_Cons1 dest!: same_kindE)

lemma map_result_Inr: "(\<And>x. x \<in> set xs \<Longrightarrow> f x = Inr (g x)) \<Longrightarrow> map_result f xs = Inr (map g xs)"
  by (induction xs) simp_all

lemma convert_rows:
  assumes "rb_columns b = toolbox_columns ps ss bs os ds" "length ps = rb_num_rows b" "length ss = rb_num_rows b"
    "length bs = rb_num_rows b" "length os = rb_num_rows b" "length ds = rb_num_rows b"
  shows "convert_recordbatch_to_mutation b (Some v) = Inr (map row_mutation (batch_rows b))"
proof -
  have "map_result (\<lambda>i. bindR (value_at ps i) (\<lambda>payload. bindR (value_at ss i) (\<lambda>signature.
      bindR (value_at bs i) (\<lambda>block. bindR (value_at os i) (\<lambda>order. bindR (value_at ds i) (\<lambda>doc_ids.
      Inr (\<lparr>mb_payload = payload, mb_signature = signature\<rparr>, block, order, doc_ids)))))))
      [0..<rb_num_rows b] =
    Inr (map (\<lambda>i. (\<lparr>mb_payload = ps ! i, mb_signature = ss ! i\<rparr>, bs ! i, os ! i, ds ! i)) [0..<rb_num_rows b])"
    using assms by (intro map_result_Inr) (simp add: value_at_def)
  then show ?thesis
    using assms(1) by (simp add: convert_recordbatch_to_mutation_def typed_column_def unwrap_def toolbox_columns_def
        batch_rows_def comp_def)
qed

lemma toolbox_rows:
  assumes "rb_columns rb = toolbox_columns (map (\<lambda>x. mb_payload (snd x)) ms) (map (\<lambda>x. mb_signature (snd x)) ms)
      (map (\<lambda>x. mh_block_id (fst x)) ms) (map (\<lambda>x. mh_order_id (fst x)) ms) (map (\<lambda>x. mh_doc_ids_map (fst x)) ms)"
    and "batch_ok rb"
  shows "map row_mutation (batch_rows rb) = map exported ms"
proof -
  have n: "rb_num_rows rb = length ms" using assms by (simp add: batch_ok_def toolbox_columns_def)
  show ?thesis
    by (rule nth_equalityI) (auto simp: n batch_rows_def assms(1) toolbox_columns_def exported_def)
qed

section \<open>The laws\<close>

locale archive =
  fixes W :: "('w, 'h) outside"
    and disk :: "'w \<Rightarrow> string \<rightharpoonup> bytes"
    and chain :: "'w \<Rightarrow> bytes \<rightharpoonup> bytes \<times> ar_tag list"
    and latest :: "'w \<Rightarrow> u256 \<Rightarrow> bytes"
  assumes new_batch: "batch_try_new W cols = Inr rb \<Longrightarrow> rb_columns rb = cols \<and> batch_ok rb"
    and parquet_roundtrip: "parquet_write W rb = Inr buf \<Longrightarrow> batch_ok rb \<Longrightarrow>
      \<exists>bs. parquet_open W buf = Inr (map Inr bs) \<and> split_of rb bs"
    and tag_text_roundtrip: "ar_from_utf8_str W s = Inr b \<Longrightarrow> ar_to_utf8_string W b = Inr s"
    and create_disk: "file_create W p w = (Inr (), w') \<Longrightarrow> disk w' = (disk w)(p \<mapsto> [])"
    and write_disk: "file_write_all W p d w = (Inr (), w') \<Longrightarrow> disk w p = Some c \<Longrightarrow> disk w' = (disk w)(p \<mapsto> c @ d)"
    and sync_disk: "file_sync_all W p w = (Inr (), w') \<Longrightarrow> disk w' = disk w"
    and read_disk: "file_read W p w = (Inr d, w') \<Longrightarrow> disk w p = Some d \<and> disk w' = disk w"
    and len_disk: "disk (snd (file_len W p w)) = disk w"
    and balance_disk: "disk (snd (ar_balance W h acc w)) = disk w"
    and fee_disk: "disk (snd (ar_get_fee_by_size W h len w)) = disk w"
    and upload_chain: "ar_upload_from_path W h p tags fee w = (Inr (i, reward), w') \<Longrightarrow>
      \<exists>b d. disk w p = Some d \<and> ar_id_from_str W i = Inr b \<and> ar_id_display W b = i \<and> i \<noteq> [] \<and>
        chain w b = None \<and> chain w' = (chain w)(b \<mapsto> (d, tags))"
    and download_chain: "ar_get_tx_data W h b w = (Inr (Some d), w') \<Longrightarrow> \<exists>tags. chain w b = Some (d, tags)"
    and tags_chain: "ar_get_tx_tags W h b w = (Inr (Some tags), w') \<Longrightarrow> \<exists>d. chain w b = Some (d, tags)"
    and announce: "evm_send W h a legacy (UpdateRollupSteps n b) w = (Inr hash, w') \<Longrightarrow> latest w' = (latest w)(n := b)"
    and network_latest: "evm_data_network W h a n w = (Inr dn, w') \<Longrightarrow> dn_latest_arweave_tx dn = latest w n"
    and chain_grows:
      "chain w \<subseteq>\<^sub>m chain (snd (file_create W p w))" "chain w \<subseteq>\<^sub>m chain (snd (file_write_all W p d w))"
      "chain w \<subseteq>\<^sub>m chain (snd (file_sync_all W p w))" "chain w \<subseteq>\<^sub>m chain (snd (file_read W p w))"
      "chain w \<subseteq>\<^sub>m chain (snd (file_len W p w))" "chain w \<subseteq>\<^sub>m chain (snd (temp_dir_in W p q w))"
      "chain w \<subseteq>\<^sub>m chain (temp_dir_drop W p w)" "chain w \<subseteq>\<^sub>m chain (snd (ar_balance W h q w))"
      "chain w \<subseteq>\<^sub>m chain (snd (ar_get_fee_by_size W h len w))"
      "chain w \<subseteq>\<^sub>m chain (snd (ar_upload_from_path W h p tags fee w))"
      "chain w \<subseteq>\<^sub>m chain (snd (ar_get_tx_data W h b w))" "chain w \<subseteq>\<^sub>m chain (snd (ar_get_tx_tags W h b w))"
      "chain w \<subseteq>\<^sub>m chain (snd (evm_send W h a legacy tx w))"
      "chain w \<subseteq>\<^sub>m chain (snd (evm_get_transaction W h b w))"
      "chain w \<subseteq>\<^sub>m chain (snd (evm_data_network W h a n w))"
    and latest_kept:
      "latest (snd (evm_get_transaction W h b w)) = latest w" "latest (snd (evm_data_network W h a n w)) = latest w"
      "latest (snd (ar_get_tx_tags W h b w)) = latest w" "latest (temp_dir_drop W p w) = latest w"
begin

section \<open>Tags\<close>

lemma map_result_Cons: "map_result f (x # xs) = bindR (f x) (\<lambda>y. bindR (map_result f xs) (\<lambda>ys. Inr (y # ys)))"
  by simp

lemma tag_read:
  assumes "tag_from_utf8_strs W n v = Inr t"
  shows "ar_to_utf8_string W (fst t) = Inr n" "ar_to_utf8_string W (snd t) = Inr v"
  using assms tag_text_roundtrip by (auto simp: tag_from_utf8_strs_def bindR_eq_Inr_iff)

lemma upload_tags_read:
  assumes "upload_tags W last_tx s e network filename = Inr tags"
  shows "read_tags W tags (None, None, None, None) =
    Inr (Some s, Some e, if last_tx = [] then None else Some last_tx, Some AR_SCHEMA_VERSION_1)"
proof -
  from assms obtain a b c d f g where t:
    "tag_from_utf8_strs W ''App-Name'' ''DB3 Network'' = Inr a" "tag_from_utf8_strs W ''Version-Id'' AR_SCHEMA_VERSION_1 = Inr b"
    "tag_from_utf8_strs W ''Start-Block'' (show_u64 s) = Inr c" "tag_from_utf8_strs W ''End-Block'' (show_u64 e) = Inr d"
    "tag_from_utf8_strs W ''File-Name'' filename = Inr f" "tag_from_utf8_strs W ''Network-Id'' (show_u64 network) = Inr g"
    by (auto simp: upload_tags_def bindR_eq_Inr_iff)
  have tags: "tags = [a, b, c, d, f, g] @
      (if last_tx = [] then [] else [(projr (ar_from_utf8_str W ''Last-Rollup-Tx''), projr (ar_from_utf8_str W last_tx))])"
    "last_tx \<noteq> [] \<Longrightarrow> ar_to_utf8_string W (projr (ar_from_utf8_str W ''Last-Rollup-Tx'')) = Inr ''Last-Rollup-Tx'' \<and>
       ar_to_utf8_string W (projr (ar_from_utf8_str W last_tx)) = Inr last_tx"
    using assms t tag_text_roundtrip by (auto simp: upload_tags_def bindR_eq_Inr_iff split: if_splits)
  show ?thesis
    unfolding tags(1) using t [THEN tag_read(1)] t [THEN tag_read(2)] tags(2)
    by (cases a; cases b; cases c; cases d; cases f; cases g) (auto simp: read_tag_def tag_text_def)
qed

section \<open>Files of mutations\<close>

lemma recordbatch_roundtrip:
  assumes "convert_mutations_to_recordbatch W ms = Inr rb" "parquet_write W rb = Inr buf"
  shows "\<exists>bs. parquet_open W buf = Inr (map Inr bs) \<and>
    (\<forall>v. \<exists>xss. list_all2 (\<lambda>b xs. convert_recordbatch_to_mutation b (Some v) = Inr xs) bs xss \<and>
      concat xss = map exported ms)"
proof -
  have cols: "rb_columns rb = toolbox_columns (map (\<lambda>x. mb_payload (snd x)) ms) (map (\<lambda>x. mb_signature (snd x)) ms)
      (map (\<lambda>x. mh_block_id (fst x)) ms) (map (\<lambda>x. mh_order_id (fst x)) ms) (map (\<lambda>x. mh_doc_ids_map (fst x)) ms)"
    and okb: "batch_ok rb"
    using assms(1) new_batch by (auto simp: convert_mutations_to_recordbatch_def toolbox_columns_def)
  from parquet_roundtrip [OF assms(2) okb] obtain bs where bs: "parquet_open W buf = Inr (map Inr bs)" "split_of rb bs"
    by blast
  have "convert_recordbatch_to_mutation b (Some v) = Inr (map row_mutation (batch_rows b))" if "b \<in> set bs" for b v
  proof -
    from bs(2) that have "batch_ok b" "same_schema rb b" by (auto simp: split_of_def)
    then show ?thesis using toolbox_schema [OF _ cols] convert_rows by metis
  qed
  then have "list_all2 (\<lambda>b xs. convert_recordbatch_to_mutation b (Some v) = Inr xs) bs
      (map (\<lambda>b. map row_mutation (batch_rows b)) bs)" for v
    by (simp add: list_all2_conv_all_nth)
  moreover have "concat (map (\<lambda>b. map row_mutation (batch_rows b)) bs) = map row_mutation (concat (map batch_rows bs))"
    by (simp add: map_concat comp_def)
  moreover have "\<dots> = map exported ms" using bs(2) toolbox_rows [OF cols okb] by (simp add: split_of_def)
  ultimately show ?thesis using bs(1) by metis
qed

section \<open>Uploads\<close>

lemma snd_run: "act w = (r, w') \<Longrightarrow> snd (act w) = w'"
  by simp

lemma with_temp_dir_Inr:
  assumes "with_temp_dir W base pre act w = (Inr x, w')"
  obtains dir w1 w2 where "temp_dir_in W base pre w = (Inr dir, w1)" "act dir w1 = (Inr x, w2)" "w' = temp_dir_drop W dir w2"
proof -
  from assms obtain dir w1 where t: "temp_dir_in W base pre w = (Inr dir, w1)"
    and act: "(let (r, w2) = act dir w1 in (r, temp_dir_drop W dir w2)) = (Inr x, w')"
    unfolding with_temp_dir_def andThen_eq_Inr_iff call_Inr_iff by blast
  then show ?thesis using that by (cases "act dir w1") simp
qed

lemma dump_file:
  assumes "dump_recordbatch W p rb w = (Inr x, w')"
  obtains buf where "parquet_write W rb = Inr buf" "disk w' p = Some buf" "chain w \<subseteq>\<^sub>m chain w'"
proof -
  from assms obtain w1 buf w2 len where r: "file_create W p w = (Inr (), w1)" "parquet_write W rb = Inr buf"
    "file_write_all W p buf w1 = (Inr (), w2)" "file_len W p w2 = (Inr len, w')"
    by (auto simp: dump_recordbatch_def andThen_eq_Inr_iff call_Inr_iff lift_lib_def reads_def ok_def)
  have "disk w' p = Some buf"
    using create_disk [OF r(1)] write_disk [OF r(3), of "[]"] len_disk [of p w2] r(4) by simp
  moreover have "chain w \<subseteq>\<^sub>m chain w'"
    using chain_grows(1) [of w p] chain_grows(2) [of w1 p buf] chain_grows(5) [of w2 p] r
    by (simp add: map_le_trans)
  ultimately show ?thesis using that r(2) by blast
qed

lemma get_balance_frame:
  assumes "get_balance W fs w = (Inr x, w')"
  shows "disk w' = disk w" "chain w \<subseteq>\<^sub>m chain w'"
  using assms balance_disk chain_grows(8)
  by (auto simp: get_balance_def andThen_eq_Inr_iff call_Inr_iff lift_lib_def reads_def) (metis snd_conv)+

lemma upload_file_chain:
  assumes "upload_file W fs p tx lo hi network filename w = (Inr (i, reward), w')" "disk w p = Some buf"
  obtains b tags where "upload_tags W tx lo hi network filename = Inr tags" "ar_id_from_str W i = Inr b"
    "ar_id_display W b = i" "i \<noteq> []" "chain w b = None" "chain w' b = Some (buf, tags)" "chain w \<subseteq>\<^sub>m chain w'"
proof -
  from assms(1) obtain tags len w1 fee w2 where r: "upload_tags W tx lo hi network filename = Inr tags"
    "file_len W p w = (Inr len, w1)" "ar_get_fee_by_size W (afs_arweave fs) len w1 = (Inr fee, w2)"
    "ar_upload_from_path W (afs_arweave fs) p tags fee w2 = (Inr (i, reward), w')"
    by (auto simp: upload_file_def andThen_eq_Inr_iff call_Inr_iff reads_def)
  have d2: "disk w2 p = Some buf"
    using assms(2) len_disk [of p w] fee_disk [of "afs_arweave fs" len w1] r(2,3) by simp
  have c2: "chain w \<subseteq>\<^sub>m chain w2"
    using chain_grows(5) [of w p] chain_grows(9) [of w1 "afs_arweave fs" len] r(2,3) by simp (metis map_le_trans)
  from upload_chain [OF r(4)] obtain b where b: "ar_id_from_str W i = Inr b" "ar_id_display W b = i" "i \<noteq> []"
    "chain w2 b = None" "chain w' = (chain w2)(b \<mapsto> (buf, tags))"
    using d2 by auto
  moreover have "chain w b = None" using c2 b(4) by (metis domIff map_le_def)
  moreover have "chain w2 \<subseteq>\<^sub>m chain w'" using b(4,5) by (auto simp: map_le_def)
  ultimately show ?thesis using that [OF r(1) b(1-3)] c2 map_le_trans by fastforce
qed

lemma upload_archived:
  assumes "compress_and_upload_record_batch W tb tx lo hi rb network w = (Inr (i, reward, rows, len), w')"
  obtains b buf tags filename where "parquet_write W rb = Inr buf" "upload_tags W tx lo hi network filename = Inr tags"
    "ar_id_from_str W i = Inr b" "ar_id_display W b = i" "i \<noteq> []" "chain w b = None" "chain w' b = Some (buf, tags)"
    "chain w \<subseteq>\<^sub>m chain w'"
proof -
  let ?name = "show_u64 lo @ ''_'' @ show_u64 hi @ ''.gz.parquet''"
  obtain dir w1 w2 where t: "temp_dir_in W (atb_temp_data_path tb) ''compression'' w = (Inr dir, w1)"
    "w' = temp_dir_drop W dir w2"
    and act: "andThen (dump_recordbatch W (path_push dir ''rollup.gz.parquet'') rb) (\<lambda>(num_rows, size).
       andThen (get_balance W (atb_filesystem tb)) (\<lambda>_.
       andThen (upload_file W (atb_filesystem tb) (path_push dir ''rollup.gz.parquet'') tx lo hi network ?name) (\<lambda>(i, reward).
       ok (i, reward, num_rows, size)))) w1 = (Inr (i, reward, rows, len), w2)"
    using assms unfolding compress_and_upload_record_batch_def Let_def by (rule with_temp_dir_Inr)
  let ?p = "path_push dir ''rollup.gz.parquet''"
  from act obtain w3 w4 u where r: "dump_recordbatch W ?p rb w1 = (Inr (rows, len), w3)"
    "get_balance W (atb_filesystem tb) w3 = (Inr u, w4)"
    "upload_file W (atb_filesystem tb) ?p tx lo hi network ?name w4 = (Inr (i, reward), w2)"
    by (auto simp: andThen_eq_Inr_iff ok_def)
  obtain buf where buf: "parquet_write W rb = Inr buf" "disk w3 ?p = Some buf" "chain w1 \<subseteq>\<^sub>m chain w3"
    by (rule dump_file [OF r(1)])
  note bal = get_balance_frame [OF r(2)]
  from buf(2) have "disk w4 ?p = Some buf" by (simp add: bal)
  from upload_file_chain [OF r(3) this] obtain b tags where b: "upload_tags W tx lo hi network ?name = Inr tags"
    "ar_id_from_str W i = Inr b" "ar_id_display W b = i" "i \<noteq> []" "chain w4 b = None" "chain w2 b = Some (buf, tags)"
    "chain w4 \<subseteq>\<^sub>m chain w2" .
  have pre: "chain w \<subseteq>\<^sub>m chain w4"
    using chain_grows(6) [of w "atb_temp_data_path tb" "''compression''"] t(1) buf(3) bal(2) by (simp, metis map_le_trans)
  have post: "chain w2 \<subseteq>\<^sub>m chain w'" unfolding t(2) by (rule chain_grows(7))
  have "chain w b = None" using pre b(5) by (metis domIff map_le_def)
  moreover have "chain w' b = Some (buf, tags)" using post b(6) by (metis domI map_le_def)
  moreover have "chain w \<subseteq>\<^sub>m chain w'" using pre post b(7) map_le_trans by metis
  ultimately show ?thesis using that [OF buf(1) b(1-4)] by blast
qed

end

end
