(* ===== verification/Rollup_Ledger.thy ===== *)
theory Rollup_Ledger
  imports Rollup_Executor Log_Machine
begin

text \<open>
  What the rollup records promise. The abstract view is a \<open>ledger\<close>: the block ranges that were rolled up,
  one after the other from block 0 without gaps, and how many of them, counted from the oldest, were
  garbage collected. \<open>ledger_of\<close> reads it off a mutation store; \<open>process\<close> is shown to take ledger steps
  only, whatever calls fail on the way.
\<close>

section \<open>Ledgers\<close>

record ledger =
  led_rounds :: "(u64 \<times> u64) list"
  led_collected :: nat

fun contiguous :: "u64 \<Rightarrow> (u64 \<times> u64) list \<Rightarrow> bool" where
  "contiguous b [] \<longleftrightarrow> True"
| "contiguous b ((s, e) # rs) \<longleftrightarrow> s = b \<and> s < e \<and> contiguous e rs"

fun rounds_end :: "u64 \<Rightarrow> (u64 \<times> u64) list \<Rightarrow> u64" where
  "rounds_end b [] = b"
| "rounds_end b ((s, e) # rs) = rounds_end e rs"

definition led_end :: "ledger \<Rightarrow> u64" where
  "led_end l = rounds_end 0 (led_rounds l)"

definition add_round :: "u64 \<Rightarrow> ledger \<Rightarrow> ledger" where
  "add_round now l = l\<lparr>led_rounds := led_rounds l @ [(led_end l, now)]\<rparr>"

text \<open>The oldest round that is still there may go once \<open>min_rounds\<close> rounds have been filed since the last collected one.\<close>

definition collectable :: "u64 \<Rightarrow> ledger \<Rightarrow> bool" where
  "collectable min_rounds l \<longleftrightarrow> led_collected l < length (led_rounds l) \<and>
     unat min_rounds \<le> length (led_rounds l) - (led_collected l - 1)"

definition collect :: "ledger \<Rightarrow> ledger" where
  "collect l = l\<lparr>led_collected := Suc (led_collected l)\<rparr>"

inductive ledger_step :: "u64 \<Rightarrow> u64 \<Rightarrow> ledger \<Rightarrow> ledger \<Rightarrow> bool" for now min_rounds where
  idle: "ledger_step now min_rounds l l"
| roll: "led_end l < now \<Longrightarrow> ledger_step now min_rounds l (add_round now l)"
| roll_collect: "led_end l < now \<Longrightarrow> collectable min_rounds (add_round now l) \<Longrightarrow>
    ledger_step now min_rounds l (collect (add_round now l))"

lemma contiguous_append: "contiguous b (rs @ [(s, e)]) \<longleftrightarrow> contiguous b rs \<and> s = rounds_end b rs \<and> s < e"
  by (induction b rs rule: contiguous.induct) auto

lemma rounds_end_append: "rounds_end b (rs @ [(s, e)]) = e"
  by (induction b rs rule: contiguous.induct) auto

lemma contiguous_bounds: "contiguous b rs \<Longrightarrow> (s, e) \<in> set rs \<Longrightarrow> b \<le> s \<and> s < e \<and> e \<le> rounds_end b rs"
proof (induction b rs rule: contiguous.induct)
  case (2 b s' e' rs)
  show ?case
  proof (cases "(s, e) \<in> set rs")
    case True
    with 2 show ?thesis by auto
  next
    case False
    moreover have "e' \<le> rounds_end e' rs" if "contiguous e' rs" for e' rs
      using that by (induction e' rs rule: contiguous.induct) (auto intro: order.trans less_imp_le)
    ultimately show ?thesis using "2.prems" by auto
  qed
qed simp

lemma contiguous_sorted: "contiguous b rs \<Longrightarrow> sorted_wrt (<) (map fst rs)"
proof (induction b rs rule: contiguous.induct)
  case (2 b s e rs)
  then have "\<forall>x \<in> set rs. s < fst x"
    using contiguous_bounds [of e rs] by (auto intro: order.strict_trans2)
  with 2 show ?case by auto
qed simp

lemma contiguous_start_0: "contiguous b (x # rs) \<Longrightarrow> fst x = b"
  by (cases x) simp

section \<open>Records on file\<close>

text \<open>The entries of a column family that files records under the big-endian form of a block.\<close>

definition filed :: "'m codec \<Rightarrow> ('m \<Rightarrow> u64) \<Rightarrow> (bytes \<times> bytes) list \<Rightarrow> 'm list \<Rightarrow> bool" where
  "filed c key es rs \<longleftrightarrow> list_all2 (\<lambda>e r. fst e = be64 (key r) \<and> decode c (snd e) = Inr r) es rs"

definition rollup_range :: "rollup_record \<Rightarrow> u64 \<times> u64" where
  "rollup_range r = (rr_start_block r, rr_end_block r)"

definition gc_range :: "gc_record \<Rightarrow> u64 \<times> u64" where
  "gc_range r = (gr_start_block r, gr_end_block r)"

definition rollup_entries :: "'s engine \<Rightarrow> 's mutation_store \<Rightarrow> (bytes \<times> bytes) list" where
  "rollup_entries K m = raw_iterator_cf K (ms_se m) (rollup_store_cf_name (ms_config m))"

definition gc_entries :: "'s engine \<Rightarrow> 's mutation_store \<Rightarrow> (bytes \<times> bytes) list" where
  "gc_entries K m = raw_iterator_cf K (ms_se m) (gc_cf_name (ms_config m))"

text \<open>\<open>ledger_rel K C m rs gs l\<close>: the store files the rollups \<open>rs\<close> and the collections \<open>gs\<close>, and they make up the ledger \<open>l\<close>.\<close>

definition ledger_rel ::
  "'s engine \<Rightarrow> codecs \<Rightarrow> 's mutation_store \<Rightarrow> rollup_record list \<Rightarrow> gc_record list \<Rightarrow> ledger \<Rightarrow> bool" where
  "ledger_rel K C m rs gs l \<longleftrightarrow>
     filed (rollup_codec C) rr_start_block (rollup_entries K m) rs \<and>
     filed (gc_codec C) gr_start_block (gc_entries K m) gs \<and>
     led_rounds l = map rollup_range rs \<and> led_collected l = length gs \<and>
     map gc_range gs = take (length gs) (led_rounds l) \<and>
     contiguous 0 (led_rounds l)"

definition ledger_of :: "'s engine \<Rightarrow> codecs \<Rightarrow> 's mutation_store \<Rightarrow> ledger \<Rightarrow> bool" where
  "ledger_of K C m l \<longleftrightarrow> (\<exists>rs gs. ledger_rel K C m rs gs l)"

lemma filed_length: "filed c key es rs \<Longrightarrow> length es = length rs"
  by (simp add: filed_def list_all2_lengthD)

lemma filed_append: "filed c key es rs \<Longrightarrow> decode c v = Inr r \<Longrightarrow> filed c key (es @ [(be64 (key r), v)]) (rs @ [r])"
  by (simp add: filed_def list_all2_appendI)

lemma filed_last: "filed c key es rs \<Longrightarrow> decode_entry c (rev es) = Inr (if rs = [] then None else Some (last rs))"
proof (cases rs rule: rev_cases)
  case (snoc ys y)
  assume f: "filed c key es rs"
  with snoc obtain xs x where "es = xs @ [x]" "length xs = length ys"
    using filed_length [OF f] by (cases es rule: rev_cases) auto
  with f snoc show ?thesis by (cases x) (simp add: filed_def decode_entry_def list_all2_append)
qed (auto simp: filed_def decode_entry_def)

lemma filed_decode: "filed c key es rs \<Longrightarrow> decode_entry c (drop i es) = Inr (if i < length rs then Some (rs ! i) else None)"
proof (cases "i < length es")
  case True
  assume f: "filed c key es rs"
  with True have "drop i es = es ! i # drop (Suc i) es" "decode c (snd (es ! i)) = Inr (rs ! i)"
    by (auto simp: filed_def Cons_nth_drop_Suc dest: list_all2_nthD)
  with True filed_length [OF f] show ?thesis by (simp add: decode_entry_def split_beta)
qed (auto dest: filed_length simp: decode_entry_def)

lemma filed_seek:
  assumes "filed c key es rs" "sorted_wrt (<) (map key rs)" "i < length rs"
  shows "seek (be64 (key (rs ! i))) es = drop i es"
proof -
  have keys: "fst (es ! j) = be64 (key (rs ! j))" if "j < length rs" for j
    using assms(1) that by (auto simp: filed_def dest: list_all2_nthD2)
  have len: "length es = length rs" by (rule filed_length [OF assms(1)])
  have "\<forall>e \<in> set (take i es). fst e < be64 (key (rs ! i))"
  proof
    fix e
    assume "e \<in> set (take i es)"
    then obtain j where "j < i" "e = es ! j" using assms(3) len by (auto simp: in_set_conv_nth)
    then show "fst e < be64 (key (rs ! i))"
      using assms(2,3) keys [of j] by (simp add: sorted_wrt_iff_nth_less)
  qed
  then have "seek (be64 (key (rs ! i))) (take i es @ drop i es) = dropWhile (\<lambda>e. fst e < be64 (key (rs ! i))) (drop i es)"
    unfolding seek_def by (intro dropWhile_append2) blast
  moreover have "drop i es = es ! i # drop (Suc i) es" "\<not> fst (es ! i) < be64 (key (rs ! i))"
    using assms(3) keys len by (simp_all add: Cons_nth_drop_Suc)
  ultimately show ?thesis by (simp del: append_take_drop_id) (metis append_take_drop_id)
qed

lemma rounds_loop_eq:
  "c = 0 \<or> c < min_rounds \<Longrightarrow> rounds_loop min_rounds c it \<longleftrightarrow> it \<noteq> [] \<and> unat min_rounds \<le> unat c + length it"
proof (induction it arbitrary: c)
  case (Cons e it)
  show ?case
  proof (cases "c + 1 \<ge> min_rounds")
    case True
    moreover have "unat (c + 1) \<le> Suc (unat c)" by (simp add: unat_word_ariths)
    ultimately have "unat min_rounds \<le> Suc (unat c)" by (simp add: word_le_nat_alt)
    with True show ?thesis by simp
  next
    case False
    then have lt: "c + 1 < min_rounds" by simp
    have "c + 1 \<noteq> 0"
    proof
      assume z: "c + 1 = 0"
      with Cons.prems have "c = 0 \<or> c < min_rounds" "c = - 1" by (auto simp: eq_neg_iff_add_eq_0)
      then show False using word_order.extremum_strict by auto
    qed
    then have "unat (c + 1) = Suc (unat c)" by (simp add: unatSuc add.commute)
    moreover have "it \<noteq> [] \<or> \<not> unat min_rounds \<le> Suc (unat c)"
      using lt calculation by (auto simp: word_less_nat_alt)
    ultimately show ?thesis using Cons.IH [of "c + 1"] lt by auto
  qed
qed simp

section \<open>Filing a rollup\<close>

lemma ledger_rel_sorted: "ledger_rel K C m rs gs l \<Longrightarrow> sorted_wrt (<) (map rr_start_block rs)"
  using contiguous_sorted [of 0 "led_rounds l"] by (auto simp: ledger_rel_def rollup_range_def comp_def)

lemma ledger_rel_length: "ledger_rel K C m rs gs l \<Longrightarrow> length gs \<le> length rs"
  using length_map [of gc_range gs] by (auto simp: ledger_rel_def simp del: length_map) (metis length_map length_take min.cobounded1)

lemma ledger_rel_cong:
  assumes "ledger_rel K C m rs gs l" "rollup_entries K m' = rollup_entries K m" "gc_entries K m' = gc_entries K m"
  shows "ledger_rel K C m' rs gs l"
  using assms by (auto simp: ledger_rel_def)

context platform
begin

lemma iterator_append:
  assumes "write_batch K s [PutCf cf k v] = Inr t" "\<forall>e \<in> set (raw_iterator_cf K s cf). fst e < k"
  shows "raw_iterator_cf K t cf = raw_iterator_cf K s cf @ [(k, v)]"
proof (rule sorted_kv_unique)
  show "sorted_kv (raw_iterator_cf K s cf @ [(k, v)])"
    using assms(2) iterator_sorted by (auto simp: sorted_wrt_append)
  have "map_of (raw_iterator_cf K s cf) k = None"
    using assms(2) by (auto simp: map_of_eq_None_iff)
  then have "map_of (raw_iterator_cf K s cf @ [(k, v)]) = (cf_map K s cf)(k \<mapsto> v)"
    by (auto simp: cf_map_def map_of_append fun_eq_iff map_add_def split: option.splits)
  then show "map_of (raw_iterator_cf K t cf) = map_of (raw_iterator_cf K s cf @ [(k, v)])"
    using write_applies [OF assms(1), of cf] by (simp add: cf_map_def)
qed (rule iterator_sorted)

lemma same_view_entries:
  assumes "same_view cfs m m'"
  shows "rollup_store_cf_name (ms_config m) \<in> cfs \<Longrightarrow> rollup_entries K m' = rollup_entries K m"
    and "gc_cf_name (ms_config m) \<in> cfs \<Longrightarrow> gc_entries K m' = gc_entries K m"
  using assms by (auto simp: same_view_def rollup_entries_def gc_entries_def intro: iterator_unchanged)

lemma keys_before_end:
  assumes "ledger_rel K C m rs gs l" "e \<in> set (rollup_entries K m)"
  shows "fst e < be64 (led_end l)"
proof -
  from assms obtain r where "r \<in> set rs" "fst e = be64 (rr_start_block r)"
    by (auto simp: ledger_rel_def filed_def dest: list_all2_mem(1))
  moreover from this assms(1) have "rr_start_block r < led_end l"
    using contiguous_bounds [of 0 "led_rounds l" "rr_start_block r" "rr_end_block r"]
    by (auto simp: ledger_rel_def rollup_range_def led_end_def intro: order.strict_trans2)
  ultimately show ?thesis by simp
qed

lemma add_rollup_ledger:
  assumes ready: "ms_ready K m" and rel: "ledger_rel K C m rs gs l"
    and r: "rr_start_block r = led_end l" "led_end l < rr_end_block r"
    and run: "add_rollup_record K C r m = (res, m')"
  shows "m' = m \<and> res \<noteq> Inr () \<or> ledger_rel K C m' (rs @ [r]) gs (add_round (rr_end_block r) l)"
    and "same_view (- {rollup_store_cf_name (ms_config m)}) m m'"
proof -
  show view: "same_view (- {rollup_store_cf_name (ms_config m)}) m m'"
    using keepsD [OF add_rollup_view same_view_start [OF ready]] run by (metis snd_conv)
  show "m' = m \<and> res \<noteq> Inr () \<or> ledger_rel K C m' (rs @ [r]) gs (add_round (rr_end_block r) l)"
  proof (cases "encode (rollup_codec C) r")
    case (Inl e)
    with run show ?thesis by (auto simp: add_rollup_record_def action_simps ms_ready_cf [OF ready])
  next
    case (Inr buf)
    let ?cf = "rollup_store_cf_name (ms_config m)"
    obtain se where se: "write_batch K (ms_se m) [PutCf ?cf (be64 (rr_start_block r)) buf] = Inr se"
      using write_total by blast
    have m': "ms_se m' = se" "ms_config m' = ms_config m"
      using run Inr se by (auto simp: add_rollup_record_def action_simps ms_ready_cf [OF ready] ms_write_def
          split: sum.splits)
    have "rollup_entries K m' = rollup_entries K m @ [(be64 (rr_start_block r), buf)]"
      unfolding rollup_entries_def m' using keys_before_end [OF rel] r(1)
      by (intro iterator_append [OF se]) (auto simp: rollup_entries_def)
    moreover have "gc_entries K m' = gc_entries K m"
      using ms_ready_distinct [OF ready] by (intro same_view_entries(2) [OF view]) auto
    moreover have "decode (rollup_codec C) buf = Inr r" by (rule codec_okD [OF rollup_ok Inr])
    ultimately show ?thesis
      using rel r filed_append [of "rollup_codec C" rr_start_block "rollup_entries K m" rs buf r] ledger_rel_length [OF rel]
      by (auto simp: ledger_rel_def add_round_def led_end_def contiguous_append rollup_range_def)
  qed
qed

text \<open>\<open>log_kept b m m'\<close>: nothing is added to the log, no body goes, and no header of block \<open>b\<close> or later goes.\<close>

definition log_kept :: "u64 \<Rightarrow> 's mutation_store \<Rightarrow> 's mutation_store \<Rightarrow> bool" where
  "log_kept b m m' \<longleftrightarrow>
     (\<forall>h x. logged K C L m' h x \<longrightarrow> logged K C L m h x) \<and>
     (\<forall>h x. logged K C L m h x \<and> b \<le> mh_block_id h \<longrightarrow> logged K C L m' h x) \<and>
     (\<forall>t. get_mutation K C t m' = get_mutation K C t m)"

definition log_state :: "'s mutation_store \<Rightarrow> 's mutation_store \<Rightarrow> bool" where
  "log_state m m' \<longleftrightarrow> ms_ready K m' \<and> log_wf K C L m' \<and> ms_config m' = ms_config m \<and> ms_block_state m' = ms_block_state m"

lemma log_kept_trans: "log_kept b m m1 \<Longrightarrow> log_kept b m1 m2 \<Longrightarrow> log_kept b m m2"
  unfolding log_kept_def by metis

lemma log_kept_refl: "log_kept b m m"
  by (simp add: log_kept_def)

lemma log_kept_mono: "log_kept b m m' \<Longrightarrow> b \<le> c \<Longrightarrow> log_kept c m m'"
  by (auto simp: log_kept_def)

lemma log_state_trans: "log_state m m1 \<Longrightarrow> log_state m1 m2 \<Longrightarrow> log_state m m2"
  by (simp add: log_state_def)

lemma view_log:
  assumes "same_view cfs m m'" "ms_ready K m" "log_wf K C L m"
    "block_store_cf_name (ms_config m) \<in> cfs" "tx_store_cf_name (ms_config m) \<in> cfs"
  shows "log_state m m'" "log_kept b m m'"
proof -
  have v: "ms_config m' = ms_config m" "ms_ready K m'" "ms_block_state m' = ms_block_state m"
    "cf_map K (ms_se m') (block_store_cf_name (ms_config m)) = cf_map K (ms_se m) (block_store_cf_name (ms_config m))"
    "cf_map K (ms_se m') (tx_store_cf_name (ms_config m)) = cf_map K (ms_se m) (tx_store_cf_name (ms_config m))"
    using assms by (auto simp: same_view_def)
  have log: "logged K C L m' h x \<longleftrightarrow> logged K C L m h x" for h x
    by (simp add: logged_def v)
  show "log_kept b m m'" by (simp add: log_kept_def log get_mutation_eq assms(2) v)
  show "log_state m m'" using assms(3) by (simp add: log_state_def log_wf_def log v)
qed

lemma flush_log:
  assumes "ms_ready K m" "log_wf K C L m" "flush_state K C now m = (res, m')"
  shows "log_state m m'" "log_kept b m m'" "rollup_entries K m' = rollup_entries K m" "gc_entries K m' = gc_entries K m"
proof -
  have view: "same_view (- {MS_STATE_CF}) m m'"
    using keepsD [OF flush_view same_view_start [OF assms(1)]] assms(3) by (metis snd_conv)
  note d = ms_ready_distinct [OF assms(1)]
  show "log_state m m'" "log_kept b m m'"
    by (rule view_log [OF view assms(1,2)]; use d in auto)+
  show "rollup_entries K m' = rollup_entries K m" "gc_entries K m' = gc_entries K m"
    by (rule same_view_entries [OF view]; use d in auto)+
qed

lemma gc_key_order:
  assumes "ledger_rel K C m rs gs l" "length gs < length rs" "e \<in> set (gc_entries K m)"
  shows "fst e < be64 (rr_start_block (rs ! length gs))"
proof -
  from assms obtain g where g: "g \<in> set gs" "fst e = be64 (gr_start_block g)"
    by (auto simp: ledger_rel_def filed_def dest: list_all2_mem(1))
  then obtain i where i: "i < length gs" "g = gs ! i" by (auto simp: in_set_conv_nth)
  have "map gc_range gs ! i = take (length gs) (map rollup_range rs) ! i"
    using assms(1) by (auto simp: ledger_rel_def)
  with i assms(2) have "gr_start_block g = rr_start_block (rs ! i)"
    by (simp add: gc_range_def rollup_range_def)
  moreover have "rr_start_block (rs ! i) < rr_start_block (rs ! length gs)"
    using ledger_rel_sorted [OF assms(1)] i assms(2) by (auto simp: sorted_wrt_iff_nth_less)
  ultimately show ?thesis using g by simp
qed

lemma add_gc_ledger:
  assumes ready: "ms_ready K m" and rel: "ledger_rel K C m rs gs l" and n: "length gs < length rs"
    and g: "gc_range g = rollup_range (rs ! length gs)"
    and run: "add_gc_record K C g m = (res, m')"
  shows "m' = m \<or> ledger_rel K C m' rs (gs @ [g]) (collect l)"
proof (cases "encode (gc_codec C) g")
  case (Inl e)
  with run show ?thesis by (auto simp: add_gc_record_def add_record_def action_simps ms_ready_cf [OF ready])
next
  case (Inr buf)
  let ?cf = "gc_cf_name (ms_config m)"
  have start: "gr_start_block g = rr_start_block (rs ! length gs)" using g by (simp add: gc_range_def rollup_range_def)
  have view: "same_view (- {?cf}) m m'"
    using keepsD [OF add_gc_view same_view_start [OF ready]] run by (metis snd_conv)
  obtain se where se: "write_batch K (ms_se m) [PutCf ?cf (be64 (gr_start_block g)) buf] = Inr se"
    using write_total by blast
  have m': "ms_se m' = se" "ms_config m' = ms_config m"
    using run Inr se by (auto simp: add_gc_record_def add_record_def action_simps ms_ready_cf [OF ready] ms_write_def)
  have "gc_entries K m' = gc_entries K m @ [(be64 (gr_start_block g), buf)]"
    unfolding gc_entries_def m' using gc_key_order [OF rel n] start
    by (intro iterator_append [OF se]) (auto simp: gc_entries_def)
  moreover have "rollup_entries K m' = rollup_entries K m"
    using ms_ready_distinct [OF ready] by (intro same_view_entries(1) [OF view]) auto
  moreover have "decode (gc_codec C) buf = Inr g" by (rule codec_okD [OF gc_ok Inr])
  ultimately show ?thesis
    using rel n g filed_append [of "gc_codec C" gr_start_block "gc_entries K m" gs buf g]
    by (auto simp: ledger_rel_def collect_def take_Suc_conv_app_nth)
qed

section \<open>Garbage collection\<close>

lemma last_records:
  assumes "ms_ready K m" "ledger_rel K C m rs gs l"
  shows "get_last_gc_record K C m = Inr (if gs = [] then None else Some (last gs))"
    and "get_last_rollup_record K C m = Inr (if rs = [] then None else Some (last rs))"
  using assms filed_last [of "gc_codec C" gr_start_block "gc_entries K m" gs]
    filed_last [of "rollup_codec C" rr_start_block "rollup_entries K m" rs]
  by (simp_all add: get_last_gc_record_def get_last_rollup_record_def get_last_record_def ms_ready_cf ledger_rel_def
      gc_entries_def rollup_entries_def del: decode_entry_def)

lemma rounds_end_last: "rs \<noteq> [] \<Longrightarrow> rounds_end b rs = snd (last rs)"
  by (induction b rs rule: rounds_end.induct) auto

lemma last_rollup_eq:
  assumes "ms_ready K m" "ledger_rel K C m rs gs l"
  shows "last_rollup K C m = Inr (led_end l, if rs = [] then [] else rr_arweave_tx (last rs))"
  using assms(2) last_records(2) [OF assms]
  by (auto simp: last_rollup_def led_end_def ledger_rel_def rounds_end_last last_map rollup_range_def)

text \<open>Where the search for the next collection starts: at the last collected round, or at block 0.\<close>

lemma gc_search_start:
  assumes "ledger_rel K C m rs gs l" "rs \<noteq> []"
  shows "(if gs = [] then 0 else gr_start_block (last gs)) = rr_start_block (rs ! (length gs - 1))"
proof (cases "gs = []")
  case True
  with assms show ?thesis
    using contiguous_start_0 [of 0 "rollup_range (hd rs)" "map rollup_range (tl rs)"]
    by (cases rs) (auto simp: ledger_rel_def rollup_range_def)
next
  case False
  have "map gc_range gs ! (length gs - 1) = take (length gs) (map rollup_range rs) ! (length gs - 1)"
    using assms(1) by (auto simp: ledger_rel_def)
  moreover have "length gs - 1 < length gs" "length gs - 1 < length rs"
    using False ledger_rel_length [OF assms(1)] by (cases gs; simp)+
  ultimately show ?thesis using False by (simp add: last_conv_nth gc_range_def rollup_range_def)
qed

lemma enough_rounds:
  assumes "ms_ready K m" "ledger_rel K C m rs gs l"
  shows "has_enough_round_left K (if gs = [] then 0 else gr_start_block (last gs)) n m =
    Inr (rs \<noteq> [] \<and> unat n \<le> length rs - (length gs - 1))"
proof -
  let ?es = "rollup_entries K m"
  have f: "filed (rollup_codec C) rr_start_block ?es rs" using assms(2) by (simp add: ledger_rel_def)
  have "seek (be64 (if gs = [] then 0 else gr_start_block (last gs))) ?es = drop (length gs - 1) ?es" if "rs \<noteq> []"
    unfolding gc_search_start [OF assms(2) that]
    using filed_seek [OF f ledger_rel_sorted [OF assms(2)], of "length gs - 1"] that ledger_rel_length [OF assms(2)]
    by (cases rs) auto
  moreover have "?es = []" if "rs = []" using filed_length [OF f] that by simp
  ultimately have "rounds_loop n 0 (seek (be64 (if gs = [] then 0 else gr_start_block (last gs))) ?es) \<longleftrightarrow>
      rs \<noteq> [] \<and> unat n \<le> length rs - (length gs - 1)"
    using ledger_rel_length [OF assms(2)] filed_length [OF f]
    by (cases "rs = []"; cases gs) (auto simp: rounds_loop_eq seek_def)
  then show ?thesis
    by (simp add: has_enough_round_left_def ms_ready_cf [OF assms(1)] rollup_entries_def [symmetric] Let_def)
qed

lemma next_to_collect:
  assumes "ms_ready K m" "ledger_rel K C m rs gs l" "rs \<noteq> []"
  shows "(if gs = [] then get_rollup_record K C 0 m else get_next_rollup_record K C (gr_start_block (last gs)) m) =
    Inr (if length gs < length rs then Some (rs ! length gs) else None)"
proof (cases "gs = []")
  case True
  let ?es = "rollup_entries K m"
  have f: "filed (rollup_codec C) rr_start_block ?es rs" using assms(2) by (simp add: ledger_rel_def)
  with assms(3) obtain v where v: "hd ?es = (be64 0, v)" "?es \<noteq> []" "decode (rollup_codec C) v = Inr (hd rs)"
    using gc_search_start [OF assms(2,3)] True
    by (cases ?es; cases rs) (auto simp: filed_def)
  then have "(be64 0, v) \<in> set ?es" by (metis hd_in_set)
  then have "cf_map K (ms_se m) (rollup_store_cf_name (ms_config m)) (be64 0) = Some v"
    by (simp add: rollup_entries_def iterator_mem)
  with v(3) True assms(3) show ?thesis
    by (simp add: get_rollup_record_def get_record_eq [OF assms(1)] hd_conv_nth)
next
  case False
  let ?es = "rollup_entries K m"
  have f: "filed (rollup_codec C) rr_start_block ?es rs" using assms(2) by (simp add: ledger_rel_def)
  have "seek (be64 (gr_start_block (last gs))) ?es = drop (length gs - 1) ?es"
    using gc_search_start [OF assms(2,3)] False filed_seek [OF f ledger_rel_sorted [OF assms(2)], of "length gs - 1"]
      ledger_rel_length [OF assms(2)] by (cases gs) auto
  then have "tl (seek (be64 (gr_start_block (last gs))) ?es) = drop (length gs) ?es"
    using False by (cases gs rule: rev_cases) (simp_all add: drop_Suc [symmetric] tl_drop)
  then show ?thesis
    using False filed_decode [OF f, of "length gs"]
    by (simp add: get_next_rollup_record_def get_next_record_def ms_ready_cf [OF assms(1)] rollup_entries_def [symmetric])
qed

lemma gc_rolled_up_ledger:
  assumes ready: "ms_ready K m" and wf: "log_wf K C L m" and rel: "ledger_rel K C m rs gs l"
    and n: "length gs < length rs" and run: "gc_rolled_up K C L clk (rs ! length gs) m = (res, m')"
  shows "\<exists>gs' l'. ledger_rel K C m' rs gs' l' \<and> (l' = l \<or> l' = collect l)"
    and "log_state m m'" and "log_kept (led_end l) m m'"
proof -
  let ?r = "rs ! length gs"
  have "(rr_start_block ?r, rr_end_block ?r) \<in> set (led_rounds l)"
    using rel n by (auto simp: ledger_rel_def rollup_range_def intro!: image_eqI [of _ _ ?r])
  then have r: "rr_start_block ?r < rr_end_block ?r" "rr_end_block ?r \<le> led_end l"
    using rel contiguous_bounds [of 0 "led_rounds l"] unfolding ledger_rel_def led_end_def by blast+
  obtain m1 where m1: "gc_range_mutation K C L (rr_start_block ?r) (rr_end_block ?r) m = (Inr (), m1)"
    "ms_ready K m1" "ms_config m1 = ms_config m"
    "\<And>cf. cf \<noteq> block_store_cf_name (ms_config m) \<Longrightarrow> cf \<noteq> tx_store_cf_name (ms_config m) \<Longrightarrow>
      cf_map K (ms_se m1) cf = cf_map K (ms_se m) cf" "ms_block_state m1 = ms_block_state m"
    by (rule gc_range_run [OF ready wf r(1)]) (rule that)
  note gc = logged_gc [OF ready wf r(1)] and d = ms_ready_distinct [OF ready]
  have wf1: "log_wf K C L m1" using gc(2) m1(1) by simp
  have kept1: "log_kept (led_end l) m m1"
    unfolding log_kept_def using gc(1,3) m1(1) r(2) by auto
  have rel1: "ledger_rel K C m1 rs gs l"
    using d m1(3,4) by (intro ledger_rel_cong [OF rel])
      (auto simp: rollup_entries_def gc_entries_def intro!: iterator_unchanged)
  let ?g = "\<lparr>gr_start_block = rr_start_block ?r, gr_end_block = rr_end_block ?r,
       gr_data_size = rr_raw_data_size ?r, gr_time = clk_gc_now clk, gr_processed_time = clk_gc_elapsed clk\<rparr>"
  have add: "add_gc_record K C ?g m1 = (res, m')"
    using run m1(1) by (simp add: gc_rolled_up_def andThen_Inr)
  have view: "same_view (- {gc_cf_name (ms_config m1)}) m1 m'"
    using keepsD [OF add_gc_view same_view_start [OF m1(2)]] add by (metis snd_conv)
  have log2: "log_state m1 m'" "log_kept (led_end l) m1 m'"
    by (rule view_log [OF view m1(2) wf1]; use d m1(3) in auto)+
  show "log_state m m'" using log2(1) m1 by (simp add: log_state_def)
  show "log_kept (led_end l) m m'" by (rule log_kept_trans [OF kept1 log2(2)])
  show "\<exists>gs' l'. ledger_rel K C m' rs gs' l' \<and> (l' = l \<or> l' = collect l)"
    using add_gc_ledger [OF m1(2) rel1 n _ add] rel1 by (auto simp: gc_range_def rollup_range_def)
qed

lemma gc_mutation_ledger:
  assumes ready: "ms_ready K m" and wf: "log_wf K C L m" and rel: "ledger_rel K C m rs gs l"
    and run: "gc_mutation K C L clk n m = (res, m')"
  shows "\<exists>gs' l'. ledger_rel K C m' rs gs' l' \<and> (l' = l \<or> collectable n l \<and> l' = collect l)"
    and "log_state m m'" and "log_kept (led_end l) m m'"
proof -
  let ?start = "if gs = [] then 0 else gr_start_block (last gs)"
  have unfold: "gc_mutation K C L clk n m =
    (if rs \<noteq> [] \<and> unat n \<le> length rs - (length gs - 1) \<and> length gs < length rs
     then gc_rolled_up K C L clk (rs ! length gs) m else (Inr (), m))"
    using last_records(1) [OF ready rel] enough_rounds [OF ready rel, of n] next_to_collect [OF ready rel]
    by (cases "gs = []") (auto simp: gc_mutation_def action_simps Let_def)
  have led: "led_collected l = length gs" "length (led_rounds l) = length rs" using rel by (auto simp: ledger_rel_def)
  show "\<exists>gs' l'. ledger_rel K C m' rs gs' l' \<and> (l' = l \<or> collectable n l \<and> l' = collect l)"
    using run rel gc_rolled_up_ledger(1) [OF ready wf rel, of clk res m']
    by (fastforce simp: unfold collectable_def led split: if_splits)
  show "log_state m m'"
    using run ready wf gc_rolled_up_ledger(2) [OF ready wf rel, of clk res m']
    by (auto simp: unfold log_state_def split: if_splits)
  show "log_kept (led_end l) m m'"
    using run gc_rolled_up_ledger(3) [OF ready wf rel, of clk res m'] log_kept_refl
    by (auto simp: unfold split: if_splits)
qed

section \<open>A run of the executor\<close>

lemma andThen_cases:
  assumes "andThen act f s = (r, u)"
  obtains (raised) err where "act s = (Inl err, u)" "r = Inl err"
    | (returned) x t where "act s = (Inr x, t)" "f x t = (r, u)"
  using assms by (auto simp: andThen_def split: prod.splits sum.splits)

lemma on_storage_run: "on_storage act e = (res, e') \<Longrightarrow> act (re_storage e) = (res, re_storage e') \<and> e' = e\<lparr>re_storage := re_storage e'\<rparr>"
  by (auto simp: on_field_apply)

lemma on_world_run: "on_world act e = (res, e') \<Longrightarrow> re_storage e' = re_storage e \<and> re_exec e' = re_exec e"
  by (auto simp: on_field_apply)

lemma rollup_batch_cases:
  assumes "rollup_batch K C L W clk toolbox meta network tx lo hi rb e = (res, e')"
  obtains (same) "re_storage e' = re_storage e" "res \<noteq> Inr ()"
    | (add) r res' reward rows len w1 c where "rr_start_block r = lo" "rr_end_block r = hi"
        "add_rollup_record K C r (re_storage e) = (res', re_storage e')" "res = Inr () \<Longrightarrow> res' = Inr ()"
        "compress_and_upload_record_batch W toolbox tx lo hi rb network (re_world e) =
           (Inr (rr_arweave_tx r, reward, rows, len), w1)"
        "update_rollup_step W meta (rr_arweave_tx r) network w1 = (Inr c, re_world e')"
  using assms unfolding rollup_batch_def
proof (cases rule: andThen_cases)
  case (raised err)
  then show ?thesis using same on_world_run by fastforce
next
  case (returned x e1)
  obtain i reward rows size where x: "x = (i, reward, rows, size)" by (cases x)
  have st: "re_storage e1 = re_storage e" using on_world_run returned(1) by blast
  have up: "compress_and_upload_record_batch W toolbox tx lo hi rb network (re_world e) = (Inr (i, reward, rows, size), re_world e1)"
    using returned(1) x by (auto simp: on_field_apply intro: prod_eqI)
  from returned(2) [unfolded x prod.case] show ?thesis
  proof (cases rule: andThen_cases)
    case (raised err)
    then show ?thesis using same on_world_run st by fastforce
  next
    case (returned y e2)
    have st2: "re_storage e2 = re_storage e" using on_world_run returned(1) st by metis
    have step: "update_rollup_step W meta i network (re_world e1) = (Inr y, re_world e2)"
      using returned(1) by (auto simp: on_field_apply intro: prod_eqI)
    obtain cost hash where y: "y = (cost, hash)" by (cases y)
    show ?thesis
    proof (cases "u256_as_u64 cost")
      case (Inl err)
      with returned(2) y st2 same show ?thesis by (auto simp: action_simps)
    next
      case (Inr c)
      let ?r = "\<lparr>rr_end_block = hi, rr_raw_data_size = of_nat (array_memory_size W rb), rr_compress_data_size = size,
        rr_processed_time = clk_elapsed clk, rr_arweave_tx = i, rr_time = clk_now clk, rr_mutation_count = rows,
        rr_cost = reward, rr_start_block = lo, rr_evm_tx = ''0x'' @ hex_encode L hash, rr_evm_cost = c\<rparr>"
      from returned(2) y Inr st2 show ?thesis
        by (intro add [of ?r "fst (add_rollup_record K C ?r (re_storage e))"])
          (use up step in \<open>auto simp: action_simps intro: prod_eqI\<close>)
    qed
  qed
qed

lemma rollup_batch_ledger:
  assumes ready: "ms_ready K (re_storage e)" and wf: "log_wf K C L (re_storage e)"
    and rel: "ledger_rel K C (re_storage e) rs gs l" and lt: "led_end l < now"
    and run: "rollup_batch K C L W clk toolbox meta network tx (led_end l) now rb e = (res, e')"
  shows "re_storage e' = re_storage e \<and> res \<noteq> Inr () \<or>
      (\<exists>r. ledger_rel K C (re_storage e') (rs @ [r]) gs (add_round now l))"
    and "log_state (re_storage e) (re_storage e')" and "log_kept b (re_storage e) (re_storage e')"
proof -
  let ?m = "re_storage e"
  show "re_storage e' = re_storage e \<and> res \<noteq> Inr () \<or>
      (\<exists>r. ledger_rel K C (re_storage e') (rs @ [r]) gs (add_round now l))"
    by (cases rule: rollup_batch_cases [OF run]) (use add_rollup_ledger(1) [OF ready rel] lt in blast)+
  have "same_view (- {rollup_store_cf_name (ms_config ?m)}) ?m (re_storage e')"
    by (cases rule: rollup_batch_cases [OF run])
      (use add_rollup_ledger(2) [OF ready rel] lt same_view_start [OF ready] in auto)
  from view_log [OF this ready wf] ms_ready_distinct [OF ready]
  show "log_state (re_storage e) (re_storage e')" "log_kept b (re_storage e) (re_storage e')" by auto
qed

lemma process_cases:
  assumes ready: "ms_ready K (re_storage e)" and wf: "log_wf K C L (re_storage e)"
    and rel: "ledger_rel K C (re_storage e) rs gs l"
    and flush: "flush_state K C (clk_flush clk) (re_storage e) = (fr, m1)"
    and run: "process K C L W clk e = (res, e')"
  obtains (same) "re_storage e' = re_storage e \<or> re_storage e' = m1" "re_world e' = re_world e"
    | (batch) meta toolbox mutations rb e1 where "fr = Inr ()" "led_end l < bs_block (ms_block_state (re_storage e))"
        "re_storage e1 = m1" "re_world e1 = re_world e"
        "get_range_mutations K C L (led_end l) (bs_block (ms_block_state (re_storage e))) m1 = Inr mutations"
        "mutations \<noteq> []" "convert_mutations_to_recordbatch W mutations = Inr rb"
        "andThen (rollup_batch K C L W clk toolbox meta (rx_network_id (re_exec e))
             (if rs = [] then [] else rr_arweave_tx (last rs)) (led_end l) (bs_block (ms_block_state (re_storage e))) rb)
           (\<lambda>_. on_storage (gc_mutation K C L clk (rx_min_gc_round_offset (re_exec e)))) e1 = (res, e')"
proof (cases "\<exists>meta toolbox. rx_meta_store (re_exec e) = Some meta \<and> rx_ar_toolbox (re_exec e) = Some toolbox")
  case False
  with run show ?thesis by (auto intro!: same simp: process_def action_simps split: option.splits)
next
  case True
  then obtain meta toolbox where conf: "rx_meta_store (re_exec e) = Some meta" "rx_ar_toolbox (re_exec e) = Some toolbox"
    by blast
  let ?now = "bs_block (ms_block_state (re_storage e))"
  show ?thesis
  proof (cases fr)
    case (Inl err)
    with run conf flush show ?thesis by (auto intro!: same simp: process_def action_simps)
  next
    case (Inr u)
    note fl = flush_log [OF ready wf flush]
    have m1: "ms_ready K m1" "ms_block_state m1 = ms_block_state (re_storage e)" "ledger_rel K C m1 rs gs l"
      using fl(1) ledger_rel_cong [OF rel fl(3,4)] by (auto simp: log_state_def)
    note facts = conf flush Inr last_rollup_eq [OF m1(1,3)] m1(2)
    show ?thesis
    proof (cases "?now \<le> led_end l")
      case True
      with run facts show ?thesis by (auto intro!: same simp: process_def action_simps get_current_block_def)
    next
      case False
      note nle = False
      then have lt: "led_end l < ?now" by simp
      show ?thesis
      proof (cases "get_range_mutations K C L (led_end l) ?now m1")
        case (Inl err)
        with nle run facts show ?thesis by (auto intro!: same simp: process_def action_simps get_current_block_def)
      next
        case (Inr mutations)
        show ?thesis
        proof (cases "convert_mutations_to_recordbatch W mutations")
          case (Inl err)
          with \<open>get_range_mutations _ _ _ _ _ _ = _\<close> nle run facts show ?thesis
            by (cases "mutations = []") (auto intro!: same simp: process_def action_simps get_current_block_def)
        next
          case (Inr rb)
          let ?small = "array_memory_size W rb < unat (rx_min_rollup_size (re_exec e))"
          show ?thesis
          proof (cases "mutations = [] \<or> ?small")
            case True
            with Inr \<open>get_range_mutations _ _ _ _ _ _ = _\<close> nle run facts show ?thesis
              by (cases "mutations = []") (auto intro!: same simp: process_def action_simps get_current_block_def)
          next
            case False
            with Inr \<open>get_range_mutations _ _ _ _ _ _ = _\<close> nle run facts show ?thesis
              by (intro batch [of "e\<lparr>re_storage := m1, re_exec := (re_exec e)\<lparr>pending_start_block := ?now,
                      pending_end_block := ?now, pending_data_size := 0, pending_mutations := 0\<rparr>\<rparr>" mutations rb toolbox meta])
                (auto simp: lt process_def andThen_simps gets_def reads_def modify_def on_field_apply get_current_block_def)
          qed
        qed
      qed
    qed
  qed
qed

lemma process_ledger:
  assumes ready: "ms_ready K (re_storage e)" and wf: "log_wf K C L (re_storage e)"
    and rel: "ledger_rel K C (re_storage e) rs gs l" and run: "process K C L W clk e = (res, e')"
  shows "\<exists>l'. ledger_of K C (re_storage e') l' \<and>
      ledger_step (bs_block (ms_block_state (re_storage e))) (rx_min_gc_round_offset (re_exec e)) l l' \<and>
      log_kept (led_end l') (re_storage e) (re_storage e')"
    and "log_state (re_storage e) (re_storage e')"
proof -
  let ?m = "re_storage e" and ?now = "bs_block (ms_block_state (re_storage e))"
    and ?n = "rx_min_gc_round_offset (re_exec e)"
  obtain fr m1 where flush: "flush_state K C (clk_flush clk) ?m = (fr, m1)" by (cases "flush_state K C (clk_flush clk) ?m")
  note fl = flush_log [OF ready wf flush]
  have rel1: "ledger_rel K C m1 rs gs l" by (rule ledger_rel_cong [OF rel fl(3,4)])
  have idle: "ledger_of K C m l" if "m = ?m \<or> m = m1" for m
    using that rel rel1 by (auto simp: ledger_of_def)
  have r1: "ms_ready K m1" "log_wf K C L m1" using fl(1) by (auto simp: log_state_def)
  have goal: "(\<exists>l'. ledger_of K C (re_storage e') l' \<and> ledger_step ?now ?n l l' \<and>
      log_kept (led_end l') ?m (re_storage e')) \<and> log_state ?m (re_storage e')"
    using ready wf rel flush run
  proof (cases rule: process_cases)
    case same
    then have "log_kept (led_end l) ?m (re_storage e')" "log_state ?m (re_storage e')"
      using fl(1,2) log_kept_refl ready wf by (auto simp: log_state_def)
    with idle [OF same(1)] show ?thesis using ledger_step.idle by blast
  next
    case (batch meta toolbox mutations rb e1)
    note st = batch(3)
    from batch(8) show ?thesis
    proof (cases rule: andThen_cases)
      case (raised err)
      have lt: "led_end l < ?now" by (rule batch(2))
      note b = rollup_batch_ledger [OF _ _ _ lt raised(1), unfolded st, OF r1 rel1]
      have log: "log_state ?m (re_storage e')" "log_kept x ?m (re_storage e')" for x
        using log_state_trans [OF fl(1) b(2)] log_kept_trans [OF fl(2) b(3)] by auto
      from b(1) show ?thesis
      proof
        assume "re_storage e' = m1 \<and> Inl err \<noteq> Inr ()"
        then show ?thesis using idle log ledger_step.idle by blast
      next
        assume "\<exists>r. ledger_rel K C (re_storage e') (rs @ [r]) gs (add_round ?now l)"
        then show ?thesis using log ledger_step.roll [OF lt] by (auto simp: ledger_of_def)
      qed
    next
      case (returned u e2)
      have lt: "led_end l < ?now" by (rule batch(2))
      note b = rollup_batch_ledger [OF _ _ _ lt returned(1), unfolded st, OF r1 rel1]
      from b(1) obtain r where rel2: "ledger_rel K C (re_storage e2) (rs @ [r]) gs (add_round ?now l)" by auto
      have gc: "gc_mutation K C L clk ?n (re_storage e2) = (res, re_storage e')"
        using on_storage_run [OF returned(2)] by blast
      have r2: "ms_ready K (re_storage e2)" "log_wf K C L (re_storage e2)" using b(2) by (auto simp: log_state_def)
      note g = gc_mutation_ledger [OF r2 rel2 gc]
      have log: "log_state ?m (re_storage e')"
        by (rule log_state_trans [OF fl(1) log_state_trans [OF b(2) g(2)]])
      have kept: "log_kept (led_end (add_round ?now l)) ?m (re_storage e')"
        by (rule log_kept_trans [OF fl(2) log_kept_trans [OF b(3) g(3)]])
      from g(1) obtain l' where l': "ledger_of K C (re_storage e') l'"
        "l' = add_round ?now l \<or> collectable ?n (add_round ?now l) \<and> l' = collect (add_round ?now l)"
        by (auto simp: ledger_of_def)
      moreover have "led_end l' = led_end (add_round ?now l)" using l'(2) by (auto simp: led_end_def collect_def)
      moreover have "ledger_step ?now ?n l l'" using l'(2) lt by (auto intro: ledger_step.intros)
      ultimately show ?thesis using kept log by auto
    qed
  qed
  then show "\<exists>l'. ledger_of K C (re_storage e') l' \<and> ledger_step ?now ?n l l' \<and>
      log_kept (led_end l') ?m (re_storage e')" and "log_state ?m (re_storage e')" by blast+
qed

end

end
