(* ===== verification/Recover_Chain.thy ===== *)
theory Recover_Chain
  imports Recover Archive Rollup_Ledger
begin

text \<open>
  What the rollup leaves on Arweave, and how recovery finds it again: the transactions of the rollup
  records form a chain of \<open>Last-Rollup-Tx\<close> tags, each holds the mutations of its block range, a
  rollup extends the chain, and the walk of \<open>fetch_loop\<close> returns the records from the newest back.
\<close>

section \<open>Archived records\<close>

text \<open>The file \<open>buf\<close> reads as the rows \<open>xs\<close>.\<close>

definition batches_hold :: "record_batch list \<Rightarrow> (mutation_body \<times> u64 \<times> u32 \<times> string) list \<Rightarrow> bool" where
  "batches_hold bs xs \<longleftrightarrow> (\<forall>v. \<exists>xss.
     list_all2 (\<lambda>b xs. convert_recordbatch_to_mutation b (Some v) = Inr xs) bs xss \<and> concat xss = xs)"

definition file_holds :: "('w, 'h) outside \<Rightarrow> bytes \<Rightarrow> (mutation_body \<times> u64 \<times> u32 \<times> string) list \<Rightarrow> bool" where
  "file_holds W buf xs \<longleftrightarrow> (\<exists>bs. parquet_open W buf = Inr (map Inr bs) \<and> batches_hold bs xs)"

text \<open>The transaction of a record: its range, its predecessor and its rows.\<close>

definition tx_holds ::
  "('w, 'h) outside \<Rightarrow> (bytes \<rightharpoonup> bytes \<times> ar_tag list) \<Rightarrow> string \<Rightarrow> u64 \<Rightarrow> u64 \<Rightarrow> string option \<Rightarrow>
   (mutation_body \<times> u64 \<times> u32 \<times> string) list \<Rightarrow> bool" where
  "tx_holds W ch tx s e prev xs \<longleftrightarrow> (\<exists>b buf tags.
     ar_id_from_str W tx = Inr b \<and> ch b = Some (buf, tags) \<and>
     read_tags W tags (None, None, None, None) = Inr (Some s, Some e, prev, Some AR_SCHEMA_VERSION_1) \<and>
     file_holds W buf xs)"

definition prev_tx :: "rollup_record list \<Rightarrow> nat \<Rightarrow> string option" where
  "prev_tx rs k = (if k = 0 then None else Some (rr_arweave_tx (rs ! (k - 1))))"

definition archived ::
  "('w, 'h) outside \<Rightarrow> (bytes \<rightharpoonup> bytes \<times> ar_tag list) \<Rightarrow> rollup_record list \<Rightarrow>
   (mutation_body \<times> u64 \<times> u32 \<times> string) list list \<Rightarrow> bool" where
  "archived W ch rs xss \<longleftrightarrow> length xss = length rs \<and> (\<forall>k < length rs. rr_arweave_tx (rs ! k) \<noteq> [] \<and>
     tx_holds W ch (rr_arweave_tx (rs ! k)) (rr_start_block (rs ! k)) (rr_end_block (rs ! k)) (prev_tx rs k) (xss ! k))"

lemma archived_at:
  "archived W ch rs xss \<Longrightarrow> k < length rs \<Longrightarrow>
     tx_holds W ch (rr_arweave_tx (rs ! k)) (rr_start_block (rs ! k)) (rr_end_block (rs ! k)) (prev_tx rs k) (xss ! k)"
  by (simp add: archived_def)

lemma tx_holds_mono: "tx_holds W ch tx s e prev xs \<Longrightarrow> ch \<subseteq>\<^sub>m ch' \<Longrightarrow> tx_holds W ch' tx s e prev xs"
  unfolding tx_holds_def by (metis domI map_le_def)

lemma archived_mono: "archived W ch rs xss \<Longrightarrow> ch \<subseteq>\<^sub>m ch' \<Longrightarrow> archived W ch' rs xss"
  unfolding archived_def using tx_holds_mono by blast

lemma archived_snoc:
  assumes "archived W ch rs xss" "ch \<subseteq>\<^sub>m ch'" "rr_arweave_tx r \<noteq> []"
    "tx_holds W ch' (rr_arweave_tx r) (rr_start_block r) (rr_end_block r)
       (if rs = [] then None else Some (rr_arweave_tx (last rs))) xs"
  shows "archived W ch' (rs @ [r]) (xss @ [xs])"
proof -
  have prev: "prev_tx (rs @ [r]) k = prev_tx rs k" if "k < length rs" for k
    using that by (auto simp: prev_tx_def nth_append)
  have "prev_tx (rs @ [r]) (length rs) = (if rs = [] then None else Some (rr_arweave_tx (last rs)))"
    by (simp add: prev_tx_def nth_append last_conv_nth)
  with archived_mono [OF assms(1,2)] assms(3,4) prev show ?thesis
    by (auto simp: archived_def nth_append less_Suc_eq)
qed

section \<open>Fetching\<close>

definition fetched :: "rollup_record \<Rightarrow> string \<times> u64 \<times> string option" where
  "fetched r = (rr_arweave_tx r, rr_end_block r, Some AR_SCHEMA_VERSION_1)"

definition newest_first :: "u64 \<Rightarrow> rollup_record list \<Rightarrow> (string \<times> u64 \<times> string option) list" where
  "newest_first block rs = map fetched (takeWhile (\<lambda>r. block \<le> rr_end_block r) (rev rs))"

context archive
begin

lemma get_tags_frame:
  assumes "get_tx_tags W tb tx w = (r, w')"
  shows "chain w \<subseteq>\<^sub>m chain w'"
  using assms chain_grows(12)
  by (auto simp: get_tx_tags_def get_tags_def action_simps lift_lib_def call_def split: sum.splits option.splits prod.splits)

lemma get_tx_tags_holds:
  assumes "tx_holds W (chain w) tx s e prev xs" "get_tx_tags W tb tx w = (Inr x, w')"
  shows "x = (s, e, prev, Some AR_SCHEMA_VERSION_1)"
proof -
  from assms(1) obtain b buf tags where b: "ar_id_from_str W tx = Inr b" "chain w b = Some (buf, tags)"
    "read_tags W tags (None, None, None, None) = Inr (Some s, Some e, prev, Some AR_SCHEMA_VERSION_1)"
    by (auto simp: tx_holds_def)
  from assms(2) obtain tags' w1 where t: "ar_get_tx_tags W (afs_arweave (atb_filesystem tb)) b w = (Inr (Some tags'), w1)"
    by (auto simp: get_tx_tags_def get_tags_def andThen_eq_Inr_iff call_Inr_iff lift_lib_def reads_def b(1) fail_def ok_def
        split: option.splits)
  from tags_chain [OF this] b(2) have "tags' = tags" by auto
  with assms(2) t b(1,3) show ?thesis
    by (auto simp: get_tx_tags_def get_tags_def andThen_eq_Inr_iff call_Inr_iff lift_lib_def reads_def ok_def)
qed

text \<open>The walk returns, with the records down to the block or with the error of a call.\<close>

lemma fetch_loop_chain:
  assumes "archived W (chain w) rs xss" "k < length rs"
  shows "\<exists>r w'. fetch_loop W tb block (rr_arweave_tx (rs ! k)) txs w = Some (r, w') \<and> chain w \<subseteq>\<^sub>m chain w' \<and>
    (r = Inr (txs @ newest_first block (take (Suc k) rs)) \<or> (\<exists>e. r = Inl e))"
  using assms
proof (induction k arbitrary: txs w)
  case 0
  obtain r w1 where g: "get_tx_tags W tb (rr_arweave_tx (rs ! 0)) w = (r, w1)"
    by (cases "get_tx_tags W tb (rr_arweave_tx (rs ! 0)) w")
  note frame = get_tags_frame [OF g]
  have first: "take (Suc 0) rs = [rs ! 0]" using 0 by (simp add: take_Suc_conv_app_nth)
  show ?case
  proof (cases r)
    case (Inr x)
    have "x = (rr_start_block (rs ! 0), rr_end_block (rs ! 0), None, Some AR_SCHEMA_VERSION_1)"
      using archived_at [OF 0] get_tx_tags_holds [OF _ g [unfolded Inr]] by (simp add: prev_tx_def)
    then show ?thesis using g Inr frame
      by (subst fetch_loop.simps) (auto simp: first newest_first_def fetched_def not_less)
  qed (use g frame in \<open>subst fetch_loop.simps, auto\<close>)
next
  case (Suc k)
  obtain r w1 where g: "get_tx_tags W tb (rr_arweave_tx (rs ! Suc k)) w = (r, w1)"
    by (cases "get_tx_tags W tb (rr_arweave_tx (rs ! Suc k)) w")
  note frame = get_tags_frame [OF g]
  let ?r = "rs ! Suc k"
  have take: "newest_first block (take (Suc (Suc k)) rs) =
      (if block \<le> rr_end_block ?r then fetched ?r # newest_first block (take (Suc k) rs) else [])"
    using Suc.prems(2) by (simp add: take_Suc_conv_app_nth [of "Suc k"] newest_first_def)
  show ?case
  proof (cases r)
    case (Inr x)
    have x: "x = (rr_start_block ?r, rr_end_block ?r, Some (rr_arweave_tx (rs ! k)), Some AR_SCHEMA_VERSION_1)"
      using archived_at [OF Suc.prems] get_tx_tags_holds [OF _ g [unfolded Inr]] by (simp add: prev_tx_def)
    show ?thesis
    proof (cases "rr_end_block ?r < block")
      case True
      with g Inr x frame show ?thesis by (subst fetch_loop.simps) (auto simp: take)
    next
      case False
      obtain r2 w2 where ih: "fetch_loop W tb block (rr_arweave_tx (rs ! k)) (txs @ [fetched ?r]) w1 = Some (r2, w2)"
        "chain w1 \<subseteq>\<^sub>m chain w2"
        "r2 = Inr ((txs @ [fetched ?r]) @ newest_first block (take (Suc k) rs)) \<or> (\<exists>e. r2 = Inl e)"
        using Suc.IH [OF archived_mono [OF Suc.prems(1) frame], of "txs @ [fetched ?r]"] Suc.prems(2) by auto
      have "fetch_loop W tb block (rr_arweave_tx ?r) txs w = Some (r2, w2)"
        using g Inr x False ih(1) by (subst fetch_loop.simps) (simp add: fetched_def)
      with ih(3) False map_le_trans [OF frame ih(2)] show ?thesis by (auto simp: take)
    qed
  qed (use g frame in \<open>subst fetch_loop.simps, auto\<close>)
qed

section \<open>Downloading\<close>

lemma collect_batches_Inr: "collect_batches (map Inr bs) = Inr bs"
  by (induction bs) simp_all

lemma download_file_disk:
  assumes "download_file W fs p tx w = (Inr (), w')" "ar_id_from_str W tx = Inr b" "chain w b = Some (buf, tags)"
  shows "disk w' p = Some buf"
proof -
  from assms(1,2) obtain d w1 w2 w3 where r: "ar_get_tx_data W (afs_arweave fs) b w = (Inr (Some d), w1)"
    "file_create W p w1 = (Inr (), w2)" "file_write_all W p d w2 = (Inr (), w3)" "file_sync_all W p w3 = (Inr (), w')"
    by (auto simp: download_file_def andThen_eq_Inr_iff call_Inr_iff lift_lib_def reads_def fail_def split: option.splits)
  from download_chain [OF r(1)] assms(3) have "d = buf" by auto
  then show ?thesis using create_disk [OF r(2)] write_disk [OF r(3), of "[]"] sync_disk [OF r(4)] by simp
qed

text \<open>A transaction that holds rows is downloaded as batches that hold them.\<close>

lemma download_holds:
  assumes "tx_holds W (chain w) tx s e prev xs" "download_and_parse_record_batch W tb tx w = (Inr bs, w')"
  shows "batches_hold bs xs"
proof -
  from assms(1) obtain b buf tags bs' where b: "ar_id_from_str W tx = Inr b" "chain w b = Some (buf, tags)"
    "parquet_open W buf = Inr (map Inr bs')" "batches_hold bs' xs"
    by (auto simp: tx_holds_def file_holds_def)
  obtain dir w1 w2 where t: "temp_dir_in W (atb_temp_data_path tb) ''download'' w = (Inr dir, w1)"
    and act: "andThen (download_file W (atb_filesystem tb) (path_push dir (tx @ ''.gz.parquet'')) tx) (\<lambda>_.
       parse_gzip_file W (path_push dir (tx @ ''.gz.parquet''))) w1 = (Inr bs, w2)"
    using assms(2) unfolding download_and_parse_record_batch_def Let_def by (rule with_temp_dir_Inr)
  let ?p = "path_push dir (tx @ ''.gz.parquet'')"
  from act obtain w3 where r: "download_file W (atb_filesystem tb) ?p tx w1 = (Inr (), w3)"
    "parse_gzip_file W ?p w3 = (Inr bs, w2)" by (auto simp: andThen_eq_Inr_iff)
  have "chain w1 b = Some (buf, tags)"
    using chain_grows(6) [of w "atb_temp_data_path tb" "''download''"] t b(2) by (simp add: map_le_def) (metis domI)
  from download_file_disk [OF r(1) b(1) this] have d: "disk w3 ?p = Some buf" .
  from r(2) obtain d w4 where "file_read W ?p w3 = (Inr d, w4)"
    by (auto simp: parse_gzip_file_def andThen_eq_Inr_iff call_Inr_iff)
  with r(2) d read_disk have "bs = bs'"
    by (auto simp: parse_gzip_file_def andThen_eq_Inr_iff call_Inr_iff lift_lib_def reads_def b(3) collect_batches_Inr)
  with b(4) show ?thesis by simp
qed

section \<open>Growth of the chain\<close>

definition grown :: "'w \<Rightarrow> 'w \<Rightarrow> bool" where
  "grown w0 w \<longleftrightarrow> chain w0 \<subseteq>\<^sub>m chain w"

lemma keeps_call: "(\<And>w. chain w \<subseteq>\<^sub>m chain (snd (op w))) \<Longrightarrow> keeps (grown w0) (call f op)"
  by (auto simp: keeps_def call_def grown_def intro: map_le_trans)

lemma keeps_lift_lib: "keeps I (lift_lib f r)"
  by (simp add: lift_lib_def keeps_pure)

lemma keeps_with_temp_dir: "(\<And>dir. keeps (grown w0) (act dir)) \<Longrightarrow> keeps (grown w0) (with_temp_dir W base pre act)"
  unfolding with_temp_dir_def
proof (intro keeps_andThen keeps_call chain_grows keepsI)
  fix dir s
  assume act: "\<And>dir. keeps (grown w0) (act dir)" and s: "grown w0 s"
  from keepsD [OF act s, of dir] map_le_trans [OF _ chain_grows(7)]
  show "grown w0 (snd (let (r, w') = act dir s in (r, temp_dir_drop W dir w')))"
    by (cases "act dir s") (simp add: grown_def)
qed

lemmas grown_rules = keeps_andThen keeps_pure keeps_call keeps_lift_lib keeps_with_temp_dir chain_grows

lemma poll_fee_grown: "keeps (grown w0) (poll_fee W client hash n)"
  by (induction n) (auto intro!: grown_rules split: option.split)

lemma upload_grown: "keeps (grown w0) (compress_and_upload_record_batch W tb tx lo hi rb network)"
  unfolding compress_and_upload_record_batch_def dump_recordbatch_def get_balance_def upload_file_def Let_def
  by (auto intro!: grown_rules split: prod.split)

lemma announce_grown: "keeps (grown w0) (update_rollup_step W meta tx network)"
  unfolding update_rollup_step_def send_call_def
  by (auto intro!: grown_rules poll_fee_grown)

lemma update_rollup_step_latest:
  assumes "update_rollup_step W meta tx network w = (Inr c, w')" "ar_id_from_str W tx = Inr b"
  shows "latest w' (ucast network) = b"
proof -
  have poll: "latest w2 = latest w1" if "poll_fee W client hash n w1 = (r, w2)" for client hash n w1 r w2
    using that
  proof (induction n arbitrary: w1)
    case (Suc n)
    then show ?case
      using latest_kept(1) [of client hash w1]
      by (auto simp: andThen_def call_def ok_def split: prod.splits sum.splits option.splits)
  qed (simp add: ok_def)
  from assms obtain hash w1 fee where
    "evm_send W (msc_client meta) (msc_address meta) (msc_use_legacy_tx meta) (UpdateRollupSteps (ucast network) b) w = (Inr hash, w1)"
    "poll_fee W (msc_client meta) hash 5 w1 = (Inr fee, w')"
    by (auto simp: update_rollup_step_def andThen_eq_Inr_iff send_call_def call_Inr_iff lift_lib_def reads_def
        fail_def ok_def split: if_splits)
  with announce poll show ?thesis by fastforce
qed

end

section \<open>A rollup extends the chain\<close>

locale rollup_node = platform K C L + archive W disk chain latest
  for K :: "'s engine" and C :: codecs and L :: libs and W :: "('w, 'h) outside"
    and disk :: "'w \<Rightarrow> string \<rightharpoonup> bytes" and chain :: "'w \<Rightarrow> bytes \<rightharpoonup> bytes \<times> ar_tag list" and latest :: "'w \<Rightarrow> u256 \<Rightarrow> bytes"
begin

lemma new_record_archived:
  assumes arch: "archived W (chain w) rs xss" and conv: "convert_mutations_to_recordbatch W ms = Inr rb"
    and up: "compress_and_upload_record_batch W tb (if rs = [] then [] else rr_arweave_tx (last rs))
      (rr_start_block r) (rr_end_block r) rb network w = (Inr (rr_arweave_tx r, reward, rows, len), w1)"
    and step: "update_rollup_step W meta (rr_arweave_tx r) network w1 = (Inr c, w2)"
  shows "archived W (chain w2) (rs @ [r]) (xss @ [map exported ms])"
    and "ar_id_display W (latest w2 (ucast network)) = rr_arweave_tx r"
proof -
  let ?prev = "if rs = [] then [] else rr_arweave_tx (last rs)"
  obtain b buf tags filename where u: "parquet_write W rb = Inr buf"
    "upload_tags W ?prev (rr_start_block r) (rr_end_block r) network filename = Inr tags"
    "ar_id_from_str W (rr_arweave_tx r) = Inr b" "ar_id_display W b = rr_arweave_tx r" "rr_arweave_tx r \<noteq> []"
    "chain w1 b = Some (buf, tags)" "chain w \<subseteq>\<^sub>m chain w1"
    by (rule upload_archived [OF up]) blast
  have grow: "chain w1 \<subseteq>\<^sub>m chain w2"
    using keepsD [OF announce_grown [of w1], of w1] step by (simp add: grown_def) (metis snd_conv)
  have holds: "file_holds W buf (map exported ms)"
    unfolding file_holds_def batches_hold_def using recordbatch_roundtrip [OF conv u(1)] by blast
  have prev: "(if ?prev = [] then None else Some ?prev) = (if rs = [] then None else Some (rr_arweave_tx (last rs)))"
    using arch by (auto simp: archived_def last_conv_nth)
  have "tx_holds W (chain w1) (rr_arweave_tx r) (rr_start_block r) (rr_end_block r)
      (if rs = [] then None else Some (rr_arweave_tx (last rs))) (map exported ms)"
    unfolding tx_holds_def using u(3,6) holds upload_tags_read [OF u(2), unfolded prev] by blast
  from tx_holds_mono [OF this grow] map_le_trans [OF u(7) grow]
  show "archived W (chain w2) (rs @ [r]) (xss @ [map exported ms])"
    by (intro archived_snoc [OF arch _ u(5)])
  show "ar_id_display W (latest w2 (ucast network)) = rr_arweave_tx r"
    using update_rollup_step_latest [OF step u(3)] u(4) by simp
qed

lemma keeps_on_world: "keeps I act \<Longrightarrow> keeps (\<lambda>e. I (re_world e)) (on_world act)"
  by (simp add: keeps_def on_field_apply)

lemma keeps_on_storage: "keeps (\<lambda>e. I (re_world e)) (on_storage act)"
  by (simp add: keeps_def on_field_apply)

lemma rollup_batch_grown:
  assumes "rollup_batch K C L W clk tb meta network tx lo hi rb e = (res, e')"
  shows "chain (re_world e) \<subseteq>\<^sub>m chain (re_world e')"
proof -
  have "keeps (\<lambda>x. grown (re_world e) (re_world x)) (rollup_batch K C L W clk tb meta network tx lo hi rb)"
    unfolding rollup_batch_def
    by (auto intro!: keeps_andThen keeps_on_world upload_grown announce_grown keeps_pure keeps_map_err_of keeps_on_storage
        split: prod.split)
  from keepsD [OF this, of e] assms show ?thesis by (simp add: grown_def)
qed

text \<open>What a run leaves: the records it found, or these and one more whose transaction holds the mutations that
  were logged in its range, and which the contract names.\<close>

definition filed_round ::
  "'s mutation_store \<Rightarrow> u64 \<Rightarrow> u64 \<Rightarrow> rollup_record \<Rightarrow> (mutation_body \<times> u64 \<times> u32 \<times> string) list \<Rightarrow> bool" where
  "filed_round m lo hi r xs \<longleftrightarrow> rr_start_block r = lo \<and> rr_end_block r = hi \<and>
     (\<exists>ms. xs = map exported ms \<and> sorted_wrt (\<lambda>x y. position (fst x) < position (fst y)) ms \<and>
       (\<forall>h b. (h, b) \<in> set ms \<longleftrightarrow> logged K C L m h b \<and> lo \<le> mh_block_id h \<and> mh_block_id h < hi))"

lemma range_round:
  assumes "ms_ready K m" "log_wf K C L m" "lo < hi" "get_range_mutations K C L lo hi m = Inr ms"
    "rr_start_block r = lo" "rr_end_block r = hi" "log_kept 0 m0 m"
  shows "filed_round m0 lo hi r (map exported ms)"
proof -
  obtain xs where xs: "get_range_mutations K C L lo hi m = Inr xs"
    "\<And>h b. (h, b) \<in> set xs \<longleftrightarrow> logged K C L m h b \<and> lo \<le> mh_block_id h \<and> mh_block_id h < hi"
    "sorted_wrt (\<lambda>x y. block_order_key (mh_block_id (fst x)) (mh_order_id (fst x)) <
       block_order_key (mh_block_id (fst y)) (mh_order_id (fst y))) xs"
    by (rule range_mutations_spec [OF assms(1-3)]) (rule that)
  have same: "logged K C L m h b \<longleftrightarrow> logged K C L m0 h b" for h b using assms(7) by (auto simp: log_kept_def)
  have "sorted_wrt (\<lambda>x y. position (fst x) < position (fst y)) xs"
    by (rule sorted_wrt_mono_rel [OF _ xs(3)]) (auto simp: block_order_key_less position_def less_prod_def')
  with xs(1,2) assms(4-6) show ?thesis by (auto simp: filed_round_def same)
qed

lemma process_archived:
  assumes ready: "ms_ready K (re_storage e)" and wf: "log_wf K C L (re_storage e)"
    and rel: "ledger_rel K C (re_storage e) rs gs l" and arch: "archived W (chain (re_world e)) rs xss"
    and run: "process K C L W clk e = (res, e')"
  shows "\<exists>rs' gs' l' xss'. ledger_rel K C (re_storage e') rs' gs' l' \<and> archived W (chain (re_world e')) rs' xss' \<and>
    (rs' = rs \<and> xss' = xss \<or>
     (\<exists>r xs. rs' = rs @ [r] \<and> xss' = xss @ [xs] \<and>
        filed_round (re_storage e) (led_end l) (bs_block (ms_block_state (re_storage e))) r xs \<and>
        ar_id_display W (latest (re_world e') (ucast (rx_network_id (re_exec e)))) = rr_arweave_tx r))"
proof -
  let ?m = "re_storage e" and ?now = "bs_block (ms_block_state (re_storage e))"
  obtain fr m1 where flush: "flush_state K C (clk_flush clk) ?m = (fr, m1)" by (cases "flush_state K C (clk_flush clk) ?m")
  note fl = flush_log [OF ready wf flush]
  have rel1: "ledger_rel K C m1 rs gs l" by (rule ledger_rel_cong [OF rel fl(3,4)])
  have r1: "ms_ready K m1" "log_wf K C L m1" using fl(1) by (auto simp: log_state_def)
  show ?thesis
    using ready wf rel flush run
  proof (cases rule: process_cases)
    case same
    then show ?thesis using rel rel1 arch by metis
  next
    case (batch meta toolbox ms rb e1)
    note st = batch(3,4) and lt = batch(2)
    have rest: "re_world e' = re_world e2 \<and> (\<exists>gs' l'. ledger_rel K C (re_storage e') rs' gs' l')"
      if "ledger_rel K C (re_storage e2) rs' gs l2" "log_state m1 (re_storage e2)"
        "rres = Inr () \<Longrightarrow> on_storage (gc_mutation K C L clk (rx_min_gc_round_offset (re_exec e))) e2 = (res, e')"
        "rres \<noteq> Inr () \<Longrightarrow> e' = e2" for rres :: "unit result" and e2 rs' l2
    proof (cases "rres = Inr ()")
      case True
      from on_storage_run [OF that(3) [OF True]] have "gc_mutation K C L clk (rx_min_gc_round_offset (re_exec e)) (re_storage e2) = (res, re_storage e')"
        and w: "re_world e' = re_world e2" by (auto, metis rollup_env.select_convs(3) rollup_env.update_convs(2) rollup_env.surjective)
      with gc_mutation_ledger(1) [OF _ _ that(1)] that(2) show ?thesis unfolding log_state_def by blast
    qed (use that in auto)
    obtain rres e2 where rb: "rollup_batch K C L W clk toolbox meta (rx_network_id (re_exec e))
        (if rs = [] then [] else rr_arweave_tx (last rs)) (led_end l) ?now rb e1 = (rres, e2)" by fastforce
    have tail: "rres = Inr () \<Longrightarrow> on_storage (gc_mutation K C L clk (rx_min_gc_round_offset (re_exec e))) e2 = (res, e')"
      "rres \<noteq> Inr () \<Longrightarrow> e' = e2"
      using batch(8) rb by (auto simp: andThen_def split: sum.splits)
    note log2 = rollup_batch_ledger(2) [OF _ _ _ lt rb, unfolded st, OF r1 rel1]
    have keep: ?thesis if "re_storage e2 = m1" "rres \<noteq> Inr ()"
      using that rel1 tail(2) archived_mono [OF arch rollup_batch_grown [OF rb, unfolded st]] by auto
    from rb show ?thesis
    proof (cases rule: rollup_batch_cases)
      case same
      with keep st show ?thesis by simp
    next
      case (add r res' reward rows len w1 c)
      from add_rollup_ledger(1) [OF r1(1) rel1 _ _ add(3) [unfolded st]] add(1,2) lt
      consider "re_storage e2 = m1" "rres \<noteq> Inr ()" | "ledger_rel K C (re_storage e2) (rs @ [r]) gs (add_round ?now l)"
        using add(4) by auto
      then show ?thesis
      proof cases
        case 1
        then show ?thesis by (rule keep)
      next
        case 2
        note new = new_record_archived [OF arch batch(7) add(5) [unfolded st, folded add(1,2)] add(6)]
        have "filed_round ?m (led_end l) ?now r (map exported ms)"
          by (rule range_round [OF r1 lt batch(5) add(1,2) fl(2)])
        with new rest [OF 2 log2 tail] show ?thesis by metis
      qed
    qed
  qed
qed

end

end
