(* ===== verification/Sample_World.thy ===== *)
theory Sample_World
  imports Recover_Chain Log_Theorems
begin

text \<open>
  An executable world: files and transactions in association lists, hex as the text form of ids. It shows
  that the laws of \<open>archive\<close> can hold and lets the theorems be run; nothing in the models depends on it.
\<close>

section \<open>Files of record batches\<close>

fun column_fields :: "column \<Rightarrow> bytes list" where
  "column_fields (BinaryColumn xs) = [0] # xs"
| "column_fields (Utf8Column xs) = [1] # map as_bytes xs"
| "column_fields (UInt64Column xs) = [2] # map be64 xs"
| "column_fields (UInt32Column xs) = [3] # map be32 xs"

definition column_of :: "bytes list \<Rightarrow> column option" where
  "column_of fs = (case fs of
     [] \<Rightarrow> None
   | t # xs \<Rightarrow>
       if t = [0] then Some (BinaryColumn xs)
       else if t = [1] then Some (Utf8Column (map from_bytes xs))
       else if t = [2] then Some (UInt64Column (map from_be64 xs))
       else Some (UInt32Column (map from_be32 xs)))"

definition named_column_fields :: "string \<times> column \<Rightarrow> bytes list" where
  "named_column_fields x = as_bytes (fst x) # column_fields (snd x)"

definition named_column_of :: "bytes list \<Rightarrow> (string \<times> column) option" where
  "named_column_of fs = (case fs of
     [] \<Rightarrow> None | n # rest \<Rightarrow> map_option (\<lambda>c. (from_bytes n, c)) (column_of rest))"

definition batch_fields :: "record_batch \<Rightarrow> bytes list" where
  "batch_fields rb = [replicate (rb_num_rows rb) 0, list_field named_column_fields (rb_columns rb)]"

definition batch_of :: "bytes list \<Rightarrow> record_batch option" where
  "batch_of fs = (case fs of
     [n, cs] \<Rightarrow> map_option (\<lambda>cols. \<lparr>rb_num_rows = length n, rb_columns = cols\<rparr>) (list_of_field named_column_of cs)
   | _ \<Rightarrow> None)"

lemma named_column_roundtrip: "named_column_of (named_column_fields x) = Some x"
  by (cases x; cases "snd x")
    (simp_all add: named_column_of_def named_column_fields_def column_of_def comp_def)

lemma batch_roundtrip: "batch_of (batch_fields rb) = Some rb"
  by (simp add: batch_of_def batch_fields_def named_column_roundtrip)

definition batch_codec :: "record_batch codec" where
  "batch_codec = frame_codec batch_fields batch_of"

section \<open>The world\<close>

record mem_world =
  mw_files :: "(string \<times> bytes) list"
  mw_txs :: "(bytes \<times> bytes \<times> ar_tag list) list"
  mw_latest :: "(u256 \<times> bytes) list"
  mw_dirs :: nat

definition mw_disk :: "mem_world \<Rightarrow> string \<rightharpoonup> bytes" where
  "mw_disk w = map_of (mw_files w)"

definition mw_chain :: "mem_world \<Rightarrow> bytes \<rightharpoonup> bytes \<times> ar_tag list" where
  "mw_chain w = map_of (mw_txs w)"

definition mw_named :: "mem_world \<Rightarrow> u256 \<Rightarrow> bytes" where
  "mw_named w n = (case map_of (mw_latest w) n of Some b \<Rightarrow> b | None \<Rightarrow> [])"

definition mw_upload ::
  "string \<Rightarrow> ar_tag list \<Rightarrow> mem_world \<Rightarrow> (string + string \<times> u64) \<times> mem_world" where
  "mw_upload p tags w =
     (let b = be_bytes 32 (length (mw_txs w))
      in case map_of (mw_files w) p of
           None \<Rightarrow> (Inl ''no such file'', w)
         | Some d \<Rightarrow>
             if map_of (mw_txs w) b = None
             then (Inr (hex_of b, 10), w\<lparr>mw_txs := (b, d, tags) # mw_txs w\<rparr>)
             else (Inl ''transaction exists'', w))"

fun mw_send :: "contract_call \<Rightarrow> mem_world \<Rightarrow> (string + bytes) \<times> mem_world" where
  "mw_send (UpdateRollupSteps n b) w = (Inr [7], w\<lparr>mw_latest := (n, b) # mw_latest w\<rparr>)"
| "mw_send _ w = (Inr [7], w)"

definition mw_try_new :: "(string \<times> column) list \<Rightarrow> string + record_batch" where
  "mw_try_new cols = (case cols of
     [] \<Rightarrow> Inl ''no columns''
   | c # cs \<Rightarrow>
       if list_all (\<lambda>d. column_length (snd d) = column_length (snd c)) cs
       then Inr \<lparr>rb_num_rows = column_length (snd c), rb_columns = cols\<rparr>
       else Inl ''columns differ in length'')"

definition mem_outside :: "(mem_world, bytes) outside" where
  "mem_outside = \<lparr>
     path_exists = (\<lambda>p w. map_of (mw_files w) p \<noteq> None),
     file_create = (\<lambda>p w. (Inr (), w\<lparr>mw_files := AList.update p [] (mw_files w)\<rparr>)),
     file_write_all = (\<lambda>p d w. case map_of (mw_files w) p of
        None \<Rightarrow> (Inl ''no such file'', w)
      | Some c \<Rightarrow> (Inr (), w\<lparr>mw_files := AList.update p (c @ d) (mw_files w)\<rparr>)),
     file_sync_all = (\<lambda>p w. (Inr (), w)),
     file_read = (\<lambda>p w. (case map_of (mw_files w) p of None \<Rightarrow> Inl ''no such file'' | Some d \<Rightarrow> Inr d, w)),
     file_len = (\<lambda>p w. (case map_of (mw_files w) p of None \<Rightarrow> Inl ''no such file'' | Some d \<Rightarrow> Inr (of_nat (length d)), w)),
     temp_dir_in = (\<lambda>base pre w. (Inr (base @ ''/'' @ pre @ show_nat (mw_dirs w)), w\<lparr>mw_dirs := Suc (mw_dirs w)\<rparr>)),
     temp_dir_drop = (\<lambda>d w. w),
     b64_encode = hex_of, b64_decode = unhex, url_parse = Inr,
     rsa_new = (\<lambda>w. (Inr [1], w)), rsa_to_der = Inr, rsa_from_der = Inr, ar_signer_address = (\<lambda>h. Inr (hex_of h)),
     wallet_new = (\<lambda>w. ([2], w)), wallet_to_bytes = (\<lambda>h. h), wallet_from_bytes = Inr,
     wallet_with_chain_id = (\<lambda>_ h. h), wallet_address = (\<lambda>h. h),
     ar_from_private_key = (\<lambda>h url. Inr h), ar_wallet_address = hex_of, ar_wallet_client = as_bytes,
     ar_balance = (\<lambda>h a w. (Inr ''100'', w)), ar_currency = (\<lambda>s. Inr 100),
     ar_id_from_str = unhex, ar_id_display = hex_of,
     ar_from_utf8_str = (\<lambda>s. Inr (as_bytes s)), ar_to_utf8_string = (\<lambda>b. Inr (from_bytes b)),
     ar_get_tx_data = (\<lambda>h b w. (Inr (map_option fst (map_of (mw_txs w) b)), w)),
     ar_get_tx_tags = (\<lambda>h b w. (Inr (map_option snd (map_of (mw_txs w) b)), w)),
     ar_get_tx_status = (\<lambda>h b w. (Inr (200, None), w)),
     ar_get_fee_by_size = (\<lambda>h n w. (Inr 10, w)),
     ar_upload_from_path = (\<lambda>h p tags fee w. mw_upload p tags w),
     batch_try_new = mw_try_new, array_memory_size = (\<lambda>rb. 64 * rb_num_rows rb),
     parquet_write = encode batch_codec, parquet_num_rows = (\<lambda>rb. of_nat (rb_num_rows rb)),
     parquet_open = (\<lambda>d. case decode batch_codec d of Inl e \<Rightarrow> Inl e | Inr rb \<Rightarrow> Inr [Inr rb]),
     evm_address_parse = unhex, evm_connect = (\<lambda>url h w. (Inr h, w)),
     evm_send = (\<lambda>h a legacy tx w. mw_send tx w),
     evm_get_transaction = (\<lambda>h b w. (Inr (Some (Some 1, 21000)), w)),
     evm_data_network = (\<lambda>h a n w. (Inr \<lparr>dn_latest_arweave_tx = mw_named w n, dn_admin = []\<rparr>, w))\<rparr>"

lemma same_kind_refl: "same_kind c c"
  by (cases c) auto

lemma split_of_self: "batch_ok rb \<Longrightarrow> split_of rb [rb]"
  by (simp add: split_of_def same_schema_def same_kind_refl list_all2_same)

lemma hex_of_nonempty: "b \<noteq> [] \<Longrightarrow> hex_of b \<noteq> []"
  by (cases b) auto

lemma mw_send_chain: "mw_chain (snd (mw_send tx w)) = mw_chain w"
  by (cases tx) (simp_all add: mw_chain_def)

lemma mw_upload_chain: "mw_chain w \<subseteq>\<^sub>m mw_chain (snd (mw_upload p tags w))"
  by (auto simp: mw_upload_def mw_chain_def Let_def map_le_def split: option.splits)

interpretation mem_archive: archive mem_outside mw_disk mw_chain mw_named
proof
  fix cols rb
  assume new: "batch_try_new mem_outside cols = Inr rb"
  show "rb_columns rb = cols \<and> batch_ok rb"
  proof (cases cols)
    case (Cons c cs)
    with new have "\<forall>d \<in> set cs. column_length (snd d) = column_length (snd c)"
      "rb = \<lparr>rb_num_rows = column_length (snd c), rb_columns = cols\<rparr>"
      by (simp_all add: mem_outside_def mw_try_new_def list_all_iff split: if_splits)
    then show ?thesis using Cons by (simp add: batch_ok_def)
  qed (use new in \<open>simp add: mem_outside_def mw_try_new_def\<close>)
next
  fix rb buf
  assume "parquet_write mem_outside rb = Inr buf" "batch_ok rb"
  moreover have "decode batch_codec (frames (batch_fields rb)) = Inr rb"
    by (simp add: batch_codec_def frame_codec_def batch_roundtrip)
  ultimately show "\<exists>bs. parquet_open mem_outside buf = Inr (map Inr bs) \<and> split_of rb bs"
    using split_of_self by (intro exI [of _ "[rb]"]) (auto simp: mem_outside_def batch_codec_def)
next
  fix p d w w' c
  assume "file_write_all mem_outside p d w = (Inr (), w')" "mw_disk w p = Some c"
  then show "mw_disk w' = (mw_disk w)(p \<mapsto> c @ d)"
    by (auto simp: mem_outside_def mw_disk_def update_conv')
next
  fix h p tags fee and w :: mem_world and i reward w'
  let ?b = "be_bytes 32 (length (mw_txs w))"
  assume up: "ar_upload_from_path mem_outside h p tags fee w = (Inr (i, reward), w')"
  then obtain d where "map_of (mw_files w) p = Some d" "map_of (mw_txs w) ?b = None" "i = hex_of ?b"
    "w' = w\<lparr>mw_txs := (?b, d, tags) # mw_txs w\<rparr>"
    by (auto simp: mem_outside_def mw_upload_def Let_def simp del: be_bytes.simps split: option.splits if_splits)
  moreover have "?b \<noteq> []" using length_be_bytes [of 32 "length (mw_txs w)"] by (metis list.size(3) zero_neq_numeral)
  ultimately show "\<exists>b d. mw_disk w p = Some d \<and> ar_id_from_str mem_outside i = Inr b \<and> ar_id_display mem_outside b = i \<and> i \<noteq> [] \<and>
      mw_chain w b = None \<and> mw_chain w' = (mw_chain w)(b \<mapsto> (d, tags))"
    by (intro exI [of _ ?b] exI [of _ d])
      (simp add: mem_outside_def mw_disk_def mw_chain_def unhex_hex_of hex_of_nonempty del: be_bytes.simps)
qed (auto simp: mem_outside_def mw_disk_def mw_chain_def mw_named_def update_conv' mw_upload_chain [unfolded mw_chain_def]
    mw_send_chain [unfolded mw_chain_def] split: option.splits)

end
