(* ===== verification/Rollup_Theorems.thy ===== *)
theory Rollup_Theorems
  imports Sample_World
begin

text \<open>The statements about the rollup and about what it leaves on Arweave, and their runs on in-memory instances.\<close>

section \<open>Helpers\<close>

lemma filed_unique: "filed c key es rs \<Longrightarrow> filed c key es rs' \<Longrightarrow> rs = rs'"
proof -
  assume f: "filed c key es rs" "filed c key es rs'"
  then have "length rs = length rs'" by (metis filed_length)
  moreover have "rs ! i = rs' ! i" if "i < length rs" for i
    using f that by (auto simp: filed_def list_all2_conv_all_nth)
  ultimately show ?thesis by (rule nth_equalityI) simp
qed

lemma ledger_rel_unique:
  assumes "ledger_rel K C m rs gs l" "ledger_rel K C m rs' gs' l'"
  shows "rs = rs'" "gs = gs'" "l = l'"
proof -
  show eq: "rs = rs'" "gs = gs'" using assms filed_unique unfolding ledger_rel_def by blast+
  with assms show "l = l'" by (auto simp: ledger_rel_def)
qed


section \<open>A concrete executor\<close>

text \<open>A log whose clock stands at block 6, with one mutation in block 5; an executor that rolls up at once.\<close>

definition sample_log2 :: "mem_state mutation_store" where
  "sample_log2 = sample_log1\<lparr>ms_block_state := \<lparr>bs_block = 6, bs_order = 0\<rparr>\<rparr>"

definition sample_toolbox :: "bytes ar_toolbox" where
  "sample_toolbox = \<lparr>atb_filesystem = \<lparr>afs_arweave = [1], afs_wallet = [2]\<rparr>, atb_temp_data_path = ''/tmp''\<rparr>"

definition sample_meta :: "bytes meta_store_client" where
  "sample_meta = \<lparr>msc_address = [3], msc_client = [4], msc_use_legacy_tx = False\<rparr>"

definition sample_executor :: "bytes rollup_executor" where
  "sample_executor = \<lparr>rx_config = \<lparr>rc_temp_data_path = ''/tmp'', rc_key_root_path = ''/keys'', rc_use_legacy_tx = False\<rparr>,
     rx_ar_toolbox = Some sample_toolbox, rx_min_rollup_size = 0, rx_meta_store = Some sample_meta,
     pending_mutations = 0, pending_data_size = 0, pending_start_block = 0, pending_end_block = 0,
     rx_network_id = 3, rx_rollup_max_interval = 0, rx_min_gc_round_offset = 1\<rparr>"

definition sample_env :: "(mem_state, mem_world, bytes) rollup_env" where
  "sample_env = \<lparr>re_exec = sample_executor, re_storage = sample_log2,
     re_world = \<lparr>mw_files = [], mw_txs = [], mw_latest = [], mw_dirs = 0\<rparr>\<rparr>"

definition sample_clock :: rollup_clock where
  "sample_clock = \<lparr>clk_flush = 1, clk_elapsed = 2, clk_now = 3, clk_gc_now = 4, clk_gc_elapsed = 5\<rparr>"

abbreviation sample_process :: "unit result \<times> (mem_state, mem_world, bytes) rollup_env" where
  "sample_process \<equiv> process mem_engine sample_codecs sample_libs mem_outside sample_clock sample_env"



lemma sample_log2_wf:
  "ms_ready mem_engine sample_log2" "log_wf mem_engine sample_codecs sample_libs sample_log2"
  using sample_log1_wf by (simp_all add: sample_log2_def ms_ready_def log_wf_def logged_def)

lemma mem_open_entries: "raw_iterator_cf mem_engine (mem_open cfs) cf = []"
  using mem.iterator_mem [of _ _ "mem_open cfs" cf] by (metis last_in_set mem_open_map option.distinct(1) surj_pair)

lemma sample_log_no_records:
  "rollup_entries mem_engine sample_log2 = []" "gc_entries mem_engine sample_log2 = []"
proof -
  have "node.same_view (- {tx_store_cf_name (ms_config sample_log), block_store_cf_name (ms_config sample_log)}) sample_log sample_log1"
    unfolding sample_log1_def by (rule keepsD [OF node.add_mutation_view node.same_view_start [OF sample_log_ready]])
  from platform.same_view_entries [OF node_platform this] ms_ready_distinct [OF sample_log_ready]
  have "rollup_entries mem_engine sample_log1 = rollup_entries mem_engine sample_log"
    "gc_entries mem_engine sample_log1 = gc_entries mem_engine sample_log" by auto
  moreover have "raw_iterator_cf mem_engine (ms_se sample_log) cf = []" for cf
    by (simp add: sample_log_fields mem_open_entries)
  ultimately show "rollup_entries mem_engine sample_log2 = []" "gc_entries mem_engine sample_log2 = []"
    by (simp_all add: rollup_entries_def gc_entries_def sample_log2_def)
qed

lemma empty_ledger:
  "rollup_entries K m = [] \<Longrightarrow> gc_entries K m = [] \<Longrightarrow> ledger_rel K C m [] [] \<lparr>led_rounds = [], led_collected = 0\<rparr>"
  by (simp add: ledger_rel_def filed_def)

lemma sample_env_facts:
  "ms_ready mem_engine (re_storage sample_env)" "log_wf mem_engine sample_codecs sample_libs (re_storage sample_env)"
  "ledger_rel mem_engine sample_codecs (re_storage sample_env) [] [] \<lparr>led_rounds = [], led_collected = 0\<rparr>"
  "archived mem_outside (mw_chain (re_world sample_env)) [] []"
  using sample_log2_wf empty_ledger [OF sample_log_no_records] by (simp_all add: sample_env_def archived_def)

section \<open>Rollup\<close>

text \<open>C21. A run of the rollup executor takes a step of the abstract ledger, whatever call fails on the way: it
  changes nothing, or adds the range from the end of the last round to the current block, and then at
  most collects the oldest round that is still there, if enough rounds came after the last collected one.\<close>

theorem rollup_refines_the_ledger:
  assumes "platform K C L" and "ms_ready K (re_storage e)" and "log_wf K C L (re_storage e)"
    and "ledger_of K C (re_storage e) l" and "process K C L W clk e = (r, e')"
  shows "\<exists>l'. ledger_of K C (re_storage e') l' \<and>
    ledger_step (bs_block (ms_block_state (re_storage e))) (rx_min_gc_round_offset (re_exec e)) l l'"
  using assms(4) platform.process_ledger(1) [OF assms(1-3) _ assms(5)] unfolding ledger_of_def by metis

theorem rollup_refines_the_ledger_witness:
  "\<exists>l'. ledger_of mem_engine sample_codecs (re_storage (snd sample_process)) l' \<and>
     ledger_step 6 1 \<lparr>led_rounds = [], led_collected = 0\<rparr> l'"
proof -
  have "ledger_of mem_engine sample_codecs (re_storage sample_env) \<lparr>led_rounds = [], led_collected = 0\<rparr>"
    using sample_env_facts(3) by (auto simp: ledger_of_def)
  from rollup_refines_the_ledger [OF node_platform sample_env_facts(1,2) this surjective_pairing]
  show ?thesis by (simp add: sample_env_def sample_log2_def sample_executor_def)
qed

text \<open>C22. No run of the rollup executor, failed or not, loses a mutation that is not rolled up: every logged mutation
  of a block that no filed round covers stays logged, nothing is added to the log, and no body is
  removed.\<close>

theorem unrolled_mutations_are_kept:
  assumes "platform K C L" and "ms_ready K (re_storage e)" and "log_wf K C L (re_storage e)"
    and "ledger_of K C (re_storage e) l" and "process K C L W clk e = (r, e')"
    and "ledger_of K C (re_storage e') l'"
  shows "(\<forall>h b. logged K C L (re_storage e) h b \<and> led_end l' \<le> mh_block_id h \<longrightarrow> logged K C L (re_storage e') h b) \<and>
    (\<forall>h b. logged K C L (re_storage e') h b \<longrightarrow> logged K C L (re_storage e) h b) \<and>
    (\<forall>t. get_mutation K C t (re_storage e') = get_mutation K C t (re_storage e))"
proof -
  from assms(4) obtain rs gs where rel: "ledger_rel K C (re_storage e) rs gs l" by (auto simp: ledger_of_def)
  from platform.process_ledger(1) [OF assms(1-3) rel assms(5)] obtain l'' where l'':
    "ledger_of K C (re_storage e') l''" "platform.log_kept K C L (led_end l'') (re_storage e) (re_storage e')" by blast
  from l''(1) assms(6) have "l'' = l'" unfolding ledger_of_def using ledger_rel_unique(3) by metis
  with l''(2) show ?thesis by (simp add: platform.log_kept_def [OF assms(1)])
qed

theorem unrolled_mutations_are_kept_witness:
  "\<exists>l'. ledger_of mem_engine sample_codecs (re_storage (snd sample_process)) l' \<and>
     (\<forall>t. get_mutation mem_engine sample_codecs t (re_storage (snd sample_process)) = get_mutation mem_engine sample_codecs t sample_log2)"
proof -
  have l: "ledger_of mem_engine sample_codecs (re_storage sample_env) \<lparr>led_rounds = [], led_collected = 0\<rparr>"
    using sample_env_facts(3) by (auto simp: ledger_of_def)
  obtain l' where l': "ledger_of mem_engine sample_codecs (re_storage (snd sample_process)) l'"
    using platform.process_ledger(1) [OF node_platform sample_env_facts(1-3) surjective_pairing] by blast
  from unrolled_mutations_are_kept [OF node_platform sample_env_facts(1,2) l surjective_pairing l'] l'
  show ?thesis by (auto simp: sample_env_def)
qed



section \<open>Rounds on Arweave\<close>



end
