(* ===== verification/Node_Stores.thy ===== *)
theory Node_Stores
  imports Rollup_Executor Mutation_Utils Db_Store Rust_Utf8
begin

text \<open>
  What the services of a node share: the libraries they are linked with (\<open>node_libs\<close>), the stores and
  the world they work on (\<open>stores\<close>, extended by each service with its own fields), and the answers of
  a gRPC handler. A handler returns a response or a \<open>tonic::Status\<close>; a panic ends its task. As
  everywhere, the state is returned on every path.
\<close>

section \<open>Libraries and stores\<close>

record ('s, 'd, 't, 'w, 'h, 'td, 'sg) node_libs =
  engine_of :: "'s engine"
  codecs_of :: codecs
  libs_of :: libs
  ejdb_of :: "'d ejdb"
  bson_of :: bson_lib
  eth_of :: "('td, 'sg) eth_lib"
  outside_of :: "('w, 'h) outside"
  mdbx_of :: "'t mdbx"

record ('s, 'd, 't, 'w) stores =
  sn_db_store :: "('s, 'd) db_store"
  sn_state_store :: 't
  sn_world :: 'w

text \<open>The rollup node has the mutation log besides.\<close>

record ('s, 'd, 't, 'w) log_stores = "('s, 'd, 't, 'w) stores" +
  sn_storage :: "'s mutation_store"

abbreviation in_storage :: "('s mutation_store, 'a) action \<Rightarrow> (('s, 'd, 't, 'w, 'z) log_stores_scheme, 'a) action" where
  "in_storage \<equiv> on_field sn_storage (\<lambda>x n. n\<lparr>sn_storage := x\<rparr>)"

abbreviation in_db :: "(('s, 'd) db_store, 'a) action \<Rightarrow> (('s, 'd, 't, 'w, 'z) stores_scheme, 'a) action" where
  "in_db \<equiv> on_field sn_db_store (\<lambda>x n. n\<lparr>sn_db_store := x\<rparr>)"

abbreviation in_state :: "('t, 'a) action \<Rightarrow> (('s, 'd, 't, 'w, 'z) stores_scheme, 'a) action" where
  "in_state \<equiv> on_field sn_state_store (\<lambda>x n. n\<lparr>sn_state_store := x\<rparr>)"

abbreviation in_world :: "('w, 'a) action \<Rightarrow> (('s, 'd, 't, 'w, 'z) stores_scheme, 'a) action" where
  "in_world \<equiv> on_field sn_world (\<lambda>x n. n\<lparr>sn_world := x\<rparr>)"

text \<open>A call whose error is only logged: \<open>if let Ok(x) = ...\<close>.\<close>

definition attempt :: "('n, 'a) action \<Rightarrow> ('n, 'a option) action" where
  "attempt act = (\<lambda>n. case act n of
     (Inr x, t) \<Rightarrow> (Inr (Some x), t)
   | (Inl (Raised e), t) \<Rightarrow> (Inr None, t)
   | (Inl (Panicked msg), t) \<Rightarrow> (Inl (Panicked msg), t))"

lemma attempt_state: "snd (attempt act n) = snd (act n)"
  by (auto simp: attempt_def split: prod.splits sum.splits fault.splits)

lemma keeps_attempt [keeps_intros]: "keeps I act \<Longrightarrow> keeps I (attempt act)"
  by (simp add: keeps_def attempt_state)

section \<open>Answers of a handler\<close>

datatype status_code = InvalidArgument | Internal | PermissionDenied

datatype refusal = Status status_code string | Crashed string

type_synonym ('n, 'a) handler = "'n \<Rightarrow> (refusal + 'a) \<times> 'n"

definition respond :: "'a \<Rightarrow> ('n, 'a) handler" where
  [action_simps]: "respond x = (\<lambda>n. (Inr x, n))"

definition refuse :: "status_code \<Rightarrow> string \<Rightarrow> ('n, 'a) handler" where
  [action_simps]: "refuse c msg = (\<lambda>n. (Inl (Status c msg), n))"

definition thenServe :: "('n, 'a) handler \<Rightarrow> ('a \<Rightarrow> ('n, 'b) handler) \<Rightarrow> ('n, 'b) handler" where
  "thenServe m f = (\<lambda>n. case m n of (Inl e, t) \<Rightarrow> (Inl e, t) | (Inr x, t) \<Rightarrow> f x t)"

text \<open>An action whose error becomes a status: \<open>map_err(|e| Status::code(format!("...{e}")))\<close>.\<close>

definition or_status :: "status_code \<Rightarrow> (string \<Rightarrow> string) \<Rightarrow> ('n, 'a) action \<Rightarrow> ('n, 'a) handler" where
  "or_status c text act = (\<lambda>n. case act n of
     (Inr x, t) \<Rightarrow> (Inr x, t)
   | (Inl (Raised e), t) \<Rightarrow> (Inl (Status c (text (display_db3_error e))), t)
   | (Inl (Panicked msg), t) \<Rightarrow> (Inl (Crashed msg), t))"

abbreviation internal :: "('n, 'a) action \<Rightarrow> ('n, 'a) handler" where
  "internal \<equiv> or_status Internal (\<lambda>e. e)"

text \<open>The same for a library function.\<close>

definition lib_status :: "status_code \<Rightarrow> (string \<Rightarrow> string) \<Rightarrow> string + 'a \<Rightarrow> ('n, 'a) handler" where
  "lib_status c text r = (case r of Inr x \<Rightarrow> respond x | Inl e \<Rightarrow> refuse c (text e))"

definition the_state :: "('n \<Rightarrow> 'a) \<Rightarrow> ('n, 'a) handler" where
  [action_simps]: "the_state f = (\<lambda>n. (Inr (f n), n))"

lemma thenServe_simps [action_simps]:
  "thenServe m f n = (case fst (m n) of Inl e \<Rightarrow> (Inl e, snd (m n)) | Inr x \<Rightarrow> f x (snd (m n)))"
  by (cases "m n") (simp add: thenServe_def split: sum.split)

lemma thenServe_Inr: "m n = (Inr x, t) \<Longrightarrow> thenServe m f n = f x t"
  by (simp add: thenServe_def)

lemma thenServe_eq_Inr_iff:
  "thenServe m f n = (Inr y, u) \<longleftrightarrow> (\<exists>x t. m n = (Inr x, t) \<and> f x t = (Inr y, u))"
  by (auto simp: thenServe_def split: prod.splits sum.splits)

lemma or_status_eq_Inr_iff: "or_status c text act n = (Inr x, t) \<longleftrightarrow> act n = (Inr x, t)"
  by (auto simp: or_status_def split: prod.splits sum.splits fault.splits)

lemma or_status_state: "snd (or_status c text act n) = snd (act n)"
  by (auto simp: or_status_def split: prod.splits sum.splits fault.splits)

lemma lib_status_eq_Inr_iff: "lib_status c text r n = (Inr x, t) \<longleftrightarrow> r = Inr x \<and> t = n"
  by (auto simp: lib_status_def respond_def refuse_def split: sum.splits)

text \<open>Invariants of handlers.\<close>

definition serves :: "('n \<Rightarrow> bool) \<Rightarrow> ('n, 'a) handler \<Rightarrow> bool" where
  "serves I m \<longleftrightarrow> (\<forall>n. I n \<longrightarrow> I (snd (m n)))"

lemma serves_pure [keeps_intros]:
  "serves I (respond x)" "serves I (refuse c msg)" "serves I (lib_status c text r)" "serves I (the_state g)"
  by (auto simp: serves_def action_simps lib_status_def split: sum.split)

lemma serves_then [keeps_intros]:
  "serves I m \<Longrightarrow> (\<And>x. serves I (f x)) \<Longrightarrow> serves I (thenServe m f)"
  by (auto simp: serves_def thenServe_simps split: sum.split)

lemma serves_action [keeps_intros]: "keeps I act \<Longrightarrow> serves I (or_status c text act)"
  by (simp add: serves_def keeps_def or_status_state)

lemma serves_if [keeps_intros]: "serves I m \<Longrightarrow> serves I k \<Longrightarrow> serves I (if b then m else k)"
  by simp

end
