(* ===== verification/Meta_Events.thy ===== *)
theory Meta_Events
  imports Node_Stores
begin

text \<open>
  The contract event processor (\<open>src/event/src/meta_store_event_processor.rs\<close>): databases and collections
  created through the contract \<open>DB3MetaStore\<close> become mutations that the node signs itself, applies and
  logs. The contract bindings (\<open>abigen!\<close>), the providers and the signer are the parameter \<open>event_lib\<close>.
  A background job is its flag, its filter and what it captured; one turn of its loop is \<open>job_turn\<close>.
\<close>

section \<open>The contract and the signer\<close>

record create_database_event =
  cde_sender :: bytes
  cde_network_id :: u256
  cde_database_address :: bytes
  cde_desc :: bytes

record create_collection_event =
  cce_sender :: bytes
  cce_network_id :: u256
  cce_db :: bytes
  cce_name :: bytes

text \<open>A log filter: the first block, if one is given, the texts whose hashes are the accepted topics, and
  the address.\<close>

record log_filter =
  lf_from_block :: "u64 option"
  lf_events :: "string list"
  lf_address :: bytes

record ('w, 'h, 'td, 'lg, 'tx) event_lib =
  log_topics :: "'lg \<Rightarrow> bytes list"
  log_transaction_hash :: "'lg \<Rightarrow> bytes option"
  create_database_topic :: bytes
  create_collection_topic :: bytes
  create_database_abi :: string
  create_collection_abi :: string
  decode_create_database :: "'lg \<Rightarrow> string + create_database_event"
  decode_create_collection :: "'lg \<Rightarrow> string + create_collection_event"
  provider_get_transaction :: "'h \<Rightarrow> bytes \<Rightarrow> 'w \<Rightarrow> (string + 'tx option) \<times> 'w"
  transaction_rlp :: "'tx \<Rightarrow> bytes"
  transaction_signature :: "'tx \<Rightarrow> string"
  mutation_encode :: "mutation \<Rightarrow> string + bytes"
  bytes_token_text :: "bytes \<Rightarrow> string"
  typed_data_new :: "(string \<times> json) list \<Rightarrow> 'td" \<comment> \<open>with the types of \<open>new\<close>\<close>
  sign_typed_data :: "'h \<Rightarrow> 'td \<Rightarrow> string + string"
  typed_data_to_vec :: "'td \<Rightarrow> string + bytes"

section \<open>State\<close>

record 'h event_job =
  job_flag :: nat
  job_filter :: log_filter
  job_wallet :: 'h
  job_network :: u64
  job_evm_node_url :: string

text \<open>Every \<open>start\<close> makes a new flag; \<open>ep_running\<close> are the flags that are set.\<close>

record ('s, 'd, 't, 'w, 'h) event_stores = "('s, 'd, 't, 'w) log_stores" +
  ep_last_running :: "nat option"
  ep_flags :: nat
  ep_running :: "nat list"
  ep_jobs :: "'h event_job list"

section \<open>Making a mutation\<close>

definition trim_nul :: "string \<Rightarrow> string" where
  "trim_nul s = (let nul = (\<lambda>c. (of_char c :: nat) = 0) in rev (dropWhile nul (rev (dropWhile nul s))))"

definition sign_mutation ::
  "('s, 'd, 't, 'w, 'h, 'td, 'sg) node_libs \<Rightarrow> ('w, 'h, 'td, 'lg, 'tx) event_lib \<Rightarrow> 'h \<Rightarrow> body \<Rightarrow> mutation_action \<Rightarrow>
   (('s, 'd, 't, 'w, 'z) stores_scheme, string \<times> mutation \<times> u64 \<times> bytes) action" where
  "sign_mutation N V wallet body action =
     (let my_addr = addr_of (wallet_address (outside_of N) wallet)
      in andThen (reads (\<lambda>n. get_nonce (mdbx_of N) my_addr (sn_state_store n))) (\<lambda>used.
         let nonce = used + 1;
             mutation = \<lparr>mut_action = action_to_i32 action,
               mut_bodies = [\<lparr>bw_db_address = [], bw_body = Some body\<rparr>]\<rparr>
         in andThen (lift_lib (\<lambda>e. StoreEventError (''fail to encode mint mutation for error '' @ e))
              (mutation_encode V mutation)) (\<lambda>mbuf.
            let typed_data = typed_data_new V [(''nonce'', JString (show_u64 nonce)),
                  (''payload'', JString (bytes_token_text V mbuf))]
            in andThen (lift_lib (\<lambda>e. StoreEventError (''fail to sign mint event request '' @ e))
                 (sign_typed_data V wallet typed_data)) (\<lambda>signature.
               andThen (lift_lib (\<lambda>_. StoreEventError ''fail to convert typed data to json'')
                 (typed_data_to_vec V typed_data)) (\<lambda>payload.
               ok (signature, mutation, nonce, payload))))))"

definition mint_mutation ::
  "('s, 'd, 't, 'w, 'h, 'td, 'sg) node_libs \<Rightarrow> u64 \<Rightarrow> string \<Rightarrow> bytes \<Rightarrow> mutation_action \<Rightarrow> mutation \<Rightarrow> u64 \<Rightarrow> u64 \<Rightarrow>
   db3_address \<Rightarrow> (('s, 'd, 't, 'w, 'z) log_stores_scheme, unit) action" where
  "mint_mutation N now signature payload action mutation nonce network sender_addr =
     (let K = engine_of N; C = codecs_of N; L = libs_of N
      in andThen (map_err_of (\<lambda>e. StoreEventError (''fail to generate tx for '' @ display_db3_error e))
           (in_storage (generate_mutation_block_and_order L payload signature))) (\<lambda>(_, block, order).
         andThen (attempt (in_db (apply_mutation K C L (ejdb_of N) (bson_of N) action mutation sender_addr
           network nonce block order Map.empty))) (\<lambda>applied.
         case applied of
           Some _ \<Rightarrow>
             andThen (attempt (in_storage (add_mutation K C L now payload signature [] sender_addr nonce block
               order network action))) (\<lambda>_. ok ())
         | None \<Rightarrow> ok ())))"

section \<open>Handling an event\<close>

definition handle_create_collection ::
  "('s, 'd, 't, 'w, 'h, 'td, 'sg) node_libs \<Rightarrow> ('w, 'h, 'td, 'lg, 'tx) event_lib \<Rightarrow> u64 \<Rightarrow> 'lg \<Rightarrow> 'tx \<Rightarrow> u64 \<Rightarrow> 'h \<Rightarrow>
   (('s, 'd, 't, 'w, 'z) log_stores_scheme, unit) action" where
  "handle_create_collection N V now log t network wallet =
     andThen (lift_lib (\<lambda>e. StoreEventError (''fail to decode the create database event '' @ e))
       (decode_create_collection V log)) (\<lambda>event.
     andThen (reads (\<lambda>_. u256_as_u64 (cce_network_id event))) (\<lambda>event_network.
     if event_network \<noteq> network then ok ()
     else
       let db3_addr = addr_of (cce_db event); sender_addr = addr_of (cce_sender event)
       in andThen (lift_lib (\<lambda>e. StoreEventError (''fail to decode collection name for error '' @ e))
            (from_utf8 (cce_name event))) (\<lambda>name.
          let mint = MintCollectionMutation
                \<lparr>mc_signature = transaction_signature V t, mc_tx = hex_encode (libs_of N) (transaction_rlp V t),
                 mc_db_addr = addr_to_hex (libs_of N) db3_addr, mc_name = trim_nul name,
                 mc_sender = addr_to_hex (libs_of N) sender_addr\<rparr>
          in andThen (sign_mutation N V wallet mint MintCollection) (\<lambda>(signature, mutation, nonce, payload).
             mint_mutation N now signature payload MintCollection mutation nonce network sender_addr))))"

definition handle_create_doc_database ::
  "('s, 'd, 't, 'w, 'h, 'td, 'sg) node_libs \<Rightarrow> ('w, 'h, 'td, 'lg, 'tx) event_lib \<Rightarrow> u64 \<Rightarrow> 'lg \<Rightarrow> 'tx \<Rightarrow> u64 \<Rightarrow> 'h \<Rightarrow>
   (('s, 'd, 't, 'w, 'z) log_stores_scheme, unit) action" where
  "handle_create_doc_database N V now log t network wallet =
     andThen (lift_lib (\<lambda>e. StoreEventError (''fail to decode the create database event '' @ e))
       (decode_create_database V log)) (\<lambda>event.
     andThen (reads (\<lambda>_. u256_as_u64 (cde_network_id event))) (\<lambda>event_network.
     if event_network \<noteq> network then ok ()
     else
       andThen (lift_lib (\<lambda>e. StoreEventError (''fail to decode description for error '' @ e))
         (from_utf8 (cde_desc event))) (\<lambda>desc.
       let db3_addr = addr_of (cde_database_address event); sender_addr = addr_of (cde_sender event);
           mint = MintDocDatabaseMutation
             \<lparr>md_signature = transaction_signature V t, md_tx = hex_encode (libs_of N) (transaction_rlp V t),
              md_db_addr = addr_to_hex (libs_of N) db3_addr, md_desc = trim_nul desc,
              md_sender = addr_to_hex (libs_of N) sender_addr\<rparr>
       in andThen (sign_mutation N V wallet mint MintDocumentDb) (\<lambda>(signature, mutation, nonce, payload).
          mint_mutation N now signature payload MintDocumentDb mutation nonce network sender_addr))))"

section \<open>The background job\<close>

definition event_filter ::
  "('w, 'h, 'td, 'lg, 'tx) event_lib \<Rightarrow> u64 option \<Rightarrow> u64 \<Rightarrow> bytes \<Rightarrow> log_filter" where
  "event_filter V progress start_block address =
     (case (progress, start_block = 0) of
        (Some block, _) \<Rightarrow> \<lparr>lf_from_block = Some block, lf_events = [''CreateDatabase'', ''CreateCollection''],
          lf_address = address\<rparr>
      | (None, False) \<Rightarrow> \<lparr>lf_from_block = Some start_block, lf_events = [''CreateDatabase'', ''CreateCollection''],
          lf_address = address\<rparr>
      | (None, True) \<Rightarrow> \<lparr>lf_from_block = None, lf_events = [create_database_abi V, create_collection_abi V],
          lf_address = address\<rparr>)"

text \<open>\<open>start\<close> clears the flag of the last job before anything that can fail, and registers the new flag
  before the address and the progress are read.\<close>

definition start_events ::
  "('s, 'd, 't, 'w, 'h, 'td, 'sg) node_libs \<Rightarrow> ('w, 'h, 'td, 'lg, 'tx) event_lib \<Rightarrow> system_store_config \<Rightarrow> string \<Rightarrow>
   string \<Rightarrow> u64 \<Rightarrow> u32 \<Rightarrow> u64 \<Rightarrow> (('s, 'd, 't, 'w, 'h, 'z) event_stores_scheme, unit) action" where
  "start_events N V sys contract_addr evm_node_url start_block chain_id network =
     andThen (modify (\<lambda>n. case ep_last_running n of
       Some f \<Rightarrow> n\<lparr>ep_running := removeAll f (ep_running n)\<rparr> | None \<Rightarrow> n)) (\<lambda>_.
     andThen (in_world (get_evm_wallet (outside_of N) sys chain_id)) (\<lambda>wallet.
     andThen (gets ep_flags) (\<lambda>flag.
     andThen (modify (\<lambda>n. n\<lparr>ep_flags := Suc flag, ep_running := flag # ep_running n, ep_last_running := Some flag\<rparr>)) (\<lambda>_.
     andThen (lift_lib (\<lambda>_. InvalidAddress) (evm_address_parse (outside_of N) contract_addr)) (\<lambda>address.
     andThen (reads (\<lambda>n. get_event_progress (mdbx_of N) (addr_of address) (sn_state_store n))) (\<lambda>progress.
     modify (\<lambda>n. n\<lparr>ep_jobs := ep_jobs n @
       [\<lparr>job_flag = flag, job_filter = event_filter V progress start_block address, job_wallet = wallet,
         job_network = network, job_evm_node_url = evm_node_url\<rparr>]\<rparr>)))))))"

datatype job_next = Listening | Reconnect | Stopped

text \<open>What a job does with a log.\<close>

definition handle_log ::
  "('s, 'd, 't, 'w, 'h, 'td, 'sg) node_libs \<Rightarrow> ('w, 'h, 'td, 'lg, 'tx) event_lib \<Rightarrow> u64 \<Rightarrow> 'h event_job \<Rightarrow> 'h \<Rightarrow> 'lg \<Rightarrow>
   (('s, 'd, 't, 'w, 'z) log_stores_scheme, unit) action" where
  "handle_log N V now job provider log =
     (case log_transaction_hash V log of
        None \<Rightarrow> panic ''called `Option::unwrap()` on a `None` value''
      | Some tx_hash \<Rightarrow>
          andThen (attempt (in_world (call (\<lambda>e. StoreEventError (''fail to get transaction '' @ e))
            (provider_get_transaction V provider tx_hash)))) (\<lambda>found.
          case (found, log_topics V log) of
            (Some (Some transaction), event_signature # _) \<Rightarrow>
              if event_signature = create_database_topic V
              then andThen (attempt (handle_create_doc_database N V now log transaction (job_network job) (job_wallet job))) (\<lambda>_. ok ())
              else if event_signature = create_collection_topic V
              then andThen (attempt (handle_create_collection N V now log transaction (job_network job) (job_wallet job))) (\<lambda>_. ok ())
              else ok ()
          | _ \<Rightarrow> ok ()))"

text \<open>One turn of the loop over the stream: the flag is read before the next log is awaited.\<close>

definition job_turn ::
  "('s, 'd, 't, 'w, 'h, 'td, 'sg) node_libs \<Rightarrow> ('w, 'h, 'td, 'lg, 'tx) event_lib \<Rightarrow> u64 \<Rightarrow> 'h event_job \<Rightarrow> 'h \<Rightarrow> 'lg option \<Rightarrow>
   (('s, 'd, 't, 'w, 'h, 'z) event_stores_scheme, job_next) action" where
  "job_turn N V now job provider item =
     andThen (gets (\<lambda>n. job_flag job \<in> set (ep_running n))) (\<lambda>running.
     if \<not> running then ok Stopped
     else case item of
            Some log \<Rightarrow> andThen (handle_log N V now job provider log) (\<lambda>_. ok Listening)
          | None \<Rightarrow> ok Reconnect)"

end
