(* ===== verification/Readable.thy ===== *)
theory Readable
  imports Rollup_Executor "HOL-Library.Log_Nat"
begin

text \<open>
  Numbers for people (\<open>src/base/src/strings.rs\<close>): sizes with a unit letter and costs with six decimals. The
  code computes in \<open>f64\<close>. A finite non-negative \<open>f64\<close> is the rational number it stands for; conversion
  and division round to 53 significant bits, to nearest and ties to even, and \<open>{:.p}\<close> prints the exact
  value rounded to \<open>p\<close> decimals the same way. The values here are zero or between \<open>2 ^ - 40\<close> and \<open>2 ^ 64\<close>,
  far inside the range of normal numbers.
\<close>

section \<open>Rounding\<close>

definition round_half_even :: "rat \<Rightarrow> int" where
  "round_half_even x =
     (let f = \<lfloor>x\<rfloor>; d = x - of_int f
      in if d < 1 / 2 then f else if d > 1 / 2 then f + 1 else if even f then f else f + 1)"

definition pow2 :: "int \<Rightarrow> rat" where
  "pow2 e = (if e \<ge> 0 then 2 ^ nat e else 1 / 2 ^ nat (- e))"

text \<open>The exponent of the last of 53 significant bits.\<close>

definition f64_exponent :: "rat \<Rightarrow> int" where
  "f64_exponent x =
     (let (n, d) = quotient_of x; e = bitlen n - bitlen d - 53
      in if x / pow2 e < 2 ^ 53 then e else e + 1)"

definition f64_round :: "rat \<Rightarrow> rat" where
  "f64_round x = (if x = 0 then 0 else
     let e = f64_exponent x in of_int (round_half_even (x / pow2 e)) * pow2 e)"

definition u64_as_f64 :: "u64 \<Rightarrow> rat" where
  "u64_as_f64 u = f64_round (of_nat (unat u))"

definition f64_div :: "rat \<Rightarrow> rat \<Rightarrow> rat" where
  "f64_div a b = f64_round (a / b)"

fun pad_left :: "nat \<Rightarrow> string \<Rightarrow> string" where
  "pad_left w s = replicate (w - length s) CHR ''0'' @ s"

text \<open>\<open>p\<close> decimals of the number \<open>m / 10 ^ p\<close>.\<close>

definition show_decimal :: "nat \<Rightarrow> nat \<Rightarrow> string" where
  "show_decimal p m = show_nat (m div 10 ^ p) @ ''.'' @ pad_left p (show_nat (m mod 10 ^ p))"

definition show_f64 :: "nat \<Rightarrow> rat \<Rightarrow> string" where
  "show_f64 p x = show_decimal p (nat (round_half_even (x * 10 ^ p)))"

section \<open>The functions\<close>

definition STORAGE_LABELS :: string where
  "STORAGE_LABELS = '' KMGTPE''"

function readable_loop :: "u64 \<Rightarrow> nat \<Rightarrow> rat \<Rightarrow> nat \<times> rat" where
  "readable_loop local_bytes_size shift v =
     (if local_bytes_size > 0 \<and> shift < 7
      then readable_loop (drop_bit 10 local_bytes_size) (shift + 1) (f64_div v 1024)
      else (shift, v))"
  by pat_completeness auto

termination
  by (relation "measure (\<lambda>(local_bytes_size, shift, v). 7 - shift)") auto

declare readable_loop.simps [simp del]

definition bytes_to_readable_num_str :: "u64 \<Rightarrow> string result" where
  "bytes_to_readable_num_str bytes_size =
     (case readable_loop (drop_bit 10 bytes_size) 0 (u64_as_f64 bytes_size) of (shift, v) \<Rightarrow>
        if shift < length STORAGE_LABELS then Inr (show_f64 2 v @ [STORAGE_LABELS ! shift])
        else Inl (Panicked ''index out of bounds''))"

definition units_to_readable_num_str :: "u64 \<Rightarrow> string" where
  "units_to_readable_num_str units = show_f64 6 (f64_div (u64_as_f64 units) 1000000000) @ '' db3''"

definition evm_to_readable_num_str :: "u256 \<Rightarrow> string result" where
  "evm_to_readable_num_str units =
     bindR (u256_as_u64 (units div 1000000000)) (\<lambda>u.
     Inr (show_f64 6 (f64_div (u64_as_f64 u) 1000000000)))"

definition ar_to_readable_num_str :: "u256 \<Rightarrow> string result" where
  "ar_to_readable_num_str units =
     bindR (u256_as_u64 (units div 1000000)) (\<lambda>u.
     Inr (show_f64 6 (f64_div (u64_as_f64 u) 1000000)))"

section \<open>Sizes are always printable\<close>

lemma readable_loop_shift:
  assumes "unat s < 2 ^ (10 * k)" "shift + k \<le> 7"
  shows "fst (readable_loop s shift v) \<le> shift + k"
  using assms
proof (induction k arbitrary: s shift v)
  case 0
  then show ?case by (subst readable_loop.simps) (simp add: unat_eq_zero)
next
  case (Suc k)
  have "unat (drop_bit 10 s) < 2 ^ (10 * k)"
    using Suc.prems(1)
    by (simp add: unat_drop_bit_eq) (simp add: drop_bit_eq_div power_add less_mult_imp_div_less mult.commute)
  from Suc.IH [OF this, of "Suc shift" "f64_div v 1024"] Suc.prems(2) show ?case
    by (subst readable_loop.simps) (simp add: le_SucI)
qed

section \<open>Costs are printed exactly\<close>

lemma pow2_pos: "0 < pow2 e"
  by (simp add: pow2_def)

lemma pow2_add: "pow2 (a + b) = pow2 a * pow2 b"
proof -
  have "pow2 (e + int n) = pow2 e * 2 ^ n" for e n
  proof (cases "e \<ge> 0")
    case True
    then show ?thesis by (simp add: pow2_def nat_add_distrib power_add)
  next
    case False
    show ?thesis
    proof (cases "e + int n \<ge> 0")
      case True
      then have "n = nat (e + int n) + nat (- e)" using False by simp
      then have "(2 :: rat) ^ n = 2 ^ nat (e + int n) * 2 ^ nat (- e)" by (metis power_add)
      then show ?thesis using True False by (simp add: pow2_def)
    next
      case neg: False
      then have "nat (- e) = nat (- (e + int n)) + n" using False by simp
      then have "(2 :: rat) ^ nat (- e) = 2 ^ nat (- (e + int n)) * 2 ^ n" by (metis power_add)
      then show ?thesis using neg False by (simp add: pow2_def)
    qed
  qed
  note up = this
  show ?thesis
  proof (cases "b \<ge> 0")
    case True
    with up [of a "nat b"] show ?thesis by (simp add: pow2_def)
  next
    case False
    with up [of "a + b" "nat (- b)"] show ?thesis by (simp add: pow2_def field_simps)
  qed
qed

lemma round_half_even_near: "\<bar>of_int (round_half_even x) - x\<bar> \<le> 1 / 2"
proof -
  have "0 \<le> x - of_int \<lfloor>x\<rfloor>" "x - of_int \<lfloor>x\<rfloor> < 1" by linarith+
  then show ?thesis by (simp add: round_half_even_def Let_def)
qed

lemma round_half_even_unique: "\<bar>x - of_int m\<bar> < 1 / 2 \<Longrightarrow> round_half_even x = m"
proof -
  assume a: "\<bar>x - of_int m\<bar> < 1 / 2"
  have "\<bar>of_int (round_half_even x) - of_int m :: rat\<bar> < 1"
    using a round_half_even_near [of x] by linarith
  then have "\<bar>round_half_even x - m\<bar> < 1" by (metis of_int_abs of_int_diff of_int_less_1_iff)
  then show ?thesis by simp
qed

lemma f64_exponent_lower: "0 < x \<Longrightarrow> 2 ^ 52 \<le> x / pow2 (f64_exponent x)"
proof -
  assume x: "0 < x"
  obtain n d where q: "quotient_of x = (n, d)" by (cases "quotient_of x")
  then have d: "0 < d" and xq: "x = of_int n / of_int d"
    by (simp_all add: quotient_of_denom_pos quotient_of_div)
  then have n: "0 < n" using x by (simp add: zero_less_divide_iff)
  let ?e = "bitlen n - bitlen d - 53"
  have "2 ^ nat (bitlen n - 1) \<le> n" using bitlen_bounds [OF n] by simp
  then have nb: "pow2 (bitlen n - 1) \<le> of_int n"
    using bitlen_nonneg [of n] n by (simp add: pow2_def bitlen_eq_zero_iff)
  have "d < 2 ^ nat (bitlen d)" using bitlen_bounds [OF d] by simp
  then have db: "of_int d \<le> pow2 (bitlen d)"
    using bitlen_nonneg [of d] by (simp add: pow2_def)
  have "pow2 (bitlen n - 1) = 2 ^ 52 * pow2 ?e * pow2 (bitlen d)"
    using pow2_add [of "52 + ?e" "bitlen d"] pow2_add [of 52 ?e] by (simp add: pow2_def [of 52])
  with nb have "2 ^ 52 * pow2 ?e * pow2 (bitlen d) \<le> of_int n" by simp
  moreover have "2 ^ 52 * pow2 ?e * of_int d \<le> 2 ^ 52 * pow2 ?e * pow2 (bitlen d)"
    using db pow2_pos by (intro mult_left_mono) (simp_all add: less_imp_le)
  ultimately have "2 ^ 52 * pow2 ?e \<le> x" using d by (simp add: xq pos_le_divide_eq)
  then have base: "2 ^ 52 \<le> x / pow2 ?e" using pow2_pos by (simp add: pos_le_divide_eq)
  moreover have "2 ^ 53 \<le> x / pow2 ?e \<Longrightarrow> 2 ^ 52 \<le> x / pow2 (?e + 1)"
    using pow2_add [of ?e 1] by (simp add: pow2_def [of 1] field_simps)
  ultimately show ?thesis by (simp add: f64_exponent_def q Let_def)
qed

lemma f64_round_near: "0 \<le> x \<Longrightarrow> \<bar>f64_round x - x\<bar> \<le> x / 2 ^ 53"
proof (cases "x = 0")
  case False
  assume "0 \<le> x"
  with False have x: "0 < x" by simp
  let ?p = "pow2 (f64_exponent x)"
  have "f64_round x - x = (of_int (round_half_even (x / ?p)) - x / ?p) * ?p"
    using False pow2_pos [of "f64_exponent x"] by (simp add: f64_round_def Let_def left_diff_distrib)
  then have "\<bar>f64_round x - x\<bar> = \<bar>of_int (round_half_even (x / ?p)) - x / ?p\<bar> * ?p"
    using pow2_pos [of "f64_exponent x"] by (simp add: abs_mult)
  also have "\<dots> \<le> 1 / 2 * ?p"
    using round_half_even_near pow2_pos by (intro mult_right_mono) (simp_all add: less_imp_le)
  also have "\<dots> \<le> x / 2 ^ 53"
    using f64_exponent_lower [OF x] pow2_pos [of "f64_exponent x"] by (simp add: pos_le_divide_eq)
  finally show ?thesis .
qed (simp add: f64_round_def)

lemma f64_round_nat: "m < 2 ^ 53 \<Longrightarrow> f64_round (of_nat m) = of_nat m"
proof (cases "m = 0")
  case False
  assume m: "m < 2 ^ 53"
  let ?e = "f64_exponent (of_nat m)"
  have "bitlen (int m) \<le> 53" using m False by (simp add: bitlen_le_iff_power)
  moreover have "bitlen 1 = 1" by (simp add: bitlen_def floorlog_eq_zero_iff compute_floorlog)
  ultimately have "?e \<le> 0"
    using quotient_of_int [of "int m"] by (simp add: f64_exponent_def of_int_def Let_def)
  then have "(of_nat m :: rat) / pow2 ?e = of_int (int m * 2 ^ nat (- ?e))"
    by (cases "?e = 0") (simp_all add: pow2_def)
  moreover have "round_half_even (of_int i) = i" for i by (simp add: round_half_even_unique)
  ultimately have "of_int (round_half_even (of_nat m / pow2 ?e)) = (of_nat m :: rat) / pow2 ?e" by metis
  then show ?thesis using False pow2_pos [of ?e] by (simp add: f64_round_def Let_def)
qed (simp add: f64_round_def)

text \<open>The six decimals of a quotient by a million: below \<open>2 ^ 52\<close> millionths no rounding shows.\<close>

lemma show_millionths: "m < 2 ^ 52 \<Longrightarrow> show_f64 6 (f64_div (of_nat m) 1000000) = show_decimal 6 m"
proof -
  assume m: "m < 2 ^ 52"
  let ?y = "f64_div (of_nat m) 1000000"
  have "\<bar>?y - of_nat m / 1000000\<bar> \<le> of_nat m / 1000000 / 2 ^ 53"
    using f64_round_near [of "of_nat m / 1000000"] by (simp add: f64_div_def)
  then have "\<bar>?y * 10 ^ 6 - of_int (int m)\<bar> \<le> of_nat m / 2 ^ 53"
    by (simp add: abs_le_iff field_simps)
  moreover have "(of_nat m :: rat) / 2 ^ 53 < 1 / 2"
  proof -
    have "(of_nat m :: rat) < of_nat (2 ^ 52)" using m by (simp only: of_nat_less_iff)
    then show ?thesis by simp
  qed
  ultimately have "round_half_even (?y * 10 ^ 6) = int m" by (intro round_half_even_unique) linarith
  then show ?thesis by (simp add: show_f64_def)
qed

end
