(* ===== verification/Storage_Node.thy ===== *)
theory Storage_Node
  imports Meta_Events Readable
begin

text \<open>
  The data rollup node (\<open>src/node/src/storage_node_light_impl.rs\<close>): the record \<open>storage_node\<close> is
  \<open>StorageNodeV2Impl\<close> with everything its parts share; each gRPC method is a handler; each turn of a
  background task (block producer, rollup, flush, subscriptions) is an action. The channels of
  \<open>tokio\<close> and the opening of the stores are the parameter \<open>host\<close>.
\<close>

section \<open>Messages\<close>

record block_event =
  be_block_id :: u64
  be_mutation_count :: u32

record event_message =
  evm_type :: u32
  evm_event :: "block_event option"

definition EVENT_TYPE_BLOCK :: u32 where
  "EVENT_TYPE_BLOCK = 0"

record subscription =
  sub_topics :: "u32 list"

record send_mutation_response =
  smr_id :: string
  smr_code :: u32
  smr_msg :: string
  smr_items :: "extra_item list"
  smr_block :: u64
  smr_order :: u32

record mutation_state_view =
  msv_mutation_count :: u64
  msv_total_mutation_bytes :: u64
  msv_gc_count :: u64
  msv_rollup_count :: u64
  msv_total_rollup_bytes :: u64
  msv_total_gc_bytes :: u64
  msv_total_rollup_raw_bytes :: u64
  msv_total_rollup_mutation_count :: u64
  msv_total_storage_cost :: string
  msv_total_evm_cost :: string

record mutation_header_response =
  mhr_header :: "mutation_header option"
  mhr_status :: u32
  mhr_rollup_tx :: bytes

section \<open>State\<close>

record storage_node_config =
  snc_store_config :: mutation_store_config
  snc_rollup_config :: rollup_executor_config
  snc_db_store_config :: db_store_config
  snc_block_interval :: u64

text \<open>\<open>sn_broadcast\<close> holds the messages handed to the broadcast channel, in order.\<close>

record ('s, 'd, 't, 'w, 'h) storage_node = "('s, 'd, 't, 'w, 'h) event_stores" +
  sn_config :: storage_node_config
  sn_running :: bool
  sn_broadcast :: "event_message list"
  sn_rollup_executor :: "'h rollup_executor"
  sn_rollup_interval :: u64
  sn_network_id :: u64
  sn_system_store :: system_store_config

datatype try_send_error = Full | Closed

record ('s, 'd, 'w, 'c) host =
  create_dir_all :: "string \<Rightarrow> 'w \<Rightarrow> (string + unit) \<times> 'w"
  engine_open :: "string \<Rightarrow> string list \<Rightarrow> string + 's"
  open_doc_store :: "doc_store_config \<Rightarrow> 'd doc_store result"
  no_files :: 'd
  message_channel :: "'w \<Rightarrow> ('c \<times> 'c) \<times> 'w" \<comment> \<open>a channel for ten messages: sender and receiver\<close>
  subscriber_try_send :: "db3_address \<times> subscription \<times> 'c \<Rightarrow> 'w \<Rightarrow> (string + unit) \<times> 'w"
  sender_is_closed :: "'c \<Rightarrow> 'w \<Rightarrow> bool"
  sender_try_send :: "'c \<Rightarrow> event_message \<Rightarrow> 'w \<Rightarrow> (try_send_error + unit) \<times> 'w"
  subscription_decode :: "bytes \<Rightarrow> string + subscription"

definition in_rollup ::
  "(('s, 'w, 'h) rollup_env, 'a) action \<Rightarrow> (('s, 'd, 't, 'w, 'h) storage_node, 'a) action" where
  "in_rollup act = (\<lambda>n. case act \<lparr>re_exec = sn_rollup_executor n, re_storage = sn_storage n, re_world = sn_world n\<rparr> of
     (r, e) \<Rightarrow> (r, n\<lparr>sn_rollup_executor := re_exec e, sn_storage := re_storage e, sn_world := re_world e\<rparr>))"

section \<open>Construction and recovery\<close>

definition storage_node_new ::
  "('s, 'd, 't, 'w, 'h, 'td, 'sg) node_libs \<Rightarrow> ('w, 'h, 'td, 'lg, 'tx) event_lib \<Rightarrow> ('s, 'd, 'w, 'c) host \<Rightarrow>
   storage_node_config \<Rightarrow> system_store_config \<Rightarrow> 't \<Rightarrow> 'w \<Rightarrow> ('s, 'd, 't, 'w, 'h) storage_node result \<times> 'w" where
  "storage_node_new N V H config sys t =
     andThen (call InvalidKeyPathError (create_dir_all H (rc_key_root_path (snc_rollup_config config)))) (\<lambda>_.
     andThen (reads (\<lambda>_. ms_new (engine_open H (msc_db_path (snc_store_config config))) (snc_store_config config))) (\<lambda>storage0.
     andThen (reads (\<lambda>_. case ms_recover (engine_of N) (codecs_of N) storage0 of (r, s) \<Rightarrow> bindR r (\<lambda>_. Inr s))) (\<lambda>storage.
     andThen (reads (\<lambda>_. db_new (engine_open H (dsc_db_path (snc_db_store_config config))) (open_doc_store H)
       (no_files H) (snc_db_store_config config))) (\<lambda>db.
     andThen (reads (\<lambda>_. get_config (mdbx_of N) (codecs_of N) DataRollupNode t)) (\<lambda>found.
     andThen (rollup_executor_new (outside_of N) (mdbx_of N) (codecs_of N) sys (snc_rollup_config config) t) (\<lambda>executor w.
       let node = \<lparr>sn_db_store = db, sn_state_store = t, sn_world = w, sn_storage = storage,
             ep_last_running = None, ep_flags = 0, ep_running = [], ep_jobs = [],
             sn_config = config, sn_running = True, sn_broadcast = [], sn_rollup_executor = executor,
             sn_rollup_interval = (case found of Some c \<Rightarrow> sc_rollup_interval c | None \<Rightarrow> 1000 * 10 * 60),
             sn_network_id = (case found of Some c \<Rightarrow> sc_network_id c | None \<Rightarrow> 0), sn_system_store = sys\<rparr>
       in case found of
            Some c \<Rightarrow>
              (case start_events N V sys (sc_contract_addr c) (sc_evm_node_url c) 0 (sc_chain_id c) (sc_network_id c) node of
                 (r, n) \<Rightarrow> (bindR r (\<lambda>_. Inr n), sn_world n))
          | None \<Rightarrow> (Inr node, w)))))))"

definition sn_recover :: "('s, 'd, 't, 'w, 'h, 'td, 'sg) node_libs \<Rightarrow> (('s, 'd, 't, 'w, 'h) storage_node, unit) action" where
  "sn_recover N = in_db (recover_db_state (engine_of N) (codecs_of N) (libs_of N))"

section \<open>Background tasks\<close>

text \<open>One turn of each loop, after its sleep; a loop ends when \<open>running\<close> is cleared.\<close>

definition flush_turn :: "('s, 'd, 't, 'w, 'h, 'td, 'sg) node_libs \<Rightarrow> (('s, 'd, 't, 'w, 'h) storage_node, unit) action" where
  "flush_turn N =
     andThen (attempt (in_db (flush_database_state (engine_of N) (codecs_of N) (libs_of N)))) (\<lambda>_. ok ())"

definition block_message :: "u64 \<Rightarrow> u32 \<Rightarrow> event_message" where
  "block_message block_id count =
     \<lparr>evm_type = EVENT_TYPE_BLOCK, evm_event = Some \<lparr>be_block_id = block_id, be_mutation_count = count\<rparr>\<rparr>"

definition block_turn :: "('s, 'd, 't, 'w, 'h, 'td, 'sg) node_libs \<Rightarrow> (('s, 'd, 't, 'w, 'h) storage_node, unit) action" where
  "block_turn N =
     andThen (attempt (in_storage (increase_block_return_last_state (engine_of N)))) (\<lambda>shut.
     case shut of
       Some (block_id, count) \<Rightarrow> modify (\<lambda>n. n\<lparr>sn_broadcast := sn_broadcast n @ [block_message block_id count]\<rparr>)
     | None \<Rightarrow> ok ())"

definition rollup_turn ::
  "('s, 'd, 't, 'w, 'h, 'td, 'sg) node_libs \<Rightarrow> rollup_clock \<Rightarrow> (('s, 'd, 't, 'w, 'h) storage_node, unit) action" where
  "rollup_turn N clk =
     andThen (attempt (in_rollup (process (engine_of N) (codecs_of N) (libs_of N) (outside_of N) clk))) (\<lambda>_. ok ())"

subsection \<open>Subscriptions\<close>

text \<open>The subscribers in the order of their addresses, as the \<open>BTreeMap\<close> iterates.\<close>

type_synonym 'c subscribers = "(db3_address \<times> 'c \<times> subscription) list"

fun subscriber_insert :: "db3_address \<Rightarrow> 'c \<times> subscription \<Rightarrow> 'c subscribers \<Rightarrow> 'c subscribers" where
  "subscriber_insert a v [] = [(a, v)]"
| "subscriber_insert a v ((b, u) # m) =
     (if a = b then (a, v) # m else if a < b then (a, v) # (b, u) # m else (b, u) # subscriber_insert a v m)"

text \<open>The inner loop over the topics of one subscriber: it stops at the first message that is taken and
  reports whether the channel was found closed.\<close>

fun send_topics ::
  "('s, 'd, 'w, 'c) host \<Rightarrow> event_message \<Rightarrow> 'c \<Rightarrow> u32 list \<Rightarrow> bool \<Rightarrow> 'w \<Rightarrow> bool \<times> 'w" where
  "send_topics H event sender [] shut w = (shut, w)"
| "send_topics H event sender (topic # topics) shut w =
     (if topic \<noteq> EVENT_TYPE_BLOCK then send_topics H event sender topics shut w
      else case sender_try_send H sender event w of
             (Inr _, w1) \<Rightarrow> (shut, w1)
           | (Inl Full, w1) \<Rightarrow> send_topics H event sender topics shut w1
           | (Inl Closed, w1) \<Rightarrow> send_topics H event sender topics True w1)"

text \<open>The loop over the subscribers: the addresses to be removed.\<close>

fun deliver :: "('s, 'd, 'w, 'c) host \<Rightarrow> event_message \<Rightarrow> 'c subscribers \<Rightarrow> 'w \<Rightarrow> db3_address list \<times> 'w" where
  "deliver H event [] w = ([], w)"
| "deliver H event ((key, sender, sub) # m) w =
     (if sender_is_closed H sender w
      then (case deliver H event m w of (gone, w1) \<Rightarrow> (key # gone, w1))
      else case send_topics H event sender (sub_topics sub) False w of
             (shut, w1) \<Rightarrow>
               (case deliver H event m w1 of (gone, w2) \<Rightarrow> (if shut then key # gone else gone, w2)))"

text \<open>What \<open>select!\<close> can wake up with.\<close>

datatype 'c wakeup =
    ConfigUpdated
  | Subscribed db3_address subscription 'c
  | EventReceived event_message
  | ChannelsClosed

definition apply_config ::
  "('s, 'd, 't, 'w, 'h, 'td, 'sg) node_libs \<Rightarrow> ('w, 'h, 'td, 'lg, 'tx) event_lib \<Rightarrow>
   (('s, 'd, 't, 'w, 'h) storage_node, unit) action" where
  "apply_config N V =
     andThen (gets sn_system_store) (\<lambda>sys.
     andThen (attempt (reads (\<lambda>n. get_config (mdbx_of N) (codecs_of N) DataRollupNode (sn_state_store n)))) (\<lambda>found.
     andThen (case found of
         Some (Some c) \<Rightarrow>
           andThen (modify (\<lambda>n. n\<lparr>sn_network_id := sc_network_id c, sn_rollup_interval := sc_rollup_interval c\<rparr>)) (\<lambda>_.
           andThen (attempt (start_events N V sys (sc_contract_addr c) (sc_evm_node_url c) 0 (sc_chain_id c)
             (sc_network_id c))) (\<lambda>_. ok ()))
       | _ \<Rightarrow> ok ()) (\<lambda>_.
     andThen (gets sn_state_store) (\<lambda>t.
     andThen (attempt (in_rollup (rollup_update_config (outside_of N) (mdbx_of N) (codecs_of N) sys t))) (\<lambda>_.
     ok ())))))"

text \<open>One turn of the inner loop of \<open>keep_subscription\<close>; \<open>None\<close> ends it, and the next round of the outer loop
  starts without subscribers.\<close>

definition subscription_turn ::
  "('s, 'd, 't, 'w, 'h, 'td, 'sg) node_libs \<Rightarrow> ('w, 'h, 'td, 'lg, 'tx) event_lib \<Rightarrow> ('s, 'd, 'w, 'c) host \<Rightarrow>
   'c subscribers \<Rightarrow> 'c wakeup \<Rightarrow> (('s, 'd, 't, 'w, 'h) storage_node, 'c subscribers option) action" where
  "subscription_turn N V H subs wake = (case wake of
     ConfigUpdated \<Rightarrow> andThen (apply_config N V) (\<lambda>_. ok (Some subs))
   | Subscribed addr sub sender \<Rightarrow> ok (Some (subscriber_insert addr (sender, sub) subs))
   | EventReceived event \<Rightarrow> (\<lambda>n. case deliver H event subs (sn_world n) of
       (gone, w) \<Rightarrow> (Inr (Some (filter (\<lambda>(k, _). k \<notin> set gone) subs)), n\<lparr>sn_world := w\<rparr>))
   | ChannelsClosed \<Rightarrow> ok None)"

section \<open>Requests\<close>

definition get_mutation_state :: "(('s, 'd, 't, 'w, 'h) storage_node, mutation_state_view) handler" where
  "get_mutation_state =
     thenServe (the_state (\<lambda>n. get_latest_state (sn_storage n))) (\<lambda>state.
     thenServe (internal (reads (\<lambda>_. bindR (u256_from_slice (mst_total_storage_cost state)) ar_to_readable_num_str))) (\<lambda>ar.
     thenServe (internal (reads (\<lambda>_. bindR (u256_from_slice (mst_total_evm_cost state)) evm_to_readable_num_str))) (\<lambda>evm.
     respond \<lparr>msv_mutation_count = mst_mutation_count state, msv_total_mutation_bytes = mst_total_mutation_bytes state,
       msv_gc_count = mst_gc_count state, msv_rollup_count = mst_rollup_count state,
       msv_total_rollup_bytes = mst_total_rollup_bytes state, msv_total_gc_bytes = mst_total_gc_bytes state,
       msv_total_rollup_raw_bytes = mst_total_rollup_raw_bytes state,
       msv_total_rollup_mutation_count = mst_total_rollup_mutation_count state,
       msv_total_storage_cost = ar, msv_total_evm_cost = evm\<rparr>)))"

definition scan_gc_record ::
  "('s, 'd, 't, 'w, 'h, 'td, 'sg) node_libs \<Rightarrow> u32 \<Rightarrow> u32 \<Rightarrow> (('s, 'd, 't, 'w, 'h) storage_node, gc_record list) handler" where
  "scan_gc_record N from limit =
     internal (reads (\<lambda>n. scan_gc_records (engine_of N) (codecs_of N) from limit (sn_storage n)))"

definition subscribe ::
  "('s, 'd, 't, 'w, 'h, 'td, 'sg) node_libs \<Rightarrow> ('s, 'd, 'w, 'c) host \<Rightarrow> string \<Rightarrow> string \<Rightarrow>
   (('s, 'd, 't, 'w, 'h) storage_node, 'c) handler" where
  "subscribe N H payload signature =
     (if payload = [] \<or> signature = [] then refuse InvalidArgument ''the payload or signature is null''
      else
        thenServe (or_status InvalidArgument (\<lambda>e. ''invalid signature with error '' @ e)
          (reads (\<lambda>_. verify_setup (eth_of N) payload signature))) (\<lambda>(address, td).
        case typed_message (eth_of N) td ''payload'' of
          None \<Rightarrow> refuse InvalidArgument ''payload was not found from the message''
        | Some p \<Rightarrow>
            thenServe (lib_status InvalidArgument (\<lambda>e. ''decode the payload failed for error '' @ e)
              (bytes_from_value (eth_of N) p)) (\<lambda>buf.
            thenServe (lib_status InvalidArgument (\<lambda>e. ''decode the data to object failed for error '' @ e)
              (subscription_decode H buf)) (\<lambda>sub n.
            case message_channel H (sn_world n) of
              ((msg_sender, msg_receiver), w1) \<Rightarrow>
                (case subscriber_try_send H (addr_of address, sub, msg_sender) w1 of
                   (Inl e, w2) \<Rightarrow> (Inl (Status Internal (''fail to add subscriber for '' @ e)), n\<lparr>sn_world := w2\<rparr>)
                 | (Inr _, w2) \<Rightarrow> (Inr msg_receiver, n\<lparr>sn_world := w2\<rparr>))))))"

definition get_block ::
  "('s, 'd, 't, 'w, 'h, 'td, 'sg) node_libs \<Rightarrow> u64 \<Rightarrow> u64 \<Rightarrow>
   (('s, 'd, 't, 'w, 'h) storage_node, (mutation_header option \<times> mutation_body option) list) handler" where
  "get_block N block_start block_end =
     thenServe (internal (reads (\<lambda>n. get_range_mutations (engine_of N) (codecs_of N) (libs_of N) block_start block_end
       (sn_storage n)))) (\<lambda>mutations.
     respond (map (\<lambda>(h, b). (Some h, Some b)) mutations))"

definition parse_addr :: "libs \<Rightarrow> string \<Rightarrow> ('n, db3_address) handler" where
  "parse_addr L s = or_status InvalidArgument (\<lambda>e. ''invalid database address '' @ e) (reads (\<lambda>_. addr_from_hex L s))"

definition serve_database ::
  "('s, 'd, 't, 'w, 'h, 'td, 'sg) node_libs \<Rightarrow> string \<Rightarrow>
   (('s, 'd, 't, 'w, 'h) storage_node, database_message option \<times> database_state_proto option) handler" where
  "serve_database N addr_text =
     thenServe (parse_addr (libs_of N) addr_text) (\<lambda>addr.
     thenServe (or_status Internal (\<lambda>e. ''fail to get database '' @ e)
       (reads (\<lambda>n. get_database (engine_of N) (codecs_of N) addr (sn_db_store n)))) (\<lambda>database.
     the_state (\<lambda>n. (database, get_database_state (libs_of N) addr (sn_db_store n)))))"

definition serve_collections ::
  "('s, 'd, 't, 'w, 'h, 'td, 'sg) node_libs \<Rightarrow> string \<Rightarrow>
   (('s, 'd, 't, 'w, 'z) stores_scheme, collection list \<times> collection_state_proto list) handler" where
  "serve_collections N addr_text =
     thenServe (parse_addr (libs_of N) addr_text) (\<lambda>addr.
     or_status Internal (\<lambda>e. ''fail to get collect of database '' @ e)
       (reads (\<lambda>n. get_collection_of_database (engine_of N) (codecs_of N) (libs_of N) addr (sn_db_store n))))"

definition serve_databases_of_owner ::
  "('s, 'd, 't, 'w, 'h, 'td, 'sg) node_libs \<Rightarrow> string \<Rightarrow>
   (('s, 'd, 't, 'w, 'h) storage_node, database_message list \<times> database_state_proto list) handler" where
  "serve_databases_of_owner N owner_text =
     thenServe (parse_addr (libs_of N) owner_text) (\<lambda>addr.
     internal (reads (\<lambda>n. get_database_of_owner (engine_of N) (codecs_of N) (libs_of N) addr (sn_db_store n))))"

definition get_mutation_body ::
  "('s, 'd, 't, 'w, 'h, 'td, 'sg) node_libs \<Rightarrow> string \<Rightarrow> (('s, 'd, 't, 'w, 'h) storage_node, mutation_body option) handler" where
  "get_mutation_body N id_text =
     thenServe (or_status InvalidArgument (\<lambda>e. ''invalid mutation id '' @ e)
       (reads (\<lambda>_. tx_try_from_hex (libs_of N) id_text))) (\<lambda>tx.
     internal (reads (\<lambda>n. get_mutation (engine_of N) (codecs_of N) tx (sn_storage n))))"

definition scan_rollup_record ::
  "('s, 'd, 't, 'w, 'h, 'td, 'sg) node_libs \<Rightarrow> rollup_clock \<Rightarrow> u32 \<Rightarrow> u32 \<Rightarrow>
   (('s, 'd, 't, 'w, 'h) storage_node, rollup_record list) handler" where
  "scan_rollup_record N clk from limit =
     thenServe (the_state (\<lambda>n. get_pending_rollup clk (sn_rollup_executor n))) (\<lambda>pending.
     thenServe (internal (reads (\<lambda>n. scan_rollup_records (engine_of N) (codecs_of N) from limit (sn_storage n)))) (\<lambda>records_done.
     respond (pending # records_done)))"

definition scan_mutation_header ::
  "('s, 'd, 't, 'w, 'h, 'td, 'sg) node_libs \<Rightarrow> u32 \<Rightarrow> u32 \<Rightarrow> (('s, 'd, 't, 'w, 'h) storage_node, mutation_header list) handler" where
  "scan_mutation_header N from limit =
     internal (reads (\<lambda>n. scan_mutation_headers (engine_of N) (codecs_of N) from limit (sn_storage n)))"

definition serve_mutation_header ::
  "('s, 'd, 't, 'w, 'h, 'td, 'sg) node_libs \<Rightarrow> u64 \<Rightarrow> u32 \<Rightarrow> (('s, 'd, 't, 'w, 'h) storage_node, mutation_header_response) handler" where
  "serve_mutation_header N block_id order_id =
     thenServe (internal (reads (\<lambda>n. get_mutation_header (engine_of N) (codecs_of N) block_id order_id (sn_storage n)))) (\<lambda>header.
     respond \<lparr>mhr_header = header, mhr_status = 0, mhr_rollup_tx = []\<rparr>)"

definition serve_nonce ::
  "('s, 'd, 't, 'w, 'h, 'td, 'sg) node_libs \<Rightarrow> string \<Rightarrow> (('s, 'd, 't, 'w, 'h) storage_node, u64) handler" where
  "serve_nonce N addr_text =
     thenServe (or_status InvalidArgument (\<lambda>e. ''invalid account address '' @ e)
       (reads (\<lambda>_. addr_try_from_str (libs_of N) addr_text))) (\<lambda>address.
     thenServe (internal (reads (\<lambda>n. get_nonce (mdbx_of N) address (sn_state_store n)))) (\<lambda>used_nonce.
     respond (used_nonce + 1)))"

section \<open>Sending a mutation\<close>

definition bad_nonce_response :: send_mutation_response where
  "bad_nonce_response = \<lparr>smr_id = [], smr_code = 1, smr_msg = ''bad nonce'', smr_items = [], smr_block = 0, smr_order = 0\<rparr>"

text \<open>The part after the nonce: take a position, apply, then log.\<close>

definition execute_mutation ::
  "('s, 'd, 't, 'w, 'h, 'td, 'sg) node_libs \<Rightarrow> u64 \<Rightarrow> bytes \<Rightarrow> string \<Rightarrow> u64 \<Rightarrow> mutation \<Rightarrow> db3_address \<Rightarrow> u64 \<Rightarrow>
   mutation_action \<Rightarrow> (('s, 'd, 't, 'w, 'z) log_stores_scheme, send_mutation_response) handler" where
  "execute_mutation N now payload signature network dm address nonce action =
     (let K = engine_of N; C = codecs_of N; L = libs_of N
      in thenServe (internal (in_storage (generate_mutation_block_and_order L payload signature))) (\<lambda>(i, block, order).
         thenServe (internal (in_db (apply_mutation K C L (ejdb_of N) (bson_of N) action dm address network nonce
           block order Map.empty))) (\<lambda>items.
         thenServe (internal (in_storage (add_mutation K C L now payload signature (get_create_doc_ids_map L items)
           address nonce block order network action))) (\<lambda>_.
         respond \<lparr>smr_id = i, smr_code = 0, smr_msg = ''ok'', smr_items = items, smr_block = block, smr_order = order\<rparr>))))"

text \<open>A nonce that is refused answers with code 1; a panic of the store is not caught.\<close>

definition send_mutation ::
  "('s, 'd, 't, 'w, 'h, 'td, 'sg) node_libs \<Rightarrow> u64 \<Rightarrow> bytes \<Rightarrow> string \<Rightarrow>
   (('s, 'd, 't, 'w, 'h) storage_node, send_mutation_response) handler" where
  "send_mutation N now payload signature =
     thenServe (the_state sn_network_id) (\<lambda>network.
     if network = 0 then refuse Internal ''the system has not been setup''
     else
       thenServe (or_status InvalidArgument (\<lambda>e. ''fail to verify the payload and signature '' @ e)
         (reads (\<lambda>_. unwrap_and_light_verify (eth_of N) payload signature))) (\<lambda>(dm, address, nonce).
       case action_from_i32 (mut_action dm) of
         None \<Rightarrow> refuse InvalidArgument ''bad mutation action''
       | Some action \<Rightarrow>
           thenServe (internal (attempt (in_state (incr_nonce (mdbx_of N) address nonce)))) (\<lambda>taken.
           case taken of
             None \<Rightarrow> respond bad_nonce_response
           | Some _ \<Rightarrow> execute_mutation N now payload signature network dm address nonce action)))"

end
