(* ===== verification/Event_Processor.thy ===== *)
theory Event_Processor
  imports Node_Stores
begin

text \<open>
  The event processor of an event database (\<open>src/event/src/event_processor.rs\<close>): the logs of a contract are
  turned into documents of the collections named after its events. The providers, the ABI and its
  decoders are the parameter \<open>contract_lib\<close>; \<open>process_event_log\<close> is what one turn of the stream loop does
  with a log.
\<close>

section \<open>Values of a log\<close>

text \<open>\<open>ethabi::Token\<close>; \<open>U256\<close> prints in decimal.\<close>

datatype token =
    TAddress bytes | TString string | TUint u256 | TInt u256 | TFixedBytes bytes | TBytes bytes
  | TBool bool | TArray "token list" | TFixedArray "token list" | TTuple "token list"

fun param_to_value :: "libs \<Rightarrow> token \<Rightarrow> json" where
  "param_to_value L (TAddress addr) = JString (''0x'' @ hex_encode L addr)"
| "param_to_value L (TString v) = JString v"
| "param_to_value L (TUint v) = JString (show_nat (unat v))"
| "param_to_value L (TInt v) = JString (show_nat (unat v))"
| "param_to_value L (TFixedBytes bs) = JString (hex_encode L bs)"
| "param_to_value L (TBytes bs) = JString (hex_encode L bs)"
| "param_to_value L (TBool b) = JBool b"
| "param_to_value L (TArray ts) = JArray (map (param_to_value L) ts)"
| "param_to_value L (TFixedArray ts) = JArray (map (param_to_value L) ts)"
| "param_to_value L (TTuple ts) = JArray (map (param_to_value L) ts)"

text \<open>A \<open>serde_json\<close> map is ordered by its keys; a later parameter replaces an earlier one of its name.\<close>

fun doc_insert :: "string \<Rightarrow> json \<Rightarrow> (string \<times> json) list \<Rightarrow> (string \<times> json) list" where
  "doc_insert k v [] = [(k, v)]"
| "doc_insert k v ((k', v') # m) =
     (if k = k' then (k, v) # m
      else if as_bytes k < as_bytes k' then (k, v) # (k', v') # m else (k', v') # doc_insert k v m)"

definition log_to_doc :: "libs \<Rightarrow> (string \<times> token) list \<Rightarrow> json" where
  "log_to_doc L params = JObject (fold (\<lambda>(name, v). doc_insert name (param_to_value L v)) params [])"

section \<open>The processor\<close>

record event_processor_config =
  epc_evm_node_url :: string
  epc_db_addr :: string
  epc_abi :: string
  epc_target_events :: "string list"
  epc_contract_addr :: string
  epc_start_block :: u64

record event_processor =
  ev_config :: event_processor_config
  ev_running :: bool
  ev_block_number :: u64
  ev_event_number :: u64

record ('lg, 'ab, 'ev) contract_lib =
  abi_from_str :: "string \<Rightarrow> string + 'ab"
  abi_events :: "'ab \<Rightarrow> 'ev list"
  event_name :: "'ev \<Rightarrow> string"
  event_signature :: "'ev \<Rightarrow> bytes"
  parse_log :: "'ev \<Rightarrow> 'lg \<Rightarrow> string + (string \<times> token) list"
  raw_topics :: "'lg \<Rightarrow> bytes list"
  raw_block_number :: "'lg \<Rightarrow> u64 option"

definition event_processor_new :: "event_processor_config \<Rightarrow> event_processor" where
  "event_processor_new config = \<lparr>ev_config = config, ev_running = False, ev_block_number = 0, ev_event_number = 0\<rparr>"

definition event_processor_close :: "event_processor \<Rightarrow> event_processor" where
  "event_processor_close p = p\<lparr>ev_running := False\<rparr>"

text \<open>The processor together with the database store it writes to.\<close>

record ('s, 'd) event_env =
  ee_processor :: event_processor
  ee_db_store :: "('s, 'd) db_store"

abbreviation in_ee_db :: "(('s, 'd) db_store, 'a) action \<Rightarrow> (('s, 'd) event_env, 'a) action" where
  "in_ee_db \<equiv> on_field ee_db_store (\<lambda>x e. e\<lparr>ee_db_store := x\<rparr>)"

abbreviation set_processor :: "(event_processor \<Rightarrow> event_processor) \<Rightarrow> (('s, 'd) event_env, unit) action" where
  "set_processor f \<equiv> modify (\<lambda>e. e\<lparr>ee_processor := f (ee_processor e)\<rparr>)"

text \<open>The head of \<open>start\<close>: what the loop works with, and the filter it subscribes with.\<close>

definition event_start ::
  "('w, 'h) outside \<Rightarrow> libs \<Rightarrow> ('lg, 'ab, 'ev) contract_lib \<Rightarrow> (('s, 'd) event_env, bytes \<times> db3_address \<times> 'ab) action" where
  "event_start W L F =
     andThen (set_processor (\<lambda>p. p\<lparr>ev_running := True\<rparr>)) (\<lambda>_.
     andThen (gets (\<lambda>e. ev_config (ee_processor e))) (\<lambda>config.
     andThen (lift_lib StoreEventError (evm_address_parse W (epc_contract_addr config))) (\<lambda>address.
     andThen (reads (\<lambda>_. map_err (\<lambda>e. StoreEventError (display_db3_error e))
       (addr_from_hex L (epc_db_addr config)))) (\<lambda>db_addr.
     andThen (lift_lib StoreEventError (abi_from_str F (epc_abi config))) (\<lambda>abi.
     ok (address, db_addr, abi))))))"

text \<open>The loop over the events of the ABI: the first one with the log's signature, among the target events,
  that parses ends it.\<close>

fun match_events ::
  "'s engine \<Rightarrow> libs \<Rightarrow> 'd ejdb \<Rightarrow> ('lg, 'ab, 'ev) contract_lib \<Rightarrow> db3_address \<Rightarrow> 'lg \<Rightarrow> 'ev list \<Rightarrow>
   (('s, 'd) event_env, unit) action" where
  "match_events K L E F db_addr log [] = ok ()"
| "match_events K L E F db_addr log (e # es) =
     (case raw_topics F log of
        [] \<Rightarrow> fail (StoreEventError [])
      | topic # _ \<Rightarrow>
          andThen (gets (\<lambda>x. epc_target_events (ev_config (ee_processor x)))) (\<lambda>targets.
          if topic \<noteq> event_signature F e \<or> event_name F e \<notin> set targets
          then match_events K L E F db_addr log es
          else case parse_log F e log of
                 Inl _ \<Rightarrow> match_events K L E F db_addr log es
               | Inr params \<Rightarrow>
                   andThen (attempt (in_ee_db (add_docs K L E db_addr addr_zero (event_name F e)
                     [json_to_string L (log_to_doc L params)] None))) (\<lambda>added.
                   case added of
                     Some _ \<Rightarrow> set_processor (\<lambda>p. p\<lparr>ev_event_number := ev_event_number p + 1\<rparr>)
                   | None \<Rightarrow> ok ())))"

text \<open>One log of the stream; the answer says whether the loop goes on.\<close>

definition process_event_log ::
  "'s engine \<Rightarrow> libs \<Rightarrow> 'd ejdb \<Rightarrow> ('lg, 'ab, 'ev) contract_lib \<Rightarrow> db3_address \<Rightarrow> 'ab \<Rightarrow> 'lg \<Rightarrow>
   (('s, 'd) event_env, bool) action" where
  "process_event_log K L E F db_addr abi log =
     andThen (gets (\<lambda>e. ev_running (ee_processor e))) (\<lambda>running.
     if \<not> running then ok False
     else
       andThen (case raw_block_number F log of
           Some number \<Rightarrow> set_processor (\<lambda>p. p\<lparr>ev_block_number := number\<rparr>)
         | None \<Rightarrow> ok ()) (\<lambda>_.
       andThen (match_events K L E F db_addr log (abi_events F abi)) (\<lambda>_.
       ok True)))"

end
