(* ===== verification/Indexer.thy ===== *)
theory Indexer
  imports Storage_Node Event_Processor
begin

text \<open>
  The data index node (\<open>src/node/src/indexer_impl.rs\<close>) and its client of the rollup node
  (\<open>src/sdk/src/store_sdk_v2.rs\<close>): the indexer fetches the blocks of the rollup node and applies their
  mutations to its own database store, with the document ids the rollup node assigned. The gRPC channel is
  the parameter \<open>store_client\<close>. The loop of the cold start can run forever, so it is a partial function.
\<close>

type_synonym mutation_wrapper = "mutation_header option \<times> mutation_body option"

section \<open>The client\<close>

record ('w, 'h, 'td, 'st) store_client =
  rpc_get_block :: "u64 \<Rightarrow> u64 \<Rightarrow> 'w \<Rightarrow> (string + mutation_wrapper list) \<times> 'w"
  rpc_subscribe :: "string \<Rightarrow> string \<Rightarrow> 'w \<Rightarrow> (string + 'st) \<times> 'w"
  subscription_encode :: "subscription \<Rightarrow> string + bytes"
  bytes_text :: "bytes \<Rightarrow> string"
  subscribe_typed_data :: "(string \<times> json) list \<Rightarrow> 'td"
  client_sign :: "'h \<Rightarrow> 'td \<Rightarrow> string + string"
  typed_data_to_string :: "'td \<Rightarrow> string + string"

text \<open>The answer of the client as a handler's: a status with its text.\<close>

definition remote :: "('w \<Rightarrow> (string + 'a) \<times> 'w) \<Rightarrow> ('w, 'a) handler" where
  "remote f = (\<lambda>w. case f w of (Inl e, w1) \<Rightarrow> (Inl (Status Internal e), w1) | (Inr x, w1) \<Rightarrow> (Inr x, w1))"

definition subscribe_event_message ::
  "('w, 'h, 'td, 'st) store_client \<Rightarrow> 'h \<Rightarrow> ('w, 'st) handler" where
  "subscribe_event_message Q wallet =
     thenServe (lib_status Internal (\<lambda>e. ''Fail to encode subscription '' @ e)
       (subscription_encode Q \<lparr>sub_topics = [EVENT_TYPE_BLOCK]\<rparr>)) (\<lambda>buf.
     let typed_data = subscribe_typed_data Q [(''payload'', JString (bytes_text Q buf))]
     in thenServe (lib_status Internal (\<lambda>e. ''Fail to sign subscription '' @ e) (client_sign Q wallet typed_data)) (\<lambda>signature.
        thenServe (lib_status InvalidArgument (\<lambda>_. ''fail to convert typed data to json'')
          (typed_data_to_string Q typed_data)) (\<lambda>message_str.
        remote (rpc_subscribe Q (''0x'' @ signature) message_str))))"

definition get_blocks ::
  "('w, 'h, 'td, 'st) store_client \<Rightarrow> u64 \<Rightarrow> u64 \<Rightarrow> 'w \<Rightarrow> (string + mutation_wrapper list) \<times> 'w" where
  "get_blocks Q block_start block_end = rpc_get_block Q block_start block_end"

definition get_block_by_height ::
  "('w, 'h, 'td, 'st) store_client \<Rightarrow> u64 \<Rightarrow> 'w \<Rightarrow> (string + mutation_wrapper list) \<times> 'w" where
  "get_block_by_height Q height = get_blocks Q height (height + 1)"

section \<open>State\<close>

text \<open>\<open>ix_processors\<close> is the processor mapping; \<open>ix_spawned\<close> are the tasks handed to the runtime and
  \<open>ix_closed\<close> the processors whose flag was cleared.\<close>

record ('s, 'd, 't, 'w) indexer = "('s, 'd, 't, 'w) stores" +
  ix_processors :: "(string \<times> event_processor) list"
  ix_spawned :: "event_processor_config list"
  ix_closed :: "event_processor list"

definition indexer_new ::
  "('s, 'd) db_store \<Rightarrow> 't \<Rightarrow> 'w \<Rightarrow> ('s, 'd, 't, 'w) indexer" where
  "indexer_new db t w =
     \<lparr>sn_db_store = db, sn_state_store = t, sn_world = w, ix_processors = [], ix_spawned = [],
      ix_closed = []\<rparr>"

section \<open>Event tasks\<close>

definition start_an_event_task ::
  "libs \<Rightarrow> db3_address \<Rightarrow> string \<Rightarrow> string \<Rightarrow> string list \<Rightarrow> string \<Rightarrow> u64 \<Rightarrow> (('s, 'd, 't, 'w) indexer, unit) action" where
  "start_an_event_task L db evm_node_url abi tables contract_address start_block =
     (let db_addr = addr_to_hex L db;
          config = \<lparr>epc_evm_node_url = evm_node_url, epc_db_addr = db_addr, epc_abi = abi,
            epc_target_events = tables, epc_contract_addr = contract_address, epc_start_block = start_block\<rparr>
      in andThen (gets (\<lambda>x. map_of (ix_processors x) db_addr)) (\<lambda>present.
         if present \<noteq> None then fail (DatabaseAlreadyExist db_addr)
         else modify (\<lambda>x. x\<lparr>ix_processors := ix_processors x @ [(db_addr, event_processor_new config)],
                ix_spawned := ix_spawned x @ [config]\<rparr>)))"

definition close_event_task :: "libs \<Rightarrow> db3_address \<Rightarrow> (('s, 'd, 't, 'w) indexer, unit) action" where
  "close_event_task L db =
     (let addr = addr_to_hex L db
      in andThen (gets (\<lambda>x. map_of (ix_processors x) addr)) (\<lambda>task.
         case task of
           Some p \<Rightarrow> modify (\<lambda>x. x\<lparr>ix_processors := filter (\<lambda>(k, _). k \<noteq> addr) (ix_processors x),
             ix_closed := ix_closed x @ [event_processor_close p]\<rparr>)
         | None \<Rightarrow> fail (DatabaseNotFound addr)))"

text \<open>Start the task of an event database for the collections it has.\<close>

definition start_task_of ::
  "('s, 'd, 't, 'w, 'h, 'td, 'sg) node_libs \<Rightarrow> db3_address \<Rightarrow> event_database \<Rightarrow> collection list \<Rightarrow>
   (('s, 'd, 't, 'w) indexer, unit) action" where
  "start_task_of N addr database collections =
     andThen (attempt (start_an_event_task (libs_of N) addr (ed_evm_node_url database) (ed_events_json_abi database)
       (map col_name collections) (ed_contract_address database) 0)) (\<lambda>_. ok ())"

section \<open>Applying the mutations of a block\<close>

definition after_mutation ::
  "('s, 'd, 't, 'w, 'h, 'td, 'sg) node_libs \<Rightarrow> mutation_action \<Rightarrow> extra_item list \<Rightarrow> (('s, 'd, 't, 'w) indexer, unit) action" where
  "after_mutation N action extra_items = (case (action, extra_items) of
     (CreateEventDb, item # _) \<Rightarrow>
       if ei_key item = ''db_addr''
       then andThen (reads (\<lambda>_. addr_from_hex (libs_of N) (ei_value item))) (\<lambda>addr.
            andThen (reads (\<lambda>x. get_collection_of_database (engine_of N) (codecs_of N) (libs_of N) addr (sn_db_store x)))
              (\<lambda>(collections, _).
            andThen (reads (\<lambda>x. get_event_db (engine_of N) (codecs_of N) addr (sn_db_store x))) (\<lambda>found.
            case found of
              Some database \<Rightarrow> start_task_of N addr database collections
            | None \<Rightarrow> ok ())))
       else ok ()
   | (DeleteEventDb, item # _) \<Rightarrow>
       if ei_key item = ''db_addr''
       then andThen (reads (\<lambda>_. addr_from_hex (libs_of N) (ei_value item))) (\<lambda>addr. close_event_task (libs_of N) addr)
       else ok ()
   | _ \<Rightarrow> ok ())"

definition apply_wrapper ::
  "('s, 'd, 't, 'w, 'h, 'td, 'sg) node_libs \<Rightarrow> mutation_wrapper \<Rightarrow> (('s, 'd, 't, 'w) indexer, unit) action" where
  "apply_wrapper N m = (case m of
     (Some header, Some body) \<Rightarrow>
       andThen (reads (\<lambda>_. map_err (\<lambda>e. WriteStoreError (display_db3_error e))
         (unwrap_and_light_verify (eth_of N) (mb_payload body) (mb_signature body)))) (\<lambda>(dm, address, nonce).
       andThen (reads (\<lambda>_. ok_or (action_from_i32 (mut_action dm)) (WriteStoreError ''fail to convert action type''))) (\<lambda>action.
       andThen (reads (\<lambda>_. convert_doc_ids_map_to_vec (libs_of N) (mh_doc_ids_map header))) (\<lambda>doc_ids_map.
       andThen (in_db (apply_mutation (engine_of N) (codecs_of N) (libs_of N) (ejdb_of N) (bson_of N) action dm address
         (mh_network header) nonce (mh_block_id header) (mh_order_id header) doc_ids_map)) (\<lambda>extra_items.
       after_mutation N action extra_items))))
   | _ \<Rightarrow> panic ''called `Option::unwrap()` on a `None` value'')"

definition parse_and_apply_mutations ::
  "('s, 'd, 't, 'w, 'h, 'td, 'sg) node_libs \<Rightarrow> mutation_wrapper list \<Rightarrow> (('s, 'd, 't, 'w) indexer, unit) action" where
  "parse_and_apply_mutations N mutations = for_each (apply_wrapper N) mutations"

section \<open>Recovery\<close>

fun recover_event_dbs ::
  "('s, 'd, 't, 'w, 'h, 'td, 'sg) node_libs \<Rightarrow> event_database list \<Rightarrow> (('s, 'd, 't, 'w) indexer, unit) action" where
  "recover_event_dbs N [] = ok ()"
| "recover_event_dbs N (database # dbs) =
     andThen (reads (\<lambda>_. addr_try_from (ed_address database))) (\<lambda>db_address.
     andThen (reads (\<lambda>x. get_collection_of_database (engine_of N) (codecs_of N) (libs_of N) db_address (sn_db_store x)))
       (\<lambda>(collections, _).
     andThen (start_task_of N db_address database collections) (\<lambda>_.
     recover_event_dbs N dbs)))"

definition recover_state ::
  "('s, 'd, 't, 'w, 'h, 'td, 'sg) node_libs \<Rightarrow> (('s, 'd, 't, 'w) indexer, unit) action" where
  "recover_state N =
     andThen (in_db (recover_db_state (engine_of N) (codecs_of N) (libs_of N))) (\<lambda>_.
     andThen (reads (\<lambda>x. get_all_event_db (engine_of N) (codecs_of N) (sn_db_store x))) (\<lambda>databases.
     recover_event_dbs N databases))"

partial_function (option) fetch_blocks_loop ::
  "('s, 'd, 't, 'w, 'h, 'td, 'sg) node_libs \<Rightarrow> ('w, 'h, 'td, 'st) store_client \<Rightarrow> u64 \<Rightarrow>
   ('s, 'd, 't, 'w) indexer \<Rightarrow> (unit result \<times> ('s, 'd, 't, 'w) indexer) option" where
  "fetch_blocks_loop N Q from_block x =
     (case in_world (call WriteStoreError (get_blocks Q from_block (from_block + 1000))) x of (r, x1) \<Rightarrow>
        (case r of
           Inl e \<Rightarrow> Some (Inl e, x1)
         | Inr mutations \<Rightarrow>
             if mutations = [] then Some (Inr (), x1)
             else (case parse_and_apply_mutations N mutations x1 of (r2, x2) \<Rightarrow>
                     (case r2 of
                        Inl e \<Rightarrow> Some (Inl e, x2)
                      | Inr _ \<Rightarrow> fetch_blocks_loop N Q (from_block + 100) x2))))"

definition recover_from_fetched_blocks ::
  "('s, 'd, 't, 'w, 'h, 'td, 'sg) node_libs \<Rightarrow> ('w, 'h, 'td, 'st) store_client \<Rightarrow>
   ('s, 'd, 't, 'w) indexer \<Rightarrow> (unit result \<times> ('s, 'd, 't, 'w) indexer) option" where
  "recover_from_fetched_blocks N Q x =
     (case recover_block_state (engine_of N) (codecs_of N) (sn_db_store x) of
        Inl e \<Rightarrow> Some (Inl e, x)
      | Inr found \<Rightarrow> fetch_blocks_loop N Q (case found of Some b \<Rightarrow> bsp_block b | None \<Rightarrow> 0) x)"

definition indexer_recover ::
  "('s, 'd, 't, 'w, 'h, 'td, 'sg) node_libs \<Rightarrow> ('w, 'h, 'td, 'st) store_client \<Rightarrow>
   ('s, 'd, 't, 'w) indexer \<Rightarrow> (unit result \<times> ('s, 'd, 't, 'w) indexer) option" where
  "indexer_recover N Q x =
     (case recover_state N x of
        (Inl e, x1) \<Rightarrow> Some (Inl e, x1)
      | (Inr _, x1) \<Rightarrow> recover_from_fetched_blocks N Q x1)"

section \<open>Following the rollup node\<close>

definition handle_event ::
  "('s, 'd, 't, 'w, 'h, 'td, 'sg) node_libs \<Rightarrow> ('w, 'h, 'td, 'st) store_client \<Rightarrow> event_message \<Rightarrow>
   (('s, 'd, 't, 'w) indexer, unit) action" where
  "handle_event N Q event = (case evm_event event of
     Some be \<Rightarrow>
       if be_mutation_count be = 0 then ok ()
       else andThen (in_world (call WriteStoreError (get_block_by_height Q (be_block_id be)))) (\<lambda>mutations.
            parse_and_apply_mutations N mutations)
   | None \<Rightarrow> ok ())"

text \<open>What the loop of \<open>start\<close> does with a message: errors are logged.\<close>

definition follow_turn ::
  "('s, 'd, 't, 'w, 'h, 'td, 'sg) node_libs \<Rightarrow> ('w, 'h, 'td, 'st) store_client \<Rightarrow> event_message \<Rightarrow>
   (('s, 'd, 't, 'w) indexer, unit) action" where
  "follow_turn N Q event = andThen (attempt (handle_event N Q event)) (\<lambda>_. ok ())"

section \<open>Requests\<close>

record contract_sync_status =
  csy_addr :: string
  csy_evm_node_url :: string
  csy_block_number :: u64
  csy_event_number :: u64

definition get_contract_sync_status :: "(('s, 'd, 't, 'w) indexer, contract_sync_status list) handler" where
  "get_contract_sync_status = the_state (\<lambda>x. map (\<lambda>(_, p).
     \<lparr>csy_addr = epc_contract_addr (ev_config p), csy_evm_node_url = epc_evm_node_url (ev_config p),
      csy_block_number = ev_block_number p, csy_event_number = ev_event_number p\<rparr>) (ix_processors x))"

definition index_get_collection_of_database ::
  "('s, 'd, 't, 'w, 'h, 'td, 'sg) node_libs \<Rightarrow> string \<Rightarrow>
   (('s, 'd, 't, 'w) indexer, collection list \<times> collection_state_proto list) handler" where
  "index_get_collection_of_database N db_addr =
     thenServe (or_status InvalidArgument (\<lambda>e. ''invalid database address '' @ e)
       (reads (\<lambda>_. addr_from_hex (libs_of N) db_addr))) (\<lambda>addr.
     or_status Internal (\<lambda>e. ''fail to get collect of database '' @ e)
       (reads (\<lambda>x. get_collection_of_database (engine_of N) (codecs_of N) (libs_of N) addr (sn_db_store x))))"

definition index_addr :: "libs \<Rightarrow> string \<Rightarrow> ('n, db3_address) handler" where
  "index_addr L s = or_status InvalidArgument (\<lambda>e. ''fail to parse the db address for '' @ e) (reads (\<lambda>_. addr_from_hex L s))"

definition index_get_doc ::
  "('s, 'd, 't, 'w, 'h, 'td, 'sg) node_libs \<Rightarrow> string \<Rightarrow> string \<Rightarrow> i64 \<Rightarrow> (('s, 'd, 't, 'w) indexer, document option) handler" where
  "index_get_doc N db_addr col i =
     thenServe (index_addr (libs_of N) db_addr) (\<lambda>addr.
     internal (in_db (get_doc (engine_of N) (libs_of N) (ejdb_of N) addr col i)))"

definition run_query ::
  "('s, 'd, 't, 'w, 'h, 'td, 'sg) node_libs \<Rightarrow> string \<Rightarrow> string \<Rightarrow> query option \<Rightarrow>
   (('s, 'd, 't, 'w) indexer, document list \<times> u64) handler" where
  "run_query N db col q =
     thenServe (index_addr (libs_of N) db) (\<lambda>addr.
     case q of
       Some query \<Rightarrow> internal (in_db (query_docs (engine_of N) (libs_of N) (ejdb_of N) addr col query))
     | None \<Rightarrow> refuse InvalidArgument ''no query provided'')"

end
