(* ===== verification/Node_Requests.thy ===== *)
theory Node_Requests
  imports Indexer Rollup_Ledger Db_Invariant
begin

text \<open>
  What the requests of the rollup node do to its stores. A request is \<open>refused\<close>, and then nothing has
  changed, or it is executed: the nonce is taken, a position is handed out, the mutation is applied, and
  logged when that succeeds.
\<close>

section \<open>The phases of a mutation request\<close>

lemma attempt_Inr_iff:
  "attempt act n = (Inr (Some x), t) \<longleftrightarrow> act n = (Inr x, t)"
  "attempt act n = (Inr None, t) \<longleftrightarrow> (\<exists>e. act n = (Inl (Raised e), t))"
  by (auto simp: attempt_def split: prod.splits sum.splits fault.splits)

lemma refused_nonce_same:
  assumes "transactional X" "incr_nonce X a n t = (Inl e, u)"
  shows "u = t"
  using transactional.incr_nonce_safe [OF assms] by simp

lemma send_mutation_cases:
  assumes "transactional (mdbx_of N)" "send_mutation N now payload signature n = (res, n')"
  obtains (refused) "n' = n" "\<forall>r. res = Inr r \<longrightarrow> r = bad_nonce_response"
  | (executed) dm address nonce action v t where
      "unwrap_and_light_verify (eth_of N) payload signature = Inr (dm, address, nonce)"
      "action_from_i32 (mut_action dm) = Some action" "sn_network_id n \<noteq> 0"
      "incr_nonce (mdbx_of N) address nonce (sn_state_store n) = (Inr v, t)"
      "execute_mutation N now payload signature (sn_network_id n) dm address nonce action
         (n\<lparr>sn_state_store := t\<rparr>) = (res, n')"
proof (cases "sn_network_id n = 0")
  case True
  then have "n' = n" "\<forall>r. res \<noteq> Inr r" using assms(2) by (auto simp: send_mutation_def action_simps)
  then show ?thesis using refused by blast
next
  case net: False
  show ?thesis
  proof (cases "unwrap_and_light_verify (eth_of N) payload signature")
    case (Inl e)
    then have "n' = n" "\<forall>r. res \<noteq> Inr r"
      using assms(2) net by (auto simp: send_mutation_def action_simps or_status_def split: fault.splits)
    then show ?thesis using refused by blast
  next
    case (Inr y)
    obtain dm address nonce where y: "y = (dm, address, nonce)" by (cases y) auto
    show ?thesis
    proof (cases "action_from_i32 (mut_action dm)")
      case None
      then have "n' = n" "\<forall>r. res \<noteq> Inr r"
        using assms(2) net Inr y by (auto simp: send_mutation_def action_simps or_status_def)
      then show ?thesis using refused by blast
    next
      case (Some action)
      obtain q t where q: "incr_nonce (mdbx_of N) address nonce (sn_state_store n) = (q, t)" by force
      show ?thesis
      proof (cases q)
        case (Inl e)
        then have "t = sn_state_store n" using refused_nonce_same [OF assms(1)] q by blast
        then have "n' = n" "\<forall>r. res = Inr r \<longrightarrow> r = bad_nonce_response"
          using assms(2) net Inr y Some q Inl
          by (auto simp: send_mutation_def action_simps or_status_def attempt_def split: fault.splits)
        then show ?thesis using refused by blast
      next
        case v: (Inr v)
        show ?thesis
          by (rule executed [OF Inr [unfolded y] Some net q [unfolded v]])
            (use assms(2) net Inr y Some q v in \<open>simp add: send_mutation_def action_simps or_status_def attempt_def\<close>)
      qed
    qed
  qed
qed

text \<open>Taking a position touches only the counter.\<close>

lemma generate_run:
  "generate_mutation_block_and_order L payload signature m =
     (Inr (tx_to_hex L (tx_from_pair L payload (as_bytes signature)), bs_block (ms_block_state m),
        bs_order (ms_block_state m) + 1),
      m\<lparr>ms_block_state := \<lparr>bs_block = bs_block (ms_block_state m), bs_order = bs_order (ms_block_state m) + 1\<rparr>\<rparr>)"
  by (simp add: generate_mutation_block_and_order_def increase_order_def action_simps Let_def)

text \<open>An executed request, by the result of applying the mutation: what fails is not logged.\<close>

lemma execute_mutation_cases [consumes 1, case_names failed applied]:
  fixes n :: "('s, 'd, 't, 'w, 'z) log_stores_scheme"
  defines "block \<equiv> bs_block (ms_block_state (sn_storage n))"
    and "order \<equiv> bs_order (ms_block_state (sn_storage n)) + 1"
  assumes "execute_mutation N now payload signature network dm address nonce action n = (res, n')"
  obtains (failed) e db where
      "apply_mutation (engine_of N) (codecs_of N) (libs_of N) (ejdb_of N) (bson_of N) action dm address network nonce
         block order Map.empty (sn_db_store n) = (Inl e, db)"
      "\<forall>r. res \<noteq> Inr r"
      "n' = n\<lparr>sn_db_store := db, sn_storage := (sn_storage n)\<lparr>ms_block_state := \<lparr>bs_block = block, bs_order = order\<rparr>\<rparr>\<rparr>"
  | (applied) items db q m where
      "apply_mutation (engine_of N) (codecs_of N) (libs_of N) (ejdb_of N) (bson_of N) action dm address network nonce
         block order Map.empty (sn_db_store n) = (Inr items, db)"
      "add_mutation (engine_of N) (codecs_of N) (libs_of N) now payload signature
         (get_create_doc_ids_map (libs_of N) items) address nonce block order network action
         ((sn_storage n)\<lparr>ms_block_state := \<lparr>bs_block = block, bs_order = order\<rparr>\<rparr>) = (q, m)"
      "n' = n\<lparr>sn_db_store := db, sn_storage := m\<rparr>"
      "\<forall>r. res = Inr r \<longrightarrow> (\<exists>v. q = Inr v) \<and>
         r = \<lparr>smr_id = tx_to_hex (libs_of N) (tx_from_pair (libs_of N) payload (as_bytes signature)), smr_code = 0,
              smr_msg = ''ok'', smr_items = items, smr_block = block, smr_order = order\<rparr>"
      "\<forall>v. q = Inr v \<longrightarrow> (\<exists>r. res = Inr r)"
proof -
  let ?act = "apply_mutation (engine_of N) (codecs_of N) (libs_of N) (ejdb_of N) (bson_of N) action dm address network
    nonce block order Map.empty"
  let ?m1 = "(sn_storage n)\<lparr>ms_block_state := \<lparr>bs_block = block, bs_order = order\<rparr>\<rparr>"
  obtain q1 db where a: "?act (sn_db_store n) = (q1, db)" by force
  show ?thesis
  proof (cases q1)
    case (Inl e)
    show ?thesis
      by (rule failed [OF a [unfolded Inl]])
        (use assms(3) a Inl in \<open>auto simp: execute_mutation_def action_simps or_status_def generate_run Let_def
           block_def order_def split: fault.splits\<close>)
  next
    case (Inr items)
    obtain q m where l: "add_mutation (engine_of N) (codecs_of N) (libs_of N) now payload signature
         (get_create_doc_ids_map (libs_of N) items) address nonce block order network action ?m1 = (q, m)" by force
    show ?thesis
      by (rule applied [OF a [unfolded Inr] l])
        (use assms(3) a Inr l in \<open>auto simp: execute_mutation_def action_simps or_status_def generate_run Let_def
           block_def order_def split: fault.splits sum.splits\<close>)
  qed
qed

text \<open>What a taken nonce and a logged mutation say.\<close>

lemma taken_nonce:
  assumes "transactional X" "incr_nonce X a k t = (Inr v, u)"
  shows "k = nonce_of X t a + 1" "nonce_of X u = (nonce_of X t)(a := k)"
  using transactional.incr_nonce_safe [OF assms] by (auto simp: nonce_of_def fun_eq_iff)

lemma add_mutation_encodes:
  assumes "add_mutation K C L now payload signature ids address nonce block order network action m = (Inr v, m')"
  obtains buf hbuf where "encode (body_codec C) \<lparr>mb_payload = payload, mb_signature = signature\<rparr> = Inr buf"
    "encode (header_codec C)
       \<lparr>mh_block_id = block, mh_order_id = order, mh_sender = addr_as_ref address, mh_time = now,
        mh_id = tx_to_hex L (tx_from_pair L payload (as_bytes signature)), mh_size = of_nat (length buf),
        mh_nonce = nonce, mh_network = network, mh_action = action_to_i32 action, mh_doc_ids_map = ids\<rparr> = Inr hbuf"
  using assms
  by (auto simp: add_mutation_def encode_mutation_body_def encode_mutation_header_def andThen_eq_Inr_iff reads_def Let_def)

context platform
begin

text \<open>A request that is answered with success has been logged.\<close>

lemma executed_logged:
  assumes "K = engine_of N" "C = codecs_of N" "L = libs_of N" "ms_ready K (sn_storage n)"
    "execute_mutation N now payload signature network dm address nonce action n = (Inr r, n')"
  obtains h where
    "apply_mutation K C L (ejdb_of N) (bson_of N) action dm address network nonce (smr_block r) (smr_order r) Map.empty
       (sn_db_store n) = (Inr (smr_items r), sn_db_store n')"
    "get_mutation K C (tx_from_pair L payload (as_bytes signature)) (sn_storage n') =
       Inr (Some \<lparr>mb_payload = payload, mb_signature = signature\<rparr>)"
    "get_mutation_header K C (smr_block r) (smr_order r) (sn_storage n') = Inr (Some h)"
    "logged K C L (sn_storage n') h \<lparr>mb_payload = payload, mb_signature = signature\<rparr>"
    "position h = (smr_block r, smr_order r)" "mh_sender h = addr_as_ref address" "mh_nonce h = nonce"
    "mh_network h = network" "mh_action h = action_to_i32 action"
    "mh_doc_ids_map h = get_create_doc_ids_map L (smr_items r)"
    "smr_code r = 0" "mh_id h = smr_id r" "sn_state_store n' = sn_state_store n"
    "log_wf K C L (sn_storage n) \<Longrightarrow> log_wf K C L (sn_storage n')"
    "smr_block r = bs_block (ms_block_state (sn_storage n))" "smr_order r = bs_order (ms_block_state (sn_storage n)) + 1"
    "ms_ready K (sn_storage n')"
using assms(5)
proof (cases rule: execute_mutation_cases)
  case failed
  then show ?thesis by simp
next
  case (applied items db q m)
  let ?b = "bs_block (ms_block_state (sn_storage n))" and ?o = "bs_order (ms_block_state (sn_storage n)) + 1"
  let ?m1 = "(sn_storage n)\<lparr>ms_block_state := \<lparr>bs_block = ?b, bs_order = ?o\<rparr>\<rparr>"
  have r: "r = \<lparr>smr_id = tx_to_hex L (tx_from_pair L payload (as_bytes signature)), smr_code = 0,
      smr_msg = ''ok'', smr_items = items, smr_block = ?b, smr_order = ?o\<rparr>" and "\<exists>v. q = Inr v"
    using applied(4) assms(3) by auto
  then obtain v where "q = Inr v" by blast
  note add = applied(2) [folded assms(1-3), unfolded this]
  obtain buf hbuf where enc: "encode (body_codec C) \<lparr>mb_payload = payload, mb_signature = signature\<rparr> = Inr buf"
    "encode (header_codec C)
       \<lparr>mh_block_id = ?b, mh_order_id = ?o, mh_sender = addr_as_ref address, mh_time = now,
        mh_id = tx_to_hex L (tx_from_pair L payload (as_bytes signature)), mh_size = of_nat (length buf),
        mh_nonce = nonce, mh_network = network, mh_action = action_to_i32 action,
        mh_doc_ids_map = get_create_doc_ids_map L items\<rparr> = Inr hbuf"
    by (rule add_mutation_encodes [OF add])
  have ready: "ms_ready K ?m1" using assms(4) by (simp add: ms_ready_def)
  have wf1: "log_wf K C L (sn_storage n) \<Longrightarrow> log_wf K C L ?m1" by (simp add: log_wf_def logged_def)
  have m: "m = snd (add_mutation K C L now payload signature (get_create_doc_ids_map L items) address nonce ?b ?o
      network action ?m1)" using add by simp
  note read = add_mutation_read_back(1,2) [OF ready enc(1) refl enc(2) m]
  note lg = logged_add [OF ready enc(1) refl enc(2) m]
  note eff = add_mutation_effect(1) [OF ready enc(1) refl enc(2) m]
  show ?thesis
    by (rule that [of "\<lparr>mh_block_id = ?b, mh_order_id = ?o, mh_sender = addr_as_ref address, mh_time = now,
        mh_id = tx_to_hex L (tx_from_pair L payload (as_bytes signature)), mh_size = of_nat (length buf),
        mh_nonce = nonce, mh_network = network, mh_action = action_to_i32 action,
        mh_doc_ids_map = get_create_doc_ids_map L items\<rparr>"])
      (use applied(1,3) assms(1-3) r read lg(1) lg(3) [OF wf1] eff in \<open>simp_all add: position_def\<close>)
qed

end

end
