(* ===== verification/Sample_Node.thy ===== *)
theory Sample_Node
  imports Node_Requests Db_Theorems Rollup_Theorems
begin

text \<open>A concrete rollup node on the in-memory instances, whose request check accepts one given request.\<close>

definition sample_eth :: "mutation \<Rightarrow> db3_address \<Rightarrow> u64 \<Rightarrow> (string, unit) eth_lib" where
  "sample_eth dm address nonce = \<lparr>
     typed_data_from_str = Inr, typed_data_from_slice = (\<lambda>_. Inr []),
     typed_message = (\<lambda>_ name. if name = ''nonce'' then Some (JString (show_u64 nonce))
       else if name = ''payload'' then Some (JString []) else None),
     signature_from_str = (\<lambda>_. Inr ()), recover_typed_data = (\<lambda>_ _. Inr (addr_as_ref address)),
     bytes_from_value = (\<lambda>_. Inr []), mutation_decode = (\<lambda>_. Inr dm)\<rparr>"

abbreviation sample_linked ::
  "mutation \<Rightarrow> db3_address \<Rightarrow> u64 \<Rightarrow> (mem_state, mem_files, mem_env, mem_world, bytes, string, unit) node_libs" where
  "sample_linked dm address nonce \<equiv> \<lparr>engine_of = mem_engine, codecs_of = sample_codecs, libs_of = sample_libs,
     ejdb_of = mem_ejdb, bson_of = sample_bson, eth_of = sample_eth dm address nonce, outside_of = mem_outside,
     mdbx_of = mem_mdbx\<rparr>"

definition sample_rollup_state ::
  "(mem_state, mem_files) db_store \<Rightarrow> (mem_state, mem_files, mem_env, mem_world, bytes) storage_node" where
  "sample_rollup_state db = \<lparr>sn_db_store = db, sn_state_store = [],
     sn_world = \<lparr>mw_files = [], mw_txs = [], mw_latest = [], mw_dirs = 0\<rparr>, sn_storage = sample_log,
     ep_last_running = None, ep_flags = 0, ep_running = [], ep_jobs = [],
     sn_config = \<lparr>snc_store_config = default_mutation_store_config,
       snc_rollup_config = \<lparr>rc_temp_data_path = ''/tmp'', rc_key_root_path = ''/keys'', rc_use_legacy_tx = False\<rparr>,
       snc_db_store_config = sample_db_config, snc_block_interval = 2000\<rparr>,
     sn_running = True, sn_broadcast = [], sn_rollup_executor = sample_executor, sn_rollup_interval = 1000,
     sn_network_id = 3, sn_system_store = \<lparr>sys_key_root_path = ''/keys'', sys_evm_wallet_key = ''evm'', sys_ar_wallet_key = ''ar''\<rparr>\<rparr>"

lemma sample_rollup_fields [simp]:
  "sn_db_store (sample_rollup_state db) = db" "sn_state_store (sample_rollup_state db) = []"
  "sn_storage (sample_rollup_state db) = sample_log" "sn_network_id (sample_rollup_state db) = 3"
  by (simp_all add: sample_rollup_state_def)

lemma sample_verified:
  "unwrap_and_light_verify (sample_eth dm address nonce) payload signature = Inr (dm, address, nonce)"
  by (simp add: unwrap_and_light_verify_def sample_eth_def addr_of_def addr_as_ref_inverse)

lemma sample_nonces: "nonces_wf mem_mdbx []" "nonce_of mem_mdbx [] a = 0"
  by (simp_all add: nonces_wf_def nonce_of_def table_map_def mem_mdbx_def)

text \<open>A request whose mutation applies is answered with success.\<close>

lemma sample_log_clock: "ms_block_state sample_log = \<lparr>bs_block = 0, bs_order = 0\<rparr>"
  by (simp add: sample_log_def ms_new_def)

lemma sample_nonce_taken: "\<exists>t. incr_nonce mem_mdbx address 1 [] = (Inr 1, t)"
  using reliable_mdbx.incr_nonce_spec(2) [OF mem_env_reliable sample_nonces(1), of 1 address] sample_nonces(2) by (simp, blast)

lemma sample_send:
  assumes "apply_mutation mem_engine sample_codecs sample_libs mem_ejdb sample_bson action dm address 3 1 0 1 Map.empty db =
      (Inr items, db')" "action_from_i32 (mut_action dm) = Some action"
  shows "\<exists>r n'. send_mutation (sample_linked dm address 1) now payload signature (sample_rollup_state db) = (Inr r, n') \<and>
    smr_code r = 0 \<and> smr_items r = items"
proof -
  obtain t where t: "incr_nonce mem_mdbx address 1 [] = (Inr 1, t)" using sample_nonce_taken by blast
  let ?m1 = "sample_log\<lparr>ms_block_state := \<lparr>bs_block = 0, bs_order = 1\<rparr>\<rparr>"
  have ready: "ms_ready mem_engine ?m1" using sample_log_ready by (simp add: ms_ready_def)
  obtain v m where "add_mutation mem_engine sample_codecs sample_libs now payload signature
      (get_create_doc_ids_map sample_libs items) address 1 0 1 3 action ?m1 = (Inr v, m)"
    using platform.add_mutation_effect(6) [OF node_platform ready sample_codecs_encode(2) refl sample_codecs_encode(1) refl]
    by (metis prod.collapse)
  then show ?thesis
    using assms t by (simp add: send_mutation_def execute_mutation_def action_simps or_status_def attempt_def
        sample_verified generate_run Let_def sample_log_clock)
qed

lemma sample_empty_mutation:
  "\<exists>db'. apply_mutation mem_engine sample_codecs sample_libs mem_ejdb sample_bson CreateDocumentDb
     \<lparr>mut_action = action_to_i32 CreateDocumentDb, mut_bodies = []\<rparr> address 3 1 0 1 Map.empty sample_db0 = (Inr [], db')"
proof -
  obtain se where "db_write mem_engine [PutCf BLOCK_STATE_CF (as_bytes BLOCK_STATE_KEY)
      (projr (encode (block_state_codec sample_codecs) \<lparr>bsp_block = 0, bsp_order = 1\<rparr>))] sample_db0 =
      (Inr (), sample_db0\<lparr>db_se := se\<rparr>)"
    by (rule platform.db_write_ok [OF node_platform])
  then show ?thesis
    using sample_db0_ready sample_codecs_encode
    by (simp add: apply_mutation_def apply_create_document_db_def store_block_state_def put_entry_def action_simps db_ready_cf)
qed

end
