(* ===== verification/Node_Theorems.thy ===== *)
theory Node_Theorems
  imports Sample_Node
begin

text \<open>The statements about the requests of the rollup node, and their runs on the sample node.\<close>

section \<open>Mutation requests\<close>

text \<open>C25. A mutation request that is answered with success carries a valid signature and the next nonce of the
  account that signed it; the nonce is taken, the mutation has been applied with the answered items, and the
  log holds its body and a header at the answered position with the signer, nonce, network and document
  ids.\<close>

theorem accepted_mutation_is_applied_and_logged:
  assumes "platform K C L" and "K = engine_of N" and "C = codecs_of N" and "L = libs_of N"
    and "transactional (mdbx_of N)" and "ms_ready K (sn_storage n)"
    and "send_mutation N now payload signature n = (Inr r, n')" and "smr_code r = 0"
  shows "\<exists>dm address nonce action h.
    unwrap_and_light_verify (eth_of N) payload signature = Inr (dm, address, nonce) \<and>
    nonce = nonce_of (mdbx_of N) (sn_state_store n) address + 1 \<and>
    nonce_of (mdbx_of N) (sn_state_store n') = (nonce_of (mdbx_of N) (sn_state_store n))(address := nonce) \<and>
    apply_mutation K C L (ejdb_of N) (bson_of N) action dm address (sn_network_id n) nonce (smr_block r) (smr_order r)
      Map.empty (sn_db_store n) = (Inr (smr_items r), sn_db_store n') \<and>
    get_mutation_header K C (smr_block r) (smr_order r) (sn_storage n') = Inr (Some h) \<and>
    mh_sender h = addr_as_ref address \<and> mh_nonce h = nonce \<and> mh_network h = sn_network_id n \<and> mh_id h = smr_id r \<and>
    mh_doc_ids_map h = get_create_doc_ids_map L (smr_items r) \<and>
    get_mutation K C (tx_from_pair L payload (as_bytes signature)) (sn_storage n') =
      Inr (Some \<lparr>mb_payload = payload, mb_signature = signature\<rparr>)"
  using assms(5,7)
proof (cases rule: send_mutation_cases)
  case refused
  then show ?thesis using assms(8) by (simp add: bad_nonce_response_def)
next
  case (executed dm address nonce action v t)
  have ready: "ms_ready K (sn_storage (n\<lparr>sn_state_store := t\<rparr>))" using assms(6) by simp
  note nonce = taken_nonce [OF assms(5) executed(4)]
  show ?thesis
    by (rule platform.executed_logged [OF assms(1-4) ready executed(5)])
      (use executed(1) nonce in \<open>auto intro!: exI\<close>)
qed

theorem accepted_mutation_is_applied_and_logged_witness:
  "\<exists>r n' h. send_mutation (sample_linked \<lparr>mut_action = action_to_i32 CreateDocumentDb, mut_bodies = []\<rparr> addr_one 1) 100
      sample_payload ''sig'' (sample_rollup_state sample_db0) = (Inr r, n') \<and>
    get_mutation_header mem_engine sample_codecs (smr_block r) (smr_order r) (sn_storage n') = Inr (Some h) \<and>
    mh_id h = smr_id r"
proof -
  obtain r n' where r: "send_mutation (sample_linked \<lparr>mut_action = action_to_i32 CreateDocumentDb, mut_bodies = []\<rparr> addr_one 1) 100
      sample_payload ''sig'' (sample_rollup_state sample_db0) = (Inr r, n')" "smr_code r = 0"
    using sample_empty_mutation [of addr_one] sample_send [where action = CreateDocumentDb] by fastforce
  have "ms_ready mem_engine (sn_storage (sample_rollup_state sample_db0))" by (simp add: sample_log_ready)
  from accepted_mutation_is_applied_and_logged [OF node_platform _ _ _ _ this r] r(1) show ?thesis
    by (simp add: mem_env_transactional) blast
qed

text \<open>C26. A mutation request changes nothing of the node, unless the node has been set up and the request
  carries a valid signature and the next nonce of the account that signed it; then that nonce is used up,
  and no other account's nonce changes. A request is therefore executed at most once.\<close>

theorem only_signed_requests_change_the_node:
  assumes "transactional (mdbx_of N)" and "send_mutation N now payload signature n = (res, n')"
  shows "n' = n \<or> (\<exists>dm address nonce.
    unwrap_and_light_verify (eth_of N) payload signature = Inr (dm, address, nonce) \<and> sn_network_id n \<noteq> 0 \<and>
    nonce = nonce_of (mdbx_of N) (sn_state_store n) address + 1 \<and>
    nonce_of (mdbx_of N) (sn_state_store n') = (nonce_of (mdbx_of N) (sn_state_store n))(address := nonce))"
  using assms
proof (cases rule: send_mutation_cases)
  case refused
  then show ?thesis by simp
next
  case (executed dm address nonce action v t)
  have "sn_state_store n' = t"
    using executed(5) by (cases rule: execute_mutation_cases) simp_all
  with executed taken_nonce [OF assms(1) executed(4)] show ?thesis by blast
qed

theorem only_signed_requests_change_the_node_witness:
  "snd (send_mutation (sample_linked \<lparr>mut_action = 0, mut_bodies = []\<rparr> addr_one 2) 100 sample_payload ''sig''
     (sample_rollup_state sample_db0)) = sample_rollup_state sample_db0"
proof -
  let ?N = "sample_linked \<lparr>mut_action = 0, mut_bodies = []\<rparr> addr_one 2"
  have "transactional (mdbx_of ?N)" by (simp add: mem_env_transactional)
  from only_signed_requests_change_the_node [OF this surjective_pairing, of 100 sample_payload "''sig''"
      "sample_rollup_state sample_db0"]
  show ?thesis by (simp add: sample_verified sample_nonces)
qed

text \<open>C27. A mutation that fails halfway is not undone and not logged. A request to add the same new collection
  twice is refused as an internal error; afterwards the collection exists, the nonce is used up, and the
  log is what it was: neither an index node nor a recovery will ever see the collection.\<close>

theorem failed_mutation_stays_half_applied:
  assumes "platform K C L" and "K = engine_of N" and "C = codecs_of N" and "L = libs_of N"
    and "reliable_mdbx (mdbx_of N)" and "nonces_wf (mdbx_of N) (sn_state_store n)" and "sn_network_id n \<noteq> 0"
    and "unwrap_and_light_verify (eth_of N) payload signature = Inr (dm, address, nonce)"
    and "nonce = nonce_of (mdbx_of N) (sn_state_store n) address + 1"
    and "dm = \<lparr>mut_action = action_to_i32 AddCollection, mut_bodies = [w, w]\<rparr>"
    and "w = \<lparr>bw_db_address = addr_as_ref a, bw_body = Some (CollectionMutation cm)\<rparr>"
    and "reliable_files (ejdb_of N)" and "db_ready K (sn_db_store n)"
    and "get_database K C a (sn_db_store n) = Inr (Some d)"
    and "build_collection_key a (cm_collection_name cm) = Inr ck"
    and "is_db_collection_exist K a (cm_collection_name cm) (sn_db_store n) = Inr False"
    and "c = \<lparr>col_name = cm_collection_name cm, col_index_fields = cm_index_fields cm, col_sender = addr_as_ref address\<rparr>"
    and "encode (collection_codec C) c = Inr buf" and "\<forall>f \<in> set (cm_index_fields cm). unat (ix_index_type f) < 4"
  shows "\<exists>msg n'. send_mutation N now payload signature n = (Inl (Status Internal msg), n') \<and>
    get_collection K C a (cm_collection_name cm) (sn_db_store n') = Inr (Some c) \<and>
    nonce_of (mdbx_of N) (sn_state_store n') address = nonce \<and>
    ms_se (sn_storage n') = ms_se (sn_storage n) \<and> mutation_count (sn_storage n') = mutation_count (sn_storage n)"
proof -
  let ?E = "ejdb_of N" and ?b = "bs_block (ms_block_state (sn_storage n))" and ?o = "bs_order (ms_block_state (sn_storage n)) + 1"
  obtain m1 where m1: "save_collection_internal K C L ?E address a (cm_collection_name cm) (cm_index_fields cm)
      (sn_db_store n) = (Inr (), m1)" "get_collection K C a (cm_collection_name cm) m1 = Inr (Some c)"
    "is_db_collection_exist K a (cm_collection_name cm) m1 = Inr True"
    by (rule platform.save_collection_run [OF assms(1,13-15,17,18,12,19)]) (rule that)
  have cc: "create_collection K C L ?E address a cm ?b ?o i (sn_db_store n) = (Inr (), m1)" for i
    using assms(16) m1(1) by (simp add: create_collection_def action_simps)
  note again = platform.create_existing_collection [OF assms(1) m1(3), of ?E address ?b ?o]
  obtain e where "apply_mutation K C L ?E (bson_of N) AddCollection dm address (sn_network_id n) nonce ?b ?o Map.empty
      (sn_db_store n) = (Inl (Raised e), m1)"
    by (simp add: apply_mutation_def apply_add_collection_def body_address_def action_simps assms(10,11)
        enumerate_eq_zip cc again)
  moreover obtain t where "incr_nonce (mdbx_of N) address nonce (sn_state_store n) = (Inr nonce, t)"
    "nonce_of (mdbx_of N) t = (nonce_of (mdbx_of N) (sn_state_store n))(address := nonce)"
    using reliable_mdbx.incr_nonce_spec(2) [OF assms(5,6,9)] by blast
  moreover have "action_from_i32 (mut_action dm) = Some AddCollection" by (simp add: assms(10))
  ultimately show ?thesis
    using assms(7,8) m1(2)
    by (simp add: send_mutation_def execute_mutation_def action_simps or_status_def attempt_def generate_run
        Let_def assms(2-4))
qed

theorem failed_mutation_stays_half_applied_witness:
  "\<exists>n'. snd (send_mutation (sample_linked \<lparr>mut_action = action_to_i32 AddCollection, mut_bodies =
        [\<lparr>bw_db_address = addr_as_ref addr_zero, bw_body = Some (CollectionMutation \<lparr>cm_index_fields = [], cm_collection_name = ''books''\<rparr>)\<rparr>,
         \<lparr>bw_db_address = addr_as_ref addr_zero, bw_body = Some (CollectionMutation \<lparr>cm_index_fields = [], cm_collection_name = ''books''\<rparr>)\<rparr>]\<rparr>
      addr_one 1) 100 sample_payload ''sig'' (sample_rollup_state sample_db1)) = n' \<and>
    get_collection mem_engine sample_codecs addr_zero ''books'' (sn_db_store n') =
      Inr (Some \<lparr>col_name = ''books'', col_index_fields = [], col_sender = addr_as_ref addr_one\<rparr>) \<and>
    ms_se (sn_storage n') = ms_se sample_log"
proof -
  let ?w = "\<lparr>bw_db_address = addr_as_ref addr_zero, bw_body = Some (CollectionMutation \<lparr>cm_index_fields = [], cm_collection_name = ''books''\<rparr>)\<rparr>"
  let ?dm = "\<lparr>mut_action = action_to_i32 AddCollection, mut_bodies = [?w, ?w]\<rparr>"
  let ?N = "sample_linked ?dm addr_one 1" and ?n = "sample_rollup_state sample_db1"
  obtain d where d: "sample_get_database sample_db1 = Inr (Some d)" using sample_db1_facts(2) ..
  have "cf_map mem_engine (db_se sample_db1) ''col'' = Map.empty"
    by (rule platform.create_database_run [OF node_platform sample_db0_ready sample_no_database sample_files
          sample_codecs_encode(6), where s = addr_one and desc = "''desc''" and block = 1 and order = 1])
      (simp add: sample_db1_def sample_db0_fields sample_db_config_def)
  then have no: "is_db_collection_exist mem_engine addr_zero ''books'' sample_db1 = Inr False"
    by (simp add: platform.collection_exist_eq [OF node_platform sample_db1_facts(1) sample_key] sample_db1_facts
        sample_db_config_def)
  have "\<exists>msg n'. send_mutation ?N 100 sample_payload ''sig'' ?n = (Inl (Status Internal msg), n') \<and>
      get_collection mem_engine sample_codecs addr_zero ''books'' (sn_db_store n') =
        Inr (Some \<lparr>col_name = ''books'', col_index_fields = [], col_sender = addr_as_ref addr_one\<rparr>) \<and>
      nonce_of (mdbx_of ?N) (sn_state_store n') addr_one = 1 \<and>
      ms_se (sn_storage n') = ms_se (sn_storage ?n) \<and> mutation_count (sn_storage n') = mutation_count (sn_storage ?n)"
    using failed_mutation_stays_half_applied [OF node_platform _ _ _ _ _ _ _ _ refl refl, where N = ?N and n = ?n and
        payload = sample_payload and signature = "''sig''" and address = addr_one and nonce = 1 and a = addr_zero and now = 100 and
        cm = "\<lparr>cm_index_fields = [], cm_collection_name = ''books''\<rparr>"]
    by (simp add: sample_verified sample_nonces mem_env_reliable sample_files sample_db1_facts(1) d sample_key no)
  then show ?thesis by auto
qed

end
