(* ===== verification/Replica.thy ===== *)
theory Replica
  imports Db_Databases Mutation_Utils
begin

text \<open>
  Two database stores in step: the rollup node keeps no documents, an index node does; otherwise they hold
  the same entries and counters (\<open>replica\<close>). An operation is \<open>mirrored\<close> if whenever it succeeds on the
  index node, it succeeds with the same result on the rollup node, and the two are in step again. All
  mutations are. Replaying a mutation with the document ids of its first run repeats that run.
\<close>

section \<open>Stores in step\<close>

definition same_families :: "db_store_config \<Rightarrow> db_store_config \<Rightarrow> bool" where
  "same_families c c' \<longleftrightarrow> db_store_cf_name c' = db_store_cf_name c \<and>
     collection_store_cf_name c' = collection_store_cf_name c \<and>
     doc_owner_store_cf_name c' = doc_owner_store_cf_name c \<and>
     db_owner_store_cf_name c' = db_owner_store_cf_name c"

definition replica :: "'s engine \<Rightarrow> ('s, 'd) db_store \<Rightarrow> ('s, 'd) db_store \<Rightarrow> bool" where
  "replica K m x \<longleftrightarrow> \<not> enable_doc_store (db_config m) \<and> same_families (db_config m) (db_config x) \<and>
     cf_map K (db_se x) = cf_map K (db_se m) \<and> cf_handle K (db_se x) = cf_handle K (db_se m) \<and>
     db_state x = db_state m"

definition mirrored :: "'s engine \<Rightarrow> (('s, 'd) db_store, 'a) action \<Rightarrow> bool" where
  "mirrored K act \<longleftrightarrow> (\<forall>m x r x'. replica K m x \<longrightarrow> act x = (Inr r, x') \<longrightarrow>
     (\<exists>m'. act m = (Inr r, m') \<and> replica K m' x'))"

named_theorems mirror_intros \<open>composition rules for mirrored operations\<close>

lemma mirrored_pure [mirror_intros]: "mirrored K (ok v)" "mirrored K (fail e)" "mirrored K (panic msg)"
  by (simp_all add: mirrored_def action_simps)

lemma mirrored_andThen:
  "mirrored K act \<Longrightarrow> (\<And>v. mirrored K (f v)) \<Longrightarrow> mirrored K (andThen act f)"
  unfolding mirrored_def andThen_eq_Inr_iff by meson

lemma mirrored_reads: "(\<And>m x. replica K m x \<Longrightarrow> g x = g m) \<Longrightarrow> mirrored K (reads g)"
  by (auto simp: mirrored_def reads_def)

lemma mirrored_gets: "(\<And>m x. replica K m x \<Longrightarrow> g x = g m) \<Longrightarrow> mirrored K (gets g)"
  by (auto simp: mirrored_def gets_def)

lemma mirrored_modify: "(\<And>m x. replica K m x \<Longrightarrow> replica K (g m) (g x)) \<Longrightarrow> mirrored K (modify g)"
  by (auto simp: mirrored_def modify_def)

lemma mirrored_config:
  assumes "\<And>c c'. same_families c c' \<Longrightarrow> f c' = f c" "\<And>c. mirrored K (f c)"
  shows "mirrored K (andThen (gets db_config) f)"
proof -
  have "\<exists>m'. f (db_config m) m = (Inr r, m') \<and> replica K m' x'"
    if "replica K m x" "f (db_config x) x = (Inr r, x')" for m x r x'
    using that assms(2) [of "db_config m"] assms(1) [of "db_config m" "db_config x"]
    by (auto simp: replica_def mirrored_def)
  then show ?thesis by (auto simp: mirrored_def action_simps)
qed

lemma mirrored_map_err: "mirrored K act \<Longrightarrow> mirrored K (map_err_of f act)"
  unfolding mirrored_def map_err_of_def by (fastforce split: prod.splits)

lemma mirrored_if [mirror_intros]: "mirrored K act \<Longrightarrow> mirrored K act' \<Longrightarrow> mirrored K (if b then act else act')"
  by simp

lemma mirrored_option [mirror_intros]:
  "mirrored K act \<Longrightarrow> (\<And>v. mirrored K (f v)) \<Longrightarrow> mirrored K (case opt of None \<Rightarrow> act | Some v \<Rightarrow> f v)"
  by (cases opt) auto

lemma mirrored_for_each: "(\<And>v. mirrored K (f v)) \<Longrightarrow> mirrored K (for_each f vs)"
  by (induction vs) (simp_all add: mirrored_pure mirrored_andThen)

lemma mirrored_collect_each: "(\<And>v. mirrored K (f v)) \<Longrightarrow> mirrored K (collect_each f vs)"
  by (induction vs) (auto simp: mirrored_pure intro!: mirrored_andThen)

text \<open>What is done to the documents is done on one side only.\<close>

lemma replica_docs: "replica K m x \<Longrightarrow> replica K m (x\<lparr>db_doc_store := t\<rparr>)"
  by (simp add: replica_def)

lemma mirrored_docs:
  assumes "mirrored K act"
  shows "mirrored K (andThen (gets (\<lambda>m. enable_doc_store (db_config m))) (\<lambda>enabled.
    andThen (if enabled then on_docs docs else ok ()) (\<lambda>_. act)))"
proof -
  have "\<exists>m'. act m = (Inr r, m') \<and> replica K m' x'"
    if "replica K m x" "andThen (on_docs docs) (\<lambda>_. act) x = (Inr r, x')" for m x r x'
    using that assms replica_docs unfolding mirrored_def andThen_eq_Inr_iff on_field_def
    by (fastforce split: prod.splits)
  then show ?thesis
    using assms by (auto simp: mirrored_def action_simps replica_def split: if_splits)
qed

lemma mirrored_docs_last:
  "mirrored K (andThen (gets (\<lambda>m. enable_doc_store (db_config m))) (\<lambda>enabled. if enabled then on_docs docs else ok ()))"
  "mirrored K (andThen (gets (\<lambda>m. enable_doc_store (db_config m))) (\<lambda>enabled.
     if enabled then map_err_of f (on_docs docs) else ok ()))"
  by (auto simp: mirrored_def action_simps replica_def map_err_of_def on_field_def split: prod.splits)

lemma mirrored_counters:
  "mirrored K (update_db_state_for_add_db a)"
  "mirrored K (update_db_state_for_new_collection a col)"
  "mirrored K (update_db_state_for_delete_docs a col n)"
  unfolding update_db_state_for_add_db_def update_db_state_for_new_collection_def update_db_state_for_delete_docs_def
  by (rule mirrored_modify; auto simp: replica_def split: option.splits)+

lemma mirrored_add_counters: "mirrored K (update_db_state_for_add_docs a col n ids)"
  by (auto simp: mirrored_def update_db_state_for_add_docs_def replica_def Let_def split: option.splits if_splits)

lemma owners_checked_cong:
  "get_cf K se = get_cf K se' \<Longrightarrow> owners_checked K se cf s a ids = owners_checked K se' cf s a ids"
  by (induction ids) (simp_all add: bindR_def split: sum.split option.split)

context platform
begin

section \<open>Reads\<close>

lemma replica_engine:
  assumes "replica K m x"
  shows "get_cf K (db_se x) = get_cf K (db_se m)" "raw_iterator_cf K (db_se x) = raw_iterator_cf K (db_se m)"
    "db_cf K cf e x = db_cf K cf e m" "same_families (db_config m) (db_config x)" "db_state x = db_state m"
proof -
  have v: "cf_map K (db_se x) = cf_map K (db_se m)" using assms by (simp add: replica_def)
  show "get_cf K (db_se x) = get_cf K (db_se m)" by (intro ext) (simp add: get_cf_eq v)
  show "raw_iterator_cf K (db_se x) = raw_iterator_cf K (db_se m)"
    by (intro ext iterator_unchanged) (simp add: v)
qed (use assms in \<open>simp_all add: replica_def db_cf_def\<close>)

lemma replica_reads:
  assumes "replica K m x"
  shows "get_database K C a x = get_database K C a m" "get_event_db K C a x = get_event_db K C a m"
    "get_collection K C a col x = get_collection K C a col m"
    "is_db_collection_exist K a col x = is_db_collection_exist K a col m"
    "verify_docs_ownership K s a ids x = verify_docs_ownership K s a ids m"
  using replica_engine [OF assms] owners_checked_cong [OF replica_engine(1) [OF assms]]
  by (simp_all add: get_database_def get_event_db_def get_entry_def get_collection_def is_db_collection_exist_def
      verify_docs_ownership_def same_families_def)

lemma mirrored_db_reads [mirror_intros]:
  "mirrored K (reads (get_database K C a))" "mirrored K (reads (get_event_db K C a))"
  "mirrored K (reads (get_collection K C a col))" "mirrored K (reads (is_db_collection_exist K a col))"
  "mirrored K (reads (verify_docs_ownership K s a ids))" "mirrored K (reads (db_cf K cf e))"
  "mirrored K (reads (\<lambda>_. v))" "mirrored K (gets (get_database K C a))"
  by (rule mirrored_reads mirrored_gets; simp add: replica_reads replica_engine)+

lemma mirrored_families [mirror_intros]:
  "mirrored K (gets (\<lambda>m. collection_store_cf_name (db_config m)))"
  "mirrored K (gets (\<lambda>m. doc_owner_store_cf_name (db_config m)))"
  by (rule mirrored_gets, simp add: replica_def same_families_def)+

lemma mirrored_write [mirror_intros]: "mirrored K (db_write K ops)"
proof -
  have "\<exists>m'. db_write K ops m = (Inr r, m') \<and> replica K m' x'"
    if rep: "replica K m x" and run: "db_write K ops x = (Inr r, x')" for m x :: "('s, 'd) db_store" and r x'
  proof -
    obtain se where se: "write_batch K (db_se m) ops = Inr se" "db_write K ops m = (Inr (), m\<lparr>db_se := se\<rparr>)"
      by (rule db_write_ok)
    obtain se' where se': "write_batch K (db_se x) ops = Inr se'" "db_write K ops x = (Inr (), x\<lparr>db_se := se'\<rparr>)"
      by (rule db_write_ok)
    have "cf_map K se' = cf_map K se"
      using rep by (intro ext) (simp add: write_applies [OF se(1)] write_applies [OF se'(1)] replica_def)
    moreover have "cf_handle K se' = cf_handle K se"
      using rep by (simp add: write_handles [OF se(1)] write_handles [OF se'(1)] replica_def)
    ultimately show ?thesis using rep run se(2) se'(2) by (auto simp: replica_def)
  qed
  then show ?thesis by (auto simp: mirrored_def)
qed

lemmas mirror_rules = mirrored_andThen mirror_intros mirrored_map_err mirrored_for_each mirrored_collect_each
  mirrored_counters mirrored_add_counters mirrored_docs mirrored_docs_last

section \<open>Operations\<close>

lemma mirrored_put_entry: "mirrored K (put_entry K c cf key v)"
  unfolding put_entry_def by (intro mirror_rules)

lemma mirrored_put_database: "mirrored K (put_database K C L s a block order d)"
  unfolding put_database_def
  by (rule mirrored_config) (simp add: same_families_def, intro mirror_rules)

lemma mirrored_create_doc_file: "mirrored K (create_doc_file L E a)"
  unfolding create_doc_file_def by (rule mirror_rules)

lemma mirrored_save_collection: "mirrored K (save_collection_internal K C L E s a name ix)"
  unfolding save_collection_internal_def by (intro mirror_rules)

lemma mirrored_create_collection: "mirrored K (create_collection K C L E s a cm block order i)"
  unfolding create_collection_def by (intro mirror_rules mirrored_save_collection)

lemma mirrored_add_index: "mirrored K (db_add_index K C L E a col ix s)"
  unfolding db_add_index_def Let_def by (intro mirror_rules mirrored_save_collection)

lemma mirrored_create_event: "mirrored K (create_event_database K C L E s em nonce net block order)"
  unfolding create_event_database_def Let_def
  by (intro mirror_rules mirrored_put_database mirrored_create_doc_file)
    (auto split: prod.split intro: mirrored_create_collection)

lemma mirrored_create_predefined: "mirrored K (create_predefined_doc_database K C L E s a desc block order)"
  unfolding create_predefined_doc_database_def
  by (rule mirrored_andThen, rule mirror_rules)
    (auto split: sum.split option.split intro!: mirror_rules mirrored_put_database mirrored_create_doc_file)

lemma mirrored_delete_event: "mirrored K (delete_event_db K C L s a)"
proof -
  have it: "mirrored K (reads (\<lambda>m. find_owner_key s a (seek (addr_as_ref s) (raw_iterator_cf K (db_se m) cf))))" for cf
    by (rule mirrored_reads) (simp add: replica_engine)
  have "mirrored K (delete_event_db_internal K s a)"
    unfolding delete_event_db_internal_def
    by (rule mirrored_config) (simp add: same_families_def cong: option.case_cong, intro mirror_rules it)
  then show ?thesis unfolding delete_event_db_def by (intro mirror_rules)
qed

lemma mirrored_ownership:
  "mirrored K (create_doc_ownership K s a ids)" "mirrored K (delete_doc_ids_from_owner_store K a ids)"
  unfolding create_doc_ownership_def delete_doc_ids_from_owner_store_def by (intro mirror_rules)+

lemma mirrored_require: "mirrored K (require_collection K L a col)"
  unfolding require_collection_def by (intro mirror_rules)

lemma mirrored_documents:
  "mirrored K (add_docs K L E a s col docs given)" "mirrored K (update_docs K L E a s col docs ids)"
  "mirrored K (delete_docs K L E a s col ids)"
  unfolding add_docs_def update_docs_def delete_docs_def
  by (intro mirror_rules mirrored_require mirrored_ownership)+

lemma mirrored_body [mirror_intros]: "mirrored K (body_address w)" "mirrored K (documents_of B bufs)"
  unfolding body_address_def documents_of_def by (intro mirror_rules)+

lemmas mirrored_operations = mirrored_put_entry mirrored_create_collection mirrored_save_collection mirrored_add_index
  mirrored_create_event mirrored_create_predefined mirrored_delete_event mirrored_documents mirrored_body

lemma mirrored_apply:
  "mirrored K (apply_mutation K C L E B action dm s net nonce block order ids_map)"
  unfolding apply_mutation_def store_block_state_def
  by (intro mirror_rules mirrored_operations)
    (cases action; auto simp: apply_delete_event_db_def apply_add_index_def apply_mint_collection_def
      apply_mint_document_db_def apply_create_event_db_def apply_create_document_db_def apply_add_collection_def
      apply_add_document_def apply_update_document_def apply_delete_document_def create_doc_database_def Let_def
      split: list.split option.split body.split prod.split intro!: mirror_rules mirrored_operations)

end

section \<open>Replaying with the ids of the first run\<close>

lemma max_i64_eqI:
  assumes "y \<in> set xs" "\<forall>x \<in> set xs. sint x \<le> sint y"
  shows "max_i64 xs = Some y"
proof -
  have ge: "max_i64 zs = Some z \<Longrightarrow> z \<in> set zs \<and> (\<forall>x \<in> set zs. sint x \<le> sint z)" for zs z
  proof (induction zs arbitrary: z)
    case (Cons a zs)
    show ?case
    proof (cases "max_i64 zs")
      case None
      then have "zs = []" by (cases zs) (auto split: option.splits)
      then show ?thesis using Cons.prems by simp
    next
      case (Some y)
      from Cons.IH [OF Some] Cons.prems Some show ?thesis by (auto split: if_splits)
    qed
  qed simp
  have "max_i64 xs \<noteq> None" using assms(1) by (cases xs) (auto split: option.splits)
  then obtain z where z: "max_i64 xs = Some z" by blast
  then have "sint z = sint y" using ge [OF z] assms by (meson order_antisym)
  then show ?thesis using z word_eq_iff_signed by metis
qed

lemma max_new_ids:
  assumes "0 < n" "sint order + int n < 2 ^ 63"
  shows "max_i64 (new_ids order n) = Some (order + of_nat n)"
proof (rule max_i64_eqI)
  show "order + of_nat n \<in> set (new_ids order n)" using assms(1) by (auto simp: new_ids_def)
qed (use new_ids_range [OF assms(2)] in blast)

lemma add_docs_replay:
  assumes "add_docs K L E a s col docs None m = (Inr ids, m')" "docs \<noteq> []"
    "\<And>st. db_state m (addr_to_hex L a) = Some st \<Longrightarrow> sint (doc_order st) + int (length docs) < 2 ^ 63"
  shows "add_docs K L E a s col docs (Some ids) m = (Inr ids, m')"
proof -
  let ?hex = "addr_to_hex L a"
  obtain u where req: "require_collection K L a col m = (Inr u, m)"
    using assms(1)
    by (auto simp: add_docs_def require_collection_def action_simps split: sum.splits if_splits)
  show ?thesis
  proof (cases "db_state m ?hex")
    case None
    then show ?thesis
      using assms(1) req by (simp add: add_docs_def action_simps update_db_state_for_add_docs_def)
  next
    case (Some st)
    obtain m1 where m1: "update_db_state_for_add_docs ?hex col (length docs) None m =
        (Inr (Some (new_ids (doc_order st) (length docs))), m1)"
      using add_counters_none [OF Some] by blast
    then have "ids = new_ids (doc_order st) (length docs)"
      using assms(1) req by (auto simp: add_docs_def action_simps andThen_eq_Inr_iff split: sum.splits if_splits)
    moreover have "update_db_state_for_add_docs ?hex col (length docs) (Some (new_ids (doc_order st) (length docs))) m =
        update_db_state_for_add_docs ?hex col (length docs) None m"
      using assms(2) max_new_ids [OF _ assms(3) [OF Some]] Some
      by (simp add: update_db_state_for_add_docs_def new_ids_def Let_def del: upt_Suc)
    ultimately show ?thesis using assms(1) by (simp add: add_docs_def andThen_def req)
  qed
qed

text \<open>Only the addition of documents answers with document items.\<close>

definition no_documents :: "extra_item list \<Rightarrow> bool" where
  "no_documents items \<longleftrightarrow> (\<forall>i \<in> set items. ei_key i \<noteq> ''document'')"

definition answers :: "('a \<Rightarrow> bool) \<Rightarrow> ('n, 'a) action \<Rightarrow> bool" where
  "answers P act \<longleftrightarrow> (\<forall>m r m'. act m = (Inr r, m') \<longrightarrow> P r)"

lemma answers_intros:
  "P v \<Longrightarrow> answers P (ok v)" "answers P (fail e)" "(\<And>v. answers P (f v)) \<Longrightarrow> answers P (andThen act f)"
  by (auto simp: answers_def ok_def fail_def andThen_eq_Inr_iff)

lemma answers_if: "answers P act \<Longrightarrow> answers P act' \<Longrightarrow> answers P (if b then act else act')"
  by simp

lemma answers_collect:
  "(\<And>v. answers no_documents (f v)) \<Longrightarrow> answers no_documents (collect_each f vs)"
proof (induction vs)
  case Nil
  show ?case by (simp add: answers_intros no_documents_def)
next
  case (Cons v vs)
  from Cons.IH [OF Cons.prems] Cons.prems show ?case
    by (fastforce simp: answers_def andThen_eq_Inr_iff ok_def no_documents_def)
qed

lemma answers_then_items: "answers P act \<Longrightarrow> answers P (andThen act (\<lambda>items. andThen act' (\<lambda>_. ok items)))"
  by (fastforce simp: answers_def andThen_eq_Inr_iff ok_def)

lemma other_actions_answer:
  "action \<noteq> AddDocument \<Longrightarrow> answers no_documents (apply_mutation K C L E B action dm s net nonce block order ids_map)"
  unfolding apply_mutation_def
  by (rule answers_then_items)
    (cases action; auto simp: apply_delete_event_db_def apply_add_index_def apply_mint_collection_def
      apply_mint_document_db_def apply_create_event_db_def apply_create_document_db_def apply_add_collection_def
      apply_update_document_def apply_delete_document_def no_documents_def
      split: list.split option.split body.split prod.split intro!: answers_intros answers_if answers_collect)

lemma other_actions_ignore_ids:
  "action \<noteq> AddDocument \<Longrightarrow> apply_mutation K C L E B action dm s net nonce block order ids_map =
     apply_mutation K C L E B action dm s net nonce block order ids_map'"
  by (cases action) (simp_all add: apply_mutation_def)

lemma no_documents_text: "no_documents items \<Longrightarrow> get_create_doc_ids_map L items = []"
proof -
  assume "no_documents items"
  then have "filter (\<lambda>x. ei_key x = ''document'') items = []" by (auto simp: no_documents_def filter_empty_conv)
  then show ?thesis by (simp add: get_create_doc_ids_map_def)
qed

text \<open>The number of documents a mutation adds to a database must not take its counter past \<open>i64::MAX\<close>.\<close>

definition room_for_documents :: "libs \<Rightarrow> ('s, 'd) db_store \<Rightarrow> mutation \<Rightarrow> bool" where
  "room_for_documents L m dm \<longleftrightarrow> (\<forall>w x a st. w \<in> set (mut_bodies dm) \<and> bw_body w = Some (DocumentMutation x) \<and>
     addr_try_from (bw_db_address w) = Inr a \<and> db_state m (addr_to_hex L a) = Some st \<longrightarrow>
     sint (doc_order st) + int (length (dom_documents x)) < 2 ^ 63)"

lemma show_nat_zero: "show_nat 0 = ''0''"
  by (simp add: show_nat.simps char_of_def bit_0)

lemma map_err_of_eq_Inr_iff: "map_err_of f act m = (Inr v, m') \<longleftrightarrow> act m = (Inr v, m')"
  by (cases "act m") (simp add: map_err_of_def)

lemma map_result_length: "map_result f vs = Inr us \<Longrightarrow> length us = length vs"
  by (induction vs arbitrary: us) (auto simp: bindR_eq_Inr_iff)

lemma add_document_run:
  assumes "apply_add_document K L E B s ids_map (i, w) m = (Inr items, m')" "bw_body w = Some (DocumentMutation x)"
  obtains a docs ids where "body_address w m = (Inr a, m)" "documents_of B (dom_documents x) m = (Inr docs, m)"
    "length docs = length (dom_documents x)"
    "add_docs K L E a s (dom_collection_name x) docs (ids_map (show_nat i)) m = (Inr ids, m')" "items = document_items ids"
  using assms
  by (auto simp: apply_add_document_def andThen_eq_Inr_iff map_err_of_eq_Inr_iff ok_def body_address_def
      documents_of_def reads_def document_items_def dest: map_result_length)

lemma add_document_replay:
  fixes m :: "('a, 'b) db_store"
  assumes "apply_add_document K L E B s Map.empty (i, w) m = (Inr items, m')"
    "room_for_documents L m \<lparr>mut_action = z, mut_bodies = [w]\<rparr>"
  obtains ids where "items = document_items ids"
    "ids \<noteq> [] \<longrightarrow> apply_add_document K L E B s [show_nat i \<mapsto> ids] (i, w) m = (Inr items, m')"
proof (cases "\<exists>x. bw_body w = Some (DocumentMutation x)")
  case False
  then have "apply_add_document K L E B s Map.empty (i, w) =
      (andThen (apply_err (body_address w)) (\<lambda>_. ok []) :: (('a, 'b) db_store, extra_item list) action)"
    by (cases "bw_body w"; cases "the (bw_body w)") (auto simp: apply_add_document_def)
  then have "items = []" using assms(1) by (auto simp: andThen_eq_Inr_iff ok_def)
  then show ?thesis using that [of "[]"] by (simp add: document_items_def)
next
  case True
  then obtain x where x: "bw_body w = Some (DocumentMutation x)" by blast
  obtain a docs ids where run: "body_address w m = (Inr a, m)" "documents_of B (dom_documents x) m = (Inr docs, m)"
    and len: "length docs = length (dom_documents x)"
    and added: "add_docs K L E a s (dom_collection_name x) docs None m = (Inr ids, m')" "items = document_items ids"
    by (rule add_document_run [OF assms(1) x]) (simp add: that)
  have "apply_add_document K L E B s [show_nat i \<mapsto> ids] (i, w) m = (Inr items, m')" if "ids \<noteq> []"
  proof -
    have "docs \<noteq> []"
      using added(1) that by (auto simp: add_docs_def andThen_eq_Inr_iff ok_def update_db_state_for_add_docs_def Let_def
          split: option.splits)
    then have "add_docs K L E a s (dom_collection_name x) docs (Some ids) m = (Inr ids, m')"
      using assms(2) x run(1) by (intro add_docs_replay [OF added(1)]) (auto simp: room_for_documents_def len body_address_def reads_def)
    then show ?thesis
      using run added(2) by (simp add: apply_add_document_def x action_simps document_items_def)
  qed
  then show ?thesis using that added(2) by blast
qed

text \<open>A whole mutation, with the text that travels in its header.\<close>

context lawful_libs
begin

lemma mutation_replay:
  assumes "apply_mutation K C L E B action dm s net nonce block order Map.empty m = (Inr items, m')"
    "length (mut_bodies dm) \<le> 1" "room_for_documents L m dm" "json_from_str L [] = Inl err"
  obtains ids_map where "convert_doc_ids_map_to_vec L (get_create_doc_ids_map L items) = Inr ids_map"
    "apply_mutation K C L E B action dm s net nonce block order ids_map m = (Inr items, m')"
proof (cases "action = AddDocument \<and> mut_bodies dm \<noteq> []")
  case False
  have "no_documents items"
  proof (cases "action = AddDocument")
    case True
    then show ?thesis
      using assms(1) False by (simp add: apply_mutation_def andThen_eq_Inr_iff ok_def no_documents_def)
  next
    case other: False
    from other_actions_answer [OF other, of K C L E B dm s net nonce block order Map.empty] assms(1)
    show ?thesis unfolding answers_def by blast
  qed
  then have "convert_doc_ids_map_to_vec L (get_create_doc_ids_map L items) = Inr Map.empty"
    by (simp add: no_documents_text convert_doc_ids_map_to_vec_def assms(4))
  then show ?thesis using that assms(1) by blast
next
  case True
  then obtain w where w: "mut_bodies dm = [w]" using assms(2) by (cases "mut_bodies dm") auto
  obtain m1 where run: "apply_add_document K L E B s Map.empty (0, w) m = (Inr items, m1)"
    "store_block_state K C \<lparr>bsp_block = block, bsp_order = order\<rparr> m1 = (Inr (), m')"
    using assms(1) True by (auto simp: apply_mutation_def w enumerate_eq_zip andThen_eq_Inr_iff ok_def)
  have room: "room_for_documents L m \<lparr>mut_action = 0, mut_bodies = [w]\<rparr>"
    using assms(3) w by (simp add: room_for_documents_def)
  obtain ids where ids: "items = document_items ids"
    "ids \<noteq> [] \<longrightarrow> apply_add_document K L E B s [show_nat 0 \<mapsto> ids] (0, w) m = (Inr items, m1)"
    by (rule add_document_replay [OF run(1) room])
  show ?thesis
  proof (cases "ids = []")
    case True
    then have "convert_doc_ids_map_to_vec L (get_create_doc_ids_map L items) = Inr Map.empty"
      using ids(1) by (simp add: ids_map_none convert_doc_ids_map_to_vec_def assms(4))
    then show ?thesis using that assms(1) by blast
  next
    case False
    have "apply_mutation K C L E B action dm s net nonce block order [''0'' \<mapsto> ids] m = (Inr items, m')"
      using ids(2) False run(2) True
      by (simp add: apply_mutation_def w enumerate_eq_zip action_simps show_nat_zero)
    then show ?thesis using that ids_map_roundtrip [OF False] ids(1) by blast
  qed
qed

end

end
