(* ===== verification/Replica_Theorems.thy ===== *)
theory Replica_Theorems
  imports Replica Sample_Node
begin

text \<open>An index node that follows the rollup node: what it holds after the mutations of a block.\<close>

section \<open>One mutation of a block\<close>



lemma apply_wrapper_run:
  assumes "unwrap_and_light_verify (eth_of N) (mb_payload body) (mb_signature body) = Inr (dm, address, nonce)"
    "action_from_i32 (mut_action dm) = Some action"
    "convert_doc_ids_map_to_vec (libs_of N) (mh_doc_ids_map h) = Inr ids_map"
    "apply_mutation (engine_of N) (codecs_of N) (libs_of N) (ejdb_of N) (bson_of N) action dm address
       (mh_network h) nonce (mh_block_id h) (mh_order_id h) ids_map (sn_db_store x) = (res, db)"
  shows "apply_wrapper N (Some h, Some body) x =
    (case res of Inl e \<Rightarrow> (Inl e, x\<lparr>sn_db_store := db\<rparr>)
     | Inr items \<Rightarrow> after_mutation N action items (x\<lparr>sn_db_store := db\<rparr>))"
  using assms by (simp add: apply_wrapper_def action_simps split: sum.split)

text \<open>An accepted request, with what an index node reads of it.\<close>

lemma accepted_request:
  assumes "platform K C L" "K = engine_of N" "C = codecs_of N" "L = libs_of N"
    "transactional (mdbx_of N)" "ms_ready K (sn_storage n)"
    "send_mutation N now payload signature n = (Inr r, n')" "smr_code r = 0"
    "unwrap_and_light_verify (eth_of N) payload signature = Inr (dm, address, nonce)"
  obtains action h where "action_from_i32 (mut_action dm) = Some action"
    "get_mutation_header K C (smr_block r) (smr_order r) (sn_storage n') = Inr (Some h)"
    "apply_mutation K C L (ejdb_of N) (bson_of N) action dm address (mh_network h) nonce (mh_block_id h) (mh_order_id h)
       Map.empty (sn_db_store n) = (Inr (smr_items r), sn_db_store n')"
    "mh_doc_ids_map h = get_create_doc_ids_map L (smr_items r)"
  using assms(5,7)
proof (cases rule: send_mutation_cases)
  case refused
  then show ?thesis using assms(8) by (simp add: bad_nonce_response_def)
next
  case (executed dm' address' nonce' action v t)
  have ready: "ms_ready K (sn_storage (n\<lparr>sn_state_store := t\<rparr>))" using assms(6) by simp
  show ?thesis
    by (rule platform.executed_logged [OF assms(1-4) ready executed(5)])
      (use executed(1,2) assms(9) in \<open>auto simp: position_def intro!: that\<close>)
qed


section \<open>Two bodies of documents\<close>

lemma required_same: "snd (require_collection K L a col m) = m"
  by (simp add: require_collection_def action_simps split: sum.split)

lemma keeps_counted:
  "keeps (\<lambda>m. db_state m hex \<noteq> None) (add_docs K L E a s col docs given)"
proof -
  have "keeps (\<lambda>m. db_state m hex \<noteq> None) (create_doc_ownership K s a ids)" for ids
    by (auto simp: keeps_def create_doc_ownership_def db_write_def action_simps split: sum.splits)
  moreover have "keeps (\<lambda>m. db_state m hex \<noteq> None) (on_docs act)" for act :: "('b doc_store, unit) action"
    by (auto simp: keeps_def action_simps)
  moreover have "keeps (\<lambda>m. db_state m hex \<noteq> None) (update_db_state_for_add_docs h col n given)" for h n
    by (auto simp: keeps_def update_db_state_for_add_docs_def Let_def split: option.splits)
  ultimately show ?thesis
    unfolding add_docs_def require_collection_def
    by (auto intro!: keeps_intros keeps_reads keeps_gets split: option.split)
qed

lemma added_ids:
  assumes "add_docs K L E a s col docs None m = (Inr ids, m')" "db_state m (addr_to_hex L a) \<noteq> None"
  shows "length ids = length docs"
proof -
  obtain st where st: "db_state m (addr_to_hex L a) = Some st" using assms(2) by blast
  obtain m1 where "update_db_state_for_add_docs (addr_to_hex L a) col (length docs) None m =
      (Inr (Some (new_ids (doc_order st) (length docs))), m1)"
    using add_counters_none [OF st] by blast
  then have "ids = new_ids (doc_order st) (length docs)"
    using assms(1) required_same [of K L a col m]
    by (cases "require_collection K L a col m")
      (auto simp: add_docs_def andThen_eq_Inr_iff ok_def)
  then show ?thesis by simp
qed

lemma two_bodies_items:
  assumes "apply_mutation K C L E B AddDocument dm s net nonce block order Map.empty m = (Inr items, m')"
    "mut_bodies dm = [w1, w2]" "bw_body w1 = Some (DocumentMutation x1)" "bw_body w2 = Some (DocumentMutation x2)"
    "addr_try_from (bw_db_address w1) = Inr a1" "addr_try_from (bw_db_address w2) = Inr a2"
    "db_state m (addr_to_hex L a1) \<noteq> None" "db_state m (addr_to_hex L a2) \<noteq> None"
  obtains ids where "items = document_items ids" "length ids = length (dom_documents x1) + length (dom_documents x2)"
proof -
  obtain items1 m1 items2 m2 where run: "apply_add_document K L E B s Map.empty (0, w1) m = (Inr items1, m1)"
      "apply_add_document K L E B s Map.empty (Suc 0, w2) m1 = (Inr items2, m2)" "items = items1 @ items2"
    using assms(1,2) by (auto simp: apply_mutation_def enumerate_eq_zip andThen_eq_Inr_iff ok_def)
  obtain docs1 ids1 where one: "length docs1 = length (dom_documents x1)" "items1 = document_items ids1"
      "add_docs K L E a1 s (dom_collection_name x1) docs1 None m = (Inr ids1, m1)"
    by (rule add_document_run [OF run(1) assms(3)]) (use assms(5) that in \<open>simp add: body_address_def reads_def\<close>)
  obtain docs2 ids2 where two: "length docs2 = length (dom_documents x2)" "items2 = document_items ids2"
      "add_docs K L E a2 s (dom_collection_name x2) docs2 None m1 = (Inr ids2, m2)"
    by (rule add_document_run [OF run(2) assms(4)]) (use assms(6) that in \<open>simp add: body_address_def reads_def\<close>)
  have "db_state m1 (addr_to_hex L a2) \<noteq> None"
    using keeps_counted [of "addr_to_hex L a2" K L E a1] assms(8) one(3) unfolding keeps_def by (metis snd_conv)
  then have "length (ids1 @ ids2) = length (dom_documents x1) + length (dom_documents x2)"
    using added_ids [OF one(3) assms(7)] added_ids [OF two(3)] one(1) two(1) by simp
  then show ?thesis using that [of "ids1 @ ids2"] run(3) one(2) two(2) by (simp add: document_items_append)
qed

lemma wrong_number_of_ids:
  assumes "length ids \<noteq> length (dom_documents d)" "bw_body w = Some (DocumentMutation d)"
    "addr_try_from (bw_db_address w) = Inr a" "db_state x (addr_to_hex L a) \<noteq> None" "ids_map ''0'' = Some ids"
  obtains e where "apply_add_document K L E B s ids_map (0, w) x = (Inl e, x)"
proof -
  obtain st where st: "db_state x (addr_to_hex L a) = Some st" using assms(4) by blast
  have rc: "require_collection K L a col x = (fst (require_collection K L a col x), x)" for col
    using required_same by (metis prod.collapse)
  have add: "\<exists>e. add_docs K L E a s col docs (Some ids) x = (Inl e, x)" if "length docs = length (dom_documents d)" for col docs
    using rc [of col] that assms(1) st
    by (auto simp: add_docs_def andThen_def update_db_state_for_add_docs_def Let_def split: prod.split sum.split)
  have a: "apply_err (body_address w) x = (Inr a, x)" using assms(3) by (simp add: body_address_def action_simps)
  have "\<exists>q. documents_of B (dom_documents d) x = (q, x) \<and> (\<forall>docs. q = Inr docs \<longrightarrow> length docs = length (dom_documents d))"
    by (auto simp: documents_of_def action_simps dest: map_result_length)
  then obtain q where q: "documents_of B (dom_documents d) x = (q, x)"
    "\<And>docs. q = Inr docs \<Longrightarrow> length docs = length (dom_documents d)" by blast
  show ?thesis
  proof (cases q)
    case (Inl e)
    show ?thesis by (rule that [of e]) (simp add: apply_add_document_def assms(2) andThen_def a q(1) Inl)
  next
    case (Inr docs)
    obtain e where "add_docs K L E a s (dom_collection_name d) docs (Some ids) x = (Inl e, x)"
      using add [OF q(2) [OF Inr]] by blast
    then obtain e' where "apply_err (add_docs K L E a s (dom_collection_name d) docs (Some ids)) x = (Inl e', x)"
      by (cases e) (auto simp: map_err_of_def)
    then show ?thesis
      using that [of e'] by (simp add: apply_add_document_def assms(2,5) show_nat_zero andThen_def a q(1) Inr)
  qed
qed

section \<open>Sample additions\<close>

definition sample_body_add :: body_wrapper where
  "sample_body_add = \<lparr>bw_db_address = addr_as_ref addr_zero, bw_body = Some (DocumentMutation
     \<lparr>dom_collection_name = ''books'', dom_documents = [[1]], dom_ids = []\<rparr>)\<rparr>"

lemma sample_added: "bw_body sample_body_add = Some (DocumentMutation
     \<lparr>dom_collection_name = ''books'', dom_documents = [[1]], dom_ids = []\<rparr>)"
  by (simp add: sample_body_add_def)

abbreviation sample_addition :: "body_wrapper list \<Rightarrow> mutation" where
  "sample_addition ws \<equiv> \<lparr>mut_action = action_to_i32 AddDocument, mut_bodies = ws\<rparr>"

abbreviation sample_hex :: string where
  "sample_hex \<equiv> addr_to_hex sample_libs addr_zero"

definition sample_books :: "(mem_state, mem_files) db_store \<Rightarrow> bool" where
  "sample_books db \<longleftrightarrow> db_ready mem_engine db \<and> is_db_collection_exist mem_engine addr_zero ''books'' db = Inr True \<and>
     db_state db sample_hex \<noteq> None"

definition sample_plain :: "(mem_state, mem_files) db_store" where
  "sample_plain = sample_db2\<lparr>db_config := sample_db_config\<lparr>enable_doc_store := False\<rparr>\<rparr>"

lemma sample_books_stores: "sample_books sample_db2" "sample_books sample_plain"
  "replica mem_engine sample_plain sample_db2" "db_state sample_plain = db_state sample_db2"
  using sample_db2_facts
  by (auto simp: sample_books_def sample_plain_def replica_def same_families_def db_ready_def is_db_collection_exist_def
      db_cf_def db_column_families_def)


lemma sample_add_body:
  assumes "sample_books db" "\<forall>ids. ids_map (show_nat i) = Some ids \<longrightarrow> length ids = 1"
  obtains j db' where "apply_add_document mem_engine sample_libs mem_ejdb sample_bson addr_one ids_map (i, sample_body_add) db =
      (Inr (document_items [j]), db')" "sample_books db'"
proof -
  obtain st where st: "db_state db sample_hex = Some st" using assms(1) by (auto simp: sample_books_def)
  have "\<exists>j m1. update_db_state_for_add_docs sample_hex ''books'' (length [''{}'']) (ids_map (show_nat i)) db = (Inr (Some [j]), m1)"
    using st assms(2)
    by (cases "ids_map (show_nat i)") (auto simp: update_db_state_for_add_docs_def Let_def length_Suc_conv)
  then obtain j m1 where u: "update_db_state_for_add_docs sample_hex ''books'' (length [''{}'']) (ids_map (show_nat i)) db =
      (Inr (Some [j]), m1)" by blast
  have reads: "documents_of sample_bson [[1]] db = (Inr [''{}''], db)"
    by (simp add: documents_of_def action_simps bytes_to_bson_document_def sample_bson_def)
  obtain m' where "add_docs mem_engine sample_libs mem_ejdb addr_zero addr_one ''books'' [''{}''] (ids_map (show_nat i)) db =
      (Inr [j], m')" "db_state m' = db_state m1" "db_ready mem_engine m'"
      "is_db_collection_exist mem_engine addr_zero ''books'' m' = Inr True"
    by (rule platform.add_docs_run [OF node_platform _ _ u st sample_files, of addr_one])
      (use assms(1) in \<open>simp_all add: sample_books_def that\<close>)
  moreover have "db_state m1 sample_hex \<noteq> None" using add_counters_run(5) [OF u st] by auto
  moreover have "body_address sample_body_add db = (Inr addr_zero, db)"
    unfolding body_address_def reads_def sample_body_add_def body_wrapper.simps by (simp only: addr_try_from_ref)
  ultimately show ?thesis
    using that [of j m'] reads
    by (simp add: apply_add_document_def action_simps document_items_def sample_books_def sample_added)
qed

text \<open>Whole mutations: with one body, and with two.\<close>

lemma sample_position_stored:
  assumes "db_ready mem_engine db"
  shows "\<exists>db'. store_block_state mem_engine sample_codecs \<lparr>bsp_block = block, bsp_order = order\<rparr> db = (Inr (), db')"
proof -
  obtain se where "db_write mem_engine [PutCf BLOCK_STATE_CF (as_bytes BLOCK_STATE_KEY)
      (projr (encode (block_state_codec sample_codecs) \<lparr>bsp_block = block, bsp_order = order\<rparr>))] db = (Inr (), db\<lparr>db_se := se\<rparr>)"
    by (rule platform.db_write_ok [OF node_platform])
  then show ?thesis
    using assms sample_codecs_encode
    by (simp add: store_block_state_def put_entry_def action_simps db_ready_cf)
qed


lemma sample_add_two:
  assumes "sample_books db"
  obtains ids db' where "apply_mutation mem_engine sample_codecs sample_libs mem_ejdb sample_bson AddDocument
      (sample_addition [sample_body_add, sample_body_add]) addr_one 3 1 0 1 Map.empty db = (Inr (document_items ids), db')"
proof -
  obtain i m1 where m1: "apply_add_document mem_engine sample_libs mem_ejdb sample_bson addr_one Map.empty (0, sample_body_add) db =
      (Inr (document_items [i]), m1)" "sample_books m1"
    by (rule sample_add_body [OF assms, of Map.empty 0]) (simp_all add: that)
  obtain j m2 where m2: "apply_add_document mem_engine sample_libs mem_ejdb sample_bson addr_one Map.empty (Suc 0, sample_body_add) m1 =
      (Inr (document_items [j]), m2)" "sample_books m2"
    by (rule sample_add_body [OF m1(2), of Map.empty "Suc 0"]) (simp_all add: that)
  show ?thesis
    using that [of "[i, j]"] m1(1) m2 sample_position_stored [of m2 0 1]
    by (auto simp: sample_books_def apply_mutation_def enumerate_eq_zip action_simps document_items_def)
qed

section \<open>Statements\<close>



text \<open>C29. An accepted request that adds documents with two bodies cannot be replayed. The ids of all its
  documents travel under the index of the first body, so the index node finds more ids than that body
  has documents: it refuses the mutation and is left without any of the documents.\<close>

theorem two_bodies_of_documents_are_not_replayed:
  assumes "platform K C L" and "K = engine_of N" and "C = codecs_of N" and "L = libs_of N"
    and "transactional (mdbx_of N)" and "ms_ready K (sn_storage n)"
    and "send_mutation N now payload signature n = (Inr r, n')" and "smr_code r = 0"
    and "get_mutation_header K C (smr_block r) (smr_order r) (sn_storage n') = Inr (Some h)"
    and "unwrap_and_light_verify (eth_of N) payload signature = Inr (dm, address, nonce)"
    and "mut_action dm = action_to_i32 AddDocument" and "mut_bodies dm = [w1, w2]"
    and "bw_body w1 = Some (DocumentMutation d1)" and "bw_body w2 = Some (DocumentMutation d2)" and "dom_documents d2 \<noteq> []"
    and "addr_try_from (bw_db_address w1) = Inr a1" and "addr_try_from (bw_db_address w2) = Inr a2"
    and "db_state (sn_db_store n) (addr_to_hex L a1) \<noteq> None" and "db_state (sn_db_store n) (addr_to_hex L a2) \<noteq> None"
    and "replica K (sn_db_store n) (sn_db_store x)"
  shows "\<exists>e. apply_wrapper N (Some h, Some \<lparr>mb_payload = payload, mb_signature = signature\<rparr>) x = (Inl e, x)"
proof -
  have act: "action_from_i32 (mut_action dm) = Some AddDocument" using assms(11) by simp
  obtain h' where h': "get_mutation_header K C (smr_block r) (smr_order r) (sn_storage n') = Inr (Some h')"
      "apply_mutation K C L (ejdb_of N) (bson_of N) AddDocument dm address (mh_network h') nonce (mh_block_id h')
         (mh_order_id h') Map.empty (sn_db_store n) = (Inr (smr_items r), sn_db_store n')"
      "mh_doc_ids_map h' = get_create_doc_ids_map L (smr_items r)"
    by (rule accepted_request [OF assms(1-8,10)]) (use act that in simp)
  have h: "h' = h" using h'(1) assms(9) by simp
  obtain ids where ids: "smr_items r = document_items ids"
      "length ids = length (dom_documents d1) + length (dom_documents d2)"
    by (rule two_bodies_items [OF h'(2) assms(12-14,16-19)])
  have "ids \<noteq> []" using ids(2) assms(15) by auto
  from lawful_libs.ids_map_roundtrip [OF platform.axioms(3) [OF assms(1)] this]
  have conv: "convert_doc_ids_map_to_vec L (mh_doc_ids_map h) = Inr [''0'' \<mapsto> ids]" using h'(3) h ids(1) by simp
  have len: "length ids \<noteq> length (dom_documents d1)" using ids(2) assms(15) by simp
  have counted: "db_state (sn_db_store x) (addr_to_hex L a1) \<noteq> None" using assms(18,20) by (simp add: replica_def)
  obtain e where "apply_add_document K L (ejdb_of N) (bson_of N) address [''0'' \<mapsto> ids] (0, w1) (sn_db_store x) =
      (Inl e, sn_db_store x)"
    by (rule wrong_number_of_ids [OF len assms(13,16) counted, of "[''0'' \<mapsto> ids]"]) simp_all
  then have "apply_mutation K C L (ejdb_of N) (bson_of N) AddDocument dm address (mh_network h) nonce
      (mh_block_id h) (mh_order_id h) [''0'' \<mapsto> ids] (sn_db_store x) = (Inl e, sn_db_store x)"
    by (simp add: apply_mutation_def assms(12) enumerate_eq_zip andThen_def)
  from apply_wrapper_run [of N "\<lparr>mb_payload = payload, mb_signature = signature\<rparr>", simplified, OF assms(10) act,
      folded assms(2-4), OF conv this] show ?thesis by simp
qed

theorem two_bodies_of_documents_are_not_replayed_witness:
  "\<exists>r n' h e. send_mutation (sample_linked (sample_addition [sample_body_add, sample_body_add]) addr_one 1) 100
      sample_payload ''sig'' (sample_rollup_state sample_plain) = (Inr r, n') \<and> smr_code r = 0 \<and>
    get_mutation_header mem_engine sample_codecs (smr_block r) (smr_order r) (sn_storage n') = Inr (Some h) \<and>
    apply_wrapper (sample_linked (sample_addition [sample_body_add, sample_body_add]) addr_one 1)
      (Some h, Some \<lparr>mb_payload = sample_payload, mb_signature = ''sig''\<rparr>)
      (indexer_new sample_db2 [] (sn_world (sample_rollup_state sample_plain))) =
      (Inl e, indexer_new sample_db2 [] (sn_world (sample_rollup_state sample_plain)))"
proof -
  let ?dm = "sample_addition [sample_body_add, sample_body_add]"
  let ?N = "sample_linked ?dm addr_one 1" and ?n = "sample_rollup_state sample_plain"
  let ?x = "indexer_new sample_db2 [] (sn_world ?n) :: (mem_state, mem_files, mem_env, mem_world) indexer"
  obtain ids db where "apply_mutation mem_engine sample_codecs sample_libs mem_ejdb sample_bson AddDocument ?dm addr_one
      3 1 0 1 Map.empty sample_plain = (Inr (document_items ids), db)"
    by (rule sample_add_two [OF sample_books_stores(2)])
  then obtain r n' where r: "send_mutation ?N 100 sample_payload ''sig'' ?n = (Inr r, n')" "smr_code r = 0"
    using sample_send [where action = AddDocument] by fastforce
  have ready: "ms_ready mem_engine (sn_storage ?n)" by (simp add: sample_log_ready)
  obtain h where h: "get_mutation_header mem_engine sample_codecs (smr_block r) (smr_order r) (sn_storage n') = Inr (Some h)"
    by (rule accepted_request [OF node_platform _ _ _ _ ready r]) (simp_all add: sample_verified mem_env_transactional that)
  have a: "addr_try_from (bw_db_address sample_body_add) = Inr addr_zero"
    unfolding sample_body_add_def body_wrapper.simps by (rule addr_try_from_ref)
  from sample_db2_facts(3) have "\<exists>e. apply_wrapper ?N (Some h, Some \<lparr>mb_payload = sample_payload, mb_signature = ''sig''\<rparr>) ?x =
      (Inl e, ?x)"
    by (intro two_bodies_of_documents_are_not_replayed [OF node_platform _ _ _ _ ready r h _ _ _ sample_added sample_added _ a a,
          where dm = ?dm and address = addr_one and nonce = 1])
      (simp_all add: sample_verified mem_env_transactional sample_books_stores(3,4) indexer_new_def)
  with r h show ?thesis by blast
qed

end
