(* ===== verification/System_Service.thy ===== *)
theory System_Service
  imports Node_Stores
begin

text \<open>
  The system service of a node (\<open>src/node/src/system_impl.rs\<close>): the administrator sets a node up, once with
  its network, chain and contract, later only with the values that may change. A service works on the
  state store and the world; \<open>sy_notifications\<close> counts the update notices it has handed to the channel of
  the node. The version numbers come from the build.
\<close>

record ('t, 'w) system_state =
  sy_state_store :: 't
  sy_world :: 'w
  sy_notifications :: nat

record version =
  version_label :: string
  git_hash :: string
  build_time :: string

record system_service =
  sy_role :: system_role
  sy_public_node_url :: string
  sy_admin_addr :: bytes
  sy_system_store :: system_store_config

record system_status =
  ss_evm_account :: string
  ss_evm_balance :: string
  ss_ar_account :: string
  ss_ar_balance :: string
  ss_node_url :: string
  ss_config :: "system_config option"
  ss_has_inited :: bool
  ss_admin_addr :: string
  ss_version :: version

record setup_response =
  sr_code :: u32
  sr_msg :: string

abbreviation in_sy_state :: "('t, 'a) action \<Rightarrow> (('t, 'w) system_state, 'a) action" where
  "in_sy_state \<equiv> on_field sy_state_store (\<lambda>x n. n\<lparr>sy_state_store := x\<rparr>)"

abbreviation in_sy_world :: "('w, 'a) action \<Rightarrow> (('t, 'w) system_state, 'a) action" where
  "in_sy_world \<equiv> on_field sy_world (\<lambda>x n. n\<lparr>sy_world := x\<rparr>)"

definition system_new ::
  "('w, 'h) outside \<Rightarrow> system_store_config \<Rightarrow> system_role \<Rightarrow> string \<Rightarrow> string \<Rightarrow> system_service result" where
  "system_new W sys role public_node_url admin_addr =
     bindR (lib_err StoreEventError (evm_address_parse W admin_addr)) (\<lambda>address.
     Inr \<lparr>sy_role = role, sy_public_node_url = public_node_url, sy_admin_addr = address, sy_system_store = sys\<rparr>)"

section \<open>Setup\<close>

definition starts_with :: "string \<Rightarrow> string \<Rightarrow> bool" where
  "starts_with p s \<longleftrightarrow> take (length p) s = p"

text \<open>The configuration a request asks for, field by field with the checks in between.\<close>

definition requested_config ::
  "('td, 'sg) eth_lib \<Rightarrow> 'td \<Rightarrow> ('n, system_config) handler" where
  "requested_config T td =
     (let chain_id = get_u32_field T td ''chainId'' 0;
          contract_addr = get_str_field T td ''contractAddr'' [];
          evm_node_rpc = get_str_field T td ''evmNodeUrl'' [];
          ar_node_url = get_str_field T td ''arNodeUrl'' []
      in if chain_id = 0 then refuse InvalidArgument (''invalid chain id '' @ show_u32 chain_id)
         else if contract_addr = [] then refuse InvalidArgument ''contract address is empty''
         else if evm_node_rpc = [] then refuse InvalidArgument ''evm node rpc is empty''
         else if \<not> starts_with ''wss'' evm_node_rpc \<and> \<not> starts_with ''ws'' evm_node_rpc
           then refuse InvalidArgument ''only the websocket url is valid''
         else if ar_node_url = [] then refuse InvalidArgument ''ar node rpc is empty''
         else thenServe (lib_status InvalidArgument (\<lambda>e. ''fail to parse network id '' @ e)
                (parse_u64 (get_str_field T td ''networkId'' ''0''))) (\<lambda>network.
              if network = 0 then refuse InvalidArgument ''invalid network id''
              else respond \<lparr>sc_min_rollup_size = get_u64_field T td ''minRollupSize'' (1024 * 1024),
                sc_rollup_interval = get_u64_field T td ''rollupInterval'' (10 * 60 * 1000),
                sc_network_id = network, sc_evm_node_url = evm_node_rpc, sc_ar_node_url = ar_node_url,
                sc_chain_id = chain_id,
                sc_rollup_max_interval = get_u64_field T td ''rollupMaxInterval'' (24 * 60 * 60 * 1000),
                sc_contract_addr = contract_addr,
                sc_min_gc_offset = get_u64_field T td ''minGcOffset'' (10 * 24 * 60 * 1000)\<rparr>))"

definition system_setup ::
  "'t mdbx \<Rightarrow> codecs \<Rightarrow> ('td, 'sg) eth_lib \<Rightarrow> system_service \<Rightarrow> string \<Rightarrow> string \<Rightarrow>
   (('t, 'w) system_state, setup_response) handler" where
  "system_setup X C T S payload signature =
     thenServe (or_status InvalidArgument (\<lambda>e. ''invalid signature '' @ e)
       (reads (\<lambda>_. verify_setup T payload signature))) (\<lambda>(address, td).
     if sy_admin_addr S \<noteq> address then refuse PermissionDenied ''You are not the admin''
     else
       thenServe (requested_config T td) (\<lambda>config.
       thenServe (or_status Internal (\<lambda>e. ''fail to get old config '' @ e)
         (reads (\<lambda>n. get_config X C (sy_role S) (sy_state_store n)))) (\<lambda>old.
       let system_config = (case old of
             Some old_config \<Rightarrow> config\<lparr>sc_network_id := sc_network_id old_config,
               sc_chain_id := sc_chain_id old_config, sc_contract_addr := sc_contract_addr old_config\<rparr>
           | None \<Rightarrow> config)
       in thenServe (internal (in_sy_state (update_config X C (sy_role S) system_config))) (\<lambda>_.
          thenServe (internal (modify (\<lambda>n. n\<lparr>sy_notifications := Suc (sy_notifications n)\<rparr>))) (\<lambda>_.
          respond \<lparr>sr_code = 0, sr_msg = ''ok''\<rparr>)))))"

section \<open>Status\<close>

definition get_system_status ::
  "('w, 'h) outside \<Rightarrow> 't mdbx \<Rightarrow> codecs \<Rightarrow> libs \<Rightarrow> version \<Rightarrow> system_service \<Rightarrow>
   (('t, 'w) system_state, system_status) handler" where
  "get_system_status W X C L build S =
     thenServe (or_status Internal (\<lambda>e. ''fail to get old config '' @ e)
       (reads (\<lambda>n. get_config X C (sy_role S) (sy_state_store n)))) (\<lambda>system_config.
     thenServe (or_status Internal (\<lambda>e. ''fail to get evm address '' @ e)
       (in_sy_world (get_evm_address W (sy_system_store S)))) (\<lambda>evm_address.
     thenServe (or_status Internal (\<lambda>e. ''fail to get ar address '' @ e)
       (in_sy_world (get_ar_address W (sy_system_store S)))) (\<lambda>ar_address.
     thenServe (or_status Internal (\<lambda>e. ''fail to convert the admin address '' @ e)
       (reads (\<lambda>_. addr_try_from (sy_admin_addr S)))) (\<lambda>db3_addr.
     respond \<lparr>ss_evm_account = ''0x'' @ hex_encode L evm_address, ss_evm_balance = [], ss_ar_account = ar_address,
       ss_ar_balance = [], ss_node_url = sy_public_node_url S, ss_config = system_config,
       ss_has_inited = (system_config \<noteq> None), ss_admin_addr = addr_to_hex L db3_addr, ss_version = build\<rparr>))))"

end
