(* ===== verification/Node_Command.thy ===== *)
theory Node_Command
  imports Indexer System_Service Recover
begin

text \<open>
  The commands of the node binary (\<open>src/node/src/command.rs\<close>): how a rollup node, an index node and a recovery
  are put together from their arguments. Parsing the command line, logging, the signal handler and the gRPC
  server are not part of the model; a started node is the state its server and its tasks work on. An
  \<open>unwrap\<close> on an error is a panic; its message leaves out the debug form of the error.
\<close>

section \<open>Arguments\<close>

record rollup_args =
  ra_public_url :: string
  ra_mutation_db_path :: string
  ra_state_db_path :: string
  ra_doc_db_path :: string
  ra_block_interval :: u64
  ra_rollup_data_path :: string
  ra_key_root_path :: string
  ra_admin_addr :: string
  ra_doc_id_start :: i64
  ra_use_legacy_tx :: bool

definition default_admin :: string where
  "default_admin = ''0x0000000000000000000000000000000000000000''"

definition default_rollup_args :: rollup_args where
  "default_rollup_args = \<lparr>ra_public_url = ''http://127.0.0.1:26619'', ra_mutation_db_path = ''./mutation_db'',
     ra_state_db_path = ''./state_db'', ra_doc_db_path = ''./doc_db'', ra_block_interval = 2000,
     ra_rollup_data_path = ''./rollup_data'', ra_key_root_path = ''./keys'', ra_admin_addr = default_admin,
     ra_doc_id_start = 100000, ra_use_legacy_tx = False\<rparr>"

record index_args =
  ia_public_url :: string
  ia_meta_db_path :: string
  ia_state_db_path :: string
  ia_doc_db_path :: string
  ia_key_root_path :: string
  ia_storage_grpc_url :: string
  ia_admin_addr :: string
  ia_doc_id_start :: i64

definition default_index_args :: index_args where
  "default_index_args = \<lparr>ia_public_url = ''http://127.0.0.1:26639'', ia_meta_db_path = ''./index_meta_db'',
     ia_state_db_path = ''./index_state_db'', ia_doc_db_path = ''./index_doc_db'', ia_key_root_path = ''./keys'',
     ia_storage_grpc_url = ''http://127.0.0.1:26619'', ia_admin_addr = default_admin, ia_doc_id_start = 100000\<rparr>"

record recover_args =
  va_mutation_db_path :: string
  va_meta_db_path :: string
  va_state_db_path :: string
  va_doc_db_path :: string
  va_key_root_path :: string
  va_recover_temp_path :: string
  va_doc_id_start :: i64

text \<open>\<open>recover index\<close> has no mutation path and passes the empty one on.\<close>

definition default_recover_args :: "recover_type \<Rightarrow> recover_args" where
  "default_recover_args k = (case k of
     Index \<Rightarrow> \<lparr>va_mutation_db_path = [], va_meta_db_path = ''./index_meta_db'', va_state_db_path = ''./index_state_db'',
       va_doc_db_path = ''./index_doc_db'', va_key_root_path = ''./keys'',
       va_recover_temp_path = ''./recover_index_temp'', va_doc_id_start = 100000\<rparr>
   | Rollup \<Rightarrow> \<lparr>va_mutation_db_path = ''./mutation_db'', va_meta_db_path = ''./rollup_meta_db'',
       va_state_db_path = ''./state_db'', va_doc_db_path = ''./doc_db'', va_key_root_path = ''./keys'',
       va_recover_temp_path = ''./recover_rollup_temp'', va_doc_id_start = 100000\<rparr>)"

section \<open>Configurations\<close>

definition keys_config :: "string \<Rightarrow> system_store_config" where
  "keys_config key_root_path =
     \<lparr>sys_key_root_path = key_root_path, sys_evm_wallet_key = ''evm'', sys_ar_wallet_key = ''ar''\<rparr>"

definition log_config :: "string \<Rightarrow> mutation_store_config" where
  "log_config path = \<lparr>msc_db_path = path, block_store_cf_name = ''block_store_cf'', tx_store_cf_name = ''tx_store_cf'',
     rollup_store_cf_name = ''rollup_store_cf'', gc_cf_name = ''gc_store_cf'', message_max_buffer = 4 * 1024,
     msc_scan_max_limit = 50, block_state_cf_name = ''block_state_cf''\<rparr>"

definition database_config :: "string \<Rightarrow> bool \<Rightarrow> doc_store_config \<Rightarrow> i64 \<Rightarrow> db_store_config" where
  "database_config path enabled docs start_id = \<lparr>dsc_db_path = path, db_store_cf_name = ''db_store_cf'',
     doc_store_cf_name = ''doc_store_cf'', collection_store_cf_name = ''col_store_cf'',
     index_store_cf_name = ''idx_store_cf'', doc_owner_store_cf_name = ''doc_owner_store_cf'',
     db_owner_store_cf_name = ''db_owner_cf'', dsc_scan_max_limit = 1000, enable_doc_store = enabled,
     doc_store_conf = docs, doc_start_id = start_id\<rparr>"

definition rollup_node_config :: "rollup_args \<Rightarrow> storage_node_config" where
  "rollup_node_config a = \<lparr>snc_store_config = log_config (ra_mutation_db_path a),
     snc_rollup_config = \<lparr>rc_temp_data_path = ra_rollup_data_path a, rc_key_root_path = ra_key_root_path a,
       rc_use_legacy_tx = ra_use_legacy_tx a\<rparr>,
     snc_db_store_config = database_config (ra_doc_db_path a) False default_doc_store_config (ra_doc_id_start a),
     snc_block_interval = ra_block_interval a\<rparr>"

definition doc_files_config :: "string \<Rightarrow> doc_store_config" where
  "doc_files_config path = \<lparr>db_root_path = path, in_memory_db_handle_limit = 16\<rparr>"

definition index_node_config :: "index_args \<Rightarrow> db_store_config" where
  "index_node_config a =
     database_config (ia_meta_db_path a) True (doc_files_config (ia_doc_db_path a)) (ia_doc_id_start a)"

definition recover_node_config :: "recover_type \<Rightarrow> recover_args \<Rightarrow> db_store_config" where
  "recover_node_config k a = database_config (va_meta_db_path a) (case k of Index \<Rightarrow> True | Rollup \<Rightarrow> False)
     (doc_files_config (va_doc_db_path a)) (va_doc_id_start a)"

section \<open>Starting\<close>

definition unwrapped :: "('n, 'a) action \<Rightarrow> ('n, 'a) action" where
  "unwrapped act = (\<lambda>n. case act n of
     (Inl (Raised e), t) \<Rightarrow> (Inl (Panicked ''called `Result::unwrap()` on an `Err` value''), t)
   | r \<Rightarrow> r)"

text \<open>\<open>unwrap\<close> of what a library returned.\<close>

definition unwrap_lib :: "string + 'a \<Rightarrow> ('n, 'a) action" where
  "unwrap_lib r = unwrapped (lift_lib RollupError r)"

definition build_wallet :: "('w, 'h) outside \<Rightarrow> string \<Rightarrow> ('w, 'h) action" where
  "build_wallet W key_root_path =
     (let s = key_store_new \<lparr>ksc_key_root_path = key_root_path\<rparr>
      in andThen (gets (has_key W s ''evm'')) (\<lambda>present.
         if present
         then andThen (get_key W s ''evm'') (\<lambda>content. lift_lib RollupError (wallet_from_bytes W content))
         else (\<lambda>w. case wallet_new W w of (wallet, w1) \<Rightarrow>
                andThen (write_key W s ''evm'' (wallet_to_bytes W wallet)) (\<lambda>_. ok wallet) w1)))"

text \<open>
  The client of the rollup node: the channel is made lazily, so nothing is sent here. Parsing the address
  and making an endpoint are library calls; \<open>connect_lazy\<close> gives the calls over the channel.
\<close>

record ('w, 'h, 'td, 'st, 'e) endpoint_lib =
  uri_scheme :: "string \<Rightarrow> string + string option" \<comment> \<open>parsing the address, and its scheme\<close>
  endpoint_new :: "string \<Rightarrow> string + 'e"
  tls_config :: "'e \<Rightarrow> string + 'e"
  connect_lazy :: "'e \<Rightarrow> ('w, 'h, 'td, 'st) store_client"

definition build_store_sdk ::
  "('w, 'h) outside \<Rightarrow> ('w, 'h, 'td, 'st, 'e) endpoint_lib \<Rightarrow> string \<Rightarrow> string \<Rightarrow>
   ('w, ('w, 'h, 'td, 'st) store_client \<times> 'h) action" where
  "build_store_sdk W U public_grpc_url key_root_path =
     andThen (unwrapped (build_wallet W key_root_path)) (\<lambda>wallet.
     andThen (unwrap_lib (uri_scheme U public_grpc_url)) (\<lambda>scheme.
     andThen (unwrap_lib (endpoint_new U public_grpc_url)) (\<lambda>plain.
     andThen (if scheme = Some ''https'' then unwrap_lib (tls_config U plain) else ok plain) (\<lambda>endpoint.
     ok (connect_lazy U endpoint, wallet)))))"

text \<open>The state store and the addresses that are logged: reading an address makes the wallet when there is none.\<close>

definition open_system ::
  "('w, 'h) outside \<Rightarrow> 't mdbx \<Rightarrow> (string \<Rightarrow> string + 't) \<Rightarrow> string \<Rightarrow> string \<Rightarrow> ('w, 't) action" where
  "open_system W X mdbx_open state_db_path key_root_path =
     andThen (unwrapped (reads (\<lambda>_. ss_new X mdbx_open state_db_path))) (\<lambda>t.
     andThen (unwrapped (get_ar_address W (keys_config key_root_path))) (\<lambda>_.
     andThen (unwrapped (get_evm_address W (keys_config key_root_path))) (\<lambda>_.
     ok t)))"

definition start_rollup_grpc_service ::
  "('s, 'd, 't, 'w, 'h, 'td, 'sg) node_libs \<Rightarrow> ('w, 'h, 'td, 'lg, 'tx) event_lib \<Rightarrow> ('s, 'd, 'w, 'c) host \<Rightarrow>
   (string \<Rightarrow> string + 't) \<Rightarrow> rollup_args \<Rightarrow> 'w \<Rightarrow> (('s, 'd, 't, 'w, 'h) storage_node \<times> system_service) result \<times> 'w" where
  "start_rollup_grpc_service N V H mdbx_open a =
     andThen (open_system (outside_of N) (mdbx_of N) mdbx_open (ra_state_db_path a) (ra_key_root_path a)) (\<lambda>t.
     andThen (unwrapped (storage_node_new N V H (rollup_node_config a) (keys_config (ra_key_root_path a)) t)) (\<lambda>node.
     andThen (unwrapped (call (\<lambda>e. InvalidKeyPathError e) (create_dir_all H (ra_rollup_data_path a)))) (\<lambda>_ w.
     case unwrapped (sn_recover N) (node\<lparr>sn_world := w\<rparr>) of
       (Inl e, n) \<Rightarrow> (Inl e, sn_world n)
     | (Inr _, n) \<Rightarrow>
         andThen (unwrapped (reads (\<lambda>_. system_new (outside_of N) (keys_config (ra_key_root_path a)) DataRollupNode
           (ra_public_url a) (ra_admin_addr a)))) (\<lambda>service. ok (n, service)) (sn_world n))))"

text \<open>An error of the cold start of an index node is ignored.\<close>

definition start_index_node ::
  "('s, 'd, 't, 'w, 'h, 'td, 'sg) node_libs \<Rightarrow> ('s, 'd, 'w, 'c) host \<Rightarrow> ('w, 'h, 'td, 'st, 'e) endpoint_lib \<Rightarrow>
   (string \<Rightarrow> string + 't) \<Rightarrow> index_args \<Rightarrow> 'w \<Rightarrow>
   ((('s, 'd, 't, 'w) indexer \<times> system_service \<times> ('w, 'h, 'td, 'st) store_client \<times> 'h) result \<times> 'w) option" where
  "start_index_node N H U mdbx_open a w =
     (case andThen (build_store_sdk (outside_of N) U (ia_storage_grpc_url a) (ia_key_root_path a)) (\<lambda>sdk.
           andThen (open_system (outside_of N) (mdbx_of N) mdbx_open (ia_state_db_path a) (ia_key_root_path a)) (\<lambda>t.
           andThen (unwrapped (reads (\<lambda>_. system_new (outside_of N) (keys_config (ia_key_root_path a)) DataIndexNode
             (ia_public_url a) (ia_admin_addr a)))) (\<lambda>service.
           andThen (unwrapped (reads (\<lambda>_. db_new (engine_open H (ia_meta_db_path a)) (open_doc_store H) (no_files H)
             (index_node_config a)))) (\<lambda>db.
           ok (sdk, t, service, db))))) w of
        (Inl e, w1) \<Rightarrow> Some (Inl e, w1)
      | (Inr ((Q, wallet), t, service, db), w1) \<Rightarrow>
          map_option (\<lambda>(r, x). (case r of
              Inl (Panicked msg) \<Rightarrow> Inl (Panicked msg)
            | _ \<Rightarrow> Inr (x, service, Q, wallet), sn_world x))
            (indexer_recover N Q (indexer_new db t w1)))"

section \<open>Recovery\<close>

definition create_recover ::
  "('s, 'd, 't, 'w, 'h, 'td, 'sg) node_libs \<Rightarrow> ('s, 'd, 'w, 'c) host \<Rightarrow> (string \<Rightarrow> string + 't) \<Rightarrow> recover_type \<Rightarrow>
   recover_args \<Rightarrow> ('w, ('s, 'd, 'w, 'h) recover) action" where
  "create_recover N H mdbx_open k a =
     andThen (open_system (outside_of N) (mdbx_of N) mdbx_open (va_state_db_path a) (va_key_root_path a)) (\<lambda>t.
     andThen (unwrapped (reads (\<lambda>_. db_new (engine_open H (va_meta_db_path a)) (open_doc_store H) (no_files H)
       (recover_node_config k a)))) (\<lambda>db.
     andThen (case k of
         Rollup \<Rightarrow> andThen (unwrapped (reads (\<lambda>_. ms_new (engine_open H (va_mutation_db_path a))
           (log_config (va_mutation_db_path a))))) (\<lambda>storage. ok (Some storage))
       | Index \<Rightarrow> ok None) (\<lambda>storage.
     andThen (unwrapped (call (\<lambda>e. InvalidKeyPathError e) (create_dir_all H (va_recover_temp_path a)))) (\<lambda>_.
     unwrapped (recover_new (outside_of N) (mdbx_of N) (codecs_of N) (keys_config (va_key_root_path a)) t
       \<lparr>rvc_key_root_path = va_key_root_path a, rvc_temp_data_path = va_recover_temp_path a, rvc_recover_type = k\<rparr>
       db storage)))))"

text \<open>Only the recovery of a rollup node recovers the state of the stores first.\<close>

definition execute_recover ::
  "('s, 'd, 't, 'w, 'h, 'td, 'sg) node_libs \<Rightarrow> ('s, 'd, 'w, 'c) host \<Rightarrow> (string \<Rightarrow> string + 't) \<Rightarrow> u64 \<Rightarrow> recover_type \<Rightarrow>
   recover_args \<Rightarrow> 'w \<Rightarrow> (('s, 'd, 'w, 'h) recover result \<times> 'w) option" where
  "execute_recover N H mdbx_open now k a w =
     (case create_recover N H mdbx_open k a w of
        (Inl e, w1) \<Rightarrow> Some (Inl e, w1)
      | (Inr v, w1) \<Rightarrow>
          (case (case k of
                   Rollup \<Rightarrow> unwrapped (recover_stat (engine_of N) (codecs_of N) (libs_of N))
                 | Index \<Rightarrow> ok ()) v of
             (Inl e, v1) \<Rightarrow> Some (Inl e, rv_world v1)
           | (Inr _, v1) \<Rightarrow>
               map_option (\<lambda>(r, v2). (case r of Inr _ \<Rightarrow> Inr v2 | Inl _ \<Rightarrow> Inl (Panicked ''called `Result::unwrap()` on an `Err` value''),
                   rv_world v2))
                 (recover_from_ar (engine_of N) (codecs_of N) (libs_of N) (ejdb_of N) (bson_of N) (eth_of N)
                   (outside_of N) now v1)))"

section \<open>The commands\<close>

record listen_args =
  la_bind_host :: string
  la_listening_port :: u16

text \<open>The flag \<open>verbose\<close> sets the log level and is left out.\<close>

datatype db3_command =
    RollupCommand rollup_args listen_args
  | IndexCommand index_args listen_args
  | RecoverCommand recover_type recover_args

text \<open>The clock, in seconds; a time before the epoch counts as the epoch.\<close>

definition get_current_time_in_secs :: "u64 option \<Rightarrow> u64" where
  "get_current_time_in_secs since_epoch = (case since_epoch of Some n \<Rightarrow> n | None \<Rightarrow> 0)"

definition listen_addr :: "listen_args \<Rightarrow> string" where
  "listen_addr l = la_bind_host l @ '':'' @ show_nat (unat (la_listening_port l))"

text \<open>
  What a command comes to: a node whose server listens on an address and answers from the state in it, next
  to its tasks, or a finished recovery. The address is parsed after everything else is set up.
\<close>

datatype ('s, 'd, 't, 'w, 'h, 'td, 'st, 'ad) running =
    ServesRollup "('s, 'd, 't, 'w, 'h) storage_node" system_service 'ad
  | ServesIndex "('s, 'd, 't, 'w) indexer" system_service "('w, 'h, 'td, 'st) store_client" 'h 'ad
  | RecoveredData "('s, 'd, 'w, 'h) recover"

definition node_execute ::
  "('s, 'd, 't, 'w, 'h, 'td, 'sg) node_libs \<Rightarrow> ('w, 'h, 'td, 'lg, 'tx) event_lib \<Rightarrow> ('s, 'd, 'w, 'c) host \<Rightarrow>
   ('w, 'h, 'td, 'st, 'e) endpoint_lib \<Rightarrow> (string \<Rightarrow> string + 't) \<Rightarrow> (string \<Rightarrow> string + 'ad) \<Rightarrow> ('w \<Rightarrow> u64 option) \<Rightarrow>
   db3_command \<Rightarrow> 'w \<Rightarrow> (('s, 'd, 't, 'w, 'h, 'td, 'st, 'ad) running result \<times> 'w) option" where
  "node_execute N V H U mdbx_open socket_addr clock cmd w = (case cmd of
     RollupCommand a l \<Rightarrow>
       Some (andThen (start_rollup_grpc_service N V H mdbx_open a) (\<lambda>(node, service).
         andThen (unwrap_lib (socket_addr (listen_addr l))) (\<lambda>ad. ok (ServesRollup node service ad))) w)
   | IndexCommand a l \<Rightarrow>
       map_option (\<lambda>(r, w1). andThen (reads (\<lambda>_. r)) (\<lambda>(x, service, Q, wallet).
         andThen (unwrap_lib (socket_addr (listen_addr l))) (\<lambda>ad. ok (ServesIndex x service Q wallet ad))) w1)
         (start_index_node N H U mdbx_open a w)
   | RecoverCommand k a \<Rightarrow>
       map_option (\<lambda>(r, w1). andThen (reads (\<lambda>_. r)) (\<lambda>v. ok (RecoveredData v)) w1)
         (execute_recover N H mdbx_open (get_current_time_in_secs (clock w)) k a w))"

text \<open>Errors do not reach the shell: a command succeeds or panics.\<close>

lemma unwrapped_never_raises: "unwrapped act n \<noteq> (Inl (Raised e), t)"
  by (auto simp: unwrapped_def split: prod.splits sum.splits fault.splits)

lemma unwrap_lib_never_raises: "unwrap_lib r n \<noteq> (Inl (Raised e), t)"
  by (simp add: unwrap_lib_def unwrapped_never_raises)

lemma unwrap_lib_never_raises_fst: "fst (unwrap_lib r n) \<noteq> Inl (Raised e)"
  using unwrap_lib_never_raises by (metis prod.collapse)

lemma unwrap_lib_eq_Inr_iff: "unwrap_lib r n = (Inr x, t) \<longleftrightarrow> r = Inr x \<and> t = n"
  by (cases r) (auto simp: unwrap_lib_def unwrapped_def lift_lib_def lib_err_def reads_def)

lemma andThen_never_raises:
  assumes "\<And>n e t. act n \<noteq> (Inl (Raised e), t)" "\<And>x n e t. f x n \<noteq> (Inl (Raised e), t)"
  shows "andThen act f n \<noteq> (Inl (Raised e), t)"
  using assms by (auto simp: andThen_def split: prod.splits sum.splits)

lemma ok_never_raises: "ok x n \<noteq> (Inl (Raised e), t)"
  by (simp add: ok_def)

lemma if_never_raises:
  "f n \<noteq> (Inl (Raised e), t) \<Longrightarrow> g n \<noteq> (Inl (Raised e), t) \<Longrightarrow> (if b then f else g) n \<noteq> (Inl (Raised e), t)"
  by simp

lemmas never_raises = andThen_never_raises if_never_raises unwrapped_never_raises unwrap_lib_never_raises ok_never_raises

lemma open_system_never_raises: "open_system W X f p q w \<noteq> (Inl (Raised e), v)"
  unfolding open_system_def by (intro never_raises)

lemma build_store_sdk_never_raises: "build_store_sdk W U p q w \<noteq> (Inl (Raised e), v)"
  unfolding build_store_sdk_def by (intro never_raises)

lemma start_rollup_never_raises: "start_rollup_grpc_service N V H mo a w \<noteq> (Inl (Raised e), v)"
  unfolding start_rollup_grpc_service_def
  by (intro never_raises open_system_never_raises)
    (auto split: prod.splits sum.splits simp: never_raises dest: sym)

lemma index_parts_never_raise:
  "andThen (build_store_sdk W U p q) (\<lambda>sdk. andThen (open_system W X mo p' q) (\<lambda>t. andThen (unwrapped f) (\<lambda>s.
     andThen (unwrapped g) (\<lambda>d. ok (sdk, t, s, d))))) w \<noteq> (Inl (Raised e), v)"
  by (intro never_raises build_store_sdk_never_raises open_system_never_raises)

lemma start_index_never_raises: "start_index_node N H U mo a w \<noteq> Some (Inl (Raised e), v)"
  by (auto simp: start_index_node_def index_parts_never_raise split: prod.splits sum.splits fault.splits)

lemma create_recover_never_raises: "create_recover N H mo k a w \<noteq> (Inl (Raised e), v)"
  unfolding create_recover_def
  by (cases k; simp only: recover_type.case; intro never_raises open_system_never_raises)

lemma execute_recover_never_raises: "execute_recover N H mo now k a w \<noteq> Some (Inl (Raised e), v)"
  using create_recover_never_raises [of N H mo k a w]
  by (cases k) (auto simp: execute_recover_def ok_def dest: unwrapped_never_raises [THEN notE, rotated]
      split: prod.splits sum.splits fault.splits)

lemma command_succeeds_or_panics: "node_execute N V H U mo ad clock cmd w \<noteq> Some (Inl (Raised e), v)"
proof (cases cmd)
  case (RollupCommand a l)
  have "andThen (start_rollup_grpc_service N V H mo a) (\<lambda>(node, service).
      andThen (unwrap_lib (ad p)) (\<lambda>x. ok (ServesRollup node service x))) w \<noteq> (Inl (Raised e), v)" for p
    unfolding case_prod_beta by (intro never_raises start_rollup_never_raises)
  with RollupCommand show ?thesis by (simp add: node_execute_def)
next
  case (IndexCommand a l)
  with IndexCommand start_index_never_raises [of N H U mo a w e] show ?thesis
    by (auto simp: node_execute_def action_simps unwrap_lib_never_raises_fst split: sum.splits prod.splits)
next
  case (RecoverCommand k a)
  with execute_recover_never_raises [of N H mo _ k a w e] show ?thesis
    by (auto simp: node_execute_def action_simps split: sum.splits)
qed

text \<open>A command that serves listens on the address of its arguments.\<close>

lemma serves_on_its_address:
  assumes "node_execute N V H U mo ad clock (RollupCommand a l) w = Some (Inr r, v)"
  shows "\<exists>node service x. r = ServesRollup node service x \<and> ad (listen_addr l) = Inr x"
  using assms
  by (auto simp: node_execute_def andThen_eq_Inr_iff unwrap_lib_eq_Inr_iff ok_def)

text \<open>
  The rollup node keeps its databases under \<open>doc_db_path\<close>, its recovery rebuilds them under
  \<open>meta_db_path\<close>: with the default arguments they are different stores.
\<close>

lemma recovered_databases_are_elsewhere:
  "dsc_db_path (recover_node_config Rollup (default_recover_args Rollup)) \<noteq>
   dsc_db_path (snc_db_store_config (rollup_node_config default_rollup_args))"
  by (simp add: recover_node_config_def rollup_node_config_def database_config_def default_recover_args_def
      default_rollup_args_def)

end
