(* ===== verification/Recover_Replay.thy ===== *)
theory Recover_Replay
  imports Recover_Chain
begin

text \<open>
  Recovery as a whole. While nobody moves the latest transaction of the contract (\<open>quiet_archive\<close>), the
  walk and the replay end, and a recovery that succeeds has applied the mutations of the archived
  rounds, from the oldest to the newest, each once.
\<close>

section \<open>Reading does not move the latest transaction\<close>

locale quiet_archive = archive +
  assumes latest_reads:
    "latest (snd (temp_dir_in W p q w)) = latest w" "latest (snd (file_create W p w)) = latest w"
    "latest (snd (file_write_all W p d w)) = latest w" "latest (snd (file_sync_all W p w)) = latest w"
    "latest (snd (file_read W p w)) = latest w" "latest (snd (ar_get_tx_data W h b w)) = latest w"
begin

definition stays :: "'a \<Rightarrow> 'a \<Rightarrow> bool" where
  "stays w0 w \<longleftrightarrow> chain w0 \<subseteq>\<^sub>m chain w \<and> latest w = latest w0"

lemma stays_refl: "stays w w"
  by (simp add: stays_def)

lemma stays_trans: "stays w0 w1 \<Longrightarrow> stays w1 w2 \<Longrightarrow> stays w0 w2"
  by (auto simp: stays_def intro: map_le_trans)

lemma keeps_stays_call:
  "(\<And>w. chain w \<subseteq>\<^sub>m chain (snd (op w)) \<and> latest (snd (op w)) = latest w) \<Longrightarrow> keeps (stays w0) (call f op)"
  by (auto simp: keeps_def call_def stays_def intro: map_le_trans)

lemma keeps_stays_temp_dir:
  assumes "\<And>dir. keeps (stays w0) (act dir)"
  shows "keeps (stays w0) (with_temp_dir W base pre act)"
  unfolding with_temp_dir_def
proof (intro keeps_andThen keeps_stays_call conjI chain_grows latest_reads keepsI)
  fix dir s
  assume "stays w0 s"
  from keepsD [OF assms this, of dir] map_le_trans [OF _ chain_grows(7)]
  show "stays w0 (snd (let (r, w') = act dir s in (r, temp_dir_drop W dir w')))"
    by (cases "act dir s") (simp add: stays_def latest_kept)
qed

lemmas stays_rules = keeps_andThen keeps_pure keeps_stays_call keeps_lift_lib keeps_stays_temp_dir conjI chain_grows
  latest_reads latest_kept

lemma download_stays: "keeps (stays w0) (download_and_parse_record_batch W tb tx)"
  unfolding download_and_parse_record_batch_def download_file_def parse_gzip_file_def Let_def
  by (auto intro!: stays_rules split: option.split)

lemma tags_stay: "keeps (stays w0) (get_tx_tags W tb tx)"
  unfolding get_tx_tags_def get_tags_def by (auto intro!: stays_rules split: option.split)

lemma latest_tx_stays: "keeps (stays w0) (get_latest_arweave_tx W meta network)"
  unfolding get_latest_arweave_tx_def by (auto intro!: stays_rules)

lemma fetch_loop_stays:
  assumes "fetch_loop W tb block tx txs w = Some (r, w')"
  shows "stays w w'"
proof -
  have "V = W \<longrightarrow> stays w (snd y)" if "fetch_loop V tb block tx txs w = Some y" for V y
    using that
  proof (rule fetch_loop.raw_induct [rotated, where P = "\<lambda>V tb block tx txs w y. V = W \<longrightarrow> stays w (snd y)"])
    fix f V tb block tx txs w y
    assume step: "(case get_tx_tags V tb tx w of (r, w1) \<Rightarrow>
        case r of Inl e \<Rightarrow> Some (Inl e, w1)
        | Inr (start_block, end_block, last_rollup_tx, version) \<Rightarrow>
            if end_block < block then Some (Inr txs, w1)
            else case last_rollup_tx of None \<Rightarrow> Some (Inr (txs @ [(tx, end_block, version)]), w1)
              | Some t \<Rightarrow> f V tb block t (txs @ [(tx, end_block, version)]) w1) = Some y"
      and IH: "\<And>V tb block tx txs w y. f V tb block tx txs w = Some y \<Longrightarrow> V = W \<longrightarrow> stays w (snd y)"
    obtain r w1 where g: "get_tx_tags V tb tx w = (r, w1)" by force
    show "V = W \<longrightarrow> stays w (snd y)"
    proof
      assume "V = W"
      then have one: "stays w w1" using keepsD [OF tags_stay [of w tb tx] stays_refl] g by simp
      show "stays w (snd y)"
      proof (cases "\<exists>t txs'. f V tb block t txs' w1 = Some y")
        case True
        then show ?thesis using IH \<open>V = W\<close> stays_trans [OF one] by blast
      next
        case False
        then have "snd y = w1" using step g by (auto split: sum.splits if_splits option.splits)
        then show ?thesis using one by simp
      qed
    qed
  qed
  with assms show ?thesis by fastforce
qed

end

section \<open>Replaying rows\<close>

text \<open>Replaying a mutation neither reads nor moves the outside world.\<close>

definition unworldly :: "(('s, 'd, 'w, 'h) recover, 'a) action \<Rightarrow> bool" where
  "unworldly act \<longleftrightarrow> (\<forall>v w. act (v\<lparr>rv_world := w\<rparr>) = (fst (act v), (snd (act v))\<lparr>rv_world := w\<rparr>)) \<and>
     (\<forall>v. rv_world (snd (act v)) = rv_world v)"

lemma unworldly_andThen:
  "unworldly act \<Longrightarrow> (\<And>x. unworldly (f x)) \<Longrightarrow> unworldly (andThen act f)"
  by (auto simp: unworldly_def andThen_simps split: sum.split)

lemma unworldly_reads: "unworldly (ok x)" "(\<And>v w. g (v\<lparr>rv_world := w\<rparr>) = g v) \<Longrightarrow> unworldly (reads g)"
  "(\<And>v w. h (v\<lparr>rv_world := w\<rparr>) = h v) \<Longrightarrow> unworldly (gets h)"
  by (simp_all add: unworldly_def action_simps)

lemma unworldly_stores: "unworldly (on_rv_db act)" "unworldly (on_rv_storage act')"
  by (auto simp: unworldly_def on_field_apply on_rv_storage_def split: option.split prod.split)

lemma unworldly_for_each: "(\<And>x. unworldly (f x)) \<Longrightarrow> unworldly (for_each f xs)"
  by (induction xs) (auto intro: unworldly_andThen unworldly_reads)

lemma unworldly_mutation: "unworldly (recover_mutation K C L E B T now x)"
  unfolding recover_mutation_def
  by (auto intro!: unworldly_andThen unworldly_reads unworldly_stores simp: is_recover_rollup_def split: prod.split)

lemma for_each_append: "for_each f (xs @ ys) = andThen (for_each f xs) (\<lambda>_. for_each f ys)"
  by (induction xs) (auto simp: fun_eq_iff action_simps split: sum.split)

lemma for_each_concat:
  assumes "list_all2 (\<lambda>b xs. g b = Inr xs) bs xss"
  shows "for_each (\<lambda>b. andThen (reads (\<lambda>_. g b)) (for_each f)) bs = for_each f (concat xss)"
  using assms
proof (induction rule: list_all2_induct)
  case (Cons b bs xs xss)
  have "andThen (reads (\<lambda>_. Inr xs)) (for_each f) = for_each f xs" by (simp add: fun_eq_iff action_simps)
  then show ?case by (simp add: Cons for_each_append)
qed simp

text \<open>Two recoveries with the same stores, up to the outside world.\<close>

definition same_stores :: "('s, 'd, 'w, 'h) recover \<Rightarrow> ('s, 'd, 'w, 'h) recover \<Rightarrow> bool" where
  "same_stores u v \<longleftrightarrow> u\<lparr>rv_world := rv_world v\<rparr> = v"

lemma same_stores_world: "same_stores u v \<Longrightarrow> same_stores u (v\<lparr>rv_world := w\<rparr>)"
proof -
  assume "same_stores u v"
  then have "(u\<lparr>rv_world := rv_world v\<rparr>)\<lparr>rv_world := w\<rparr> = v\<lparr>rv_world := w\<rparr>" by (simp only: same_stores_def)
  then show ?thesis by (simp add: same_stores_def)
qed

lemma same_stores_run:
  assumes "unworldly act" "same_stores u v" "act v = (r, v')"
  shows "\<exists>u'. act u = (r, u') \<and> same_stores u' v'" "rv_world v' = rv_world v"
  using assms by (auto simp: unworldly_def same_stores_def) (metis fst_conv prod.collapse snd_conv)+

context quiet_archive
begin

lemma recover_tx_replays:
  assumes "tx_holds W (chain (rv_world v)) tx s e prev xs" "same_stores u v"
    "recover_from_arweave_tx K C L E B T W now tx (Some ver) v = (Inr (), v')"
  obtains u' where "for_each (recover_mutation K C L E B T now) xs u = (Inr (), u')" "same_stores u' v'"
    "stays (rv_world v) (rv_world v')"
proof -
  let ?f = "recover_mutation K C L E B T now"
  obtain bs w1 where d: "download_and_parse_record_batch W (rv_toolbox v) tx (rv_world v) = (Inr bs, w1)"
    and l: "for_each (\<lambda>rb. andThen (reads (\<lambda>_. convert_recordbatch_to_mutation rb (Some ver))) (for_each ?f)) bs
      (v\<lparr>rv_world := w1\<rparr>) = (Inr (), v')"
    using assms(3) by (auto simp: recover_from_arweave_tx_def andThen_eq_Inr_iff gets_def on_field_def split: prod.splits)
  obtain xss where "list_all2 (\<lambda>b xs. convert_recordbatch_to_mutation b (Some ver) = Inr xs) bs xss" "concat xss = xs"
    using download_holds [OF assms(1) d] by (auto simp: batches_hold_def)
  with l have run: "for_each ?f xs (v\<lparr>rv_world := w1\<rparr>) = (Inr (), v')" by (simp add: for_each_concat)
  have "same_stores u (v\<lparr>rv_world := w1\<rparr>)" by (rule same_stores_world [OF assms(2)])
  note same_stores_run [OF unworldly_for_each [OF unworldly_mutation] this run]
  moreover have "stays (rv_world v) w1" using keepsD [OF download_stays [of "rv_world v"] stays_refl] d by (metis snd_conv)
  ultimately show ?thesis using that by auto
qed

end

section \<open>The rounds from a block on\<close>

definition due_rounds :: "u64 \<Rightarrow> rollup_record list \<Rightarrow> 'x list \<Rightarrow> (rollup_record \<times> 'x) list" where
  "due_rounds block rs xss = rev (takeWhile (\<lambda>x. block \<le> rr_end_block (fst x)) (rev (zip rs xss)))"

lemma takeWhile_fst: "map fst (takeWhile (\<lambda>x. P (fst x)) zs) = takeWhile P (map fst zs)"
  by (induction zs) auto

lemma due_rounds_newest:
  assumes "length xss = length rs"
  shows "rev (newest_first block rs) = map (\<lambda>x. fetched (fst x)) (due_rounds block rs xss)"
proof -
  have "map fst (takeWhile (\<lambda>x. block \<le> rr_end_block (fst x)) (rev (zip rs xss))) =
      takeWhile (\<lambda>r. block \<le> rr_end_block r) (rev rs)"
    using assms takeWhile_fst [of "\<lambda>r. block \<le> rr_end_block r" "rev (zip rs xss)"] by (simp flip: rev_map)
  from arg_cong [OF this, of "\<lambda>zs. rev (map fetched zs)"] show ?thesis
    unfolding newest_first_def due_rounds_def by (simp add: rev_map comp_def)
qed

lemma due_rounds_archived:
  assumes "archived W ch rs xss" "x \<in> set (due_rounds block rs xss)"
  shows "\<exists>s e prev. tx_holds W ch (rr_arweave_tx (fst x)) s e prev (snd x)"
proof -
  have "x \<in> set (zip rs xss)" using assms(2) by (auto simp: due_rounds_def dest: set_takeWhileD)
  then obtain k where "k < length rs" "x = (rs ! k, xss ! k)" using assms(1) by (auto simp: archived_def set_zip)
  then show ?thesis using archived_at [OF assms(1)] by auto
qed

lemma due_rounds_all: "due_rounds 0 rs xss = zip rs xss"
proof -
  have "takeWhile (\<lambda>x. 0 \<le> rr_end_block (fst x)) (rev (zip rs xss)) = rev (zip rs xss)"
    unfolding takeWhile_eq_all_conv by simp
  then show ?thesis by (simp only: due_rounds_def rev_rev_ident)
qed

lemma keeps_network_id: "keeps (\<lambda>v. rv_network_id v = n) (recover_from_arweave_tx K C L E B T W now tx ver)"
proof -
  have "keeps (\<lambda>v. rv_network_id v = n) (on_rv_storage act)" for act
    by (auto simp: keeps_def on_rv_storage_def split: option.splits prod.splits)
  moreover have "keeps (\<lambda>v. rv_network_id v = n) (on_rv_db act')" "keeps (\<lambda>v. rv_network_id v = n) (on_rv_world act'')" for act' act''
    by (auto simp: keeps_def on_field_apply)
  ultimately show ?thesis
    unfolding recover_from_arweave_tx_def recover_mutation_def
    by (auto intro!: keeps_intros keeps_reads keeps_gets split: prod.split)
qed

context quiet_archive
begin

lemma recover_txs_replay:
  assumes "\<forall>x \<in> set zs. \<exists>s e prev. tx_holds W (chain (rv_world v)) (rr_arweave_tx (fst x)) s e prev (snd x)"
    "same_stores u v"
    "for_each (\<lambda>(tx, end_block, version). recover_from_arweave_tx K C L E B T W now tx version)
       (map (\<lambda>x. fetched (fst x)) zs) v = (Inr (), v')"
  shows "\<exists>u'. for_each (recover_mutation K C L E B T now) (concat (map snd zs)) u = (Inr (), u') \<and> same_stores u' v' \<and>
    stays (rv_world v) (rv_world v') \<and> rv_network_id v' = rv_network_id v"
  using assms
proof (induction zs arbitrary: u v)
  case Nil
  then show ?case by (simp add: ok_def stays_refl)
next
  case (Cons x zs)
  from Cons.prems(1) obtain s e prev where h: "tx_holds W (chain (rv_world v)) (rr_arweave_tx (fst x)) s e prev (snd x)" by auto
  from Cons.prems(3) obtain v1 where v1: "recover_from_arweave_tx K C L E B T W now (rr_arweave_tx (fst x))
      (Some AR_SCHEMA_VERSION_1) v = (Inr (), v1)"
    "for_each (\<lambda>(tx, end_block, version). recover_from_arweave_tx K C L E B T W now tx version)
       (map (\<lambda>x. fetched (fst x)) zs) v1 = (Inr (), v')"
    by (auto simp: fetched_def andThen_eq_Inr_iff)
  obtain u1 where u1: "for_each (recover_mutation K C L E B T now) (snd x) u = (Inr (), u1)" "same_stores u1 v1"
    and st: "stays (rv_world v) (rv_world v1)"
    by (rule recover_tx_replays [OF h Cons.prems(2) v1(1)])
  have "\<forall>x \<in> set zs. \<exists>s e prev. tx_holds W (chain (rv_world v1)) (rr_arweave_tx (fst x)) s e prev (snd x)"
    using Cons.prems(1) st tx_holds_mono unfolding stays_def by (metis list.set_intros(2))
  from Cons.IH [OF this u1(2) v1(2)] obtain u' where u':
    "for_each (recover_mutation K C L E B T now) (concat (map snd zs)) u1 = (Inr (), u')" "same_stores u' v'"
    "stays (rv_world v1) (rv_world v')" "rv_network_id v' = rv_network_id v1" by blast
  moreover have "rv_network_id v1 = rv_network_id v"
    using keepsD [OF keeps_network_id [of "rv_network_id v" K C L E B T W now "rr_arweave_tx (fst x)"]] v1(1) by (metis snd_conv)
  ultimately show ?case
    using u1(1) stays_trans [OF st] by (auto simp: for_each_append andThen_def)
qed

text \<open>One look at the contract and the walk from there.\<close>

lemma fetch_returns:
  assumes "archived W (chain (rv_world v)) rs xss" "rs \<noteq> []"
    "ar_id_display W (latest (rv_world v) (ucast (rv_network_id v))) = rr_arweave_tx (last rs)"
  shows "\<exists>r w1. fetch_arweave_tx_from_block W block v = Some (r, v\<lparr>rv_world := w1\<rparr>) \<and> stays (rv_world v) w1 \<and>
    (r = Inr (newest_first block rs) \<or> (\<exists>e. r = Inl e))"
proof -
  obtain r w1 where g: "get_latest_arweave_tx W (rv_meta_store v) (rv_network_id v) (rv_world v) = (r, w1)" by force
  have st: "stays (rv_world v) w1" using keepsD [OF latest_tx_stays [of "rv_world v"] stays_refl] g by (metis snd_conv)
  show ?thesis
  proof (cases r)
    case (Inl e)
    then show ?thesis
      using g st by (simp add: fetch_arweave_tx_from_block_def rv_get_latest_arweave_tx_def action_simps) blast
  next
    case (Inr tx)
    then have tx: "tx = rr_arweave_tx (rs ! (length rs - 1))"
      using g assms(2,3) network_latest
      by (auto simp: get_latest_arweave_tx_def andThen_eq_Inr_iff call_Inr_iff ok_def last_conv_nth)
    have arch: "archived W (chain w1) rs xss" using archived_mono [OF assms(1)] st by (simp add: stays_def)
    obtain r2 w2 where f: "fetch_loop W (rv_toolbox v) block tx [] w1 = Some (r2, w2)"
      "r2 = Inr ([] @ newest_first block (take (Suc (length rs - 1)) rs)) \<or> (\<exists>e. r2 = Inl e)"
      using fetch_loop_chain [OF arch, of "length rs - 1" "rv_toolbox v" block "[]"] assms(2) unfolding tx by fastforce
    have "fetch_arweave_tx_from_block W block v = Some (r2, v\<lparr>rv_world := w2\<rparr>)"
      using g Inr f(1) by (simp add: fetch_arweave_tx_from_block_def rv_get_latest_arweave_tx_def action_simps)
    moreover have "stays (rv_world v) w2" using st fetch_loop_stays [OF f(1)] by (rule stays_trans)
    ultimately show ?thesis using f(2) assms(2) by auto
  qed
qed

lemma recover_nothing_due:
  assumes "archived W (chain (rv_world v)) rs xss" "rs \<noteq> []" "rr_end_block (last rs) < block"
    "ar_id_display W (latest (rv_world v) (ucast (rv_network_id v))) = rr_arweave_tx (last rs)"
  shows "\<exists>r w1. recover_from_arweave K C L E B T W now block v = Some (r, v\<lparr>rv_world := w1\<rparr>)"
proof -
  have "newest_first block rs = []" using assms(2,3) by (cases rs rule: rev_cases) (simp_all add: newest_first_def)
  with fetch_returns [OF assms(1,2,4), of block] show ?thesis
    by (subst recover_from_arweave.simps) fastforce
qed

lemma recover_replays:
  assumes "archived W (chain (rv_world v)) rs xss" "rs \<noteq> []" "rr_end_block (last rs) < - 1"
    "ar_id_display W (latest (rv_world v) (ucast (rv_network_id v))) = rr_arweave_tx (last rs)"
  shows "\<exists>r v'. recover_from_arweave K C L E B T W now block v = Some (r, v') \<and>
    ((\<exists>b. r = Inr b) \<longrightarrow> (\<exists>u. for_each (recover_mutation K C L E B T now) (concat (map snd (due_rounds block rs xss))) v = (Inr (), u) \<and>
       same_stores u v'))"
proof -
  let ?f = "\<lambda>(tx, end_block, version). recover_from_arweave_tx K C L E B T W now tx version"
  have len: "length xss = length rs" using assms(1) by (simp add: archived_def)
  obtain r w1 where f: "fetch_arweave_tx_from_block W block v = Some (r, v\<lparr>rv_world := w1\<rparr>)" "stays (rv_world v) w1"
    "r = Inr (newest_first block rs) \<or> (\<exists>e. r = Inl e)"
    using fetch_returns [OF assms(1,2,4), of block] by blast
  show ?thesis
  proof (cases "\<exists>e. r = Inl e")
    case True
    then show ?thesis using f(1) by (subst recover_from_arweave.simps) fastforce
  next
    case False
    then have r: "r = Inr (newest_first block rs)" using f(3) by blast
    let ?v1 = "v\<lparr>rv_world := w1\<rparr>" and ?zs = "due_rounds block rs xss"
    have arch: "archived W (chain w1) rs xss" using archived_mono [OF assms(1)] f(2) by (simp add: stays_def)
    have start: "same_stores v ?v1" by (simp add: same_stores_def)
    show ?thesis
    proof (cases "newest_first block rs = []")
      case True
      then have "?zs = []" using due_rounds_newest [OF len, of block] by simp
      then show ?thesis
        using f(1) r True start by (subst recover_from_arweave.simps) (auto simp: ok_def)
    next
      case txs: False
      obtain r2 v2 where loop: "for_each ?f (rev (newest_first block rs)) ?v1 = (r2, v2)" by force
      show ?thesis
      proof (cases r2)
        case (Inl e)
        then show ?thesis using f(1) r txs loop by (subst recover_from_arweave.simps) auto
      next
        case (Inr x)
        have run: "for_each ?f (map (\<lambda>x. fetched (fst x)) ?zs) ?v1 = (Inr (), v2)"
          using loop by (simp add: Inr due_rounds_newest [OF len])
        have "\<forall>x \<in> set ?zs. \<exists>s e prev. tx_holds W (chain (rv_world ?v1)) (rr_arweave_tx (fst x)) s e prev (snd x)"
          using due_rounds_archived [OF arch] by simp
        from recover_txs_replay [OF this start run] obtain u where u:
          "for_each (recover_mutation K C L E B T now) (concat (map snd ?zs)) v = (Inr (), u)" "same_stores u v2"
          "stays w1 (rv_world v2)" "rv_network_id v2 = rv_network_id v" by auto
        have "fst (snd (hd (newest_first block rs))) = rr_end_block (last rs)"
          using txs assms(2) by (cases rs rule: rev_cases) (auto simp: newest_first_def fetched_def split: if_splits)
        moreover have "rr_end_block (last rs) < rr_end_block (last rs) + 1" using assms(3) by (intro word_less_plus_one) auto
        moreover note st2 = stays_trans [OF f(2) u(3)]
        ultimately obtain r3 w3 where "recover_from_arweave K C L E B T W now (fst (snd (hd (newest_first block rs))) + 1) v2 =
            Some (r3, v2\<lparr>rv_world := w3\<rparr>)"
          using recover_nothing_due [of v2 rs xss] archived_mono [OF assms(1)] assms(2,4) u(4) st2
          by (fastforce simp: stays_def)
        moreover have "same_stores u (v2\<lparr>rv_world := w3\<rparr>)" by (rule same_stores_world [OF u(2)])
        ultimately show ?thesis
          using f(1) r txs loop Inr u(1) by (subst recover_from_arweave.simps) auto
      qed
    qed
  qed
qed

end

end
