(* ===== verification/Recover_Theorems.thy ===== *)
theory Recover_Theorems
  imports Recover_Replay Replica_Theorems
begin

text \<open>The statements about recovery from Arweave, and their runs on in-memory instances.\<close>

section \<open>Rows of a history\<close>





section \<open>A concrete archive\<close>

interpretation mem_quiet: quiet_archive mem_outside mw_disk mw_chain mw_named
  by unfold_locales (simp_all add: mem_outside_def mw_named_def fun_eq_iff split: option.split)

definition sample_round :: rollup_record where
  "sample_round = \<lparr>rr_end_block = 5, rr_raw_data_size = 0, rr_compress_data_size = 0, rr_processed_time = 0,
     rr_arweave_tx = hex_of [9], rr_time = 0, rr_mutation_count = 1, rr_cost = 0, rr_start_block = 0, rr_evm_tx = [], rr_evm_cost = 0\<rparr>"

definition sample_recover :: "mem_world \<Rightarrow> (mem_state, mem_files, mem_world, bytes) recover" where
  "sample_recover w = \<lparr>rv_config = \<lparr>rvc_key_root_path = ''/keys'', rvc_temp_data_path = ''/tmp'', rvc_recover_type = Index\<rparr>,
     rv_toolbox = sample_toolbox, rv_meta_store = sample_meta, rv_db_store = sample_db2, rv_storage = None,
     rv_network_id = 3, rv_world = w\<rparr>"

lemma sample_archive:
  "\<exists>w. archived mem_outside (mw_chain w) [sample_round] [map exported ms] \<and>
     ar_id_display mem_outside (mw_named w 3) = rr_arweave_tx sample_round"
proof -
  obtain rb where rb: "convert_mutations_to_recordbatch mem_outside ms = Inr rb"
    by (simp add: convert_mutations_to_recordbatch_def mem_outside_def mw_try_new_def)
  obtain buf where buf: "parquet_write mem_outside rb = Inr buf"
    by (simp add: mem_outside_def batch_codec_def frame_codec_def)
  obtain tags where tags: "upload_tags mem_outside [] 0 5 3 [] = Inr tags"
    by (simp add: upload_tags_def tag_from_utf8_strs_def mem_outside_def)
  let ?w = "\<lparr>mw_files = [], mw_txs = [([9], buf, tags)], mw_latest = [(3, [9])], mw_dirs = 0\<rparr>"
  have "file_holds mem_outside buf (map exported ms)"
    unfolding file_holds_def batches_hold_def by (rule mem_archive.recordbatch_roundtrip [OF rb buf])
  moreover have "ar_id_from_str mem_outside (hex_of [9]) = Inr [9]"
    using unhex_hex_of [of "[9]"] by (simp add: mem_outside_def)
  ultimately have "tx_holds mem_outside (mw_chain ?w) (hex_of [9]) 0 5 None (map exported ms)"
    using mem_archive.upload_tags_read [OF tags] by (auto simp: tx_holds_def mw_chain_def)
  then have "archived mem_outside (mw_chain ?w) [sample_round] [map exported ms]"
    by (simp add: archived_def sample_round_def prev_tx_def hex_of_nonempty)
  moreover have "ar_id_display mem_outside (mw_named ?w 3) = rr_arweave_tx sample_round"
    by (simp add: mem_outside_def mw_named_def sample_round_def)
  ultimately show ?thesis by blast
qed

lemma sample_no_block: "recover_block_state mem_engine sample_codecs sample_db2 = Inr None"
proof -
  obtain d where d: "sample_get_database sample_db1 = Inr (Some d)" using sample_db1_facts(2) ..
  have "cf_map mem_engine (db_se sample_db1) BLOCK_STATE_CF = Map.empty"
    by (rule platform.create_database_run [OF node_platform sample_db0_ready sample_no_database sample_files
          sample_codecs_encode(6), where s = addr_one and desc = "''desc''" and block = 1 and order = 1])
      (simp add: sample_db1_def sample_db0_fields sample_db_config_def BLOCK_STATE_CF_def)
  then have "cf_map mem_engine (db_se sample_db2) BLOCK_STATE_CF = Map.empty"
    by (rule_tac platform.save_collection_run [OF node_platform sample_db1_facts(1) d sample_key refl
          sample_codecs_encode(7) sample_files, where s = addr_one and ix = "[]"])
      (auto simp: sample_db2_def sample_db1_facts sample_db_config_def BLOCK_STATE_CF_def)
  then show ?thesis
    unfolding recover_block_state_def
    by (subst platform.get_entry_eq [OF node_platform sample_db2_facts(1)]) simp_all
qed

section \<open>Statements\<close>

text \<open>C30. Recovery returns. While the contract names the newest archived round and nobody moves it, recovery from
  Arweave ends, with an error of one of its calls or with success; with success it has replayed exactly the
  mutations of the archived rounds that end at or after the block of the store, oldest round first, each
  once.\<close>

theorem recovery_returns_with_the_archive_replayed:
  assumes "quiet_archive W disk chain latest" and "archived W (chain (rv_world v)) rs xss" and "rs \<noteq> []"
    and "rr_end_block (last rs) < - 1"
    and "ar_id_display W (latest (rv_world v) (ucast (rv_network_id v))) = rr_arweave_tx (last rs)"
    and "recover_block_state K C (rv_db_store v) = Inr found"
  shows "\<exists>r v'. recover_from_ar K C L E B T W now v = Some (r, v') \<and>
    (r = Inr () \<longrightarrow> (\<exists>u. for_each (recover_mutation K C L E B T now)
        (concat (map snd (due_rounds (case found of Some b \<Rightarrow> bsp_block b | None \<Rightarrow> 0) rs xss))) v = (Inr (), u) \<and>
      rv_db_store v' = rv_db_store u \<and> rv_storage v' = rv_storage u))"
proof -
  let ?b = "case found of Some b \<Rightarrow> bsp_block b | None \<Rightarrow> 0"
  obtain r v' where run: "recover_from_arweave K C L E B T W now ?b v = Some (r, v')"
    "(\<exists>b. r = Inr b) \<longrightarrow> (\<exists>u. for_each (recover_mutation K C L E B T now) (concat (map snd (due_rounds ?b rs xss))) v = (Inr (), u) \<and>
       same_stores u v')"
    using quiet_archive.recover_replays [OF assms(1-5), of K C L E B T now ?b] by blast
  have "recover_from_ar K C L E B T W now v = Some (bindR r (\<lambda>_. Inr ()), v')"
    using run(1) assms(6) by (simp add: recover_from_ar_def)
  moreover have "rv_db_store v' = rv_db_store u \<and> rv_storage v' = rv_storage u" if "same_stores u v'" for u
    using that unfolding same_stores_def by (metis recover.select_convs(4,5) recover.surjective recover.update_convs(7))
  ultimately show ?thesis using run(2) by (cases r) auto
qed

theorem recovery_returns_with_the_archive_replayed_witness:
  "\<exists>w r v'. recover_from_ar mem_engine sample_codecs sample_libs mem_ejdb sample_bson (sample_eth (sample_addition []) addr_one 1)
     mem_outside 7 (sample_recover w) = Some (r, v')"
proof -
  obtain w where w: "archived mem_outside (mw_chain w) [sample_round] [map exported []]"
    "ar_id_display mem_outside (mw_named w 3) = rr_arweave_tx sample_round"
    using sample_archive by blast
  from w show ?thesis
    using recovery_returns_with_the_archive_replayed [OF mem_quiet.quiet_archive_axioms, of "sample_recover w" "[sample_round]"]
      sample_no_block
    by (fastforce simp: sample_recover_def sample_round_def)
qed



end
