(* ===== verification/Index_Restart.thy ===== *)
theory Index_Restart
  imports Replica_Theorems
begin

text \<open>
  The cold start of an index node: it ends when the rollup node has finitely many blocks, and what it does
  with a block that the node has already applied.
\<close>

section \<open>What an applied creation leaves\<close>


section \<open>The loop of the cold start\<close>

lemma fetch_blocks_returns:
  assumes "\<And>b w. B \<le> b \<Longrightarrow> fst (rpc_get_block Q b (b + 1000) w) = Inr [] \<or> (\<exists>e. fst (rpc_get_block Q b (b + 1000) w) = Inl e)"
    "unat B + 100 < 2 ^ 64"
  shows "\<exists>y. fetch_blocks_loop N Q b x = Some y"
proof (induction "unat B - unat b" arbitrary: b x rule: less_induct)
  case less
  obtain q w where q: "rpc_get_block Q b (b + 1000) (sn_world x) = (q, w)" by force
  show ?case
  proof (cases "B \<le> b")
    case True
    then have "q = Inr [] \<or> (\<exists>e. q = Inl e)" using assms(1) [of b "sn_world x"] q by simp
    then show ?thesis
      by (subst fetch_blocks_loop.simps) (use q in \<open>auto simp: get_blocks_def call_def on_field_apply\<close>)
  next
    case False
    then have "unat b < unat B" by (simp add: word_less_nat_alt not_le)
    moreover from this have "unat (b + 100) = unat b + 100" using assms(2) by (subst unat_word_ariths) simp
    ultimately have "\<exists>y. fetch_blocks_loop N Q (b + 100) x2 = Some y" for x2 by (intro less) simp
    then show ?thesis
      by (subst fetch_blocks_loop.simps) (auto split: prod.split sum.split)
  qed
qed


section \<open>A concrete rollup node to follow\<close>

text \<open>A client of a node that holds the given mutations and answers by block range.\<close>

definition sample_client :: "(mutation_header \<times> mutation_body) list \<Rightarrow> (mem_world, bytes, string, unit) store_client" where
  "sample_client ms = \<lparr>
     rpc_get_block = (\<lambda>lo hi w. (Inr (map (\<lambda>(h, b). (Some h, Some b)) (filter (\<lambda>(h, b). lo \<le> mh_block_id h \<and> mh_block_id h < hi) ms)), w)),
     rpc_subscribe = (\<lambda>_ _ w. (Inr (), w)), subscription_encode = (\<lambda>_. Inr []), bytes_text = (\<lambda>_. []),
     subscribe_typed_data = (\<lambda>_. []), client_sign = (\<lambda>_ _. Inr []), typed_data_to_string = Inr\<rparr>"

definition sample_creation :: mutation where
  "sample_creation = \<lparr>mut_action = action_to_i32 CreateDocumentDb, mut_bodies =
     [\<lparr>bw_db_address = [], bw_body = Some (DocDatabaseMutation \<lparr>ddm_db_desc = ''mine''\<rparr>)\<rparr>]\<rparr>"

definition sample_creation_row :: "mutation_header \<times> mutation_body" where
  "sample_creation_row = (\<lparr>mh_block_id = 0, mh_order_id = 1, mh_sender = [], mh_time = 0, mh_id = [], mh_size = 0, mh_nonce = 1,
     mh_network = 3, mh_action = 0, mh_doc_ids_map = []\<rparr>, \<lparr>mb_payload = sample_payload, mb_signature = ''sig''\<rparr>)"


section \<open>Statements\<close>

text \<open>C32. The cold start of an index node returns: if the rollup node has no mutations from some block on, and that
  block is not within 100 of the largest one, the loop over the windows ends, whatever the windows before it
  hold and whether applying them succeeds.\<close>

theorem cold_start_returns:
  assumes "\<And>b w. B \<le> b \<Longrightarrow> fst (rpc_get_block Q b (b + 1000) w) = Inr [] \<or> (\<exists>e. fst (rpc_get_block Q b (b + 1000) w) = Inl e)"
    and "unat B + 100 < 2 ^ 64"
  shows "\<exists>r x'. indexer_recover N Q x = Some (r, x')"
proof -
  have "\<exists>y. recover_from_fetched_blocks N Q x1 = Some y" for x1
    using fetch_blocks_returns [OF assms]
    by (cases "recover_block_state (engine_of N) (codecs_of N) (sn_db_store x1)") (auto simp: recover_from_fetched_blocks_def)
  then show ?thesis by (auto simp: indexer_recover_def split: prod.split sum.split)
qed

theorem cold_start_returns_witness:
  "\<exists>r x'. indexer_recover (sample_linked sample_creation addr_one 1) (sample_client [sample_creation_row])
     (indexer_new sample_db0 [] (sn_world (sample_rollup_state sample_db0))) = Some (r, x')"
  by (rule cold_start_returns [of 1]) (auto simp: sample_client_def sample_creation_row_def)



end
