(* ===== verification/System_Sdk.thy ===== *)
theory System_Sdk
  imports System_Service
begin

text \<open>
  The client of the system service (\<open>src/sdk/src/system_sdk.rs\<close>): it writes a configuration into typed data,
  signs it and sends it. The gRPC channel, the wallet and the typed data of \<open>ethers\<close> are the parameter
  \<open>system_client\<close>. The locale \<open>setup_channel\<close> states what the two ends rely on: the text of typed data is read
  back, its fields are those of the message, and a signature names the wallet that made it.
\<close>

record sdk_config =
  sdc_rollup_interval :: u64
  sdc_min_rollup_size :: u64
  sdc_network :: u64
  sdc_chain_id :: u32
  sdc_contract_address :: string
  sdc_rollup_max_interval :: u64
  sdc_evm_node_rpc :: string
  sdc_ar_node_url :: string
  sdc_min_gc_offset :: u64

record ('w, 'h, 'td) system_client =
  rpc_setup :: "string \<Rightarrow> string \<Rightarrow> ('w, setup_response) handler"
  setup_typed_data :: "(string \<times> json) list \<Rightarrow> 'td"
  setup_sign :: "'h \<Rightarrow> 'td \<Rightarrow> string + string"
  setup_data_to_string :: "'td \<Rightarrow> string + string"

text \<open>The message is a map from names to values; \<open>setup_typed_data\<close> receives its entries.\<close>

definition setup_message :: "sdk_config \<Rightarrow> (string \<times> json) list" where
  "setup_message config =
     [(''rollupInterval'', JString (show_u64 (sdc_rollup_interval config))),
      (''minRollupSize'', JString (show_u64 (sdc_min_rollup_size config))),
      (''networkId'', JString (show_u64 (sdc_network config))),
      (''chainId'', JString (show_u32 (sdc_chain_id config))),
      (''contractAddr'', JString (sdc_contract_address config)),
      (''rollupMaxInterval'', JString (show_u64 (sdc_rollup_max_interval config))),
      (''evmNodeUrl'', JString (sdc_evm_node_rpc config)),
      (''arNodeUrl'', JString (sdc_ar_node_url config)),
      (''minGcOffset'', JString (show_u64 (sdc_min_gc_offset config)))]"

definition sdk_setup :: "('w, 'h, 'td) system_client \<Rightarrow> 'h \<Rightarrow> sdk_config \<Rightarrow> ('w, setup_response) handler" where
  "sdk_setup Q wallet config =
     (let typed_data = setup_typed_data Q (setup_message config)
      in thenServe (lib_status Internal (\<lambda>e. ''Fail to sign subscription '' @ e) (setup_sign Q wallet typed_data)) (\<lambda>signature.
         thenServe (lib_status InvalidArgument (\<lambda>_. ''fail to convert typed data to json'')
           (setup_data_to_string Q typed_data)) (\<lambda>message_str.
         rpc_setup Q (''0x'' @ signature) message_str)))"

text \<open>The configuration the client means, and the ones the service takes.\<close>

definition sent_config :: "sdk_config \<Rightarrow> system_config" where
  "sent_config c = \<lparr>sc_min_rollup_size = sdc_min_rollup_size c, sc_rollup_interval = sdc_rollup_interval c,
     sc_network_id = sdc_network c, sc_evm_node_url = sdc_evm_node_rpc c, sc_ar_node_url = sdc_ar_node_url c,
     sc_chain_id = sdc_chain_id c, sc_rollup_max_interval = sdc_rollup_max_interval c,
     sc_contract_addr = sdc_contract_address c, sc_min_gc_offset = sdc_min_gc_offset c\<rparr>"

definition acceptable :: "sdk_config \<Rightarrow> bool" where
  "acceptable c \<longleftrightarrow> sdc_chain_id c \<noteq> 0 \<and> sdc_contract_address c \<noteq> [] \<and> starts_with ''ws'' (sdc_evm_node_rpc c) \<and>
     sdc_ar_node_url c \<noteq> [] \<and> sdc_network c \<noteq> 0"

lemma starts_with_wss: "starts_with ''wss'' s \<Longrightarrow> starts_with ''ws'' s"
  by (cases s; cases "tl s") (auto simp: starts_with_def)

lemma not_starts_with_nil: "\<not> starts_with ''ws'' []"
  by (simp add: starts_with_def)

section \<open>The two ends\<close>

locale setup_channel =
  fixes Q :: "('w, 'h, 'td) system_client"
    and T :: "('td, 'sg) eth_lib"
    and account :: "'h \<Rightarrow> bytes"
  assumes text_read_back: "setup_data_to_string Q (setup_typed_data Q (setup_message c)) = Inr s \<Longrightarrow>
      typed_data_from_str T s = Inr (setup_typed_data Q (setup_message c))"
    and fields_read_back: "typed_message T (setup_typed_data Q (setup_message c)) = map_of (setup_message c)"
    and signature_names: "setup_sign Q wallet td = Inr s \<Longrightarrow>
      \<exists>g. signature_from_str T (''0x'' @ s) = Inr g \<and> recover_typed_data T g td = Inr (account wallet)"
begin

text \<open>What the service reads of a request of the client.\<close>

lemma setup_verified:
  assumes "setup_sign Q wallet (setup_typed_data Q (setup_message c)) = Inr s"
    "setup_data_to_string Q (setup_typed_data Q (setup_message c)) = Inr p"
  shows "verify_setup T p (''0x'' @ s) = Inr (account wallet, setup_typed_data Q (setup_message c))"
  using text_read_back [OF assms(2)] signature_names [OF assms(1)] by (auto simp: verify_setup_def)

lemma setup_fields:
  defines "td c \<equiv> setup_typed_data Q (setup_message c)"
  shows "get_u32_field T (td c) ''chainId'' d = sdc_chain_id c"
    "get_str_field T (td c) ''contractAddr'' t = sdc_contract_address c"
    "get_str_field T (td c) ''evmNodeUrl'' t = sdc_evm_node_rpc c" "get_str_field T (td c) ''arNodeUrl'' t = sdc_ar_node_url c"
    "get_str_field T (td c) ''networkId'' t = show_u64 (sdc_network c)"
    "get_u64_field T (td c) ''minRollupSize'' u = sdc_min_rollup_size c"
    "get_u64_field T (td c) ''rollupInterval'' u = sdc_rollup_interval c"
    "get_u64_field T (td c) ''rollupMaxInterval'' u = sdc_rollup_max_interval c"
    "get_u64_field T (td c) ''minGcOffset'' u = sdc_min_gc_offset c"
  unfolding td_def get_u32_field_def get_str_field_def get_u64_field_def fields_read_back
  by (simp_all add: setup_message_def)

lemma setup_requested:
  assumes "acceptable c"
  shows "requested_config T (setup_typed_data Q (setup_message c)) n = (Inr (sent_config c), n)"
  using assms
  using not_starts_with_nil
  by (auto simp: acceptable_def requested_config_def setup_fields sent_config_def lib_status_def action_simps Let_def)

lemma setup_refused:
  assumes "\<not> acceptable c"
  shows "\<exists>msg. requested_config T (setup_typed_data Q (setup_message c)) n = (Inl (Status InvalidArgument msg), n)"
  using assms
  by (auto simp: acceptable_def requested_config_def setup_fields lib_status_def action_simps Let_def dest: starts_with_wss)

end

section \<open>Setup requests\<close>

text \<open>What an answered request leaves, by the configuration that was there.\<close>

definition merged :: "system_config option \<Rightarrow> system_config \<Rightarrow> system_config" where
  "merged old config = (case old of
     Some old_config \<Rightarrow> config\<lparr>sc_network_id := sc_network_id old_config, sc_chain_id := sc_chain_id old_config,
       sc_contract_addr := sc_contract_addr old_config\<rparr>
   | None \<Rightarrow> config)"

lemma setup_run:
  assumes "reliable_mdbx X" "codec_ok (config_codec C)" "verify_setup T payload signature = Inr (sy_admin_addr S, td)"
    "requested_config T td n = (Inr config, n)" "get_config X C (sy_role S) (sy_state_store n) = Inr old"
    "encode (config_codec C) (merged old config) = Inr buf"
  obtains n' where "system_setup X C T S payload signature n = (Inr \<lparr>sr_code = 0, sr_msg = ''ok''\<rparr>, n')"
    "get_config X C (sy_role S) (sy_state_store n') = Inr (Some (merged old config))"
    "nonce_of X (sy_state_store n') = nonce_of X (sy_state_store n)"
    "sy_notifications n' = Suc (sy_notifications n)" "sy_world n' = sy_world n"
proof -
  obtain u where u: "store_node_config X C (get_name (sy_role S)) (merged old config) (sy_state_store n) = (Inr (), u)"
    "get_node_config X C (get_name (sy_role S)) u = Inr (Some (merged old config))"
    "nonce_of X u = nonce_of X (sy_state_store n)"
    using reliable_mdbx.node_config_read_back [OF assms(1,2,6)] by blast
  have "system_setup X C T S payload signature n = (Inr \<lparr>sr_code = 0, sr_msg = ''ok''\<rparr>,
      n\<lparr>sy_state_store := u, sy_notifications := Suc (sy_notifications n)\<rparr>)"
    using assms(3-5) u(1) by (simp add: system_setup_def or_status_def action_simps Let_def update_config_def merged_def)
  then show ?thesis using that u by (simp add: get_config_def)
qed

text \<open>A request that is not from the administrator, or asks for something else, changes nothing.\<close>

lemma requested_same: "snd (requested_config T td n) = n"
  by (simp add: requested_config_def lib_status_def action_simps Let_def split: sum.split)

lemma setup_unanswered:
  assumes "\<And>td. verify_setup T payload signature = Inr (sy_admin_addr S, td) \<Longrightarrow> \<exists>e. requested_config T td n = (Inl e, n)"
  shows "\<exists>e. system_setup X C T S payload signature n = (Inl e, n)"
proof (cases "\<exists>td. verify_setup T payload signature = Inr (sy_admin_addr S, td)")
  case True
  then obtain td where td: "verify_setup T payload signature = Inr (sy_admin_addr S, td)" by blast
  then show ?thesis using assms by (auto simp: system_setup_def or_status_def action_simps)
next
  case False
  then show ?thesis
    by (cases "verify_setup T payload signature")
      (auto simp: system_setup_def or_status_def action_simps split: fault.split)
qed

lemma setup_unstored:
  assumes "reliable_mdbx X" "verify_setup T payload signature = Inr (sy_admin_addr S, td)"
    "requested_config T td n = (Inr config, n)" "get_config X C (sy_role S) (sy_state_store n) = Inr old"
    "encode (config_codec C) (merged old config) = Inl e"
  shows "\<exists>e. system_setup X C T S payload signature n = (Inl e, n)"
proof -
  obtain x where "begin_write X CONFIG_META_TABLE (sy_state_store n) = (Inr x, sy_state_store n)"
    by (rule reliable_mdbx.begin_write_ok [OF assms(1)])
  then have "store_node_config X C (get_name (sy_role S)) (merged old config) (sy_state_store n) =
      (Inl (Raised (WriteStoreError e)), sy_state_store n)"
    using assms(5) by (simp add: store_node_config_def action_simps)
  then show ?thesis
    using assms(2-4) by (simp add: system_setup_def or_status_def action_simps Let_def update_config_def merged_def)
qed

end
