(* ===== verification/System_Theorems.thy ===== *)
theory System_Theorems
  imports System_Sdk Sample_Node
begin

text \<open>The statements about the setup of a node, and their runs on in-memory instances.\<close>

section \<open>A concrete channel\<close>

text \<open>Typed data as the text of its fields; a signature as the text of the account.\<close>

definition fields_text :: "(string \<times> json) list \<Rightarrow> string" where
  "fields_text kvs = concat (map (\<lambda>(k, v). frame k @ frame (case v of JString s \<Rightarrow> s | _ \<Rightarrow> [])) kvs)"

fun field_in :: "nat \<Rightarrow> string \<Rightarrow> string \<Rightarrow> json option" where
  "field_in 0 s name = None"
| "field_in (Suc n) s name = (case unframe s of
     None \<Rightarrow> None
   | Some (k, r) \<Rightarrow> (case unframe r of
       None \<Rightarrow> None
     | Some (v, r') \<Rightarrow> if k = name then Some (JString v) else field_in n r' name))"

definition sample_admin_lib :: "(string, bytes) eth_lib" where
  "sample_admin_lib = \<lparr>typed_data_from_str = Inr, typed_data_from_slice = (\<lambda>_. Inr []),
     typed_message = (\<lambda>s. field_in (length s) s), signature_from_str = (\<lambda>s. unhex (drop 2 s)),
     recover_typed_data = (\<lambda>g _. Inr g), bytes_from_value = (\<lambda>_. Inr []), mutation_decode = (\<lambda>_. Inl [])\<rparr>"

definition sample_service :: system_service where
  "sample_service = \<lparr>sy_role = DataRollupNode, sy_public_node_url = [], sy_admin_addr = [7],
     sy_system_store = \<lparr>sys_key_root_path = ''/keys'', sys_evm_wallet_key = ''evm'', sys_ar_wallet_key = ''ar''\<rparr>\<rparr>"






lemma sample_config_codec: "codec_ok (config_codec sample_codecs)"
  by (rule lawful_codecs.config_ok [OF platform.axioms(2) [OF node_platform]])

section \<open>Statements\<close>



text \<open>C35. Only the administrator changes the configuration of a node, and no request changes the network, the chain or the
  contract of a node that has them: whatever a request holds, the service is left as it was, or the request was
  signed by the administrator and the new configuration has the network, chain and contract of the old one.\<close>

theorem setup_keeps_network_chain_and_contract:
  assumes "reliable_mdbx X" and "codec_ok (config_codec C)"
    and "get_config X C (sy_role S) (sy_state_store n) = Inr (Some old)"
    and "system_setup X C T S payload signature n = (res, n')"
  shows "n' = n \<or> (\<exists>td config. verify_setup T payload signature = Inr (sy_admin_addr S, td) \<and>
    get_config X C (sy_role S) (sy_state_store n') = Inr (Some config) \<and> sc_network_id config = sc_network_id old \<and>
    sc_chain_id config = sc_chain_id old \<and> sc_contract_addr config = sc_contract_addr old \<and>
    nonce_of X (sy_state_store n') = nonce_of X (sy_state_store n))"
proof (cases "\<exists>td config. verify_setup T payload signature = Inr (sy_admin_addr S, td) \<and> requested_config T td n = (Inr config, n)")
  case False
  then have "\<exists>e. requested_config T td n = (Inl e, n)" if "verify_setup T payload signature = Inr (sy_admin_addr S, td)" for td
    using that requested_same [of T td n] by (cases "requested_config T td n"; cases "fst (requested_config T td n)") auto
  then show ?thesis using setup_unanswered [of T payload signature S n X C] assms(4) by fastforce
next
  case True
  then obtain td config where v: "verify_setup T payload signature = Inr (sy_admin_addr S, td)"
    "requested_config T td n = (Inr config, n)" by blast
  show ?thesis
  proof (cases "encode (config_codec C) (merged (Some old) config)")
    case (Inl e)
    then show ?thesis using setup_unstored [OF assms(1) v assms(3)] assms(4) by fastforce
  next
    case (Inr buf)
    obtain n'' where "system_setup X C T S payload signature n = (Inr \<lparr>sr_code = 0, sr_msg = ''ok''\<rparr>, n'')"
      "get_config X C (sy_role S) (sy_state_store n'') = Inr (Some (merged (Some old) config))"
      "nonce_of X (sy_state_store n'') = nonce_of X (sy_state_store n)"
      by (rule setup_run [OF assms(1,2) v assms(3) Inr]) (rule that)
    then show ?thesis using v(1) assms(4) by (simp add: merged_def)
  qed
qed

theorem setup_keeps_network_chain_and_contract_witness:
  "\<exists>n config. get_config mem_mdbx sample_codecs DataRollupNode (sy_state_store (snd (system_setup mem_mdbx sample_codecs
      sample_admin_lib sample_service (fields_text [(''networkId'', JString ''9'')]) ''0x07''
      (n :: (mem_env, unit) system_state)))) = Inr (Some config) \<and> sc_network_id config = 3"
proof -
  let ?c = "\<lparr>sc_min_rollup_size = 0, sc_rollup_interval = 0, sc_network_id = 3, sc_evm_node_url = [], sc_ar_node_url = [],
    sc_chain_id = 5, sc_rollup_max_interval = 0, sc_contract_addr = [], sc_min_gc_offset = 0\<rparr>"
  obtain buf where "encode (config_codec sample_codecs) ?c = Inr buf" by (simp add: sample_codecs_def)
  from reliable_mdbx.node_config_read_back [OF mem_env_reliable sample_config_codec this]
  obtain u where u: "get_config mem_mdbx sample_codecs DataRollupNode u = Inr (Some ?c)"
    unfolding get_config_def by blast
  let ?n = "\<lparr>sy_state_store = u, sy_world = (), sy_notifications = 0\<rparr> :: (mem_env, unit) system_state"
  have old: "get_config mem_mdbx sample_codecs (sy_role sample_service) (sy_state_store ?n) = Inr (Some ?c)"
    using u by (simp add: sample_service_def)
  let ?t = "sy_state_store (snd (system_setup mem_mdbx sample_codecs sample_admin_lib sample_service
    (fields_text [(''networkId'', JString ''9'')]) ''0x07'' ?n))"
  from setup_keeps_network_chain_and_contract [OF mem_env_reliable sample_config_codec old surjective_pairing,
      where T = sample_admin_lib and payload = "fields_text [(''networkId'', JString ''9'')]" and signature = "''0x07''"]
  have "\<exists>config. get_config mem_mdbx sample_codecs (sy_role sample_service) ?t = Inr (Some config) \<and> sc_network_id config = 3"
    using old by auto
  then show ?thesis unfolding sample_service_def by (simp only: system_service.simps) blast
qed

end
