(* ===== verification/Key_Theorems.thy ===== *)
theory Key_Theorems
  imports Key_Store Sample_World
begin

text \<open>
  Keys that survive a restart: what is written under a name is read back, and the wallet of a node is
  generated once. The locale \<open>key_disk\<close> states what the store relies on: a file system that keeps what was
  synced, base64 that is ASCII and read back, and wallets that are read back from their bytes.
\<close>

section \<open>The interface\<close>


section \<open>Statements\<close>




end
