(* ===== verification/Shell.thy ===== *)
theory Shell
  imports Rust_Text "HOL-Library.Sublist"
begin

text \<open>
  The interactive shell (\<open>src/cmd/src/shell.rs\<close>) and the console built on it
  (\<open>src/cmd/src/console.rs\<close>): the tree of commands, completion of a line, substitution of environment
  variables, splitting of a line into words and the read loop. The line editor, the terminal, the
  splitting of quoted words, the escape sequences and the argument parser come from other crates and
  are the fields of \<open>terminal\<close> and \<open>console_lib\<close>.
\<close>

section \<open>White space of the standard library\<close>

text \<open>The UTF-8 forms of the characters with the property White-Space.\<close>

definition white_spaces :: "string list" where
  "white_spaces = [
    [CHR 0x09], [CHR 0x0A], [CHR 0x0B], [CHR 0x0C], [CHR 0x0D], [CHR 0x20], [CHR 0xC2, CHR 0x85],
    [CHR 0xC2, CHR 0xA0], [CHR 0xE1, CHR 0x9A, CHR 0x80], [CHR 0xE2, CHR 0x80, CHR 0x80],
    [CHR 0xE2, CHR 0x80, CHR 0x81], [CHR 0xE2, CHR 0x80, CHR 0x82],
    [CHR 0xE2, CHR 0x80, CHR 0x83], [CHR 0xE2, CHR 0x80, CHR 0x84],
    [CHR 0xE2, CHR 0x80, CHR 0x85], [CHR 0xE2, CHR 0x80, CHR 0x86],
    [CHR 0xE2, CHR 0x80, CHR 0x87], [CHR 0xE2, CHR 0x80, CHR 0x88],
    [CHR 0xE2, CHR 0x80, CHR 0x89], [CHR 0xE2, CHR 0x80, CHR 0x8A],
    [CHR 0xE2, CHR 0x80, CHR 0xA8], [CHR 0xE2, CHR 0x80, CHR 0xA9],
    [CHR 0xE2, CHR 0x80, CHR 0xAF], [CHR 0xE2, CHR 0x81, CHR 0x9F], [CHR 0xE3, CHR 0x80, CHR 0x80]]"

text \<open>How many bytes the white space at the head of a text has (0: there is none), and at its end.\<close>

definition ws_len :: "string \<Rightarrow> nat" where
  "ws_len s = (case List.find (\<lambda>w. take (length w) s = w) white_spaces of None \<Rightarrow> 0 | Some w \<Rightarrow> length w)"

definition ws_end_len :: "string \<Rightarrow> nat" where
  "ws_end_len s =
     (case List.find (\<lambda>w. drop (length s - length w) s = w) white_spaces of None \<Rightarrow> 0 | Some w \<Rightarrow> length w)"

function words_from :: "string \<Rightarrow> string \<Rightarrow> string list" where
  "words_from w [] = (if w = [] then [] else [w])"
| "words_from w (c # cs) =
     (case ws_len (c # cs) of
        0 \<Rightarrow> words_from (w @ [c]) cs
      | Suc n \<Rightarrow> (if w = [] then [] else [w]) @ words_from [] (drop n cs))"
  by pat_completeness auto

termination
  by (relation "measure (\<lambda>(w, s). length s)") auto

definition split_whitespace :: "string \<Rightarrow> string list" where
  "split_whitespace s = words_from [] s"

function trim_start :: "string \<Rightarrow> string" where
  "trim_start [] = []"
| "trim_start (c # cs) = (case ws_len (c # cs) of 0 \<Rightarrow> c # cs | Suc n \<Rightarrow> trim_start (drop n cs))"
  by pat_completeness auto

termination
  by (relation "measure length") auto

function trim_end :: "string \<Rightarrow> string" where
  "trim_end [] = []"
| "trim_end (c # cs) =
     (case ws_end_len (c # cs) of 0 \<Rightarrow> c # cs | Suc n \<Rightarrow> trim_end (take (length cs - n) (c # cs)))"
  by pat_completeness auto

termination
  by (relation "measure length") auto

definition trim :: "string \<Rightarrow> string" where
  "trim s = trim_end (trim_start s)"

section \<open>Searching and replacing\<close>

fun contains :: "string \<Rightarrow> string \<Rightarrow> bool" where
  "contains pat [] \<longleftrightarrow> pat = []"
| "contains pat (c # cs) \<longleftrightarrow> take (length pat) (c # cs) = pat \<or> contains pat cs"

text \<open>\<open>str::replace\<close> of a non-empty pattern: the occurrences from the left that do not overlap.\<close>

function replace_all :: "string \<Rightarrow> string \<Rightarrow> string \<Rightarrow> string" where
  "replace_all pat new [] = []"
| "replace_all pat new (c # cs) =
     (case pat of
        p # ps \<Rightarrow>
          if p = c \<and> take (length ps) cs = ps then new @ replace_all pat new (drop (length ps) cs)
          else c # replace_all pat new cs
      | [] \<Rightarrow> c # replace_all pat new cs)"
  by pat_completeness auto

termination
  by (relation "measure (\<lambda>(pat, new, s). length s)") auto

section \<open>The tree of commands\<close>

datatype command_structure =
  CommandStructure (cs_name: string) (cs_completions: "string list") (cs_children: "command_structure list")

definition from_children :: "string \<Rightarrow> command_structure list \<Rightarrow> command_structure" where
  "from_children name children = CommandStructure name (map cs_name children) children"

text \<open>What \<open>clap\<close> tells of a subcommand: its name and the long forms of its options.\<close>

type_synonym clap_subcommand = "string \<times> string option list"

definition from_clap :: "clap_subcommand list \<Rightarrow> command_structure" where
  "from_clap subs = from_children []
     (map (\<lambda>(name, opts).
        CommandStructure name
          (map (\<lambda>long. case long of Some l \<Rightarrow> ''--'' @ l | None \<Rightarrow> ''--'' @ name) opts) []) subs)"

definition get_child :: "command_structure \<Rightarrow> string \<Rightarrow> command_structure option" where
  "get_child cmd name = List.find (\<lambda>sub. cs_name sub = name) (cs_children cmd)"

text \<open>The name \<open>quit\<close> is an alias of \<open>exit\<close> and offered by no completion.\<close>

definition install_shell_plugins :: "clap_subcommand list \<Rightarrow> clap_subcommand list" where
  "install_shell_plugins subs = subs @ [(''exit'', []), (''clear'', []), (''history'', [])]"

section \<open>Cached completions\<close>

record cache_key =
  ck_command :: "string option"
  ck_flag :: string

definition cache_key_new :: "string \<Rightarrow> string \<Rightarrow> cache_key" where
  "cache_key_new command flag = \<lparr>ck_command = Some command, ck_flag = flag\<rparr>"

definition cache_key_flag :: "string \<Rightarrow> cache_key" where
  "cache_key_flag flag = \<lparr>ck_command = None, ck_flag = flag\<rparr>"

datatype ordering = Less | Equal | Greater

text \<open>The order of \<open>str\<close> is that of its bytes.\<close>

definition cmp_text :: "string \<Rightarrow> string \<Rightarrow> ordering" where
  "cmp_text a b =
     (let x = as_bytes a; y = as_bytes b in if x < y then Less else if x = y then Equal else Greater)"

definition cache_key_cmp :: "cache_key \<Rightarrow> cache_key \<Rightarrow> ordering" where
  "cache_key_cmp k l =
     (let cmd_eq = (case (ck_command k, ck_command l) of
                      (Some a, Some b) \<Rightarrow> cmp_text a b
                    | _ \<Rightarrow> Equal)
      in if cmd_eq \<noteq> Equal then cmd_eq else cmp_text (ck_flag k) (ck_flag l))"

type_synonym completion_cache = "(cache_key \<times> string list) list"

text \<open>\<open>BTreeMap::get\<close>: the keys in order up to the first that is not less than the one searched.\<close>

fun cache_get :: "cache_key \<Rightarrow> completion_cache \<Rightarrow> string list option" where
  "cache_get k [] = None"
| "cache_get k ((l, v) # kvs) =
     (case cache_key_cmp k l of Greater \<Rightarrow> cache_get k kvs | Equal \<Rightarrow> Some v | Less \<Rightarrow> None)"

section \<open>Completion\<close>

record shell_helper =
  sh_command :: command_structure
  sh_cache :: completion_cache

definition next_command :: "command_structure \<Rightarrow> string \<Rightarrow> command_structure" where
  "next_command cmd tok = (case get_child cmd tok of Some c \<Rightarrow> c | None \<Rightarrow> cmd)"

text \<open>The position the candidates replace the line from, and the candidates.\<close>

definition complete :: "shell_helper \<Rightarrow> string \<Rightarrow> nat \<times> string list" where
  "complete h line =
     (let marked = line @ ''_'';
          tokens = split_whitespace marked;
          last_token = butlast (last tokens);
          previous_tokens = butlast tokens;
          command = foldl next_command (sh_command h) previous_tokens;
          key = cache_key_new (cs_name command) (if previous_tokens = [] then [] else last previous_tokens);
          from_cache = (case cache_get key (sh_cache h) of None \<Rightarrow> [] | Some cs \<Rightarrow> cs);
          candidates = filter (\<lambda>c. take (length last_token) c = last_token \<and> c \<notin> set previous_tokens)
                         (from_cache @ cs_completions command)
      in (length marked - length last_token - 1, candidates))"

section \<open>Environment variables\<close>

definition by_length :: "(string \<times> string) list \<Rightarrow> (string \<times> string) list" where
  "by_length env = sort_key (\<lambda>kv. - int (length (fst kv))) env"

definition found_variable :: "(string \<times> string) list \<Rightarrow> string \<Rightarrow> (string \<times> string) option" where
  "found_variable env s = List.find (\<lambda>kv. contains (CHR ''$'' # fst kv) s) (by_length env)"

text \<open>The function calls itself on its result as long as that holds a \<open>$\<close> and a variable.\<close>

partial_function (option) substitute_env_variables :: "(string \<times> string) list \<Rightarrow> string \<Rightarrow> string option" where
  "substitute_env_variables env s =
     (if CHR ''$'' \<notin> set s then Some s
      else case found_variable env s of
             None \<Rightarrow> Some s
           | Some kv \<Rightarrow>
               let result = replace_all (CHR ''$'' # fst kv) (snd kv) s
               in if CHR ''$'' \<in> set result then substitute_env_variables env result else Some result)"

section \<open>The shell\<close>

datatype readline = Line string | Interrupted | Eof | ReadError string

record 'w terminal =
  rl_readline :: "(string \<Rightarrow> nat \<times> string list) \<Rightarrow> string \<Rightarrow> 'w \<Rightarrow> readline \<times> 'w"
  rl_history :: "'w \<Rightarrow> string list"
  env_vars :: "'w \<Rightarrow> (string \<times> string) list"
  write_out :: "string \<Rightarrow> 'w \<Rightarrow> (string + unit) \<times> 'w"
  write_err :: "string \<Rightarrow> 'w \<Rightarrow> (string + unit) \<times> 'w"
  print_line :: "string \<Rightarrow> 'w \<Rightarrow> 'w"
  stderr_line :: "string \<Rightarrow> 'w \<Rightarrow> 'w"
  words_split :: "string \<Rightarrow> string + string list"
  unescape :: "string \<Rightarrow> string option"
  red :: "string \<Rightarrow> string"

record ('s, 'w) shell =
  prompt :: string
  shell_state :: 's
  handler :: "string list \<Rightarrow> 's \<Rightarrow> completion_cache \<Rightarrow> 'w \<Rightarrow> bool \<times> 's \<times> completion_cache \<times> 'w"
  command :: command_structure

definition shell_new ::
  "string \<Rightarrow> 's \<Rightarrow> (string list \<Rightarrow> 's \<Rightarrow> completion_cache \<Rightarrow> 'w \<Rightarrow> bool \<times> 's \<times> completion_cache \<times> 'w) \<Rightarrow>
   command_structure \<Rightarrow> ('s, 'w) shell" where
  "shell_new p st h cmd =
     \<lparr>prompt = p, shell_state = st, handler = h,
      command = CommandStructure (cs_name cmd) (cs_completions cmd @ [''help''])
                  (cs_children cmd @ [CommandStructure ''help'' (cs_completions cmd) []])\<rparr>"

fun unescape_words :: "'w terminal \<Rightarrow> string list \<Rightarrow> string + string list" where
  "unescape_words T [] = Inr []"
| "unescape_words T (word # ws) =
     (case unescape T word of
        None \<Rightarrow> Inl (''Error: Unhandled escape sequence '' @ word)
      | Some c \<Rightarrow> (case unescape_words T ws of Inl e \<Rightarrow> Inl e | Inr cs \<Rightarrow> Inr (c # cs)))"

definition split_and_unescape :: "'w terminal \<Rightarrow> string \<Rightarrow> string + string list" where
  "split_and_unescape T line =
     (case words_split T line of Inl e \<Rightarrow> Inl e | Inr ws \<Rightarrow> unescape_words T ws)"

datatype turn = Continue | Break | Return_Err string

type_synonym ('s, 'w) session = "('s, 'w) shell \<times> completion_cache \<times> 'w"

text \<open>A write whose error ends the loop.\<close>

definition written :: "(string + unit) \<times> 'w \<Rightarrow> turn \<Rightarrow> turn \<times> 'w" where
  "written rw t = (case rw of (Inl e, w) \<Rightarrow> (Return_Err e, w) | (Inr _, w) \<Rightarrow> (t, w))"

definition print_history :: "'w terminal \<Rightarrow> 'w \<Rightarrow> 'w" where
  "print_history T w =
     foldl (\<lambda>v (pos, h). print_line T ('' '' @ show_nat (pos + 1) @ '' '' @ h) v) w
       (List.enumerate 0 (rl_history T w))"

definition run_line :: "'w terminal \<Rightarrow> string \<Rightarrow> ('s, 'w) session \<Rightarrow> turn \<times> ('s, 'w) session" where
  "run_line T line ss =
     (case ss of (sh, cache, w) \<Rightarrow>
        (case split_and_unescape T (trim line) of
           Inl e \<Rightarrow> (case written (write_err T (red T e @ [CHR 0x0A]) w) Continue of (t, v) \<Rightarrow> (t, sh, cache, v))
         | Inr [] \<Rightarrow> (Continue, sh, cache, w)
         | Inr (s # rest) \<Rightarrow>
             if s = ''quit'' \<or> s = ''exit'' then
               (case written (write_out T (''Bye!'' @ [CHR 0x0A]) w) Break of (t, v) \<Rightarrow> (t, sh, cache, v))
             else if s = ''clear'' then
               (case written (write_out T ([CHR 0x1B] @ ''[2J'' @ [CHR 0x1B] @ ''[1;1H'') w) Continue of
                  (t, v) \<Rightarrow> (t, sh, cache, v))
             else if s = ''history'' then (Continue, sh, cache, print_history T w)
             else (case handler sh (s # rest) (shell_state sh) cache w of (stop, st, cache', v) \<Rightarrow>
                     (if stop then Break else Continue, sh\<lparr>shell_state := st\<rparr>, cache', v))))"

definition shell_turn :: "'w terminal \<Rightarrow> ('s, 'w) session \<Rightarrow> (turn \<times> ('s, 'w) session) option" where
  "shell_turn T ss =
     (case ss of (sh, cache, w) \<Rightarrow>
        (case rl_readline T (complete \<lparr>sh_command = command sh, sh_cache = cache\<rparr>) (prompt sh) w of (r, v) \<Rightarrow>
           (case r of
              Interrupted \<Rightarrow> Some (Break, sh, cache, v)
            | Eof \<Rightarrow> Some (Break, sh, cache, v)
            | ReadError e \<Rightarrow> Some (Return_Err e, sh, cache, v)
            | Line l \<Rightarrow>
                map_option (\<lambda>line. run_line T line (sh, cache, v))
                  (substitute_env_variables (env_vars T v) l))))"

partial_function (option) shell_loop ::
  "'w terminal \<Rightarrow> ('s, 'w) session \<Rightarrow> ((string + unit) \<times> ('s, 'w) session) option" where
  "shell_loop T ss =
     Option.bind (shell_turn T ss) (\<lambda>(t, ss').
       case t of
         Continue \<Rightarrow> shell_loop T ss'
       | Break \<Rightarrow> Some (Inr (), ss')
       | Return_Err e \<Rightarrow> Some (Inl e, ss'))"

definition run_async :: "'w terminal \<Rightarrow> ('s, 'w) shell \<Rightarrow> 'w \<Rightarrow> ((string + unit) \<times> ('s, 'w) session) option" where
  "run_async T sh w = shell_loop T (sh, [], w)"

section \<open>The console\<close>

text \<open>The argument parser, and the execution of a parsed command, which prints a table or an error.\<close>

record ('s, 'w, 'c) console_lib =
  parse_args :: "clap_subcommand list \<Rightarrow> string list \<Rightarrow> string + 'c"
  execute_command :: "'c \<Rightarrow> 's \<Rightarrow> 'w \<Rightarrow> (string + string) \<times> 's \<times> 'w"
  client_commands :: "clap_subcommand list"
  banner :: string

definition get_command :: "('s, 'w, 'c) console_lib \<Rightarrow> string list \<Rightarrow> string + 'c" where
  "get_command X args = parse_args X (install_shell_plugins (client_commands X)) args"

definition handle_command ::
  "'w terminal \<Rightarrow> ('s, 'w, 'c) console_lib \<Rightarrow> string + 'c \<Rightarrow> 's \<Rightarrow> 'w \<Rightarrow> (string + bool) \<times> 's \<times> 'w" where
  "handle_command T X opts ctx w =
     (case opts of
        Inl e \<Rightarrow> (Inl e, ctx, w)
      | Inr c \<Rightarrow>
          (case execute_command X c ctx w of (r, ctx', v) \<Rightarrow>
             (Inr False, ctx',
              print_line T (case r of Inl e \<Rightarrow> debug_str e | Inr table \<Rightarrow> table) v)))"

definition console_handler ::
  "'w terminal \<Rightarrow> ('s, 'w, 'c) console_lib \<Rightarrow> string list \<Rightarrow> 's \<Rightarrow> completion_cache \<Rightarrow> 'w \<Rightarrow>
   bool \<times> 's \<times> completion_cache \<times> 'w" where
  "console_handler T X args ctx cache w =
     (case handle_command T X (get_command X args) ctx w of
        (Inl e, ctx', v) \<Rightarrow> (False, ctx', cache, stderr_line T (red T e) v)
      | (Inr b, ctx', v) \<Rightarrow> (b, ctx', cache, v))"

text \<open>The console panics when its banner cannot be written.\<close>

datatype ended = Returned "string + unit" | Aborted

definition start_console ::
  "'w terminal \<Rightarrow> ('s, 'w, 'c) console_lib \<Rightarrow> 's \<Rightarrow> 'w \<Rightarrow> (ended \<times> 'w) option" where
  "start_console T X ctx w =
     (case write_out T (banner X @ [CHR 0x0A]) w of
        (Inl e, v) \<Rightarrow> Some (Aborted, v)
      | (Inr _, v) \<Rightarrow>
          map_option (\<lambda>(r, sh, cache, u). (Returned r, u))
            (run_async T
               (shell_new ''db3>-$ '' ctx (console_handler T X)
                  (from_clap (install_shell_plugins (client_commands X)))) v))"

end
