(* ===== verification/Shell_Theorems.thy ===== *)
theory Shell_Theorems
  imports Shell
begin

text \<open>
  What the shell does with a line: a completion extends what was typed, the substitution of
  environment variables returns when no value holds a dollar sign and never returns when a variable
  stands in its own value, and the console ends only when it is told to.
\<close>

section \<open>Completion\<close>

lemma white_space_marks: "w \<in> set white_spaces \<Longrightarrow> w \<noteq> [] \<and> CHR ''_'' \<notin> set w"
proof -
  have "list_all (\<lambda>w. w \<noteq> [] \<and> CHR ''_'' \<notin> set w) white_spaces" by code_simp
  then show "w \<in> set white_spaces \<Longrightarrow> w \<noteq> [] \<and> CHR ''_'' \<notin> set w" by (auto simp: list_all_iff)
qed

lemma take_marked:
  assumes "CHR ''_'' \<notin> set w"
  shows "take (length w) (s @ ''_'') = w \<longleftrightarrow> take (length w) s = w"
proof (cases "length w \<le> length s")
  case False
  then have "take (length w) (s @ ''_'') = s @ ''_''" "take (length w) s = s" by simp_all
  with False assms show ?thesis by auto
qed simp

lemma find_cong_set: "(\<And>x. x \<in> set xs \<Longrightarrow> P x = Q x) \<Longrightarrow> List.find P xs = List.find Q xs"
  by (induction xs) auto

lemma ws_len_marked: "ws_len (s @ ''_'') = ws_len s"
proof -
  have "List.find (\<lambda>w. take (length w) (s @ ''_'') = w) white_spaces =
        List.find (\<lambda>w. take (length w) s = w) white_spaces"
    using white_space_marks take_marked by (intro find_cong_set) blast
  then show ?thesis by (simp add: ws_len_def)
qed

lemma ws_len_le: "ws_len s \<le> length s"
proof (cases "List.find (\<lambda>w. take (length w) s = w) white_spaces")
  case (Some w)
  then have "take (length w) s = w" by (auto simp: find_Some_iff)
  then have "length w \<le> length s" by (metis length_take min.cobounded1 min.commute nat_le_linear min_def)
  with Some show ?thesis by (simp add: ws_len_def)
qed (simp add: ws_len_def)

lemma ws_len_Nil: "ws_len [] = 0"
  using ws_len_le [of "[]"] by simp

text \<open>The last word of a marked line is the end of the line with the mark.\<close>

lemma last_word_marked:
  "\<exists>u v. words_from w (s @ ''_'') \<noteq> [] \<and> last (words_from w (s @ ''_'')) = v @ ''_'' \<and> w @ s = u @ v"
proof (induction w s rule: words_from.induct)
  case (1 w)
  then show ?case using ws_len_marked [of "[]"] by (simp add: ws_len_Nil)
next
  case (2 w c cs)
  show ?case
  proof (cases "ws_len (c # cs)")
    case 0
    with 2(1) ws_len_marked [of "c # cs"] show ?thesis by simp
  next
    case (Suc n)
    with 2(2) obtain u v where
      v: "words_from [] (drop n cs @ ''_'') \<noteq> []" "last (words_from [] (drop n cs @ ''_'')) = v @ ''_''"
        "drop n cs = u @ v" by auto
    have "n \<le> length cs" using Suc ws_len_le [of "c # cs"] by simp
    moreover have "w @ c # cs = (w @ c # take n cs @ u) @ v"
      using v(3) by (metis append.assoc append_Cons append_take_drop_id)
    ultimately show ?thesis using v Suc ws_len_marked [of "c # cs"]
      by (intro exI [of _ "w @ c # take n cs @ u"] exI [of _ v]) simp
  qed
qed

text \<open>
  C37. A completion extends the line: the text that is kept followed by any offered candidate begins
  with the whole line that was typed, and the candidate is none of the words typed before.
\<close>

theorem completion_extends_the_line:
  assumes "complete h line = (pos, candidates)" "c \<in> set candidates"
  shows "prefix line (take pos line @ c) \<and> c \<notin> set (butlast (split_whitespace (line @ ''_'')))"
proof -
  obtain u v where "last (split_whitespace (line @ ''_'')) = v @ ''_''" "line = u @ v"
    using last_word_marked [of "[]" line] by (auto simp: split_whitespace_def)
  moreover from this assms have "pos = length u" "take (length v) c = v"
      "c \<notin> set (butlast (split_whitespace (line @ ''_'')))"
    by (auto simp: complete_def Let_def)
  ultimately show ?thesis by (auto simp: prefix_def) (metis append_take_drop_id)
qed

theorem completion_extends_the_line_witness:
  "complete \<lparr>sh_command = from_clap [(''new-db'', [Some ''desc'']), (''my-db'', [])], sh_cache = []\<rparr> ''new-db --'' =
     (7, [''--desc'']) \<and>
   prefix ''new-db --'' (take 7 ''new-db --'' @ ''--desc'')"
proof -
  have *: "complete \<lparr>sh_command = from_clap [(''new-db'', [Some ''desc'']), (''my-db'', [])], sh_cache = []\<rparr> ''new-db --'' =
     (7, [''--desc''])" by code_simp
  with completion_extends_the_line [OF *, of "''--desc''"] show ?thesis by simp
qed

section \<open>Environment variables\<close>

abbreviation dollars :: "string \<Rightarrow> nat" where
  "dollars s \<equiv> count_list s (CHR ''$'')"

lemma dollars_zero: "dollars s = 0 \<longleftrightarrow> CHR ''$'' \<notin> set s"
  by (rule count_list_0_iff)

lemma dollars_replace_le:
  "dollars new = 0 \<Longrightarrow> dollars (replace_all (CHR ''$'' # ps) new s) \<le> dollars s"
proof (induction "CHR ''$'' # ps" new s rule: replace_all.induct)
  case (2 new c cs)
  show ?case
  proof (cases "CHR ''$'' = c \<and> take (length ps) cs = ps")
    case True
    have "dollars (drop (length ps) cs) \<le> dollars cs"
      by (metis append_take_drop_id count_list_append le_add2)
    with 2(2) [OF refl True 2(4)] 2(4) True show ?thesis by simp
  next
    case False
    with 2(3) [OF refl False 2(4)] show ?thesis by auto
  qed
qed simp

lemma dollars_replace_less:
  "dollars new = 0 \<Longrightarrow> contains (CHR ''$'' # ps) s \<Longrightarrow>
   dollars (replace_all (CHR ''$'' # ps) new s) < dollars s"
proof (induction "CHR ''$'' # ps" new s rule: replace_all.induct)
  case (2 new c cs)
  show ?case
  proof (cases "CHR ''$'' = c \<and> take (length ps) cs = ps")
    case True
    have "dollars (drop (length ps) cs) \<le> dollars cs"
      by (metis append_take_drop_id count_list_append le_add2)
    with dollars_replace_le [OF 2(4), of ps "drop (length ps) cs"] 2(4) True show ?thesis by simp
  next
    case False
    with 2(5) have "contains (CHR ''$'' # ps) cs" by auto
    with False 2(3) [OF refl False 2(4)] show ?thesis by auto
  qed
qed simp

lemma contains_set: "contains pat s \<Longrightarrow> set pat \<subseteq> set s"
proof (induction pat s rule: contains.induct)
  case (2 pat c cs)
  show ?case
  proof (cases "take (length pat) (c # cs) = pat")
    case True
    then show ?thesis by (metis set_take_subset)
  next
    case False
    with 2 show ?thesis by auto
  qed
qed simp

lemma found_variable_Some:
  "found_variable env s = Some kv \<Longrightarrow> kv \<in> set env \<and> contains (CHR ''$'' # fst kv) s"
  unfolding found_variable_def by_length_def find_Some_iff by (metis nth_mem set_sort)

lemma found_variable_None:
  "found_variable env s = None \<Longrightarrow> kv \<in> set env \<Longrightarrow> \<not> contains (CHR ''$'' # fst kv) s"
  unfolding found_variable_def by_length_def find_None_iff by (metis set_sort)

text \<open>
  C38. Substitution returns: when no value of an environment variable holds a dollar sign, the
  substitution of variables in a line returns, and none of the variables is left in the result.
\<close>

theorem substitution_returns:
  assumes "\<forall>kv \<in> set env. CHR ''$'' \<notin> set (snd kv)"
  shows "\<exists>t. substitute_env_variables env s = Some t \<and>
           (\<forall>kv \<in> set env. \<not> contains (CHR ''$'' # fst kv) t)"
proof (induction "dollars s" arbitrary: s rule: less_induct)
  case less
  have free: "CHR ''$'' \<notin> set t \<Longrightarrow> \<not> contains (CHR ''$'' # fst kv) t" for t kv
    using contains_set [of "CHR ''$'' # fst kv" t] by auto
  show ?case
  proof (cases "CHR ''$'' \<in> set s")
    case False
    with free [OF False] show ?thesis by (auto simp: substitute_env_variables.simps)
  next
    case here: True
    show ?thesis
    proof (cases "found_variable env s")
      case None
      with here found_variable_None show ?thesis
        by (auto simp: substitute_env_variables.simps [of env s])
    next
      case (Some kv)
      let ?r = "replace_all (CHR ''$'' # fst kv) (snd kv) s"
      have "dollars ?r < dollars s"
        using found_variable_Some [OF Some] assms by (intro dollars_replace_less) (auto simp: dollars_zero)
      from less [OF this] free [of ?r] Some here show ?thesis
        by (auto simp: substitute_env_variables.simps [of env s] Let_def)
    qed
  qed
qed

theorem substitution_returns_witness:
  "found_variable [(''A'', ''x''), (''AB'', ''y'')] ''$AB$A'' = Some (''AB'', ''y'') \<and>
   (\<exists>t. substitute_env_variables [(''A'', ''x''), (''AB'', ''y'')] ''$AB$A'' = Some t \<and>
      (\<forall>kv \<in> set [(''A'', ''x''), (''AB'', ''y'')]. \<not> contains (CHR ''$'' # fst kv) t))"
proof -
  have "found_variable [(''A'', ''x''), (''AB'', ''y'')] ''$AB$A'' = Some (''AB'', ''y'')" by code_simp
  with substitution_returns [of "[(''A'', ''x''), (''AB'', ''y'')]" "''$AB$A''"] show ?thesis by simp
qed

text \<open>A line that a variable leaves as it is keeps the substitution busy for ever: the value of the
  variable holds the variable itself.\<close>

lemma stuck_substitution:
  assumes "found_variable env s = Some kv" "replace_all (CHR ''$'' # fst kv) (snd kv) s = s"
  shows "substitute_env_variables env s = None"
proof -
  have dollar: "CHR ''$'' \<in> set s"
    using found_variable_Some [OF assms(1)] contains_set by fastforce
  have "\<not> (env' = env \<and> s' = s)" if "substitute_env_variables env' s' = Some t" for env' s' t
    using that
  proof (rule substitute_env_variables.raw_induct [rotated, where P = "\<lambda>env' s' t. \<not> (env' = env \<and> s' = s)"])
    fix f env' s' t
    assume "(if CHR ''$'' \<notin> set s' then Some s'
      else case found_variable env' s' of None \<Rightarrow> Some s'
        | Some kv \<Rightarrow> let result = replace_all (CHR ''$'' # fst kv) (snd kv) s'
            in if CHR ''$'' \<in> set result then f env' result else Some result) = Some t"
      and "\<And>env' s' t. f env' s' = Some t \<Longrightarrow> \<not> (env' = env \<and> s' = s)"
    then show "\<not> (env' = env \<and> s' = s)" using assms dollar by (fastforce simp: Let_def)
  qed
  then show ?thesis by fastforce
qed

lemma self_referring_variable_never_returns: "substitute_env_variables [(''A'', ''$A'')] ''$A'' = None"
  by (rule stuck_substitution [of _ _ "(''A'', ''$A'')"]) code_simp+

section \<open>The console\<close>

lemma console_handler_goes_on: "console_handler T X args ctx cache w \<noteq> (True, r)"
  by (auto simp: console_handler_def handle_command_def split: sum.splits prod.splits)

text \<open>A line ends the console only when its first word is \<open>quit\<close> or \<open>exit\<close>.\<close>

lemma console_ends_when_told:
  assumes "handler sh = console_handler T X" "run_line T line (sh, cache, w) = (Break, ss)"
  shows "\<exists>rest. split_and_unescape T (trim line) = Inr (''quit'' # rest) \<or>
           split_and_unescape T (trim line) = Inr (''exit'' # rest)"
  using assms
  by (auto simp: run_line_def written_def console_handler_goes_on split: sum.splits list.splits if_splits prod.splits)

section \<open>Cached completions\<close>

text \<open>Keys without a command compare equal to keys of different commands: the order of cache keys is
  not transitive.\<close>

lemma cache_keys_are_not_ordered:
  "cache_key_cmp (cache_key_new ''a'' f) (cache_key_flag f) = Equal"
  "cache_key_cmp (cache_key_flag f) (cache_key_new ''b'' f) = Equal"
  "cache_key_cmp (cache_key_new ''a'' f) (cache_key_new ''b'' f) = Less"
  by (simp_all add: cache_key_cmp_def cache_key_new_def cache_key_flag_def cmp_text_def as_bytes_def)

end
