(* ===== verification/Id_Text.thy ===== *)
theory Id_Text
  imports Ids
begin

text \<open>
  The conversions of identifiers that the stores do not use (\<open>src/crypto/src/id.rs\<close>, \<open>id_v2.rs\<close>,
  \<open>db3_address.rs\<close>): base64 forms, the constructors of database ids, constant operation entry ids and
  the serialised form of an optional address. The base64 codec and \<open>fastcrypto\<close>'s hex encoder are
  parameters.
\<close>

section \<open>Transaction ids\<close>

definition tx_to_base64 :: "(bytes \<Rightarrow> string) \<Rightarrow> tx_id \<Rightarrow> string" where
  "tx_to_base64 enc t = enc (tx_as_ref t)"

text \<open>The result of the decoder is unwrapped.\<close>

definition tx_try_from_base64 :: "(string \<Rightarrow> string + bytes) \<Rightarrow> string \<Rightarrow> tx_id result" where
  "tx_try_from_base64 dec input =
     (case dec input of Inl e \<Rightarrow> Inl (Panicked e) | Inr bs \<Rightarrow> tx_try_from_bytes bs)"

lemma tx_base64_roundtrip:
  "(\<And>bs. dec (enc bs) = Inr bs) \<Longrightarrow> tx_try_from_base64 dec (tx_to_base64 enc t) = Inr t"
  by (simp add: tx_try_from_base64_def tx_to_base64_def)

section \<open>Database ids\<close>

definition dbid_length :: nat where
  "dbid_length = 20"

definition dbid_address :: "db_id \<Rightarrow> db3_address" where
  "dbid_address d = d"

definition dbid_as_ref :: "db_id \<Rightarrow> bytes" where
  "dbid_as_ref d = addr_as_ref (dbid_address d)"

definition dbid_from_array :: "bytes \<Rightarrow> db_id" where
  "dbid_from_array bs = addr_of bs"

definition dbid_try_from_str :: "libs \<Rightarrow> string \<Rightarrow> db_id result" where
  "dbid_try_from_str L s = bindR (addr_try_from_str L s) Inr"

definition dbid_try_from :: "bytes \<Rightarrow> db_id result" where
  "dbid_try_from bs = bindR (addr_try_from bs) Inr"

definition dbid_from_addr :: "db3_address \<Rightarrow> db_id" where
  "dbid_from_addr a = a"

lemma dbid_as_ref_length: "length (dbid_as_ref d) = dbid_length"
  by (simp add: dbid_as_ref_def dbid_address_def dbid_length_def)

lemma dbid_bytes_roundtrip: "dbid_try_from (dbid_as_ref d) = Inr d" "dbid_from_array (dbid_as_ref d) = d"
  by (simp_all add: dbid_try_from_def dbid_from_array_def dbid_as_ref_def dbid_address_def bindR_def)

text \<open>The smallest and the largest id bound every id.\<close>

lemma replicate_le: "length bs = n \<Longrightarrow> replicate n (0 :: u8) \<le> bs"
proof (induction n arbitrary: bs)
  case (Suc n)
  then obtain b cs where "bs = b # cs" "length cs = n" by (cases bs) auto
  with Suc.IH [of cs] show ?case by (cases "b = 0") (auto simp: word_gt_0)
qed simp

lemma replicate_ge: "length bs = n \<Longrightarrow> bs \<le> replicate n (255 :: u8)"
proof (induction n arbitrary: bs)
  case (Suc n)
  then obtain b cs where bs: "bs = b # cs" "length cs = n" by (cases bs) auto
  have "(255 :: u8) = - 1" by simp
  then have "b \<le> 255" by (simp only: word_n1_ge)
  with Suc.IH [of cs] bs show ?case by (cases "b = 255") auto
qed simp

lemma dbid_bounds: "dbid_min \<le> d \<and> d \<le> dbid_max"
  by (simp add: less_eq_db3_address_def dbid_min_def dbid_max_def replicate_le replicate_ge)

section \<open>Operation entry ids\<close>

definition op_zero :: op_entry_id where
  "op_zero = op_of (replicate 14 0)"

definition op_one :: op_entry_id where
  "op_one = op_of (replicate 14 1)"

definition op_to_hex :: "libs \<Rightarrow> op_entry_id \<Rightarrow> string" where
  "op_to_hex L e = ''0x'' @ hex_encode L (op_as_ref e)"

text \<open>An entry id gives back what it was made of, and entry ids are ordered bytewise as the triples they
  were made of.\<close>

lemma op_create_parts:
  assumes "op_create b r i = Inr e"
  shows "op_get_block_id e = b" "op_get_order_id e = r" "op_get_idx e = i"
proof -
  have "op_as_ref e = be64 b @ be32 r @ be16 i" using op_create_Inr [of b r i] assms by auto
  then show "op_get_block_id e = b" "op_get_order_id e = r" "op_get_idx e = i"
    by (simp_all add: op_get_block_id_def op_get_order_id_def op_get_idx_def)
qed

lemma be16_less: "be16 i < be16 j \<longleftrightarrow> i < j"
  using be_bytes_less_iff [OF unat_bounds(2) unat_bounds(2)]
  by (simp add: be16_def word_less_nat_alt del: be_bytes.simps)

lemma op_create_order:
  assumes "op_create b r i = Inr e" "op_create b' r' i' = Inr e'"
  shows "op_as_ref e < op_as_ref e' \<longleftrightarrow> b < b' \<or> b = b' \<and> (r < r' \<or> r = r' \<and> i < i')"
proof -
  have "op_as_ref e = be64 b @ be32 r @ be16 i" "op_as_ref e' = be64 b' @ be32 r' @ be16 i'"
    using op_create_Inr [of b r i] op_create_Inr [of b' r' i'] assms by auto
  then show ?thesis by (simp add: append_less_iff be16_less)
qed

section \<open>Addresses\<close>

definition addr_to_vec :: "db3_address \<Rightarrow> bytes" where
  "addr_to_vec a = addr_as_ref a"

definition addr_to_inner :: "db3_address \<Rightarrow> bytes" where
  "addr_to_inner a = addr_as_ref a"

definition addr_try_from_vec :: "bytes \<Rightarrow> db3_address result" where
  "addr_try_from_vec bs = (if length bs = 20 then Inr (addr_of bs) else Inl (Raised InvalidAddress))"

text \<open>No address is the empty text.\<close>

definition optional_address_as_hex :: "(bytes \<Rightarrow> string) \<Rightarrow> db3_address option \<Rightarrow> string" where
  "optional_address_as_hex enc key = (case key of Some a \<Rightarrow> enc (addr_as_ref a) | None \<Rightarrow> [])"

definition optional_address_from_hex :: "libs \<Rightarrow> string \<Rightarrow> string + db3_address option" where
  "optional_address_from_hex L s =
     (case decode_bytes_hex L s of
        Inl e \<Rightarrow> Inl e
      | Inr bs \<Rightarrow> if length bs = 20 then Inr (Some (addr_of bs)) else Inl ''Invalid length'')"

lemma addr_vec_roundtrip: "addr_try_from_vec (addr_to_vec a) = Inr a"
  by (simp add: addr_try_from_vec_def addr_to_vec_def)

text \<open>An address comes back; the absence of one does not: its text is read as an address of length 0.\<close>

lemma optional_address_roundtrip:
  "(\<And>bs. decode_bytes_hex L (enc bs) = Inr bs) \<Longrightarrow>
   optional_address_from_hex L (optional_address_as_hex enc (Some a)) = Inr (Some a)"
  by (simp add: optional_address_from_hex_def optional_address_as_hex_def)

lemma absent_address_is_not_read: "optional_address_from_hex L (optional_address_as_hex enc None) \<noteq> Inr None"
  by (simp add: optional_address_from_hex_def optional_address_as_hex_def split: sum.split)

end
