(* ===== verification/Node_Machine.thy ===== *)
theory Node_Machine
  imports Node_Requests Rollup_Theorems
begin

text \<open>
  The rollup node as a whole. Requests, contract events, the turns of the background loops, new
  configurations and restarts interleave in any order (\<open>node_step\<close>); each of them is one move of the two stores
  (\<open>store_move\<close>), and every move keeps the stores consistent with each other (\<open>stores_ok\<close>) and keeps
  what is logged until it has been rolled up (\<open>log_advances\<close>).
\<close>

section \<open>Steps of the node\<close>

text \<open>The counters have not reached the ends of their ranges.\<close>

definition room :: "'s mutation_store \<Rightarrow> bool" where
  "room m \<longleftrightarrow> bs_order (ms_block_state m) \<noteq> - 1 \<and> bs_block (ms_block_state m) \<noteq> - 1"

text \<open>The last closed block is on disk: a block was closed since the node was started.\<close>

definition block_recorded :: "'s engine \<Rightarrow> 's mutation_store \<Rightarrow> bool" where
  "block_recorded K m \<longleftrightarrow>
     cf_map K (ms_se m) (block_state_cf_name (ms_config m)) (as_bytes BLOCK_KEY) = Some (be64 (bs_block (ms_block_state m)))"

text \<open>The files of a node that is opened again are those it had.\<close>

definition reopens ::
  "('s, 'd, 'w, 'c) host \<Rightarrow> ('s, 'd, 't, 'w, 'h) storage_node \<Rightarrow> storage_node_config \<Rightarrow> bool" where
  "reopens H n config \<longleftrightarrow>
     snc_store_config config = ms_config (sn_storage n) \<and> snc_db_store_config config = db_config (sn_db_store n) \<and>
     engine_open H (msc_db_path (ms_config (sn_storage n))) = (\<lambda>_. Inr (ms_se (sn_storage n))) \<and>
     engine_open H (dsc_db_path (db_config (sn_db_store n))) = (\<lambda>_. Inr (db_se (sn_db_store n)))"

inductive node_step ::
  "('s, 'd, 't, 'w, 'h, 'td, 'sg) node_libs \<Rightarrow> ('w, 'h, 'td, 'lg, 'tx) event_lib \<Rightarrow> ('s, 'd, 'w, 'c) host \<Rightarrow>
   ('s, 'd, 't, 'w, 'h) storage_node \<Rightarrow> ('s, 'd, 't, 'w, 'h) storage_node \<Rightarrow> bool" for N V H where
  node_request: "room (sn_storage n) \<Longrightarrow> node_step N V H n (snd (send_mutation N now payload signature n))"
| node_event: "room (sn_storage n) \<Longrightarrow> node_step N V H n (snd (job_turn N V now job provider item n))"
| node_block: "room (sn_storage n) \<Longrightarrow> node_step N V H n (snd (block_turn N n))"
| node_rollup: "room (sn_storage n) \<Longrightarrow> node_step N V H n (snd (rollup_turn N clk n))"
| node_flush: "room (sn_storage n) \<Longrightarrow> node_step N V H n (snd (flush_turn N n))"
| node_config: "room (sn_storage n) \<Longrightarrow> node_step N V H n (snd (apply_config N V n))"
| node_restart: "room (sn_storage n) \<Longrightarrow> block_recorded (engine_of N) (sn_storage n) \<Longrightarrow> reopens H n config \<Longrightarrow>
    storage_node_new N V H config sys (sn_state_store n) (sn_world n) = (Inr n0, w) \<Longrightarrow>
    sn_recover N n0 = (Inr (), n') \<Longrightarrow> node_step N V H n n'"

section \<open>Moves of the stores\<close>

definition issued :: "'s mutation_store \<Rightarrow> 's mutation_store" where
  "issued m = m\<lparr>ms_block_state := \<lparr>bs_block = bs_block (ms_block_state m), bs_order = bs_order (ms_block_state m) + 1\<rparr>\<rparr>"

definition log_here ::
  "'s engine \<Rightarrow> codecs \<Rightarrow> libs \<Rightarrow> u64 \<Rightarrow> bytes \<Rightarrow> string \<Rightarrow> string \<Rightarrow> db3_address \<Rightarrow> u64 \<Rightarrow> u64 \<Rightarrow>
   mutation_action \<Rightarrow> 's mutation_store \<Rightarrow> 's mutation_store" where
  "log_here K C L now payload signature ids sender nonce network action m =
     snd (add_mutation K C L now payload signature ids sender nonce (bs_block (ms_block_state m))
       (bs_order (ms_block_state m)) network action m)"

inductive store_move ::
  "('s, 'd, 't, 'w, 'h, 'td, 'sg) node_libs \<Rightarrow> 's mutation_store \<Rightarrow> ('s, 'd) db_store \<Rightarrow>
   's mutation_store \<Rightarrow> ('s, 'd) db_store \<Rightarrow> bool" for N where
  move_stay: "store_move N m d m d"
| move_failed: "store_move N m d (issued m) (snd (apply_mutation (engine_of N) (codecs_of N) (libs_of N) (ejdb_of N)
    (bson_of N) action dm address network nonce block order ids_map d))"
| move_logged: "store_move N m d
    (log_here (engine_of N) (codecs_of N) (libs_of N) now payload signature ids sender nonce network action (issued m))
    (snd (apply_mutation (engine_of N) (codecs_of N) (libs_of N) (ejdb_of N)
    (bson_of N) action dm address network nonce block order ids_map d))"
| move_block: "store_move N m d (snd (increase_block_return_last_state (engine_of N) m)) d"
| move_rollup: "store_move N m d (re_storage (snd (process (engine_of N) (codecs_of N) (libs_of N) (outside_of N) clk
    \<lparr>re_exec = x, re_storage = m, re_world = w\<rparr>))) d"
| move_flush: "store_move N m d m (snd (flush_database_state (engine_of N) (codecs_of N) (libs_of N) d))"
| move_restart: "ms_new (\<lambda>_. Inr (ms_se m)) (ms_config m) = Inr m0 \<Longrightarrow>
    ms_recover (engine_of N) (codecs_of N) m0 = (Inr (), m') \<Longrightarrow> block_recorded (engine_of N) m \<Longrightarrow>
    db_new (\<lambda>_. Inr (db_se d)) new_docs files (db_config d) = Inr d0 \<Longrightarrow>
    recover_db_state (engine_of N) (codecs_of N) (libs_of N) d0 = (Inr (), d') \<Longrightarrow> store_move N m d m' d'"

section \<open>Consistent stores\<close>

definition clock_of :: "'s mutation_store \<Rightarrow> u64 \<times> u32" where
  "clock_of m = (bs_block (ms_block_state m), bs_order (ms_block_state m))"

text \<open>The log is well-formed, each body hashes to the id of its header, no position is ahead of the clock, the
  rollup records make up a ledger that ends at or before the current block, and the databases are
  well-formed.\<close>

definition log_ok :: "'s engine \<Rightarrow> codecs \<Rightarrow> libs \<Rightarrow> 's mutation_store \<Rightarrow> bool" where
  "log_ok K C L m \<longleftrightarrow> ms_ready K m \<and> log_wf K C L m \<and>
     (\<forall>h x. logged K C L m h x \<longrightarrow> position h \<le> clock_of m \<and>
        mh_id h = tx_to_hex L (tx_from_pair L (mb_payload x) (as_bytes (mb_signature x)))) \<and>
     (\<exists>l. ledger_of K C m l \<and> led_end l \<le> fst (clock_of m))"

definition stores_ok :: "'s engine \<Rightarrow> codecs \<Rightarrow> libs \<Rightarrow> 's mutation_store \<Rightarrow> ('s, 'd) db_store \<Rightarrow> bool" where
  "stores_ok K C L m d \<longleftrightarrow> log_ok K C L m \<and> db_wf K C L d"

text \<open>What is logged and not yet rolled up stays logged.\<close>

definition log_advances :: "'s engine \<Rightarrow> codecs \<Rightarrow> libs \<Rightarrow> 's mutation_store \<Rightarrow> 's mutation_store \<Rightarrow> bool" where
  "log_advances K C L m m' \<longleftrightarrow>
     (\<forall>l l'. ledger_of K C m l \<and> ledger_of K C m' l' \<longrightarrow>
        led_end l \<le> led_end l' \<and>
        (\<forall>h x. logged K C L m h x \<and> led_end l' \<le> mh_block_id h \<longrightarrow> (\<exists>x'. logged K C L m' h x')))"

lemma ledger_of_unique: "ledger_of K C m l \<Longrightarrow> ledger_of K C m l' \<Longrightarrow> l = l'"
  unfolding ledger_of_def using ledger_rel_unique(3) by metis

lemma log_advances_trans:
  assumes "log_advances K C L a b" "log_advances K C L b c" "log_ok K C L b"
  shows "log_advances K C L a c"
proof -
  from assms(3) obtain l1 where l1: "ledger_of K C b l1" by (auto simp: log_ok_def)
  show ?thesis
    unfolding log_advances_def
  proof (intro allI impI conjI)
    fix l l' assume l: "ledger_of K C a l \<and> ledger_of K C c l'"
    note ab = assms(1) [unfolded log_advances_def, rule_format, of l l1]
    note bc = assms(2) [unfolded log_advances_def, rule_format, of l1 l']
    show "led_end l \<le> led_end l'" using ab bc l l1 by fastforce
    fix h x assume h: "logged K C L a h x \<and> led_end l' \<le> mh_block_id h"
    then have "led_end l1 \<le> mh_block_id h" using bc l l1 by fastforce
    with ab l l1 h obtain x1 where "logged K C L b h x1" by blast
    with bc l l1 h show "\<exists>x'. logged K C L c h x'" by blast
  qed
qed

lemma same_log_advances:
  assumes "\<And>h x. logged K C L m h x \<Longrightarrow> \<exists>x'. logged K C L m' h x'" "\<And>l. ledger_of K C m' l \<longleftrightarrow> ledger_of K C m l"
  shows "log_advances K C L m m'"
  unfolding log_advances_def using assms ledger_of_unique by (metis order_refl)

lemma ledger_of_cong:
  "rollup_entries K m' = rollup_entries K m \<Longrightarrow> gc_entries K m' = gc_entries K m \<Longrightarrow>
   ledger_of K C m' l \<longleftrightarrow> ledger_of K C m l"
  by (simp add: ledger_of_def ledger_rel_def)

lemma logged_issued [simp]: "logged K C L (issued m) h x \<longleftrightarrow> logged K C L m h x"
  by (simp add: issued_def logged_def)

lemma ledger_issued [simp]: "ledger_of K C (issued m) l \<longleftrightarrow> ledger_of K C m l"
  by (simp add: issued_def ledger_of_def ledger_rel_def rollup_entries_def gc_entries_def)

lemma ready_issued [simp]: "ms_ready K (issued m) \<longleftrightarrow> ms_ready K m"
  by (simp add: issued_def ms_ready_def)

lemma wf_issued [simp]: "log_wf K C L (issued m) \<longleftrightarrow> log_wf K C L m"
  by (simp add: log_wf_def) (simp add: issued_def)

lemma clock_issued: "room m \<Longrightarrow> clock_of m < clock_of (issued m) \<and> fst (clock_of (issued m)) = fst (clock_of m)"
  by (auto simp: room_def clock_of_def issued_def word_less_plus_one)

text \<open>After a position was issued no logged mutation has it.\<close>

lemma log_okD:
  assumes "log_ok K C L m"
  shows "ms_ready K m" "log_wf K C L m" "\<exists>l. ledger_of K C m l \<and> led_end l \<le> fst (clock_of m)"
    and "logged K C L m h x \<Longrightarrow> position h \<le> clock_of m"
    and "logged K C L m h x \<Longrightarrow> mh_id h = tx_to_hex L (tx_from_pair L (mb_payload x) (as_bytes (mb_signature x)))"
  using assms by (auto simp: log_ok_def)

lemma log_okI:
  assumes "ms_ready K m" "log_wf K C L m" "ledger_of K C m l" "led_end l \<le> fst (clock_of m)"
    and "\<And>h x. logged K C L m h x \<Longrightarrow> position h \<le> clock_of m \<and>
      mh_id h = tx_to_hex L (tx_from_pair L (mb_payload x) (as_bytes (mb_signature x)))"
  shows "log_ok K C L m"
  unfolding log_ok_def using assms by blast

text \<open>A log with nothing new and a clock that has not gone back.\<close>

lemma log_ok_shrink:
  assumes "log_ok K C L m" "ms_ready K m'" "log_wf K C L m'" "ledger_of K C m' l" "led_end l \<le> fst (clock_of m')"
    "clock_of m \<le> clock_of m'" "\<And>h x. logged K C L m' h x \<Longrightarrow> logged K C L m h x"
  shows "log_ok K C L m'"
proof (rule log_okI [OF assms(2-5)])
  fix h x assume "logged K C L m' h x"
  from log_okD(4,5) [OF assms(1) assms(7) [OF this]] assms(6)
  show "position h \<le> clock_of m' \<and> mh_id h = tx_to_hex L (tx_from_pair L (mb_payload x) (as_bytes (mb_signature x)))"
    by (meson order_trans)
qed

lemma log_ok_issued:
  assumes "log_ok K C L m" "room m"
  shows "log_ok K C L (issued m)" "logged K C L m h x \<Longrightarrow> position h \<noteq> clock_of (issued m)"
proof -
  note clk = clock_issued [OF assms(2)]
  obtain l where l: "ledger_of K C m l" "led_end l \<le> fst (clock_of m)" using log_okD(3) [OF assms(1)] by blast
  show "log_ok K C L (issued m)"
    by (rule log_ok_shrink [OF assms(1), where l = l]) (use log_okD(1,2) [OF assms(1)] l clk in auto)
  show "position h \<noteq> clock_of (issued m)" if "logged K C L m h x"
    using log_okD(4) [OF assms(1) that] clk by auto
qed

context platform
begin

section \<open>Every move keeps the log consistent\<close>

text \<open>Where a mutation found in the log after one was added comes from.\<close>

lemma added_from:
  assumes ready: "ms_ready K m" and wf: "log_wf K C L m"
    and body: "encode (body_codec C) \<lparr>mb_payload = payload, mb_signature = signature\<rparr> = Inr buf"
    and h: "h = \<lparr>mh_block_id = block, mh_order_id = order, mh_sender = addr_as_ref sender, mh_time = now,
        mh_id = tx_to_hex L (tx_from_pair L payload (as_bytes signature)), mh_size = of_nat (length buf),
        mh_nonce = nonce, mh_network = network, mh_action = action_to_i32 action,
        mh_doc_ids_map = doc_ids_map\<rparr>"
    and hdr: "encode (header_codec C) h = Inr hbuf"
    and m': "m' = snd (add_mutation K C L now payload signature doc_ids_map sender nonce block order
        network action m)"
    and g: "logged K C L m' g x"
  shows "g = h \<and> x = \<lparr>mb_payload = payload, mb_signature = signature\<rparr> \<or>
    (\<exists>x0. logged K C L m g x0 \<and> (x = x0 \<or> x = \<lparr>mb_payload = payload, mb_signature = signature\<rparr> \<and> mh_id g = mh_id h))"
proof -
  let ?t0 = "tx_from_pair L payload (as_bytes signature)"
  note eff = add_mutation_effect [OF ready body h hdr m']
  from g obtain v t w where vtw:
    "((cf_map K (ms_se m) (block_store_cf_name (ms_config m)))(block_order_key block order \<mapsto> hbuf))
       (block_order_key (mh_block_id g) (mh_order_id g)) = Some v"
    "decode (header_codec C) v = Inr g" "mh_id g = tx_to_hex L t"
    "((cf_map K (ms_se m) (tx_store_cf_name (ms_config m)))(tx_as_ref ?t0 \<mapsto> buf)) (tx_as_ref t) = Some w"
    "decode (body_codec C) w = Inr x"
    unfolding logged_def eff(2-4) by blast
  have x: "x = \<lparr>mb_payload = payload, mb_signature = signature\<rparr> \<and> mh_id g = mh_id h" if "t = ?t0"
    using that vtw(3-5) codec_okD [OF body_ok body] by (auto simp: h)
  show ?thesis
  proof (cases "block_order_key (mh_block_id g) (mh_order_id g) = block_order_key block order")
    case True
    then have "g = h" using vtw(1,2) codec_okD [OF header_ok hdr] by auto
    moreover from this have "t = ?t0" using vtw(3) by (simp add: h)
    ultimately show ?thesis using x by blast
  next
    case False
    then have "cf_map K (ms_se m) (block_store_cf_name (ms_config m)) (block_order_key (mh_block_id g) (mh_order_id g)) = Some v"
      using vtw(1) by (auto split: if_splits)
    from log_wfE [OF wf this] vtw(2) obtain x0 where x0: "logged K C L m g x0" by auto
    show ?thesis
    proof (cases "t = ?t0")
      case True
      then show ?thesis using x x0 by blast
    next
      case other: False
      then have "logged K C L m g x"
        unfolding logged_def using vtw False by auto
      then show ?thesis by blast
    qed
  qed
qed

lemma log_ok_log_here:
  assumes ok: "log_ok K C L m" and fresh: "\<And>h x. logged K C L m h x \<Longrightarrow> position h \<noteq> clock_of m"
    and m': "m' = log_here K C L now payload signature ids sender nonce network action m"
  shows "log_ok K C L m' \<and> log_advances K C L m m'"
proof -
  let ?block = "bs_block (ms_block_state m)" and ?order = "bs_order (ms_block_state m)"
  have ready: "ms_ready K m" and wf: "log_wf K C L m" using ok by (auto simp: log_ok_def)
  have view: "same_view (- {tx_store_cf_name (ms_config m), block_store_cf_name (ms_config m)}) m m'"
    using keepsD [OF add_mutation_view same_view_start [OF ready]] by (simp add: m' log_here_def)
  have led: "ledger_of K C m' l \<longleftrightarrow> ledger_of K C m l" for l
    by (rule ledger_of_cong; rule same_view_entries [OF view]) (use ms_ready_distinct [OF ready] in auto)
  have clk: "clock_of m' = clock_of m" "ms_ready K m'" using view by (auto simp: same_view_def clock_of_def)
  show ?thesis
  proof (cases "\<exists>buf hbuf. encode (body_codec C) \<lparr>mb_payload = payload, mb_signature = signature\<rparr> = Inr buf \<and>
      encode (header_codec C)
       \<lparr>mh_block_id = ?block, mh_order_id = ?order, mh_sender = addr_as_ref sender, mh_time = now,
        mh_id = tx_to_hex L (tx_from_pair L payload (as_bytes signature)), mh_size = of_nat (length buf),
        mh_nonce = nonce, mh_network = network, mh_action = action_to_i32 action,
        mh_doc_ids_map = ids\<rparr> = Inr hbuf")
    case False
    from add_mutation_encode_fails [OF this] have "m' = m" by (simp add: m' log_here_def)
    then show ?thesis using ok same_log_advances [of K C L m m] by blast
  next
    case True
    then obtain buf hbuf where enc: "encode (body_codec C) \<lparr>mb_payload = payload, mb_signature = signature\<rparr> = Inr buf"
      "encode (header_codec C)
       \<lparr>mh_block_id = ?block, mh_order_id = ?order, mh_sender = addr_as_ref sender, mh_time = now,
        mh_id = tx_to_hex L (tx_from_pair L payload (as_bytes signature)), mh_size = of_nat (length buf),
        mh_nonce = nonce, mh_network = network, mh_action = action_to_i32 action,
        mh_doc_ids_map = ids\<rparr> = Inr hbuf" by blast
    note lg = logged_add [OF ready enc(1) refl enc(2) m' [unfolded log_here_def]]
    note from_where = added_from [OF ready wf enc(1) refl enc(2) m' [unfolded log_here_def]]
    have "position g \<le> clock_of m' \<and> mh_id g = tx_to_hex L (tx_from_pair L (mb_payload x) (as_bytes (mb_signature x)))"
      if "logged K C L m' g x" for g x
      using from_where [OF that] log_okD(4,5) [OF ok] clk(1)
      by (elim disjE exE conjE) (auto simp: position_def clock_of_def)
    moreover have "log_advances K C L m m'"
      by (rule same_log_advances [OF _ led]) (use lg(2) fresh in \<open>metis clock_of_def\<close>)
    ultimately show ?thesis using ok clk lg(3) [OF wf] led by (simp add: log_ok_def)
  qed
qed

lemma log_ok_block:
  assumes ok: "log_ok K C L m" and "room m" and m': "m' = snd (increase_block_return_last_state K m)"
  shows "log_ok K C L m' \<and> log_advances K C L m m'"
proof -
  have ready: "ms_ready K m" using ok by (simp add: log_ok_def)
  have "bs_block (ms_block_state m) \<noteq> - 1" using assms(2) by (simp add: room_def)
  from block_step [OF ready this] obtain p where "increase_block_return_last_state K m = (Inr p, m')"
    using m' by (metis snd_conv)
  note run = increase_block_run [OF this ready]
  note d = ms_ready_distinct [OF ready]
  have same: "logged K C L m' h x \<longleftrightarrow> logged K C L m h x" for h x
    using run(2,6) d by (simp add: logged_def)
  have led: "ledger_of K C m' l \<longleftrightarrow> ledger_of K C m l" for l
    by (rule ledger_of_cong; unfold rollup_entries_def gc_entries_def run(2); rule iterator_unchanged)
      (use run(6) d in auto)
  have clk: "clock_of m < clock_of m' \<and> fst (clock_of m) \<le> fst (clock_of m')"
    using assms(2) run(3) by (auto simp: clock_of_def room_def word_less_plus_one less_imp_le)
  have "log_wf K C L m'" using log_okD(2) [OF ok] run(2,6) d by (simp add: log_wf_def same)
  moreover have "log_advances K C L m m'" by (rule same_log_advances) (auto simp: same led)
  moreover obtain l where l: "ledger_of K C m l" "led_end l \<le> fst (clock_of m')"
    using log_okD(3) [OF ok] clk by (meson order_trans)
  moreover have "log_ok K C L m'"
    by (rule log_ok_shrink [OF ok, where l = l]) (use calculation run(1) clk in \<open>auto simp: same led\<close>)
  ultimately show ?thesis by blast
qed

lemma log_ok_rollup:
  assumes ok: "log_ok K C L m"
    and m': "m' = re_storage (snd (process K C L W clk \<lparr>re_exec = x, re_storage = m, re_world = w\<rparr>))"
  shows "log_ok K C L m' \<and> log_advances K C L m m'"
proof -
  let ?e = "\<lparr>re_exec = x, re_storage = m, re_world = w\<rparr>"
  have ready: "ms_ready K (re_storage ?e)" and wf: "log_wf K C L (re_storage ?e)" using ok by (auto simp: log_ok_def)
  from ok obtain l rs gs where l: "ledger_rel K C (re_storage ?e) rs gs l" "led_end l \<le> fst (clock_of m)" "ledger_of K C m l"
    unfolding log_ok_def ledger_of_def by (metis rollup_env.select_convs(2))
  note run = process_ledger [OF ready wf l(1) surjective_pairing]
  from run(1) obtain l' where l': "ledger_of K C m' l'" "ledger_step (fst (clock_of m)) (rx_min_gc_round_offset x) l l'"
    "log_kept (led_end l') m m'" by (auto simp: m' clock_of_def)
  have st: "log_state m m'" using run(2) by (simp add: m')
  have ends: "led_end l \<le> led_end l'" "led_end l' \<le> fst (clock_of m)"
    using l'(2) l(2) by (auto elim!: ledger_step.cases simp: add_round_def collect_def led_end_def rounds_end_append)
  have "log_advances K C L m m'"
    unfolding log_advances_def using ends(1) l(3) l'(1,3) ledger_of_unique unfolding log_kept_def by metis
  moreover have "clock_of m' = clock_of m" using st by (simp add: log_state_def clock_of_def)
  moreover from this have "log_ok K C L m'"
    by (intro log_ok_shrink [OF ok, where l = l'])
      (use st l'(1,3) ends(2) in \<open>auto simp: log_state_def log_kept_def\<close>)
  ultimately show ?thesis by blast
qed

text \<open>A node that is started again goes on in the block after the recorded one.\<close>

lemma log_ok_restart:
  assumes ok: "log_ok K C L m" and "room m" and "ms_new (\<lambda>_. Inr (ms_se m)) (ms_config m) = Inr m0"
    and "ms_recover K C m0 = (Inr (), m')" and "block_recorded K m"
  shows "log_ok K C L m' \<and> log_advances K C L m m'"
proof -
  note run = restart_clock [OF assms(3,4) assms(5) [unfolded block_recorded_def]]
  have same: "logged K C L m' h x \<longleftrightarrow> logged K C L m h x" for h x using run(1,2) by (simp add: logged_def)
  have led: "ledger_of K C m' l \<longleftrightarrow> ledger_of K C m l" for l
    using run(1,2) by (intro ledger_of_cong) (simp_all add: rollup_entries_def gc_entries_def)
  have clk: "clock_of m < clock_of m'" "fst (clock_of m) \<le> fst (clock_of m')"
    using assms(2) run(3) by (auto simp: clock_of_def room_def word_less_plus_one less_imp_le)
  obtain l where l: "ledger_of K C m l" "led_end l \<le> fst (clock_of m')"
    using log_okD(3) [OF ok] clk(2) by (meson order_trans)
  have "ms_ready K m'" using log_okD(1) [OF ok] run(1,2) by (simp add: ms_ready_def)
  moreover have "log_wf K C L m'" using log_okD(2) [OF ok] run(1,2) by (simp add: log_wf_def same)
  ultimately have "log_ok K C L m'"
    using l clk by (intro log_ok_shrink [OF ok, where l = l]) (auto simp: same led)
  moreover have "log_advances K C L m m'" by (rule same_log_advances) (auto simp: same led)
  ultimately show ?thesis by blast
qed

lemma store_move_ok:
  assumes "store_move N m d m' d'" "K = engine_of N" "C = codecs_of N" "L = libs_of N" "stores_ok K C L m d" "room m"
  shows "stores_ok K C L m' d' \<and> log_advances K C L m m'"
proof -
  have ok: "log_ok K C L m" and wf: "db_wf K C L d" using assms(5) by (auto simp: stores_ok_def)
  have stay: "log_advances K C L m m" by (rule same_log_advances) auto
  note iss = log_ok_issued [OF ok assms(6)]
  have issue: "log_advances K C L m (issued m)" by (rule same_log_advances) auto
  have db: "db_wf K C L (snd (apply_mutation K C L (ejdb_of N) (bson_of N) action dm address network nonce block order ids_map d))"
    for action dm address network nonce block order ids_map
    using db_step_wf [OF step_apply wf] by blast
  from assms(1) show ?thesis
  proof (cases rule: store_move.cases)
    case (move_logged now payload signature ids sender nonce network action)
    from log_ok_log_here [OF iss(1) _ move_logged(1) [folded assms(2-4)]] iss(2)
    show ?thesis using move_logged(2) db log_advances_trans [OF issue _ iss(1)] by (simp add: stores_ok_def assms(2-4))
  next
    case move_flush
    then show ?thesis using db_step_wf [OF step_flush wf] ok stay by (simp add: stores_ok_def assms(2-4))
  next
    case (move_restart m0 new_docs files d0)
    have "log_ok K C L m' \<and> log_advances K C L m m'"
      by (rule log_ok_restart [OF ok assms(6) move_restart(1)]) (use move_restart(2,3) in \<open>simp_all only: assms(2,3)\<close>)
    moreover have "db_wf K C L d'"
      using db_step_wf [OF step_restart [OF move_restart(4)] wf] move_restart(5) by (simp only: assms(2-4))
    ultimately show ?thesis by (simp add: stores_ok_def)
  qed (use ok wf stay iss issue db log_ok_block [OF ok assms(6) refl] log_ok_rollup [OF ok refl] in
      \<open>simp_all add: stores_ok_def assms(2-4)\<close>)
qed

end

section \<open>Every step of the node is a move of its stores\<close>

text \<open>\<open>quiet\<close> actions leave both stores alone; \<open>moves\<close> actions make one move.\<close>

definition quiet :: "(('s, 'd, 't, 'w, 'z) log_stores_scheme, 'a) action \<Rightarrow> bool" where
  "quiet act \<longleftrightarrow> (\<forall>n. sn_storage (snd (act n)) = sn_storage n \<and> sn_db_store (snd (act n)) = sn_db_store n)"

definition moves ::
  "('s, 'd, 't, 'w, 'h, 'td, 'sg) node_libs \<Rightarrow> (('s, 'd, 't, 'w, 'z) log_stores_scheme, 'a) action \<Rightarrow> bool" where
  "moves N act \<longleftrightarrow>
     (\<forall>n. store_move N (sn_storage n) (sn_db_store n) (sn_storage (snd (act n))) (sn_db_store (snd (act n))))"

named_theorems move_intros \<open>composition rules for moves of the stores\<close>

lemma quiet_actions [move_intros]:
  "quiet (ok x)" "quiet (fail e)" "quiet (panic msg)" "quiet (gets g)" "quiet (reads r)" "quiet (lift_lib f z)"
  "quiet (in_world a)" "quiet (in_state b)"
  by (simp_all add: quiet_def action_simps lift_lib_def)

lemma quiet_then [move_intros]: "quiet a \<Longrightarrow> (\<And>x. quiet (f x)) \<Longrightarrow> quiet (andThen a f)"
  by (auto simp: quiet_def andThen_simps split: sum.split)

lemma quiet_attempt [move_intros]: "quiet a \<Longrightarrow> quiet (attempt a)"
  by (simp add: quiet_def attempt_state)

lemma moves_quiet: "quiet a \<Longrightarrow> moves N a"
  by (simp add: quiet_def moves_def store_move.move_stay)

lemma moves_then [move_intros]: "quiet a \<Longrightarrow> (\<And>x. moves N (f x)) \<Longrightarrow> moves N (andThen a f)"
  by (auto simp: quiet_def moves_def andThen_simps store_move.move_stay split: sum.split)
    (metis)

lemma moves_before [move_intros]: "moves N a \<Longrightarrow> (\<And>x. quiet (f x)) \<Longrightarrow> moves N (andThen a f)"
  by (auto simp: quiet_def moves_def andThen_simps split: sum.split)

lemma moves_attempt [move_intros]: "moves N a \<Longrightarrow> moves N (attempt a)"
  by (simp add: moves_def attempt_state)

lemma andThen_ok_state: "snd (andThen a (\<lambda>_. ok ()) n) = snd (a n)"
  by (simp add: andThen_simps ok_def split: sum.split)

lemma moves_mint: "moves N (mint_mutation N now signature payload action mutation nonce network sender)"
  unfolding moves_def
proof
  fix n :: "('a, 'b, 'c, 'd, 'z) log_stores_scheme"
  let ?b = "bs_block (ms_block_state (sn_storage n))" and ?o = "bs_order (ms_block_state (sn_storage n)) + 1"
  let ?act = "apply_mutation (engine_of N) (codecs_of N) (libs_of N) (ejdb_of N) (bson_of N) action mutation sender
    network nonce ?b ?o Map.empty"
  obtain r d where run: "?act (sn_db_store n) = (r, d)" by force
  then have d: "d = snd (?act (sn_db_store n))" by simp
  let ?n' = "snd (mint_mutation N now signature payload action mutation nonce network sender n)"
  let ?n1 = "n\<lparr>sn_storage := issued (sn_storage n)\<rparr>"
  have gen: "map_err_of f (in_storage (generate_mutation_block_and_order (libs_of N) payload signature)) n =
      (Inr (tx_to_hex (libs_of N) (tx_from_pair (libs_of N) payload (as_bytes signature)), ?b, ?o), ?n1)" for f
    by (simp add: map_err_of_def map_err_def on_field_def generate_run issued_def)
  show "store_move N (sn_storage n) (sn_db_store n) (sn_storage ?n') (sn_db_store ?n')"
  proof (cases r)
    case (Inl e)
    have app: "\<exists>y. attempt (in_db ?act) ?n1 = (y, ?n1\<lparr>sn_db_store := d\<rparr>) \<and> (y = Inr None \<or> (\<exists>z. y = Inl z))"
      using run Inl by (cases e) (simp_all add: attempt_def on_field_def)
    then have "?n' = ?n1\<lparr>sn_db_store := d\<rparr>"
      unfolding mint_mutation_def Let_def
      by (auto simp only: andThen_def [of "map_err_of _ _"] gen andThen_def [of "attempt (in_db _)"]
          prod.case sum.case option.case ok_def snd_conv)
    then have "sn_storage ?n' = issued (sn_storage n)" "sn_db_store ?n' = d" by simp_all
    then show ?thesis using store_move.move_failed d by metis
  next
    case (Inr items)
    let ?add = "in_storage (add_mutation (engine_of N) (codecs_of N) (libs_of N) now payload signature [] sender nonce
      ?b ?o network action)"
    have app: "attempt (in_db ?act) ?n1 = (Inr (Some items), ?n1\<lparr>sn_db_store := d\<rparr>)"
      using run Inr by (simp add: attempt_def on_field_def)
    have "?n' = snd (andThen (attempt ?add) (\<lambda>_. ok ()) (?n1\<lparr>sn_db_store := d\<rparr>))"
      unfolding mint_mutation_def Let_def
      by (simp only: andThen_def [of "map_err_of _ _"] gen andThen_def [of "attempt (in_db _)"] app
          prod.case sum.case option.case)
    then have "?n' = snd (?add (?n1\<lparr>sn_db_store := d\<rparr>))" by (simp only: andThen_ok_state attempt_state)
    then have "sn_storage ?n' = log_here (engine_of N) (codecs_of N) (libs_of N) now payload signature [] sender nonce
        network action (issued (sn_storage n))" "sn_db_store ?n' = d"
      by (simp_all add: on_field_apply log_here_def issued_def)
    then show ?thesis using store_move.move_logged d by metis
  qed
qed

lemma quiet_sign: "quiet (sign_mutation N V wallet body action)"
  unfolding sign_mutation_def Let_def by (intro move_intros)

lemma moves_case_prod: "(\<And>a b c d. moves N (f a b c d)) \<Longrightarrow> moves N (case x of (a, b, c, d) \<Rightarrow> f a b c d)"
  by (cases x) simp

lemma moves_if [move_intros]: "moves N a \<Longrightarrow> moves N b \<Longrightarrow> moves N (if c then a else b)"
  by simp

lemmas moves_pure = quiet_actions [THEN moves_quiet]

lemma moves_handle_create_doc_database: "moves N (handle_create_doc_database N V now lg t network wallet)"
  unfolding handle_create_doc_database_def Let_def
  by (intro moves_then moves_if moves_pure quiet_actions quiet_sign moves_case_prod moves_mint)

lemma moves_handle_create_collection: "moves N (handle_create_collection N V now lg t network wallet)"
  unfolding handle_create_collection_def Let_def
  by (intro moves_then moves_if moves_pure quiet_actions quiet_sign moves_case_prod moves_mint)

lemma moves_handle_log: "moves N (handle_log N V now job provider lg)"
proof (cases "log_transaction_hash V lg")
  case None
  then show ?thesis by (simp add: handle_log_def moves_pure)
next
  case (Some tx_hash)
  have "moves N (case (found, log_topics V lg) of
      (Some (Some transaction), topic # _) \<Rightarrow>
        if topic = create_database_topic V
        then andThen (attempt (handle_create_doc_database N V now lg transaction (job_network job) (job_wallet job))) (\<lambda>_. ok ())
        else if topic = create_collection_topic V
        then andThen (attempt (handle_create_collection N V now lg transaction (job_network job) (job_wallet job))) (\<lambda>_. ok ())
        else ok ()
    | _ \<Rightarrow> ok ())" for found
    by (auto split: option.split list.split
        intro: moves_before moves_attempt moves_handle_create_doc_database moves_handle_create_collection
          quiet_actions moves_pure)
  then show ?thesis
    unfolding handle_log_def Some option.case by (intro moves_then quiet_attempt quiet_actions)
qed

lemma moves_job_turn: "moves N (job_turn N V now job provider item)"
proof -
  have "moves N (case item of
      Some lg \<Rightarrow> andThen (handle_log N V now job provider lg) (\<lambda>_. ok Listening)
    | None \<Rightarrow> ok Reconnect)"
    by (cases item) (simp_all add: moves_pure moves_before [OF moves_handle_log] quiet_actions)
  then show ?thesis
    unfolding job_turn_def by (intro moves_then moves_if moves_pure quiet_actions)
qed

lemma moves_block_turn: "moves N (block_turn N)"
proof -
  have "moves N (in_storage (increase_block_return_last_state (engine_of N)))"
    by (simp add: moves_def on_field_apply store_move.move_block)
  then show ?thesis
    unfolding block_turn_def
    by (intro moves_before moves_attempt) (auto simp: quiet_def action_simps split: option.split)
qed

lemma moves_rollup_turn: "moves N (rollup_turn N clk)"
proof -
  have "moves N (in_rollup (process (engine_of N) (codecs_of N) (libs_of N) (outside_of N) clk))"
    by (simp add: moves_def in_rollup_def split_beta store_move.move_rollup)
  then show ?thesis
    unfolding rollup_turn_def by (intro moves_before moves_attempt quiet_actions)
qed

lemma moves_flush_turn: "moves N (flush_turn N)"
proof -
  have "moves N (in_db (flush_database_state (engine_of N) (codecs_of N) (libs_of N)))"
    by (simp add: moves_def on_field_apply store_move.move_flush)
  then show ?thesis
    unfolding flush_turn_def by (intro moves_before moves_attempt quiet_actions)
qed

lemma quiet_start_events: "quiet (start_events N V sys contract_addr evm_node_url start_block chain_id network)"
proof -
  have m: "quiet (modify f)" if "\<And>n. sn_storage (f n) = sn_storage n \<and> sn_db_store (f n) = sn_db_store n"
    for f :: "('a, 'b, 'c, 'd, 'e, 'z) event_stores_scheme \<Rightarrow> ('a, 'b, 'c, 'd, 'e, 'z) event_stores_scheme"
    using that by (simp add: quiet_def action_simps)
  show ?thesis
    unfolding start_events_def
    by (intro quiet_then quiet_actions m) (auto split: option.split)
qed

lemma rollup_update_config_storage: "re_storage (snd (rollup_update_config W X C sys t e)) = re_storage e"
proof -
  have "keeps (\<lambda>f. re_storage f = re_storage e) (rollup_update_config W X C sys t)"
    unfolding rollup_update_config_def
    by (intro keeps_intros) (auto simp: keeps_def action_simps)
  then show ?thesis by (simp add: keeps_def)
qed

lemma moves_apply_config: "moves N (apply_config N V)"
proof (rule moves_quiet)
  have "quiet (in_rollup (rollup_update_config (outside_of N) (mdbx_of N) (codecs_of N) sys t))" for sys t
    by (simp add: quiet_def in_rollup_def split_beta rollup_update_config_storage)
  moreover have "quiet (modify (\<lambda>n. n\<lparr>sn_network_id := a, sn_rollup_interval := b\<rparr>))" for a b
    by (simp add: quiet_def action_simps)
  ultimately show "quiet (apply_config N V)"
    unfolding apply_config_def
    by (auto intro!: quiet_then quiet_actions quiet_attempt quiet_start_events split: option.split)
qed

lemma moves_send_mutation:
  assumes "transactional (mdbx_of N)"
  shows "store_move N (sn_storage n) (sn_db_store n) (sn_storage (snd (send_mutation N now payload signature n)))
      (sn_db_store (snd (send_mutation N now payload signature n)))"
proof -
  obtain res n' where run: "send_mutation N now payload signature n = (res, n')" by force
  have "store_move N (sn_storage n) (sn_db_store n) (sn_storage n') (sn_db_store n')"
    using assms run
  proof (cases rule: send_mutation_cases)
    case refused
    then show ?thesis by (simp add: store_move.move_stay)
  next
    case (executed dm address nonce action v t)
    from executed(5) show ?thesis
    proof (cases rule: execute_mutation_cases)
      case (failed e db)
      then have "sn_storage n' = issued (sn_storage n)" by (simp add: issued_def)
      moreover have "sn_db_store n' = snd (apply_mutation (engine_of N) (codecs_of N) (libs_of N) (ejdb_of N) (bson_of N)
          action dm address (sn_network_id n) nonce (bs_block (ms_block_state (sn_storage n)))
          (bs_order (ms_block_state (sn_storage n)) + 1) Map.empty (sn_db_store n))"
        using failed(1,3) by simp
      ultimately show ?thesis using store_move.move_failed by metis
    next
      case (applied items db q m)
      then have "sn_storage n' = log_here (engine_of N) (codecs_of N) (libs_of N) now payload signature
          (get_create_doc_ids_map (libs_of N) items) address nonce (sn_network_id n) action (issued (sn_storage n))"
        by (simp add: issued_def log_here_def)
      moreover have "sn_db_store n' = snd (apply_mutation (engine_of N) (codecs_of N) (libs_of N) (ejdb_of N) (bson_of N)
          action dm address (sn_network_id n) nonce (bs_block (ms_block_state (sn_storage n)))
          (bs_order (ms_block_state (sn_storage n)) + 1) Map.empty (sn_db_store n))"
        using applied(1,3) by simp
      ultimately show ?thesis using store_move.move_logged by metis
    qed
  qed
  with run show ?thesis by simp
qed

lemma movesD: "moves N a \<Longrightarrow> store_move N (sn_storage n) (sn_db_store n) (sn_storage (snd (a n))) (sn_db_store (snd (a n)))"
  by (simp add: moves_def)

text \<open>What construction leaves: the recovered log and the reopened databases.\<close>

lemma started_stores:
  assumes "(case start_events N V sys a u b c k x of (r, n) \<Rightarrow> (bindR r (\<lambda>_. Inr n), sn_world n)) = (Inr n, w')"
  shows "sn_storage n = sn_storage x" "sn_db_store n = sn_db_store x"
proof -
  obtain r y where y: "start_events N V sys a u b c k x = (r, y)" by force
  have "sn_storage (snd (start_events N V sys a u b c k x)) = sn_storage x \<and>
      sn_db_store (snd (start_events N V sys a u b c k x)) = sn_db_store x"
    using quiet_start_events unfolding quiet_def by blast
  with y assms show "sn_storage n = sn_storage x" "sn_db_store n = sn_db_store x"
    by (auto simp: bindR_eq_Inr_iff)
qed

lemma recovered_iff:
  "(case p of (r, s) \<Rightarrow> bindR r (\<lambda>_. Inr s)) = Inr m \<longleftrightarrow> p = (Inr (), m)" for p :: "unit result \<times> 'a"
  by (cases p) (auto simp: bindR_eq_Inr_iff)

lemma storage_node_new_stores:
  assumes "storage_node_new N V H config sys t w = (Inr n, w')"
  obtains m0 where "ms_new (engine_open H (msc_db_path (snc_store_config config))) (snc_store_config config) = Inr m0"
    "ms_recover (engine_of N) (codecs_of N) m0 = (Inr (), sn_storage n)"
    "db_new (engine_open H (dsc_db_path (snc_db_store_config config))) (open_doc_store H) (no_files H)
       (snc_db_store_config config) = Inr (sn_db_store n)"
proof -
  from assms obtain m0 m db executor w1 and found :: "system_config option" where m0:
    "ms_new (engine_open H (msc_db_path (snc_store_config config))) (snc_store_config config) = Inr m0"
    "ms_recover (engine_of N) (codecs_of N) m0 = (Inr (), m)"
    "db_new (engine_open H (dsc_db_path (snc_db_store_config config))) (open_doc_store H) (no_files H)
       (snc_db_store_config config) = Inr db"
    and fin: "(let node = \<lparr>sn_db_store = db, sn_state_store = t, sn_world = w1, sn_storage = m,
             ep_last_running = None, ep_flags = 0, ep_running = [], ep_jobs = [],
             sn_config = config, sn_running = True, sn_broadcast = [], sn_rollup_executor = executor,
             sn_rollup_interval = (case found of Some c \<Rightarrow> sc_rollup_interval c | None \<Rightarrow> 1000 * 10 * 60),
             sn_network_id = (case found of Some c \<Rightarrow> sc_network_id c | None \<Rightarrow> 0), sn_system_store = sys\<rparr>
       in case found of
            Some c \<Rightarrow>
              (case start_events N V sys (sc_contract_addr c) (sc_evm_node_url c) 0 (sc_chain_id c) (sc_network_id c) node of
                 (r, n) \<Rightarrow> (bindR r (\<lambda>_. Inr n), sn_world n))
          | None \<Rightarrow> (Inr node, w1)) = (Inr n, w')"
    unfolding storage_node_new_def andThen_eq_Inr_iff
    by (simp add: reads_def recovered_iff) (elim exE conjE, rule that, assumption+)
  have "sn_storage n = m" "sn_db_store n = db"
    using fin by (cases found; auto simp: Let_def dest: started_stores)+
  with that m0 show ?thesis by blast
qed

lemma restart_moves:
  assumes "block_recorded (engine_of N) (sn_storage n)" "reopens H n config"
    "storage_node_new N V H config sys t w = (Inr n0, w')" "sn_recover N n0 = (Inr (), n')"
  shows "store_move N (sn_storage n) (sn_db_store n) (sn_storage n') (sn_db_store n')"
proof -
  obtain m0 where m0: "ms_new (\<lambda>_. Inr (ms_se (sn_storage n))) (ms_config (sn_storage n)) = Inr m0"
    "ms_recover (engine_of N) (codecs_of N) m0 = (Inr (), sn_storage n0)"
    "db_new (\<lambda>_. Inr (db_se (sn_db_store n))) (open_doc_store H) (no_files H) (db_config (sn_db_store n)) = Inr (sn_db_store n0)"
    by (rule storage_node_new_stores [OF assms(3)]) (use assms(2) in \<open>simp add: reopens_def\<close>)
  have "recover_db_state (engine_of N) (codecs_of N) (libs_of N) (sn_db_store n0) = (Inr (), sn_db_store n')"
    "sn_storage n' = sn_storage n0"
    using assms(4) by (auto simp: sn_recover_def on_field_def split: prod.splits)
  with m0 assms(1) show ?thesis by (auto intro: store_move.move_restart)
qed

lemma node_step_moves:
  assumes "node_step N V H n n'" "transactional (mdbx_of N)"
  shows "room (sn_storage n) \<and> store_move N (sn_storage n) (sn_db_store n) (sn_storage n') (sn_db_store n')"
  using assms(1)
proof (cases rule: node_step.cases)
  case (node_restart config sys n0 w)
  then show ?thesis using restart_moves [OF node_restart(2-5)] by simp
qed (simp_all add: movesD moves_send_mutation [OF assms(2)] moves_job_turn moves_block_turn moves_rollup_turn
      moves_flush_turn moves_apply_config)

lemma node_run:
  assumes "platform K C L" "K = engine_of N" "C = codecs_of N" "L = libs_of N" "transactional (mdbx_of N)"
    "(node_step N V H)\<^sup>*\<^sup>* n n'" "stores_ok K C L (sn_storage n) (sn_db_store n)"
  shows "stores_ok K C L (sn_storage n') (sn_db_store n') \<and> log_advances K C L (sn_storage n) (sn_storage n')"
  using assms(6)
proof (induction rule: rtranclp_induct)
  case base
  then show ?case using assms(7) same_log_advances [of K C L "sn_storage n" "sn_storage n"] by blast
next
  case (step n1 n2)
  from node_step_moves [OF step(2) assms(5)] platform.store_move_ok [OF assms(1)] step(3) assms(2-4)
  have "stores_ok K C L (sn_storage n2) (sn_db_store n2)" "log_advances K C L (sn_storage n1) (sn_storage n2)" by metis+
  with step(3) show ?case using log_advances_trans by (metis stores_ok_def)
qed

end
