(* ===== verification/Machine_Theorems.thy ===== *)
theory Machine_Theorems
  imports Node_Machine Node_Theorems
begin

text \<open>The statements about runs of the rollup node, and a run of the sample node.\<close>

section \<open>Reading the log\<close>


section \<open>The sample node\<close>

abbreviation sample_request :: mutation where
  "sample_request \<equiv> \<lparr>mut_action = action_to_i32 CreateDocumentDb, mut_bodies = []\<rparr>"

definition sample_node1 :: "(mem_state, mem_files, mem_env, mem_world, bytes) storage_node" where
  "sample_node1 = snd (send_mutation (sample_linked sample_request addr_one 1) 100 sample_payload ''sig''
     (sample_rollup_state sample_db0))"

lemma sample_counter_room: "room sample_log"
  by (simp add: room_def sample_log_clock)

lemma sample_log_ok: "log_ok mem_engine sample_codecs sample_libs sample_log"
proof -
  have none: "raw_iterator_cf mem_engine (ms_se sample_log) cf = []" for cf
    by (simp add: sample_log_fields mem_open_entries)
  then have "ledger_of mem_engine sample_codecs sample_log \<lparr>led_rounds = [], led_collected = 0\<rparr>"
    unfolding ledger_of_def using empty_ledger [of mem_engine sample_log sample_codecs]
    by (metis gc_entries_def rollup_entries_def)
  moreover have "\<not> logged mem_engine sample_codecs sample_libs sample_log h x" for h x
    using none by (simp add: logged_def cf_map_def)
  moreover have "log_wf mem_engine sample_codecs sample_libs sample_log"
    using none by (simp add: log_wf_def cf_map_def)
  ultimately show ?thesis using sample_log_ready by (intro log_okI) (auto simp: led_end_def)
qed

lemma sample_stores_ok:
  "stores_ok mem_engine sample_codecs sample_libs (sn_storage (sample_rollup_state sample_db0))
     (sn_db_store (sample_rollup_state sample_db0))"
  by (simp add: stores_ok_def sample_log_ok sample_db0_wf)



section \<open>Runs\<close>

text \<open>C39. Whatever requests, contract events, blocks, rollups, flushes, configurations and restarts (after a
  closed block) follow each other, and whatever of them fails, the stores of the rollup node stay
  consistent: every header of the log is filed under its position and has a body that hashes to its id, no
  position is ahead of the block clock, the rollup records cover the blocks from 0 without gap up to the
  current block at most, and the databases are well-formed.\<close>

theorem node_stores_stay_consistent:
  assumes "platform K C L" and "K = engine_of N" and "C = codecs_of N" and "L = libs_of N"
    and "transactional (mdbx_of N)" and "(node_step N V H)\<^sup>*\<^sup>* n n'"
    and "stores_ok K C L (sn_storage n) (sn_db_store n)"
  shows "stores_ok K C L (sn_storage n') (sn_db_store n')"
  using node_run [OF assms] by blast

theorem node_stores_stay_consistent_witness:
  "\<forall>(V :: (mem_world, bytes, string, unit, unit) event_lib) (H :: (mem_state, mem_files, mem_world, unit) host).
     (node_step (sample_linked sample_request addr_one 1) V H)\<^sup>*\<^sup>* (sample_rollup_state sample_db0) sample_node1 \<and>
     stores_ok mem_engine sample_codecs sample_libs (sn_storage sample_node1) (sn_db_store sample_node1)"
proof (intro allI)
  fix V :: "(mem_world, bytes, string, unit, unit) event_lib" and H :: "(mem_state, mem_files, mem_world, unit) host"
  have run: "(node_step (sample_linked sample_request addr_one 1) V H)\<^sup>*\<^sup>* (sample_rollup_state sample_db0) sample_node1"
    unfolding sample_node1_def using sample_counter_room by (intro r_into_rtranclp node_request) simp
  from node_stores_stay_consistent [OF node_platform _ _ _ _ run sample_stores_ok] run
  show "(node_step (sample_linked sample_request addr_one 1) V H)\<^sup>*\<^sup>* (sample_rollup_state sample_db0) sample_node1 \<and>
     stores_ok mem_engine sample_codecs sample_libs (sn_storage sample_node1) (sn_db_store sample_node1)"
    by (simp add: mem_env_transactional)
qed



end
