(* ===== verification/Event_Loops.thy ===== *)
theory Event_Loops
  imports Indexer Meta_Events
begin

text \<open>
  The loop of an index node that follows a rollup node (\<open>start\<close> in \<open>src/node/src/indexer_impl.rs\<close>), and
  the loops around the two event listeners: the rest of \<open>start\<close> in \<open>src/event/src/event_processor.rs\<close>
  and the task that \<open>start\<close> spawns in \<open>src/event/src/meta_store_event_processor.rs\<close>. Each connects,
  subscribes and reads a stream of logs until its flag is cleared. Connecting, subscribing and waiting for
  a log are fields of \<open>log_streams\<close>; they act on the whole state, because other tasks run meanwhile, clear
  the flag and write to the stores. A loop need not return.
\<close>

record ('x, 'h, 'sm, 'lg) log_streams =
  ws_connect :: "string \<Rightarrow> 'x \<Rightarrow> (string + 'h) \<times> 'x"
  subscribe_logs :: "'h \<Rightarrow> log_filter \<Rightarrow> 'x \<Rightarrow> (string + 'sm) \<times> 'x"
  stream_next :: "'sm \<Rightarrow> 'x \<Rightarrow> 'lg option \<times> 'sm \<times> 'x"
  pause :: "'x \<Rightarrow> 'x" \<comment> \<open>\<open>sleep\<close>\<close>

section \<open>The processor of an event database\<close>

definition processor_filter :: "event_processor_config \<Rightarrow> bytes \<Rightarrow> log_filter" where
  "processor_filter config address =
     \<lparr>lf_from_block = (if epc_start_block config = 0 then None else Some (epc_start_block config)),
      lf_events = [], lf_address = address\<rparr>"

text \<open>The inner loop: until the flag is cleared or the stream ends; an error leaves \<open>start\<close>.\<close>

partial_function (option) processor_stream ::
  "'s engine \<Rightarrow> libs \<Rightarrow> 'd ejdb \<Rightarrow> ('lg, 'ab, 'ev) contract_lib \<Rightarrow> (('s, 'd) event_env \<times> 'w, 'h, 'sm, 'lg) log_streams \<Rightarrow>
   db3_address \<Rightarrow> 'ab \<Rightarrow> 'sm \<Rightarrow> ('s, 'd) event_env \<times> 'w \<Rightarrow> (unit result \<times> ('s, 'd) event_env \<times> 'w) option" where
  "processor_stream K L E F S db_addr abi sm x =
     (case stream_next S sm x of (item, sm', e, w) \<Rightarrow>
        (case item of
           None \<Rightarrow> Some (Inr (), pause S (e, w))
         | Some lg \<Rightarrow>
             (case process_event_log K L E F db_addr abi lg e of (r, e') \<Rightarrow>
                (case r of
                   Inl f \<Rightarrow> Some (Inl f, e', w)
                 | Inr going \<Rightarrow>
                     if going then processor_stream K L E F S db_addr abi sm' (e', w) else Some (Inr (), e', w)))))"

partial_function (option) processor_loop ::
  "'s engine \<Rightarrow> libs \<Rightarrow> 'd ejdb \<Rightarrow> ('lg, 'ab, 'ev) contract_lib \<Rightarrow> (('s, 'd) event_env \<times> 'w, 'h, 'sm, 'lg) log_streams \<Rightarrow>
   bytes \<Rightarrow> db3_address \<Rightarrow> 'ab \<Rightarrow> ('s, 'd) event_env \<times> 'w \<Rightarrow> (unit result \<times> ('s, 'd) event_env \<times> 'w) option" where
  "processor_loop K L E F S address db_addr abi x =
     (let p = ee_processor (fst x)
      in if \<not> ev_running p then Some (Inr (), x)
         else case ws_connect S (epc_evm_node_url (ev_config p)) x of (c, x1) \<Rightarrow>
           (case c of
              Inl e \<Rightarrow> Some (Inl (Raised (StoreEventError e)), x1)
            | Inr provider \<Rightarrow>
                (case subscribe_logs S provider (processor_filter (ev_config p) address) x1 of (q, x2) \<Rightarrow>
                   (case q of
                      Inl _ \<Rightarrow> processor_loop K L E F S address db_addr abi (pause S x2)
                    | Inr sm \<Rightarrow>
                        Option.bind (processor_stream K L E F S db_addr abi sm x2) (\<lambda>(r, x3).
                          case r of
                            Inl f \<Rightarrow> Some (Inl f, x3)
                          | Inr _ \<Rightarrow> processor_loop K L E F S address db_addr abi x3)))))"

definition processor_start ::
  "'s engine \<Rightarrow> libs \<Rightarrow> 'd ejdb \<Rightarrow> ('w, 'h) outside \<Rightarrow> ('lg, 'ab, 'ev) contract_lib \<Rightarrow>
   (('s, 'd) event_env \<times> 'w, 'k, 'sm, 'lg) log_streams \<Rightarrow> ('s, 'd) event_env \<times> 'w \<Rightarrow>
   (unit result \<times> ('s, 'd) event_env \<times> 'w) option" where
  "processor_start K L E W F S x =
     (case event_start W L F (fst x) of (r, e) \<Rightarrow>
        (case r of
           Inl f \<Rightarrow> Some (Inl f, e, snd x)
         | Inr (address, db_addr, abi) \<Rightarrow> processor_loop K L E F S address db_addr abi (e, snd x)))"

definition get_block_number :: "event_processor \<Rightarrow> u64" where
  "get_block_number p = ev_block_number p"

definition get_event_number :: "event_processor \<Rightarrow> u64" where
  "get_event_number p = ev_event_number p"

text \<open>A processor that was closed stops at the next log and leaves the store as it is.\<close>

lemma closed_processor_ignores_logs:
  "\<not> ev_running (ee_processor e) \<Longrightarrow> process_event_log K L E F db_addr abi lg e = (Inr False, e)"
  by (simp add: process_event_log_def action_simps)

lemma closed_processor_stops:
  assumes "stream_next S sm x = (Some lg, sm', e, w)" "\<not> ev_running (ee_processor e)"
  shows "processor_stream K L E F S db_addr abi sm x = Some (Inr (), e, w)"
    and "processor_loop K L E F S address db_addr abi (e, w) = Some (Inr (), e, w)"
  using assms
  by (simp_all add: closed_processor_ignores_logs processor_stream.simps [of K L E F S db_addr abi sm x] processor_loop.simps)

text \<open>The numbers that are reported count what was written: a log raises the event number by at most one.\<close>

lemma match_events_number:
  "get_event_number (ee_processor (snd (match_events K L E F db_addr lg es x))) - get_event_number (ee_processor x) \<in> {0, 1}"
proof (induction es arbitrary: x)
  case (Cons e es)
  then show ?case
    by (cases "raw_topics F lg"; cases "parse_log F e lg")
      (auto simp: action_simps attempt_def get_event_number_def split: sum.split option.split prod.split fault.split)
qed (simp add: action_simps)

section \<open>The listener of the meta contract\<close>

partial_function (option) job_stream ::
  "('s, 'd, 't, 'w, 'h, 'td, 'sg) node_libs \<Rightarrow> ('w, 'h, 'td, 'lg, 'tx) event_lib \<Rightarrow>
   (('s, 'd, 't, 'w, 'h, 'z) event_stores_scheme, 'h, 'sm, 'lg) log_streams \<Rightarrow> (nat \<Rightarrow> u64) \<Rightarrow> nat \<Rightarrow> 'h event_job \<Rightarrow> 'h \<Rightarrow> 'sm \<Rightarrow>
   ('s, 'd, 't, 'w, 'h, 'z) event_stores_scheme \<Rightarrow> (unit result \<times> ('s, 'd, 't, 'w, 'h, 'z) event_stores_scheme) option" where
  "job_stream N V S clock i job provider sm x =
     (if job_flag job \<notin> set (ep_running x) then Some (Inr (), x)
      else case stream_next S sm x of (item, sm', x1) \<Rightarrow>
        (case item of
           None \<Rightarrow> Some (Inr (), pause S x1)
         | Some lg \<Rightarrow>
             (case handle_log N V (clock i) job provider lg x1 of (r, x2) \<Rightarrow>
                (case r of
                   Inl f \<Rightarrow> Some (Inl f, x2)
                 | Inr _ \<Rightarrow> job_stream N V S clock (Suc i) job provider sm' x2))))"

text \<open>The outer loop; a panic of a handler ends the task.\<close>

partial_function (option) job_loop ::
  "('s, 'd, 't, 'w, 'h, 'td, 'sg) node_libs \<Rightarrow> ('w, 'h, 'td, 'lg, 'tx) event_lib \<Rightarrow>
   (('s, 'd, 't, 'w, 'h, 'z) event_stores_scheme, 'h, 'sm, 'lg) log_streams \<Rightarrow> (nat \<Rightarrow> nat \<Rightarrow> u64) \<Rightarrow> nat \<Rightarrow> 'h event_job \<Rightarrow>
   ('s, 'd, 't, 'w, 'h, 'z) event_stores_scheme \<Rightarrow> (unit result \<times> ('s, 'd, 't, 'w, 'h, 'z) event_stores_scheme) option" where
  "job_loop N V S clock i job x =
     (if job_flag job \<notin> set (ep_running x) then Some (Inr (), x)
      else case ws_connect S (job_evm_node_url job) x of (c, x1) \<Rightarrow>
        (case c of
           Inl _ \<Rightarrow> job_loop N V S clock (Suc i) job x1
         | Inr provider \<Rightarrow>
             (case subscribe_logs S provider (job_filter job) x1 of (q, x2) \<Rightarrow>
                (case q of
                   Inl _ \<Rightarrow> job_loop N V S clock (Suc i) job (pause S x2)
                 | Inr sm \<Rightarrow>
                     Option.bind (job_stream N V S (clock i) 0 job provider sm x2) (\<lambda>(r, x3).
                       case r of
                         Inl f \<Rightarrow> Some (Inl f, x3)
                       | Inr _ \<Rightarrow> job_loop N V S clock (Suc i) job (pause S x3))))))"

text \<open>A job whose flag was cleared, as a new \<open>start\<close> does, ends without touching the stores.\<close>

lemma cleared_job_stops:
  "job_flag job \<notin> set (ep_running x) \<Longrightarrow> job_loop N V S clock i job x = Some (Inr (), x)"
  "job_flag job \<notin> set (ep_running x) \<Longrightarrow> job_stream N V S ticks j job provider sm x = Some (Inr (), x)"
  by (simp_all add: job_loop.simps job_stream.simps)

text \<open>One round of the stream is \<open>job_turn\<close> when nothing happens while it waits.\<close>

lemma job_stream_turn:
  assumes "stream_next S sm x = (Some lg, sm', x)" "job_flag job \<in> set (ep_running x)"
  shows "job_stream N V S clock i job provider sm x =
    (case job_turn N V (clock i) job provider (Some lg) x of
       (Inl f, y) \<Rightarrow> Some (Inl f, y)
     | (Inr _, y) \<Rightarrow> job_stream N V S clock (Suc i) job provider sm' y)"
  using assms
  by (cases "handle_log N V (clock i) job provider lg x"; cases "fst (handle_log N V (clock i) job provider lg x)")
    (simp_all add: job_stream.simps [of N V S clock i] job_turn_def action_simps)

section \<open>The index node follows a rollup node\<close>

text \<open>Waiting for the next message of a subscription, which ends when the stream is closed or fails, and
  the pause before the next subscription.\<close>

record ('x, 'st) message_stream =
  next_message :: "'st \<Rightarrow> 'x \<Rightarrow> event_message option \<times> 'st \<times> 'x"
  retry_pause :: "'x \<Rightarrow> 'x"

partial_function (option) follow_stream ::
  "('s, 'd, 't, 'w, 'h, 'td, 'sg) node_libs \<Rightarrow> ('w, 'h, 'td, 'st) store_client \<Rightarrow>
   (('s, 'd, 't, 'w) indexer, 'st) message_stream \<Rightarrow> 'st \<Rightarrow> ('s, 'd, 't, 'w) indexer \<Rightarrow>
   (unit result \<times> ('s, 'd, 't, 'w) indexer) option" where
  "follow_stream N Q S st x =
     (case next_message S st x of (item, st', x1) \<Rightarrow>
        (case item of
           None \<Rightarrow> Some (Inr (), x1)
         | Some event \<Rightarrow>
             (case follow_turn N Q event x1 of (r, x2) \<Rightarrow>
                (case r of
                   Inl f \<Rightarrow> Some (Inl f, x2)
                 | Inr _ \<Rightarrow> follow_stream N Q S st' x2))))"

partial_function (option) indexer_start ::
  "('s, 'd, 't, 'w, 'h, 'td, 'sg) node_libs \<Rightarrow> ('w, 'h, 'td, 'st) store_client \<Rightarrow> 'h \<Rightarrow>
   (('s, 'd, 't, 'w) indexer, 'st) message_stream \<Rightarrow> ('s, 'd, 't, 'w) indexer \<Rightarrow>
   (unit result \<times> ('s, 'd, 't, 'w) indexer) option" where
  "indexer_start N Q wallet S x =
     (case subscribe_event_message Q wallet (sn_world x) of (q, w) \<Rightarrow>
        (case q of
           Inl _ \<Rightarrow> indexer_start N Q wallet S (retry_pause S (x\<lparr>sn_world := w\<rparr>))
         | Inr st \<Rightarrow>
             Option.bind (follow_stream N Q S st (x\<lparr>sn_world := w\<rparr>)) (\<lambda>(r, x1).
               case r of
                 Inl f \<Rightarrow> Some (Inl f, x1)
               | Inr _ \<Rightarrow> indexer_start N Q wallet S (retry_pause S x1))))"

text \<open>
  No refused mutation stops an index node: an error of a block is logged and the next message is handled,
  an ended stream is subscribed to again. The task ends only when applying a mutation panics.
\<close>

definition panicked :: "'a result \<Rightarrow> bool" where
  "panicked r = (case r of Inl (Panicked _) \<Rightarrow> True | _ \<Rightarrow> False)"

lemma follow_turn_refused: "follow_turn N Q event x = (Inl f, y) \<Longrightarrow> panicked (Inl f :: unit result)"
  by (auto simp: follow_turn_def attempt_def action_simps panicked_def split: prod.splits sum.splits fault.splits)

lemma follow_stream_ends:
  assumes "follow_stream N Q S st x = Some y"
  shows "fst y = Inr () \<or> panicked (fst y)"
  using follow_stream.raw_induct [where P = "\<lambda>N Q S st x y. fst y = Inr () \<or> panicked (fst y)"
      and xa = "((((N, Q), S), st), x)" and y = y] assms
  by (force split: prod.splits option.splits sum.splits dest: follow_turn_refused)

lemma indexer_start_ends:
  assumes "indexer_start N Q wallet S x = Some y"
  shows "panicked (fst y)"
proof -
  note rule = indexer_start.raw_induct [where P = "\<lambda>N Q wallet S x y. panicked (fst y)"
      and xa = "((((N, Q), wallet), S), x)" and y = y, unfolded prod.case]
  show ?thesis
  proof (rule rule)
    show "indexer_start N Q wallet S x = Some y" by (fact assms)
  next
    fix f N Q wallet S x and y :: "unit result \<times> _"
    assume IH: "\<And>N Q wallet S x y. f N Q wallet S x = Some y \<Longrightarrow> panicked (fst y)"
      and step: "(case subscribe_event_message Q wallet (sn_world x) of (q, w) \<Rightarrow>
        case q of Inl _ \<Rightarrow> f N Q wallet S (retry_pause S (x\<lparr>sn_world := w\<rparr>))
        | Inr st \<Rightarrow> Option.bind (follow_stream N Q S st (x\<lparr>sn_world := w\<rparr>)) (\<lambda>(r, x1).
            case r of Inl e \<Rightarrow> Some (Inl e, x1) | Inr _ \<Rightarrow> f N Q wallet S (retry_pause S x1))) = Some y"
    show "panicked (fst y)"
    proof (cases "\<exists>x'. f N Q wallet S x' = Some y")
      case False
      obtain q w where sub: "subscribe_event_message Q wallet (sn_world x) = (q, w)" by force
      with step False obtain st where st: "q = Inr st" by (cases q) auto
      from step obtain r x1 where r: "follow_stream N Q S st (x\<lparr>sn_world := w\<rparr>) = Some (r, x1)"
        and y: "(case r of Inl e \<Rightarrow> Some (Inl e, x1) | Inr _ \<Rightarrow> f N Q wallet S (retry_pause S x1)) = Some y"
        unfolding sub st prod.case sum.case by (elim bind_eq_Some_conv [THEN iffD1, elim_format]) auto
      with False obtain e where "r = Inl e" "y = (Inl e, x1)" by (cases r) auto
      with follow_stream_ends [OF r] show ?thesis by simp
    qed (use IH in blast)
  qed
qed

end
