(* ===== verification/Client_Keys.thy ===== *)
theory Client_Keys
  imports World Ids Rust_Utf8
begin

text \<open>
  The key of the command line client (\<open>src/cmd/src/keystore.rs\<close>): a key pair in a base64 file below the
  home directory, generated when it is not there. The key pairs, mnemonics and derivation it is written
  against are the parameter \<open>keypair_lib\<close>; files and base64 come from \<open>outside\<close>. An operation fails with
  the text of an \<open>std::io::Error\<close>, or panics where the code unwraps.
\<close>

section \<open>Operations that may fail or panic\<close>

datatype stop = Failed string | Unwrapped string

type_synonym ('w, 'a) client = "'w \<Rightarrow> (stop + 'a) \<times> 'w"

definition give :: "'a \<Rightarrow> ('w, 'a) client" where
  [action_simps]: "give x = (\<lambda>w. (Inr x, w))"

definition give_up :: "string \<Rightarrow> ('w, 'a) client" where
  [action_simps]: "give_up e = (\<lambda>w. (Inl (Failed e), w))"

definition thenDo :: "('w, 'a) client \<Rightarrow> ('a \<Rightarrow> ('w, 'b) client) \<Rightarrow> ('w, 'b) client" where
  [action_simps]: "thenDo m f = (\<lambda>w. case m w of (Inl e, v) \<Rightarrow> (Inl e, v) | (Inr x, v) \<Rightarrow> f x v)"

text \<open>\<open>?\<close> on a call of the world, \<open>unwrap\<close> of one, and of a value.\<close>

definition try_call :: "('w \<Rightarrow> (string + 'a) \<times> 'w) \<Rightarrow> ('w, 'a) client" where
  [action_simps]: "try_call op = (\<lambda>w. case op w of (Inl e, v) \<Rightarrow> (Inl (Failed e), v) | (Inr x, v) \<Rightarrow> (Inr x, v))"

definition unwrap_of :: "string + 'a \<Rightarrow> ('w, 'a) client" where
  [action_simps]: "unwrap_of r = (\<lambda>w. (case r of Inl e \<Rightarrow> Inl (Unwrapped e) | Inr x \<Rightarrow> Inr x, w))"

definition unwrap_option :: "'a option \<Rightarrow> ('w, 'a) client" where
  [action_simps]: "unwrap_option x =
     (\<lambda>w. (case x of None \<Rightarrow> Inl (Unwrapped ''called `Option::unwrap()` on a `None` value'') | Some y \<Rightarrow> Inr y, w))"

definition see :: "('w \<Rightarrow> 'a) \<Rightarrow> ('w, 'a) client" where
  [action_simps]: "see f = (\<lambda>w. (Inr (f w), w))"

text \<open>What a failed operation is answered with; a panic passes.\<close>

definition or_else :: "('w, 'a) client \<Rightarrow> (string \<Rightarrow> ('w, 'a) client) \<Rightarrow> ('w, 'a) client" where
  "or_else m f = (\<lambda>w. case m w of (Inl (Failed e), v) \<Rightarrow> f e v | (r, v) \<Rightarrow> (r, v))"

lemma thenDo_eq_Inr_iff:
  "thenDo m f w = (Inr y, u) \<longleftrightarrow> (\<exists>x v. m w = (Inr x, v) \<and> f x v = (Inr y, u))"
  by (auto simp: thenDo_def split: prod.splits sum.splits)

lemma try_call_eq_Inr_iff: "try_call op w = (Inr x, v) \<longleftrightarrow> op w = (Inr x, v)"
  by (auto simp: try_call_def split: prod.splits sum.splits)

lemma or_panic_eq_Inr_iff: "or_else m (\<lambda>e w. (Inl (Unwrapped e), w)) w = (Inr x, v) \<longleftrightarrow> m w = (Inr x, v)"
  by (auto simp: or_else_def split: prod.splits sum.splits stop.splits)

section \<open>Tables\<close>

record table =
  tb_titles :: "string list"
  tb_rows :: "string list list"

section \<open>The key store\<close>

datatype key_scheme = Ed25519 | Secp256k1

record ('w, 'k, 'm) keypair_lib =
  home_dir :: "'w \<Rightarrow> string option"
  make_dirs :: "string \<Rightarrow> 'w \<Rightarrow> (string + unit) \<times> 'w"
  mnemonic_random :: "'w \<Rightarrow> 'm \<times> 'w"
  mnemonic_phrase :: "'m \<Rightarrow> string"
  derive_key_pair :: "'m \<Rightarrow> string + db3_address \<times> 'k"
  kp_encode_base64 :: "'k \<Rightarrow> string"
  kp_from_str :: "string \<Rightarrow> string + 'k"
  kp_address :: "'k \<Rightarrow> db3_address"
  kp_scheme :: "'k \<Rightarrow> key_scheme"
  evm_wallet_parse :: "string \<Rightarrow> string + bytes" \<comment> \<open>the address of the wallet of a private key\<close>

record 'k client_keys =
  ck_key_pair :: 'k

definition generate_keypair :: "('w, 'k, 'm) keypair_lib \<Rightarrow> ('w, db3_address \<times> 'k \<times> string) client" where
  "generate_keypair P = (\<lambda>w.
     case mnemonic_random P w of (m, v) \<Rightarrow>
       (case derive_key_pair P m of
          Inl e \<Rightarrow> (Inl (Failed e), v)
        | Inr (address, keypair) \<Rightarrow> (Inr (address, keypair, mnemonic_phrase P m), v)))"

definition get_home_dir :: "('w, 'k, 'm) keypair_lib \<Rightarrow> string option \<Rightarrow> ('w, string) client" where
  "get_home_dir P home =
     (case home of Some dir \<Rightarrow> give dir | None \<Rightarrow> thenDo (see (home_dir P)) unwrap_option)"

definition user_dir :: "string \<Rightarrow> string" where
  "user_dir home = path_push home ''.db3''"

definition client_key_path :: "string \<Rightarrow> string" where
  "client_key_path home = path_push (user_dir home) ''.default''"

definition client_has_key :: "('w, 'h) outside \<Rightarrow> ('w, 'k, 'm) keypair_lib \<Rightarrow> string option \<Rightarrow> ('w, bool) client" where
  "client_has_key W P home =
     thenDo (get_home_dir P home) (\<lambda>dir. see (path_exists W (client_key_path dir)))"

text \<open>Reading the file: its text and the key pair in it are unwrapped.\<close>

definition read_keypair :: "('w, 'h) outside \<Rightarrow> ('w, 'k, 'm) keypair_lib \<Rightarrow> string \<Rightarrow> ('w, 'k) client" where
  "read_keypair W P path =
     thenDo (try_call (file_read W path)) (\<lambda>content.
     thenDo (unwrap_of (from_utf8 content)) (\<lambda>text.
     unwrap_of (kp_from_str P text)))"

definition recover_keypair ::
  "('w, 'h) outside \<Rightarrow> ('w, 'k, 'm) keypair_lib \<Rightarrow> string option \<Rightarrow> ('w, 'k client_keys) client" where
  "recover_keypair W P home =
     thenDo (get_home_dir P home) (\<lambda>dir.
     thenDo (try_call (make_dirs P (user_dir dir))) (\<lambda>_.
     thenDo (see (path_exists W (client_key_path dir))) (\<lambda>found.
     if found
     then thenDo (read_keypair W P (client_key_path dir)) (\<lambda>kp. give \<lparr>ck_key_pair = kp\<rparr>)
     else
       thenDo (or_else (generate_keypair P) (\<lambda>e w. (Inl (Unwrapped e), w))) (\<lambda>(_, kp, _).
       thenDo (try_call (file_create W (client_key_path dir))) (\<lambda>_.
       thenDo (try_call (file_write_all W (client_key_path dir) (as_bytes (kp_encode_base64 P kp)))) (\<lambda>_.
       thenDo (try_call (file_sync_all W (client_key_path dir))) (\<lambda>_.
       give \<lparr>ck_key_pair = kp\<rparr>)))))))"

definition get_keypair ::
  "('w, 'h) outside \<Rightarrow> ('w, 'k, 'm) keypair_lib \<Rightarrow> string option \<Rightarrow> ('w, 'k) client" where
  "get_keypair W P home =
     thenDo (client_has_key W P home) (\<lambda>found.
     if found then thenDo (get_home_dir P home) (\<lambda>dir. read_keypair W P (client_key_path dir))
     else give_up ''no key was found'')"

definition client_address :: "('w, 'k, 'm) keypair_lib \<Rightarrow> 'k client_keys \<Rightarrow> db3_address" where
  "client_address P ks = kp_address P (ck_key_pair ks)"

text \<open>The private key is what follows the first byte, the scheme.\<close>

definition private_key ::
  "libs \<Rightarrow> ('w, 'h) outside \<Rightarrow> ('w, 'k, 'm) keypair_lib \<Rightarrow> 'k \<Rightarrow> ('w, string) client" where
  "private_key L W P kp =
     thenDo (unwrap_of (b64_decode W (kp_encode_base64 P kp))) (\<lambda>bs.
     if bs = [] then unwrap_of (Inl ''range start index 1 out of range for slice of length 0'')
     else give (hex_encode L (drop 1 bs)))"

definition client_evm_address ::
  "libs \<Rightarrow> ('w, 'h) outside \<Rightarrow> ('w, 'k, 'm) keypair_lib \<Rightarrow> 'k client_keys \<Rightarrow> ('w, db3_address) client" where
  "client_evm_address L W P ks =
     thenDo (private_key L W P (ck_key_pair ks)) (\<lambda>key.
     thenDo (unwrap_of (evm_wallet_parse P key)) (\<lambda>address.
     unwrap_of (case addr_try_from address of Inl _ \<Rightarrow> Inl ''InvalidAddress'' | Inr a \<Rightarrow> Inr a)))"

definition get_private_key ::
  "libs \<Rightarrow> ('w, 'h) outside \<Rightarrow> ('w, 'k, 'm) keypair_lib \<Rightarrow> string option \<Rightarrow> ('w, string) client" where
  "get_private_key L W P home = thenDo (get_keypair W P home) (private_key L W P)"

definition show_key :: "libs \<Rightarrow> ('w, 'k, 'm) keypair_lib \<Rightarrow> 'k client_keys \<Rightarrow> table" where
  "show_key L P ks =
     \<lparr>tb_titles = [''address'', ''scheme''],
      tb_rows = [[addr_to_hex L (client_address P ks),
                  case kp_scheme P (ck_key_pair ks) of Ed25519 \<Rightarrow> ''ed25519'' | Secp256k1 \<Rightarrow> ''secp256k1'']]\<rparr>"

section \<open>The key is generated once\<close>

text \<open>What the key store relies on: a written file is there and reads as written, the other calls leave
  the files alone, and key pairs are read back from their base64 text, which is ASCII.\<close>

locale key_home =
  fixes W :: "('w, 'h) outside" and P :: "('w, 'k, 'm) keypair_lib" and disk :: "'w \<Rightarrow> string \<Rightarrow> bytes option"
  assumes exists_iff: "path_exists W p w \<longleftrightarrow> disk w p \<noteq> None"
    and read_back: "disk w p = Some d \<Longrightarrow> \<exists>v. file_read W p w = (Inr d, v) \<and> disk v = disk w"
    and created: "file_create W p w = (Inr (), v) \<Longrightarrow> disk v = (disk w)(p \<mapsto> [])"
    and wrote: "file_write_all W p d w = (Inr (), v) \<Longrightarrow> disk w p = Some e \<Longrightarrow> disk v = (disk w)(p \<mapsto> e @ d)"
    and synced: "file_sync_all W p w = (Inr (), v) \<Longrightarrow> disk v = disk w"
    and made: "\<exists>v. make_dirs P p w = (Inr (), v) \<and> disk v = disk w"
    and key_text: "kp_from_str P (kp_encode_base64 P k) = Inr k"
    and key_ascii: "c \<in> set (kp_encode_base64 P k) \<Longrightarrow> (of_char c :: nat) < 128"
begin

lemma key_read_again:
  assumes "disk w (client_key_path dir) = Some (as_bytes (kp_encode_base64 P k))"
  shows "\<exists>v. recover_keypair W P (Some dir) w = (Inr \<lparr>ck_key_pair = k\<rparr>, v) \<and> disk v = disk w"
proof -
  obtain v where v: "make_dirs P (user_dir dir) w = (Inr (), v)" "disk v = disk w" using made by blast
  with assms read_back obtain u where
    u: "file_read W (client_key_path dir) v = (Inr (as_bytes (kp_encode_base64 P k)), u)" "disk u = disk v" by metis
  have "from_utf8 (as_bytes (kp_encode_base64 P k)) = Inr (kp_encode_base64 P k)"
    using key_ascii by (intro from_utf8_ascii) auto
  with u v assms exists_iff key_text show ?thesis
    by (simp add: recover_keypair_def read_keypair_def get_home_dir_def action_simps)
qed

lemma key_generated_once:
  assumes "recover_keypair W P (Some dir) w = (Inr ks, v)" "disk w (client_key_path dir) = None"
  shows "\<exists>u. recover_keypair W P (Some dir) v = (Inr ks, u) \<and> disk u = disk v"
proof -
  let ?p = "client_key_path dir"
  obtain w1 where w1: "make_dirs P (user_dir dir) w = (Inr (), w1)" "disk w1 = disk w" using made by blast
  with assms(2) have new: "\<not> path_exists W ?p w1" using exists_iff by simp
  from assms(1) w1 new obtain a k ph w2 w3 w4 where
    "generate_keypair P w1 = (Inr (a, k, ph), w2)" "file_create W ?p w2 = (Inr (), w3)"
    "file_write_all W ?p (as_bytes (kp_encode_base64 P k)) w3 = (Inr (), w4)" "file_sync_all W ?p w4 = (Inr (), v)"
    and ks: "ks = \<lparr>ck_key_pair = k\<rparr>"
    unfolding recover_keypair_def
    by (auto simp: thenDo_eq_Inr_iff try_call_eq_Inr_iff or_panic_eq_Inr_iff get_home_dir_def give_def see_def)
  then have "disk v ?p = Some (as_bytes (kp_encode_base64 P k))"
    using created wrote [of ?p _ w3 w4 "[]"] synced by simp
  from key_read_again [OF this] ks show ?thesis by simp
qed

end

end
