(* ===== verification/Client_Command.thy ===== *)
theory Client_Command
  imports Client_Keys Id_Text Bson_Util Readable Shell
begin

text \<open>
  The commands of the client (\<open>src/cmd/src/command.rs\<close>), which the console of \<open>Shell\<close> executes: each shows a
  key or asks or sends something through the client libraries and answers with a table or the text of an
  error. The messages are those of the protocol the commands are written for; their records have the
  fields that the commands read or fill. The client libraries, the identifiers of documents and accounts
  and the reader of index definitions are parameters (\<open>client_lib\<close>).
\<close>

section \<open>Messages\<close>

record account =
  acc_bills :: u64
  acc_credits :: u64
  acc_total_storage_in_bytes :: u64
  acc_total_mutation_count :: u64
  acc_total_session_count :: u64
  acc_nonce :: u64

record network_status =
  net_total_database_count :: u64
  net_total_collection_count :: u64
  net_total_document_count :: u64
  net_total_account_count :: u64
  net_total_mutation_count :: u64
  net_total_session_count :: u64
  net_total_storage_in_bytes :: u64

record 'ix client_collection =
  cc_name :: string
  cc_index_list :: "'ix list"

record 'ix client_database =
  cdb_address :: bytes
  cdb_sender :: bytes
  cdb_desc :: string
  cdb_tx :: "bytes list"
  cdb_collections :: "'ix client_collection list"

record client_document =
  cdoc_id :: bytes
  cdoc_doc :: bytes
  cdoc_owner :: bytes
  cdoc_tx_id :: bytes

datatype chain_id = DevNet
datatype chain_role = StorageShardChain
datatype database_action = CreateDb | Add_Collection | Add_Document | Update_Document | Delete_Document

record broadcast_meta =
  bm_nonce :: u64
  bm_chain_id :: chain_id
  bm_chain_role :: chain_role

record 'ix collection_mutation =
  cm_index :: "'ix list"
  cm_collection_name :: string

record document_mutation =
  dmu_collection_name :: string
  dmu_documents :: "bytes list"
  dmu_ids :: "string list"
  dmu_masks :: "string list list"

record 'ix database_mutation =
  dbm_meta :: "broadcast_meta option"
  dbm_collection_mutations :: "'ix collection_mutation list"
  dbm_db_address :: bytes
  dbm_action :: database_action
  dbm_document_mutations :: "document_mutation list"
  dbm_db_desc :: string

record structured_query =
  sq_collection_name :: string
  sq_select :: "string list option"
  sq_where :: "filter_type option"
  sq_limit :: "32 word option"

section \<open>The commands\<close>

datatype client_command =
    Init
  | ShowKey
  | NewDB string
  | MyDB string
  | ShowDB string
  | NewCollection string string "string list"
  | ShowCollection string
  | NewDocument string string "string list"
  | UpdateDocument_Command string string "string list" "string list" "string list" \<comment> \<open>ids, documents, masks\<close>
  | DeleteDocument_Command string string "string list"
  | GetDocument string
  | ShowDocument string string string "32 word"
  | ShowAccount string
  | ShowState
  | Subscribe bool

record ('w, 'e, 'ix) client_sdk =
  sdk_get_state :: "'w \<Rightarrow> ('e + network_status) \<times> 'w"
  sdk_get_account :: "db3_address \<Rightarrow> 'w \<Rightarrow> ('e + account) \<times> 'w"
  sdk_open_console :: "bool \<Rightarrow> 'w \<Rightarrow> ('e + unit) \<times> 'w"
  sdk_get_document :: "string \<Rightarrow> 'w \<Rightarrow> ('e + client_document option) \<times> 'w"
  sdk_run_query :: "string \<Rightarrow> structured_query \<Rightarrow> 'w \<Rightarrow> ('e + client_document list) \<times> 'w"
  sdk_get_database :: "string \<Rightarrow> 'w \<Rightarrow> ('e + 'ix client_database option) \<times> 'w"
  sdk_get_my_database :: "string \<Rightarrow> 'w \<Rightarrow> ('e + 'ix client_database list) \<times> 'w"

record ('w, 'e, 'ix) mutation_sdk =
  submit_database_mutation :: "'ix database_mutation \<Rightarrow> 'w \<Rightarrow> ('e + db_id \<times> tx_id) \<times> 'w"

record ('w, 'e, 'ix) client_context =
  store_sdk :: "('w, 'e, 'ix) client_sdk option"
  the_mutation_sdk :: "('w, 'e, 'ix) mutation_sdk option"

record ('w, 'e, 'ix) client_lib =
  error_debug :: "'e \<Rightarrow> string" \<comment> \<open>\<open>{:?}\<close>\<close>
  error_display :: "'e \<Rightarrow> string"
  io_error_debug :: "string \<Rightarrow> string"
  fault_debug :: "db3_error \<Rightarrow> string"
  bson_debug :: "bson_doc \<Rightarrow> string"
  json_str_to_index :: "string \<Rightarrow> u32 \<Rightarrow> string + 'ix"
  index_to_json :: "'ix \<Rightarrow> string + string"
  document_id_base64 :: "bytes \<Rightarrow> string + string" \<comment> \<open>\<open>DocumentId::try_from_bytes\<close> and \<open>to_base64\<close>\<close>
  account_id_of :: "bytes \<Rightarrow> string + db3_address"
  base64_text :: "bytes \<Rightarrow> string"
  seconds_now :: "'w \<Rightarrow> u64 option" \<comment> \<open>since the epoch; \<open>None\<close> before it\<close>
  print_text :: "string \<Rightarrow> 'w \<Rightarrow> 'w"

definition current_seconds :: "('w, 'e, 'ix) client_lib \<Rightarrow> 'w \<Rightarrow> u64" where
  "current_seconds G w = (case seconds_now G w of Some n \<Rightarrow> n | None \<Rightarrow> 0)"

section \<open>Tables\<close>

text \<open>A result of the node's own functions, unwrapped.\<close>

definition unwrap_result :: "('w, 'e, 'ix) client_lib \<Rightarrow> 'a result \<Rightarrow> ('v, 'a) client" where
  "unwrap_result G r = unwrap_of (case r of
     Inl (Raised e) \<Rightarrow> Inl (fault_debug G e) | Inl (Panicked msg) \<Rightarrow> Inl msg | Inr x \<Rightarrow> Inr x)"

fun each :: "('x \<Rightarrow> ('w, 'y) client) \<Rightarrow> 'x list \<Rightarrow> ('w, 'y list) client" where
  "each f [] = give []"
| "each f (x # xs) = thenDo (f x) (\<lambda>y. thenDo (each f xs) (\<lambda>ys. give (y # ys)))"

definition tx_text :: "('w, 'e, 'ix) client_lib \<Rightarrow> bytes \<Rightarrow> ('v, string) client" where
  "tx_text G bs = thenDo (unwrap_result G (tx_try_from_bytes bs)) (\<lambda>t. give (tx_to_base64 (base64_text G) t))"

definition account_text :: "libs \<Rightarrow> ('w, 'e, 'ix) client_lib \<Rightarrow> bytes \<Rightarrow> ('v, string) client" where
  "account_text L G bs = thenDo (unwrap_of (account_id_of G bs)) (\<lambda>a. give (addr_to_hex L a))"

text \<open>The rows of the documents that can be shown, and how many cannot.\<close>

fun document_rows ::
  "libs \<Rightarrow> bson_lib \<Rightarrow> ('w, 'e, 'ix) client_lib \<Rightarrow> client_document list \<Rightarrow> ('v, string list list \<times> nat) client" where
  "document_rows L B G [] = give ([], 0)"
| "document_rows L B G (d # ds) =
     thenDo (case document_id_base64 G (cdoc_id d) of
         Inl _ \<Rightarrow> give None
       | Inr i \<Rightarrow>
           (case bytes_to_bson_document B (cdoc_doc d) of
              Inl (Panicked msg) \<Rightarrow> unwrap_of (Inl msg)
            | Inl (Raised _) \<Rightarrow> give None
            | Inr doc \<Rightarrow>
                thenDo (account_text L G (cdoc_owner d)) (\<lambda>owner.
                thenDo (tx_text G (cdoc_tx_id d)) (\<lambda>tx.
                give (Some [i, owner, bson_debug G doc, tx]))))) (\<lambda>row.
     thenDo (document_rows L B G ds) (\<lambda>(rows, errors).
     give (case row of Some r \<Rightarrow> (r # rows, errors) | None \<Rightarrow> (rows, Suc errors))))"

definition show_document ::
  "libs \<Rightarrow> bson_lib \<Rightarrow> ('w, 'e, 'ix) client_lib \<Rightarrow> client_document list \<Rightarrow> ('v, table) client" where
  "show_document L B G documents =
     thenDo (document_rows L B G documents) (\<lambda>(rows, error_cnt).
     if error_cnt > 0
     then give_up (''An error occurs when attempting to show documents. Affected Rows '' @ show_nat error_cnt)
     else give \<lparr>tb_titles = [''id_base64'', ''owner'', ''document'', ''mutation_id''], tb_rows = rows\<rparr>)"

definition show_collection :: "('w, 'e, 'ix) client_lib \<Rightarrow> 'ix client_database \<Rightarrow> ('v, table) client" where
  "show_collection G database =
     thenDo (each (\<lambda>c.
       thenDo (each (\<lambda>i. unwrap_of (index_to_json G i)) (cc_index_list c)) (\<lambda>texts.
       give [cc_name c, join_with ([CHR 0x0A] @ '' '') texts])) (cdb_collections database)) (\<lambda>rows.
     give \<lparr>tb_titles = [''name'', ''index''], tb_rows = rows\<rparr>)"

definition database_row ::
  "libs \<Rightarrow> ('w, 'e, 'ix) client_lib \<Rightarrow> nat \<times> 'ix client_database \<Rightarrow> ('v, string list) client" where
  "database_row L G = (\<lambda>(idx, database).
     thenDo (each (tx_text G) (cdb_tx database)) (\<lambda>txs.
     thenDo (unwrap_result G (dbid_try_from (cdb_address database))) (\<lambda>db_id.
     thenDo (account_text L G (cdb_sender database)) (\<lambda>sender.
     give [show_nat (idx + 1), dbid_to_hex L db_id, cdb_desc database, sender,
       join_with ([CHR 0x0A] @ '' '') txs,
       join_with ([CHR 0x0A] @ '' '') (map cc_name (cdb_collections database))]))))"

definition show_database ::
  "libs \<Rightarrow> ('w, 'e, 'ix) client_lib \<Rightarrow> 'ix client_database list \<Rightarrow> ('v, table) client" where
  "show_database L G dbs =
     thenDo (each (database_row L G) (List.enumerate 0 dbs)) (\<lambda>rows.
     give \<lparr>tb_titles = [''#'', ''database address'', ''description'', ''sender address'', ''related mutations'',
       ''collections''], tb_rows = rows\<rparr>)"

definition show_account ::
  "libs \<Rightarrow> ('w, 'e, 'ix) client_lib \<Rightarrow> account \<Rightarrow> db3_address \<Rightarrow> db3_address option \<Rightarrow> ('v, table) client" where
  "show_account L G account addr evm_addr =
     thenDo (unwrap_result G (bytes_to_readable_num_str (acc_total_storage_in_bytes account))) (\<lambda>storage.
     give \<lparr>tb_titles = [''name'', ''value''], tb_rows =
       [[''db3 address'', addr_to_hex L addr],
        [''evm address'', case evm_addr of Some ed \<Rightarrow> addr_to_hex L ed | None \<Rightarrow> ''-''],
        [''bills'', units_to_readable_num_str (acc_bills account)],
        [''credits'', units_to_readable_num_str (acc_credits account)],
        [''storage used'', storage],
        [''mutation count'', show_u64 (acc_total_mutation_count account)],
        [''session count'', show_u64 (acc_total_session_count account)],
        [''nonce'', show_u64 (acc_nonce account)]]\<rparr>)"

definition show_state :: "('w, 'e, 'ix) client_lib \<Rightarrow> network_status \<Rightarrow> ('v, table) client" where
  "show_state G state =
     thenDo (unwrap_result G (bytes_to_readable_num_str (net_total_storage_in_bytes state))) (\<lambda>storage.
     give \<lparr>tb_titles = [''name'', ''state''], tb_rows =
       [[''database'', show_u64 (net_total_database_count state)],
        [''collection'', show_u64 (net_total_collection_count state)],
        [''documemt'', show_u64 (net_total_document_count state)],
        [''account'', show_u64 (net_total_account_count state)],
        [''mutation'', show_u64 (net_total_mutation_count state)],
        [''session'', show_u64 (net_total_session_count state)],
        [''storage'', storage]]\<rparr>)"

section \<open>Asking and sending\<close>

definition no_key :: string where
  "no_key = ''no key was found, you can use init command to create a new one''"

text \<open>A call of a client library; its error is turned into a text.\<close>

definition ask :: "('w \<Rightarrow> ('e + 'a) \<times> 'w) \<Rightarrow> ('e \<Rightarrow> string) \<Rightarrow> ('w, 'a) client" where
  "ask op text = (\<lambda>w. case op w of (Inl e, v) \<Rightarrow> (Inl (Failed (text e)), v) | (Inr x, v) \<Rightarrow> (Inr x, v))"

definition with_store ::
  "('w, 'e, 'ix) client_context \<Rightarrow> (('w, 'e, 'ix) client_sdk \<Rightarrow> ('w, 'a) client) \<Rightarrow> ('w, 'a) client" where
  "with_store ctx f = thenDo (unwrap_option (store_sdk ctx)) f"

definition client_meta :: "('w, 'e, 'ix) client_lib \<Rightarrow> ('w, broadcast_meta) client" where
  "client_meta G = thenDo (see (current_seconds G)) (\<lambda>nonce.
     give \<lparr>bm_nonce = nonce, bm_chain_id = DevNet, bm_chain_role = StorageShardChain\<rparr>)"

text \<open>\<open>done_text\<close> is printed when the mutation was accepted.\<close>

definition submit ::
  "('w, 'e, 'ix) client_lib \<Rightarrow> ('w, 'e, 'ix) client_context \<Rightarrow> 'ix database_mutation \<Rightarrow> string \<Rightarrow> string option \<Rightarrow>
   ('w, db_id \<times> tx_id) client" where
  "submit G ctx dm failure done_text =
     thenDo (unwrap_option (the_mutation_sdk ctx)) (\<lambda>sdk.
     thenDo (ask (submit_database_mutation sdk dm) (\<lambda>e. failure @ error_debug G e)) (\<lambda>answer w.
       (Inr answer, case done_text of Some t \<Rightarrow> print_text G t w | None \<Rightarrow> w)))"

definition tx_table :: "('w, 'e, 'ix) client_lib \<Rightarrow> string \<Rightarrow> db_id \<times> tx_id \<Rightarrow> table" where
  "tx_table G title answer = \<lparr>tb_titles = [title], tb_rows = [[tx_to_base64 (base64_text G) (snd answer)]]\<rparr>"

fun index_definitions :: "('w, 'e, 'ix) client_lib \<Rightarrow> nat \<Rightarrow> string list \<Rightarrow> ('v, 'ix list) client" where
  "index_definitions G i [] = give []"
| "index_definitions G i (s # ss) =
     thenDo (unwrap_of (json_str_to_index G s (of_nat i))) (\<lambda>x.
     thenDo (index_definitions G (Suc i) ss) (\<lambda>xs. give (x # xs)))"

definition new_collection ::
  "libs \<Rightarrow> ('w, 'e, 'ix) client_lib \<Rightarrow> ('w, 'e, 'ix) client_context \<Rightarrow> string \<Rightarrow> string \<Rightarrow> string list \<Rightarrow> ('w, table) client" where
  "new_collection L G ctx addr name index_list =
     thenDo (index_definitions G 0 index_list) (\<lambda>index_vec.
     thenDo (unwrap_result G (dbid_try_from_str L addr)) (\<lambda>db_id.
     thenDo (client_meta G) (\<lambda>meta.
     thenDo (submit G ctx
       \<lparr>dbm_meta = Some meta, dbm_collection_mutations = [\<lparr>cm_index = index_vec, cm_collection_name = name\<rparr>],
        dbm_db_address = dbid_as_ref db_id, dbm_action = Add_Collection, dbm_document_mutations = [], dbm_db_desc = []\<rparr>
       ''fail to add collection: '' (Some ''send add collection done!'')) (\<lambda>answer.
     give (tx_table G ''mutation_id'' answer)))))"

definition new_db ::
  "libs \<Rightarrow> ('w, 'e, 'ix) client_lib \<Rightarrow> ('w, 'e, 'ix) client_context \<Rightarrow> string \<Rightarrow> ('w, table) client" where
  "new_db L G ctx desc =
     thenDo (client_meta G) (\<lambda>meta.
     thenDo (submit G ctx
       \<lparr>dbm_meta = Some meta, dbm_collection_mutations = [], dbm_db_address = [], dbm_action = CreateDb,
        dbm_document_mutations = [], dbm_db_desc = desc\<rparr>
       ''fail to create database: '' None) (\<lambda>(db_id, tx_id).
     give \<lparr>tb_titles = [''database address'', ''mutation id''],
       tb_rows = [[dbid_to_hex L db_id, tx_to_base64 (base64_text G) tx_id]]\<rparr>))"

text \<open>The three commands on documents send one document mutation.\<close>

definition send_documents ::
  "('w, 'e, 'ix) client_lib \<Rightarrow> ('w, 'e, 'ix) client_context \<Rightarrow> database_action \<Rightarrow> db_id \<Rightarrow> broadcast_meta \<Rightarrow> document_mutation \<Rightarrow>
   string \<Rightarrow> string option \<Rightarrow> ('w, table) client" where
  "send_documents G ctx action db_id meta dmu failure done_text =
     thenDo (submit G ctx
       \<lparr>dbm_meta = Some meta, dbm_collection_mutations = [], dbm_db_address = dbid_as_ref db_id, dbm_action = action,
        dbm_document_mutations = [dmu], dbm_db_desc = []\<rparr> failure done_text) (\<lambda>answer.
     give (tx_table G ''mutation id'' answer))"

definition new_document ::
  "libs \<Rightarrow> bson_lib \<Rightarrow> ('w, 'e, 'ix) client_lib \<Rightarrow> ('w, 'e, 'ix) client_context \<Rightarrow> string \<Rightarrow> string \<Rightarrow> string list \<Rightarrow>
   ('w, table) client" where
  "new_document L B G ctx addr collection_name documents =
     thenDo (unwrap_result G (dbid_try_from_str L addr)) (\<lambda>db_id.
     thenDo (client_meta G) (\<lambda>meta.
     thenDo (each (\<lambda>x. unwrap_result G (json_str_to_bson_bytes L B x)) documents) (\<lambda>docs.
     send_documents G ctx Add_Document db_id meta
       \<lparr>dmu_collection_name = collection_name, dmu_documents = docs, dmu_ids = [], dmu_masks = []\<rparr>
       ''fail to add document: '' (Some ''send add document done''))))"

definition update_document ::
  "libs \<Rightarrow> bson_lib \<Rightarrow> ('w, 'e, 'ix) client_lib \<Rightarrow> ('w, 'e, 'ix) client_context \<Rightarrow> string \<Rightarrow> string \<Rightarrow> string list \<Rightarrow>
   string list \<Rightarrow> string list \<Rightarrow> ('w, table) client" where
  "update_document L B G ctx addr collection_name ids documents masks =
     thenDo (unwrap_result G (dbid_try_from_str L addr)) (\<lambda>db_id.
     thenDo (client_meta G) (\<lambda>meta.
     thenDo (each (\<lambda>x. unwrap_result G (json_str_to_bson_bytes L B x)) documents) (\<lambda>docs.
     send_documents G ctx Update_Document db_id meta
       \<lparr>dmu_collection_name = collection_name, dmu_documents = docs, dmu_ids = ids,
        dmu_masks = map (\<lambda>m. map trim (split_on (CHR '','') m)) masks\<rparr>
       ''fail to add document: '' None)))"

definition delete_document ::
  "libs \<Rightarrow> ('w, 'e, 'ix) client_lib \<Rightarrow> ('w, 'e, 'ix) client_context \<Rightarrow> string \<Rightarrow> string \<Rightarrow> string list \<Rightarrow> ('w, table) client" where
  "delete_document L G ctx addr collection_name ids =
     (if ids = [] then give_up ''fail to delete with empty ids''
      else
        thenDo (unwrap_result G (dbid_try_from_str L addr)) (\<lambda>db_id.
        thenDo (client_meta G) (\<lambda>meta.
        send_documents G ctx Delete_Document db_id meta
          \<lparr>dmu_collection_name = collection_name, dmu_documents = [], dmu_ids = ids, dmu_masks = []\<rparr>
          ''fail to delete document: '' (Some ''send delete document done''))))"

section \<open>Executing a command\<close>

definition show_documents_of ::
  "libs \<Rightarrow> bson_lib \<Rightarrow> ('w, 'e, 'ix) client_lib \<Rightarrow> ('w, 'e, 'ix) client_context \<Rightarrow> string \<Rightarrow> string \<Rightarrow> string \<Rightarrow> 32 word \<Rightarrow>
   ('w, table) client" where
  "show_documents_of L B G ctx addr collection_name filter_text limit =
     (case filter_from_json_value L B filter_text of
        Inl (Raised e) \<Rightarrow> give_up (fault_debug G e)
      | Inl (Panicked msg) \<Rightarrow> unwrap_of (Inl msg)
      | Inr f \<Rightarrow>
          with_store ctx (\<lambda>sdk.
          thenDo (ask (sdk_run_query sdk addr
            \<lparr>sq_collection_name = collection_name, sq_select = Some [], sq_where = f,
             sq_limit = (if sint limit < 0 then None else Some limit)\<rparr>)
            (\<lambda>e. ''fail to show documents with error '' @ error_debug G e)) (\<lambda>documents.
          show_document L B G documents)))"

definition show_account_of ::
  "libs \<Rightarrow> ('w, 'h) outside \<Rightarrow> ('w, 'k, 'm) keypair_lib \<Rightarrow> ('w, 'e, 'ix) client_lib \<Rightarrow> ('w, 'e, 'ix) client_context \<Rightarrow> string \<Rightarrow>
   ('w, table) client" where
  "show_account_of L W P G ctx addr =
     (if addr = []
      then
        thenDo (or_else (recover_keypair W P None) (\<lambda>_. give_up no_key)) (\<lambda>ks.
        thenDo (client_evm_address L W P ks) (\<lambda>evm_addr.
        with_store ctx (\<lambda>sdk.
        thenDo (ask (sdk_get_account sdk (client_address P ks)) (\<lambda>_. ''fail to get account'')) (\<lambda>account.
        show_account L G account (client_address P ks) (Some evm_addr)))))
      else
        thenDo (unwrap_result G (addr_try_from_str L addr)) (\<lambda>account_addr.
        with_store ctx (\<lambda>sdk.
        thenDo (ask (sdk_get_account sdk account_addr) (\<lambda>_. ''fail to get account'')) (\<lambda>account.
        show_account L G account account_addr None))))"

definition my_databases ::
  "libs \<Rightarrow> ('w, 'h) outside \<Rightarrow> ('w, 'k, 'm) keypair_lib \<Rightarrow> ('w, 'e, 'ix) client_lib \<Rightarrow> ('w, 'e, 'ix) client_context \<Rightarrow> string \<Rightarrow>
   ('w, table) client" where
  "my_databases L W P G ctx addr =
     thenDo (if addr = []
       then thenDo (or_else (recover_keypair W P None) (\<lambda>_. give_up no_key)) (\<lambda>ks. give (addr_to_hex L (client_address P ks)))
       else give addr) (\<lambda>owner.
     with_store ctx (\<lambda>sdk.
     thenDo (ask (sdk_get_my_database sdk owner) (\<lambda>_. ''fail to get account'')) (\<lambda>databases.
     show_database L G databases)))"

fun client_execute ::
  "libs \<Rightarrow> bson_lib \<Rightarrow> ('w, 'h) outside \<Rightarrow> ('w, 'k, 'm) keypair_lib \<Rightarrow> ('w, 'e, 'ix) client_lib \<Rightarrow>
   ('w, 'e, 'ix) client_context \<Rightarrow> client_command \<Rightarrow> ('w, table) client" where
  "client_execute L B W P G ctx Init =
     thenDo (or_else (recover_keypair W P None) (\<lambda>e. give_up (io_error_debug G e))) (\<lambda>ks. give (show_key L P ks))"
| "client_execute L B W P G ctx ShowKey =
     thenDo (or_else (recover_keypair W P None) (\<lambda>_. give_up no_key)) (\<lambda>ks. give (show_key L P ks))"
| "client_execute L B W P G ctx ShowState =
     with_store ctx (\<lambda>sdk.
     thenDo (ask (sdk_get_state sdk) (\<lambda>_. ''fail to get account'')) (\<lambda>status. show_state G status))"
| "client_execute L B W P G ctx (ShowAccount addr) = show_account_of L W P G ctx addr"
| "client_execute L B W P G ctx (Subscribe all_event) =
     with_store ctx (\<lambda>sdk.
     thenDo (or_else (ask (sdk_open_console sdk all_event) (error_debug G)) (\<lambda>e w. (Inl (Unwrapped e), w))) (\<lambda>_.
     give_up ''exit to subscription''))"
| "client_execute L B W P G ctx (NewCollection addr name index_list) = new_collection L G ctx addr name index_list"
| "client_execute L B W P G ctx (GetDocument i) =
     with_store ctx (\<lambda>sdk.
     thenDo (ask (sdk_get_document sdk i) (\<lambda>e. ''fail to get document with error '' @ error_debug G e)) (\<lambda>found.
     case found of Some d \<Rightarrow> show_document L B G [d] | None \<Rightarrow> give_up ''no document with target id''))"
| "client_execute L B W P G ctx (ShowDocument addr collection_name filter_text limit) =
     show_documents_of L B G ctx addr collection_name filter_text limit"
| "client_execute L B W P G ctx (ShowCollection addr) =
     with_store ctx (\<lambda>sdk.
     thenDo (ask (sdk_get_database sdk addr) (\<lambda>e. ''fail to show collections with error '' @ error_display G e)) (\<lambda>found.
     case found of Some d \<Rightarrow> show_collection G d | None \<Rightarrow> give_up ''no collection with target address''))"
| "client_execute L B W P G ctx (ShowDB addr) =
     with_store ctx (\<lambda>sdk.
     thenDo (ask (sdk_get_database sdk addr) (\<lambda>e. ''fail to show database with error '' @ error_display G e)) (\<lambda>found.
     case found of Some d \<Rightarrow> show_database L G [d] | None \<Rightarrow> give_up ''no database with target address''))"
| "client_execute L B W P G ctx (MyDB addr) = my_databases L W P G ctx addr"
| "client_execute L B W P G ctx (NewDB desc) = new_db L G ctx desc"
| "client_execute L B W P G ctx (NewDocument addr collection_name documents) =
     new_document L B G ctx addr collection_name documents"
| "client_execute L B W P G ctx (UpdateDocument_Command addr collection_name ids documents masks) =
     update_document L B G ctx addr collection_name ids documents masks"
| "client_execute L B W P G ctx (DeleteDocument_Command addr collection_name ids) =
     delete_document L G ctx addr collection_name ids"

section \<open>What is sent\<close>

text \<open>The commands that send a mutation, and what they mean to send at a time.\<close>

fun intended ::
  "libs \<Rightarrow> bson_lib \<Rightarrow> ('w, 'e, 'ix) client_lib \<Rightarrow> client_command \<Rightarrow> broadcast_meta \<Rightarrow> 'ix database_mutation \<Rightarrow> bool" where
  "intended L B G (NewDB desc) meta dm \<longleftrightarrow>
     dbm_action dm = CreateDb \<and> dbm_db_desc dm = desc \<and> dbm_db_address dm = [] \<and> dbm_document_mutations dm = [] \<and>
     dbm_meta dm = Some meta"
| "intended L B G (NewCollection addr name index_list) meta dm \<longleftrightarrow>
     dbm_action dm = Add_Collection \<and> dbid_try_from_str L addr = Inr (addr_of (dbm_db_address dm)) \<and>
     map cm_collection_name (dbm_collection_mutations dm) = [name] \<and> dbm_document_mutations dm = [] \<and>
     (\<forall>c \<in> set (dbm_collection_mutations dm). length (cm_index c) = length index_list) \<and> dbm_meta dm = Some meta"
| "intended L B G (NewDocument addr col documents) meta dm \<longleftrightarrow>
     dbm_action dm = Add_Document \<and> dbid_try_from_str L addr = Inr (addr_of (dbm_db_address dm)) \<and>
     (\<exists>u. dbm_document_mutations dm = [u] \<and> dmu_collection_name u = col \<and> dmu_ids u = [] \<and>
        map (json_str_to_bson_bytes L B) documents = map Inr (dmu_documents u)) \<and> dbm_meta dm = Some meta"
| "intended L B G (UpdateDocument_Command addr col ids documents masks) meta dm \<longleftrightarrow>
     dbm_action dm = Update_Document \<and> dbid_try_from_str L addr = Inr (addr_of (dbm_db_address dm)) \<and>
     (\<exists>u. dbm_document_mutations dm = [u] \<and> dmu_collection_name u = col \<and> dmu_ids u = ids \<and>
        map (json_str_to_bson_bytes L B) documents = map Inr (dmu_documents u) \<and> length (dmu_masks u) = length masks) \<and>
     dbm_meta dm = Some meta"
| "intended L B G (DeleteDocument_Command addr col ids) meta dm \<longleftrightarrow>
     ids \<noteq> [] \<and> dbm_action dm = Delete_Document \<and> dbid_try_from_str L addr = Inr (addr_of (dbm_db_address dm)) \<and>
     (\<exists>u. dbm_document_mutations dm = [u] \<and> dmu_collection_name u = col \<and> dmu_ids u = ids \<and> dmu_documents u = []) \<and>
     dbm_meta dm = Some meta"
| "intended L B G _ meta dm \<longleftrightarrow> False"

definition sends :: "client_command \<Rightarrow> bool" where
  "sends c \<longleftrightarrow> (case c of NewDB _ \<Rightarrow> True | NewCollection _ _ _ \<Rightarrow> True | NewDocument _ _ _ \<Rightarrow> True
     | UpdateDocument_Command _ _ _ _ _ \<Rightarrow> True | DeleteDocument_Command _ _ _ \<Rightarrow> True | _ \<Rightarrow> False)"

lemma unwrap_of_eq_Inr_iff: "unwrap_of r w = (Inr x, v) \<longleftrightarrow> r = Inr x \<and> v = w"
  by (auto simp: unwrap_of_def split: sum.splits)

lemma unwrap_option_eq_Inr_iff: "unwrap_option y w = (Inr x, v) \<longleftrightarrow> y = Some x \<and> v = w"
  by (auto simp: unwrap_option_def split: option.splits)

lemma unwrap_result_eq_Inr_iff: "unwrap_result G r w = (Inr x, v) \<longleftrightarrow> r = Inr x \<and> v = w"
  by (auto simp: unwrap_result_def unwrap_of_eq_Inr_iff split: sum.splits fault.splits)

lemma ask_eq_Inr_iff: "ask op text w = (Inr x, v) \<longleftrightarrow> op w = (Inr x, v)"
  by (auto simp: ask_def split: prod.splits sum.splits)

lemma give_eq_Inr_iff: "give y w = (Inr x, v) \<longleftrightarrow> y = x \<and> v = w"
  by (auto simp: give_def)

lemma see_eq_Inr_iff: "see f w = (Inr x, v) \<longleftrightarrow> f w = x \<and> v = w"
  by (auto simp: see_def)

lemmas client_Inr_iffs = thenDo_eq_Inr_iff unwrap_of_eq_Inr_iff unwrap_option_eq_Inr_iff unwrap_result_eq_Inr_iff
  ask_eq_Inr_iff give_eq_Inr_iff see_eq_Inr_iff

lemma index_definitions_length:
  "index_definitions G i ss w = (Inr xs, v) \<Longrightarrow> v = w \<and> length xs = length ss"
  by (induction ss arbitrary: i xs w v) (auto simp: client_Inr_iffs)

lemma each_unwrapped:
  "each (\<lambda>x. unwrap_result G (f x)) xs w = (Inr ys, v) \<Longrightarrow> v = w \<and> map f xs = map Inr ys"
  by (induction xs arbitrary: ys w v) (fastforce simp: client_Inr_iffs)+

lemma submit_sent:
  assumes "submit G ctx dm failure done_text w = (Inr answer, v)"
  shows "\<exists>sdk u. the_mutation_sdk ctx = Some sdk \<and> submit_database_mutation sdk dm w = (Inr answer, u)"
  using assms by (auto simp: submit_def client_Inr_iffs)

lemma addr_of_dbid [simp]: "addr_of (dbid_as_ref d) = d"
  by (simp add: dbid_as_ref_def dbid_address_def)

text \<open>A command that changes something and answers with a table has sent exactly the mutation it stands for,
  with the current time as its nonce, and nothing before it changed the world.\<close>

lemma mutation_command_sends:
  assumes "client_execute L B W P G ctx c w = (Inr t, v)" "sends c"
  shows "\<exists>sdk dm answer u. the_mutation_sdk ctx = Some sdk \<and> submit_database_mutation sdk dm w = (Inr answer, u) \<and>
    intended L B G c \<lparr>bm_nonce = current_seconds G w, bm_chain_id = DevNet, bm_chain_role = StorageShardChain\<rparr> dm"
  using assms(2)
proof (cases c)
  case (NewCollection addr name index_list)
  with assms(1) show ?thesis
    by (fastforce simp: new_collection_def client_meta_def client_Inr_iffs dest!: submit_sent index_definitions_length)
next
  case (NewDB desc)
  with assms(1) show ?thesis
    by (fastforce simp: new_db_def client_meta_def client_Inr_iffs dest!: submit_sent)
next
  case (NewDocument addr col documents)
  with assms(1) show ?thesis
    by (fastforce simp: new_document_def send_documents_def client_meta_def client_Inr_iffs
        dest!: submit_sent each_unwrapped)
next
  case (UpdateDocument_Command addr col ids documents masks)
  with assms(1) show ?thesis
    by (fastforce simp: update_document_def send_documents_def client_meta_def client_Inr_iffs
        dest!: submit_sent each_unwrapped)
next
  case (DeleteDocument_Command addr col ids)
  with assms(1) show ?thesis
    by (fastforce simp: delete_document_def send_documents_def client_meta_def client_Inr_iffs give_up_def
        dest!: submit_sent split: if_splits)
qed (simp_all add: sends_def)

text \<open>Deleting nothing is refused before anything is sent.\<close>

lemma delete_nothing_is_refused:
  "client_execute L B W P G ctx (DeleteDocument_Command addr col []) w =
     (Inl (Failed ''fail to delete with empty ids''), w)"
  by (simp add: delete_document_def give_up_def)

end
