(* ===== verification/Client_Theorems.thy ===== *)
theory Client_Theorems
  imports Client_Command Key_Theorems
begin

text \<open>
  The client keeps the key that \<open>init\<close> generated: every later command that needs a key uses it. The laws
  of \<open>key_home\<close> that this rests on hold of the sample world, with bytes as key pairs and their hex digits
  as text.
\<close>

lemma recover_keypair_at_home:
  "home_dir P w = Some dir \<Longrightarrow> recover_keypair W P None w = recover_keypair W P (Some dir) w"
  by (simp add: recover_keypair_def get_home_dir_def action_simps)

lemma key_of_init:
  assumes "key_home W P disk" and "client_execute L B W P G ctx Init w = (Inr shown, v)"
    and home: "home_dir P w = Some dir" "home_dir P v = Some dir" and "disk w (client_key_path dir) = None"
  shows "\<exists>ks u. shown = show_key L P ks \<and> recover_keypair W P None v = (Inr ks, u) \<and> disk u = disk v"
proof -
  from assms(2) obtain ks where ks: "recover_keypair W P (Some dir) w = (Inr ks, v)" "shown = show_key L P ks"
    by (auto simp: recover_keypair_at_home [OF home(1), symmetric] client_Inr_iffs or_else_def give_up_def
        split: prod.splits sum.splits stop.splits)
  from key_home.key_generated_once [OF assms(1) ks(1) assms(5)] ks(2) show ?thesis
    by (auto simp: recover_keypair_at_home [OF home(2)])
qed

text \<open>\<open>init\<close> again and \<open>show-key\<close> show the same key.\<close>

lemma init_is_idempotent:
  assumes "key_home W P disk" and "client_execute L B W P G ctx Init w = (Inr shown, v)"
    and "home_dir P w = Some dir" "home_dir P v = Some dir" and "disk w (client_key_path dir) = None"
    and "cmd \<in> {Init, ShowKey}"
  shows "\<exists>u. client_execute L B W P G ctx cmd v = (Inr shown, u) \<and> disk u = disk v"
  using key_of_init [OF assms(1-5)] assms(6) by (auto simp: or_else_def action_simps)

definition mem_keypairs :: "(mem_world, bytes, bytes) keypair_lib" where
  "mem_keypairs = \<lparr>home_dir = (\<lambda>w. Some ''/home''), make_dirs = (\<lambda>p w. (Inr (), w)),
     mnemonic_random = (\<lambda>w. ([5, 6], w)), mnemonic_phrase = hex_of,
     derive_key_pair = (\<lambda>m. Inr (addr_zero, 0 # m)),
     kp_encode_base64 = hex_of, kp_from_str = unhex, kp_address = (\<lambda>k. addr_zero),
     kp_scheme = (\<lambda>k. Secp256k1), evm_wallet_parse = unhex\<rparr>"

interpretation mem_home: key_home mem_outside mem_keypairs mw_disk
proof
  fix p d w w' e
  show "file_write_all mem_outside p d w = (Inr (), w') \<Longrightarrow> mw_disk w p = Some e \<Longrightarrow> mw_disk w' = (mw_disk w)(p \<mapsto> e @ d)"
    by (rule mem_archive.write_disk)
next
  fix c :: char and k :: bytes
  show "c \<in> set (kp_encode_base64 mem_keypairs k) \<Longrightarrow> (of_char c :: nat) < 128"
    using hex_of_alphabet by (force simp: mem_keypairs_def)
qed (auto simp: mem_outside_def mem_keypairs_def mw_disk_def unhex_hex_of update_conv' split: option.splits)

lemma sample_init_twice:
  "\<exists>shown v u. client_execute L B mem_outside mem_keypairs G ctx Init
      \<lparr>mw_files = [], mw_txs = [], mw_latest = [], mw_dirs = 0\<rparr> = (Inr shown, v) \<and>
    client_execute L B mem_outside mem_keypairs G ctx Init v = (Inr shown, u)"
proof -
  let ?w = "\<lparr>mw_files = [], mw_txs = [], mw_latest = [], mw_dirs = 0\<rparr>"
  obtain shown v where first: "client_execute L B mem_outside mem_keypairs G ctx Init ?w = (Inr shown, v)"
    by (simp add: recover_keypair_def get_home_dir_def generate_keypair_def or_else_def action_simps mem_outside_def
        mem_keypairs_def)
  have "\<exists>u. client_execute L B mem_outside mem_keypairs G ctx Init v = (Inr shown, u) \<and> mw_disk u = mw_disk v"
  proof (rule init_is_idempotent)
    show "key_home mem_outside mem_keypairs mw_disk" by (rule mem_home.key_home_axioms)
    show "client_execute L B mem_outside mem_keypairs G ctx Init ?w = (Inr shown, v)" by (rule first)
    show "home_dir mem_keypairs ?w = Some ''/home''" "home_dir mem_keypairs v = Some ''/home''"
      by (simp_all add: mem_keypairs_def)
    show "mw_disk ?w (client_key_path ''/home'') = None" by (simp add: mw_disk_def)
  qed simp
  with first show ?thesis by blast
qed

end
