(* ===== verification/Spec2Isabelle.thy ===== *)
theory Spec2Isabelle
  imports Db_Theorems State_Store Bson_Util Rollup_Theorems Node_Theorems Replica_Theorems Node_Command
    System_Service Readable Recover_Theorems Index_Restart System_Theorems Key_Theorems Shell_Theorems Id_Text
    Machine_Theorems Event_Loops Client_Theorems
begin

text \<open>
  \<^bold>\<open>DB3: a verification library for the storage node, the index node and their tools.\<close>

  \<^bold>\<open>The program.\<close> DB3 is a document database behind two kinds of nodes. A \<^emph>\<open>rollup node\<close> takes signed
  mutations over gRPC (\<open>node/src/storage_node_light_impl.rs\<close>), checks the signature and the nonce of the
  signer, applies the mutation to its database store and logs it at a (block, order) position of its
  mutation store. Every block interval it closes a block and tells its subscribers; every rollup interval
  its executor writes the blocks since the last rollup as one file to Arweave, records the round in the
  mutation store and in a contract, and collects old rounds. An \<^emph>\<open>index node\<close>
  (\<open>node/src/indexer_impl.rs\<close>) fetches the blocks of a rollup node, applies the same mutations to its own
  database store and answers queries; it can also mirror the events of contracts. A \<^emph>\<open>recovery\<close>
  (\<open>node/src/recover.rs\<close>) rebuilds the databases from Arweave. Both nodes have a system service through which
  an administrator configures them.

  \<^bold>\<open>How code is written here.\<close> \<open>Outcome\<close>: a method is an action from the state to a result and the state
  it leaves, also when it fails, because \<open>?\<close> undoes nothing; results are sums whose left side is a
  returned error or a panic. A gRPC handler (\<open>Node_Stores\<close>) answers or returns a status. Machine integers
  are words, and wrap where the release build wraps. Text is the list of its UTF-8 bytes. Loops over data
  are structural recursion; loops that need not end are \<open>partial_function (option)\<close> (the fetch loop and the
  catch-up loop of the recovery, the cold start of the index node, the substitution of environment
  variables, the read loop of the shell, the loops of the event listeners and of the index node that follows a
  rollup node), where \<open>None\<close> means that the loop does not return; no fuel is
  used in the model. What is not in the repository is a parameter: RocksDB (\<open>engine\<close>), MDBX (\<open>mdbx\<close>), EJDB
  (\<open>ejdb\<close>), the protobuf codecs (\<open>codecs\<close>), hex, SHA3 and JSON (\<open>libs\<close>), BSON (\<open>bson_lib\<close>), EIP-712
  (\<open>eth_lib\<close>), the file system, Arweave, Arrow, Parquet and the EVM provider (\<open>outside\<close>), contract events
  (\<open>event_lib\<close>), channels and streams (\<open>host\<close>, \<open>store_client\<close>, \<open>system_client\<close>, \<open>log_streams\<close>,
  \<open>message_stream\<close>, \<open>endpoint_lib\<close>), the terminal (\<open>terminal\<close>), the key pairs and the libraries of the command
  line client (\<open>keypair_lib\<close>, \<open>client_sdk\<close>, \<open>client_lib\<close>). What the
  code relies on is stated as locales (\<open>ordered_engine\<close>, \<open>archive\<close>, \<open>reliable_engine\<close>, \<open>lawful_codecs\<close>,
  \<open>lawful_libs\<close>, \<open>platform\<close>, \<open>reliable_mdbx\<close>, \<open>transactional\<close>, \<open>reliable_files\<close>, \<open>rollup_node\<close>,
  \<open>quiet_archive\<close>, \<open>setup_channel\<close>, \<open>key_disk\<close>, \<open>key_home\<close>), each interpreted on an in-memory implementation, so that
  the theorems apply to runs that exist; the block clock of the mutation store is an instance
  of \<open>monotone_source\<close>.

  \<^bold>\<open>Theories and sources\<close> (all paths under \<open>src/\<close>).
  \<^item> \<open>Prelude\<close>, \<open>Errors\<close> (\<open>error\<close>), \<open>Outcome\<close>, \<open>Engine\<close>, \<open>Messages\<close> (the messages of \<open>proto\<close>), \<open>Libs\<close>,
    \<open>Platform\<close>, \<open>Rust_Text\<close>, \<open>Rust_Utf8\<close>, \<open>World\<close>: what the components share.
  \<^item> \<open>Ids\<close>, \<open>Id_Text\<close> (\<open>crypto\<close>) and \<open>Keys\<close> (the key encodings of \<open>storage\<close>): identifiers and keys, with their
    round trips and orders.
  \<^item> \<open>Mutation_Store\<close> (\<open>storage/src/mutation_store.rs\<close>), with \<open>Mutation_Log\<close> (what is logged, range queries,
    collection), \<open>Log_Machine\<close> (reachable logs, the block clock) and \<open>Log_Theorems\<close> (C1--C6).
  \<^item> \<open>State_Store\<close> (\<open>storage/src/state_store.rs\<close>): nonces and configurations (C7, C8).
  \<^item> \<open>Bson_Util\<close> (\<open>base/src/bson_util.rs\<close>): conversions and filters (C9). \<open>Readable\<close> (\<open>base/src/strings.rs\<close>).
  \<^item> \<open>Doc_Store\<close> and \<open>Db_Store\<close> (\<open>storage/src/doc_store.rs\<close>, \<open>db_store_v2.rs\<close>), with \<open>Db_Invariant\<close>
    (well-formed stores are kept when engine calls fail), \<open>Db_Documents\<close>, \<open>Db_Databases\<close> and \<open>Db_Theorems\<close>
    (C10--C20).
  \<^item> \<open>Key_Store\<close> (\<open>storage/src/key_store.rs\<close>, \<open>system_store.rs\<close>) and \<open>Key_Theorems\<close> (C36).
  \<^item> \<open>Ar_Toolbox\<close> (\<open>storage/src/ar_fs.rs\<close>, \<open>node/src/ar_toolbox.rs\<close>), \<open>Meta_Store_Client\<close>
    (\<open>storage/src/meta_store_client.rs\<close>), \<open>Rollup_Executor\<close> (\<open>node/src/rollup_executor.rs\<close>), with \<open>Rollup_Ledger\<close> (the
    abstract ledger and the simulation), \<open>Archive\<close> (what a round is on the chain) and \<open>Rollup_Theorems\<close>
    (C21--C24).
  \<^item> \<open>Mutation_Utils\<close> (\<open>node/src/mutation_utils.rs\<close>), \<open>Node_Stores\<close>, \<open>Meta_Events\<close>
    (\<open>event/src/meta_store_event_processor.rs\<close>), \<open>Storage_Node\<close> (\<open>node/src/storage_node_light_impl.rs\<close>), \<open>Node_Requests\<close>
    (the phases of a request) and \<open>Node_Theorems\<close> (C25--C27); \<open>Node_Machine\<close> and \<open>Machine_Theorems\<close> (C39, C40):
    runs of the whole rollup node, restarts included.
  \<^item> \<open>Event_Processor\<close> (\<open>event/src/event_processor.rs\<close>), \<open>Event_Loops\<close> (the loops of both listeners,
    and the task that follows a rollup node, which only a panic ends), \<open>Indexer\<close> (\<open>node/src/indexer_impl.rs\<close>,
    \<open>sdk/src/store_sdk_v2.rs\<close>), with \<open>Replica\<close> and \<open>Replica_Theorems\<close> (C28, C29: an index node in step with the rollup
    node) and \<open>Index_Restart\<close> (C32, C33: the cold start).
  \<^item> \<open>Recover\<close> (\<open>node/src/recover.rs\<close>), with \<open>Recover_Chain\<close>, \<open>Recover_Replay\<close> and \<open>Recover_Theorems\<close> (C30, C31).
  \<^item> \<open>System_Service\<close> (\<open>node/src/system_impl.rs\<close>), \<open>System_Sdk\<close> (\<open>sdk/src/system_sdk.rs\<close>) and \<open>System_Theorems\<close>
    (C34, C35). \<open>Node_Command\<close> (\<open>node/src/command.rs\<close>, \<open>base/src/times.rs\<close>): how nodes and recoveries
    are put together and what a command comes to; a command succeeds or panics.
  \<^item> \<open>Shell\<close> (\<open>cmd/src/shell.rs\<close>, \<open>console.rs\<close>) and \<open>Shell_Theorems\<close> (C37, C38).
  \<^item> \<open>Client_Keys\<close> and \<open>Client_Command\<close> (\<open>cmd/src/keystore.rs\<close>, \<open>command.rs\<close>), with \<open>Client_Theorems\<close>: the key of the
    client is generated once, and a command that sends a mutation sends what it was asked for.
  \<^item> \<open>Sample_Codecs\<close>, \<open>Sample_World\<close>, \<open>Sample_Node\<close>: the in-memory implementations and concrete states.

  \<^bold>\<open>What is shown.\<close> The mutation log reads back what is written, answers range queries exactly and stays
  well-formed; positions increase as long as a block is closed between restarts, and repeat otherwise.
  Accepted nonces are consecutive. The database store stays well-formed whatever fails, only owners
  change documents, ids are fresh. A run of the executor is a step of an abstract ledger of rounds
  without gaps, and the archived file reads back as the logged range. On the rollup node these combine:
  every interleaving of requests, contract events, blocks, rollups, flushes, configurations and
  restarts keeps the stores consistent with each other, and an accepted mutation is kept until its block is rolled up. An
  index node that applies the log stays in step; the recovery returns and rebuilds the databases of the
  archived history; the cold start returns. The error theorems show where the code does not do what it
  means to (a mutation that fails half-way stays applied, ids given with a mutation rewind the counter,
  counters are lost on restart, a restarted index node does not catch up); each has a finding.

  \<^bold>\<open>Ordering and concurrency.\<close> A request handler, one turn of a background loop and one event are each one
  step: the stores lock per call, and interleavings inside a handler are not modelled, except that each
  step may fail at any call. A restart in a run comes after a block that was closed and recorded; what happens
  otherwise is C6. Runs in \<open>Node_Machine\<close> leave out the ends of the counters' ranges (\<open>2 ^ 32\<close>
  mutations of a block, \<open>2 ^ 64\<close> blocks), where the counters wrap.

  \<^bold>\<open>Not modelled.\<close> gRPC servers, TLS, CORS, logging, signal handlers (no state of
  the program depends on them); command-line parsing and the borders of terminal tables; the wall clock, which
  is an argument; \<open>sdk/src/indexer_sdk.rs\<close>, which is commented out; tests and benchmarks. The modules
  \<open>cmd/src/command.rs\<close> and \<open>keystore.rs\<close> are left out of the build and use messages and clients that the
  repository no longer has: these are records with the fields that are used, and parameters.
\<close>

end
